(* ===== verification/Go_Prelude.thy ===== *)
theory Go_Prelude
  imports
    Main
    "HOL-Library.Finite_Map"
    "HOL-Library.State_Monad"
    "HOL-Library.Monad_Syntax"
    "HOL-Library.List_Lexorder"
    "HOL-Library.Char_ord"
    "HOL-Library.Sublist"
begin

section \<open>The Go language and its standard library, as far as the operator uses them\<close>

text \<open>
  What every other theory shares: Go maps from strings to strings as finite maps, the loops
  over them and over slices, the few functions of \<open>strings\<close>, \<open>sort\<close>, \<open>strconv\<close> and
  \<open>fmt\<close> the operator calls, and the collections of facts the component proofs rewrite with.

  A Go string is a byte sequence and is a \<open>string\<close> here. A nil map and an empty map behave
  alike in every operation the operator applies to a map (lookup, range, len), so both are
  \<open>fmempty\<close>; nil and empty slices are both the empty list. Field values the operator only copies
  from one object to another (an affinity, a service spec) are kept as an opaque text.
\<close>

type_synonym smap = "(string, string) fmap"

type_synonym opaque = string

named_theorems go_defs "definitions that a component proof unfolds"

named_theorems go_facts "facts about the operator's own functions"

subsection \<open>Maps\<close>

text \<open>Indexing a map with a key it does not hold gives the zero value of the element type.\<close>

definition map_get :: "smap \<Rightarrow> string \<Rightarrow> string" where
  "map_get m k = (case fmlookup m k of None \<Rightarrow> '''' | Some v \<Rightarrow> v)"

text \<open>
  \<open>for k, v := range m\<close> visits the entries in an unspecified order. The model visits them by
  increasing key; the lemmas of the loops that are written this way say that the order does not
  matter to them.
\<close>

definition map_range :: "smap \<Rightarrow> (string \<times> string) list" where
  "map_range m = map (\<lambda>k. (k, map_get m k)) (sorted_list_of_fset (fmdom m))"

lemma fmlookup_fmadd [simp]:
  "fmlookup (m ++\<^sub>f n) k = (case fmlookup n k of None \<Rightarrow> fmlookup m k | Some v \<Rightarrow> Some v)"
  by (cases "fmlookup n k") (auto simp: fmdom_notI fmdomI)

declare fmlookup_add [simp del]

lemma map_get_empty [simp]: "map_get fmempty k = ''''"
  by (simp add: map_get_def)

lemma map_get_upd [simp]: "map_get (fmupd k v m) k' = (if k = k' then v else map_get m k')"
  by (simp add: map_get_def)

lemma map_get_Some: "fmlookup m k = Some v \<Longrightarrow> map_get m k = v"
  by (simp add: map_get_def)

lemma set_map_range: "set (map_range m) = {(k, v). fmlookup m k = Some v}"
  by (auto simp: map_range_def map_get_def fmlookup_dom_iff split: option.splits)

lemma map_range_keys: "map fst (map_range m) = sorted_list_of_fset (fmdom m)"
  by (simp add: map_range_def comp_def)

lemma distinct_sorted_list_of_fset: "distinct (sorted_list_of_fset A)"
  by (simp add: sorted_list_of_fset.rep_eq)

lemma distinct_map_range: "distinct (map fst (map_range m))"
  by (simp add: map_range_keys distinct_sorted_list_of_fset)

lemma map_range_empty [simp]: "map_range fmempty = []"
  by (simp add: map_range_def sorted_list_of_fset.rep_eq)

lemma map_of_map_range: "map_of (map_range m) = fmlookup m"
proof
  fix k
  show "map_of (map_range m) k = fmlookup m k"
  proof (cases "fmlookup m k")
    case None
    then have "k \<notin> fst ` set (map_range m)" by (auto simp: set_map_range)
    then show ?thesis using None by (metis map_of_eq_None_iff)
  next
    case (Some v)
    then have "(k, v) \<in> set (map_range m)" by (simp add: set_map_range)
    then show ?thesis using Some distinct_map_range by (metis map_of_eq_Some_iff)
  qed
qed

subsection \<open>Slices\<close>

text \<open>
  The loop \<open>for idx, x := range xs { if p(x) { return idx } }; return -1\<close>.
\<close>

fun index_from :: "('a \<Rightarrow> bool) \<Rightarrow> int \<Rightarrow> 'a list \<Rightarrow> int" where
  "index_from p i [] = -1"
| "index_from p i (x # xs) = (if p x then i else index_from p (i + 1) xs)"

definition first_index :: "('a \<Rightarrow> bool) \<Rightarrow> 'a list \<Rightarrow> int" where
  "first_index p xs = index_from p 0 xs"

lemma index_from_cases:
  "0 \<le> i \<Longrightarrow> (index_from p i xs = -1 \<and> (\<forall>x \<in> set xs. \<not> p x)) \<or>
    (\<exists>k < length xs. index_from p i xs = i + int k \<and> p (xs ! k) \<and> (\<forall>j < k. \<not> p (xs ! j)))"
proof (induction xs arbitrary: i)
  case Nil
  then show ?case by simp
next
  case (Cons x xs)
  show ?case
  proof (cases "p x")
    case True
    then show ?thesis by (intro disjI2 exI [of _ 0]) simp
  next
    case False
    from Cons.IH [of "i + 1"] Cons.prems consider
      (absent) "index_from p (i + 1) xs = -1" "\<forall>x \<in> set xs. \<not> p x"
      | (found) k where "k < length xs" "index_from p (i + 1) xs = i + 1 + int k" "p (xs ! k)"
          "\<forall>j < k. \<not> p (xs ! j)"
      by auto
    then show ?thesis
    proof cases
      case absent
      with False show ?thesis by simp
    next
      case found
      with False have "\<forall>j < Suc k. \<not> p ((x # xs) ! j)" by (auto simp: less_Suc_eq_0_disj)
      with False found show ?thesis by (intro disjI2 exI [of _ "Suc k"]) simp
    qed
  qed
qed

lemma first_index_absent [simp]: "first_index p xs = -1 \<longleftrightarrow> (\<forall>x \<in> set xs. \<not> p x)"
proof -
  have "(index_from p 0 xs = -1 \<and> (\<forall>x \<in> set xs. \<not> p x)) \<or>
      (\<exists>x \<in> set xs. p x \<and> index_from p 0 xs \<noteq> -1)"
    using index_from_cases [of 0 p xs] nth_mem [of _ xs] by fastforce
  then show ?thesis by (auto simp: first_index_def)
qed

lemma first_index_found:
  assumes "first_index p xs \<noteq> -1"
  shows "first_index p xs = int (nat (first_index p xs))" "nat (first_index p xs) < length xs"
    "p (xs ! nat (first_index p xs))"
  using index_from_cases [of 0 p xs] assms by (auto simp: first_index_def)

lemma first_index_is_first:
  assumes "first_index p xs \<noteq> -1" "j < nat (first_index p xs)"
  shows "\<not> p (xs ! j)"
  using index_from_cases [of 0 p xs] assms by (auto simp: first_index_def)

lemma first_index_unique:
  assumes "k < length xs" "p (xs ! k)" "\<forall>j < k. \<not> p (xs ! j)"
  shows "first_index p xs = int k"
proof -
  from assms(1,2) have "first_index p xs \<noteq> -1" using nth_mem by fastforce
  from first_index_found [OF this] first_index_is_first [OF this] assms show ?thesis
    by (metis linorder_neqE_nat)
qed

lemma find_snoc:
  "find P (xs @ [y]) = (case find P xs of Some z \<Rightarrow> Some z | None \<Rightarrow> if P y then Some y else None)"
  by (induction xs) auto

lemma find_SomeD: "find P xs = Some x \<Longrightarrow> x \<in> set xs \<and> P x"
  by (induction xs) (auto split: if_splits)

text \<open>A check returns the first error there is.\<close>

lemma first_error_None [simp]:
  "(case x of None \<Rightarrow> y | Some e \<Rightarrow> Some e) = None \<longleftrightarrow> x = None \<and> y = None"
  by (cases x) simp_all

subsection \<open>Strings\<close>

text \<open>\<open>strings.Join\<close>.\<close>

fun strings_Join :: "string list \<Rightarrow> string \<Rightarrow> string" where
  "strings_Join [] sep = ''''"
| "strings_Join [x] sep = x"
| "strings_Join (x # y # xs) sep = x @ sep @ strings_Join (y # xs) sep"

text \<open>\<open>strings.Contains\<close>.\<close>

fun strings_Contains :: "string \<Rightarrow> string \<Rightarrow> bool" where
  "strings_Contains [] sub = (sub = [])"
| "strings_Contains (c # s) sub = (prefix sub (c # s) \<or> strings_Contains s sub)"

lemma strings_Contains_iff: "strings_Contains s sub \<longleftrightarrow> (\<exists>pre post. s = pre @ sub @ post)"
proof (induction s)
  case Nil
  then show ?case by simp
next
  case (Cons c s)
  show ?case
  proof
    assume "strings_Contains (c # s) sub"
    then show "\<exists>pre post. c # s = pre @ sub @ post"
      using Cons.IH by (auto simp: prefix_def) (metis append_Cons append_Nil)+
  next
    assume "\<exists>pre post. c # s = pre @ sub @ post"
    then obtain pre post where "c # s = pre @ sub @ post" by blast
    then show "strings_Contains (c # s) sub"
    proof (cases pre)
      case Nil
      with \<open>c # s = pre @ sub @ post\<close> have "prefix sub (c # s)" by (simp only: prefix_def) auto
      then show ?thesis by simp
    next
      case (Cons c' pre')
      with \<open>c # s = pre @ sub @ post\<close> have "s = pre' @ sub @ post" by simp
      with Cons.IH show ?thesis by auto
    qed
  qed
qed

lemma strings_Contains_append: "strings_Contains (a @ sub @ b) sub"
  by (auto simp: strings_Contains_iff)

text \<open>\<open>sort.Strings\<close> orders by bytes, as the lexicographic order on \<open>string\<close> does.\<close>

definition sort_Strings :: "string list \<Rightarrow> string list" where
  "sort_Strings xs = sort xs"

text \<open>\<open>%d\<close> for an index, which is never negative.\<close>

definition digit :: "nat \<Rightarrow> char" where
  "digit n = char_of (48 + n)"

fun format_nat :: "nat \<Rightarrow> string" where
  "format_nat n = (if n < 10 then [digit n] else format_nat (n div 10) @ [digit (n mod 10)])"

declare format_nat.simps [simp del]

lemma digit_inject: "m < 10 \<Longrightarrow> n < 10 \<Longrightarrow> digit m = digit n \<longleftrightarrow> m = n"
proof
  assume "m < 10" "n < 10" "digit m = digit n"
  then have "of_char (digit m) = (of_char (digit n) :: nat)" by simp
  with \<open>m < 10\<close> \<open>n < 10\<close> show "m = n" by (simp add: digit_def)
qed simp

lemma format_nat_nonempty: "format_nat n \<noteq> []"
  by (subst format_nat.simps) simp

lemma format_nat_inject: "format_nat m = format_nat n \<longleftrightarrow> m = n"
proof
  show "format_nat m = format_nat n \<Longrightarrow> m = n"
  proof (induction m arbitrary: n rule: format_nat.induct)
    case (1 m)
    show ?case
    proof (cases "m < 10")
      case True
      with "1.prems" show ?thesis
        by (cases "n < 10")
          (auto simp: format_nat.simps [of m] format_nat.simps [of n] digit_inject
            dest: format_nat_nonempty [of "n div 10", symmetric, THEN notE])
    next
      case False
      with "1.prems" have big: "\<not> n < 10"
        by (auto simp: format_nat.simps [of m] format_nat.simps [of n] format_nat_nonempty)
      from False big "1.prems" have "format_nat (m div 10) = format_nat (n div 10)"
        and d: "digit (m mod 10) = digit (n mod 10)"
        by (auto simp: format_nat.simps [of m] format_nat.simps [of n])
      from "1.IH" [OF False this(1)] have "m div 10 = n div 10" .
      moreover from d have "m mod 10 = n mod 10" by (simp add: digit_inject)
      ultimately show ?thesis by (metis div_mult_mod_eq)
    qed
  qed
qed simp

text \<open>
  \<open>%q\<close> (\<open>strconv.Quote\<close>) on ASCII text; a byte outside ASCII is left as it is, as Quote leaves the
  bytes of a printable rune.
\<close>

definition hex_digit :: "nat \<Rightarrow> char" where
  "hex_digit n = (if n < 10 then char_of (48 + n) else char_of (87 + n))"

definition quote_char :: "char \<Rightarrow> string" where
  "quote_char c =
     (let n = of_char c :: nat in
      if n = 0x22 \<or> n = 0x5C then [CHR 0x5C, c]
      else if n = 7 then [CHR 0x5C, CHR ''a'']
      else if n = 8 then [CHR 0x5C, CHR ''b'']
      else if n = 12 then [CHR 0x5C, CHR ''f'']
      else if n = 10 then [CHR 0x5C, CHR ''n'']
      else if n = 13 then [CHR 0x5C, CHR ''r'']
      else if n = 9 then [CHR 0x5C, CHR ''t'']
      else if n = 11 then [CHR 0x5C, CHR ''v'']
      else if n < 32 \<or> n = 127 then [CHR 0x5C, CHR ''x'', hex_digit (n div 16), hex_digit (n mod 16)]
      else [c])"

definition strconv_Quote :: "string \<Rightarrow> string" where
  "strconv_Quote s = CHR 0x22 # concat (map quote_char s) @ [CHR 0x22]"

end
