(* ===== verification/K8s_Objects.thy ===== *)
theory K8s_Objects
  imports Go_Prelude
begin

section \<open>The Kubernetes objects the operator reads and writes\<close>

text \<open>
  The API types of \<open>k8s.io/api\<close> and \<open>k8s.io/apimachinery\<close> are data the operator fills in. A
  field some operator function reads or writes is a field of the record here, under a name made
  of the type's prefix and the field's Go name; the remaining fields of a type are together the
  opaque field \<open>.._rest\<close>, so that a function that leaves them alone can be seen to do so. A pointer
  field is an option. Nothing here is code of the repository.
\<close>

subsection \<open>Metadata\<close>

record NamespacedName =
  nn_Namespace :: string
  nn_Name :: string

record ObjectMeta =
  om_Name :: string
  om_Namespace :: string
  om_Labels :: smap
  om_Annotations :: smap
  om_OwnerReferences :: "opaque list"
  om_Finalizers :: "string list"
  om_Generation :: int
  om_DeletionTimestamp :: "opaque option"
  om_rest :: opaque

definition zero_ObjectMeta :: ObjectMeta where
  "zero_ObjectMeta =
     \<lparr>om_Name = '''', om_Namespace = '''', om_Labels = fmempty, om_Annotations = fmempty,
      om_OwnerReferences = [], om_Finalizers = [], om_Generation = 0,
      om_DeletionTimestamp = None, om_rest = ''''\<rparr>"

text \<open>\<open>metav1.ObjectMeta{Name: name, Namespace: namespace}\<close>.\<close>

definition named_ObjectMeta :: "string \<Rightarrow> string \<Rightarrow> ObjectMeta" where
  "named_ObjectMeta name namespace =
     zero_ObjectMeta\<lparr>om_Name := name, om_Namespace := namespace\<rparr>"

subsection \<open>Pods\<close>

text \<open>A \<open>resource.Quantity\<close> is kept as its manifest text; its methods are parameters of the model.\<close>

type_synonym Quantity = string

type_synonym ResourceList = "(string, Quantity) fmap"

datatype EnvVarSource =
    FieldRef string
  | SecretKeyRef string string \<comment> \<open>secret name, key\<close>
  | OtherSource opaque

record EnvVar =
  ev_Name :: string
  ev_Value :: string
  ev_ValueFrom :: "EnvVarSource option"

record VolumeMount =
  vm_Name :: string
  vm_MountPath :: string
  vm_rest :: opaque

datatype VolumeSource = PersistentVolumeClaimSource string | OtherVolumeSource opaque

record Volume =
  vol_Name :: string
  vol_Source :: VolumeSource

record Probe =
  pr_HTTPGet :: "opaque option"
  pr_rest :: opaque \<comment> \<open>thresholds, delays and other handlers\<close>

record Lifecycle =
  lc_PostStart :: "opaque option"
  lc_PreStop_Exec_Command :: "string list option"

record Container =
  ct_Name :: string
  ct_Image :: string
  ct_ImagePullPolicy :: string
  ct_Lifecycle :: "Lifecycle option"
  ct_LivenessProbe :: "Probe option"
  ct_ReadinessProbe :: "Probe option"
  ct_StartupProbe :: "Probe option"
  ct_Limits :: ResourceList
  ct_Requests :: ResourceList
  ct_Ports :: "opaque list"
  ct_VolumeMounts :: "VolumeMount list"
  ct_Env :: "EnvVar list"
  ct_rest :: opaque

definition zero_Container :: Container where
  "zero_Container =
     \<lparr>ct_Name = '''', ct_Image = '''', ct_ImagePullPolicy = '''', ct_Lifecycle = None,
      ct_LivenessProbe = None, ct_ReadinessProbe = None, ct_StartupProbe = None,
      ct_Limits = fmempty, ct_Requests = fmempty, ct_Ports = [], ct_VolumeMounts = [],
      ct_Env = [], ct_rest = ''''\<rparr>"

record PodSpec =
  ps_Volumes :: "Volume list"
  ps_InitContainers :: "Container list"
  ps_Containers :: "Container list"
  ps_NodeSelector :: smap
  ps_Affinity :: "opaque option"
  ps_SecurityContext :: "opaque option"
  ps_ServiceAccountName :: string
  ps_DeprecatedServiceAccount :: string
  ps_rest :: opaque

definition zero_PodSpec :: PodSpec where
  "zero_PodSpec =
     \<lparr>ps_Volumes = [], ps_InitContainers = [], ps_Containers = [], ps_NodeSelector = fmempty,
      ps_Affinity = None, ps_SecurityContext = None, ps_ServiceAccountName = '''',
      ps_DeprecatedServiceAccount = '''', ps_rest = ''''\<rparr>"

record PodTemplateSpec =
  pt_Labels :: smap
  pt_Annotations :: smap
  pt_Spec :: PodSpec

subsection \<open>StatefulSets\<close>

record StatefulSetSpec =
  ss_Replicas :: "int option"
  ss_Selector :: "smap option" \<comment> \<open>\<open>MatchLabels\<close> of the selector\<close>
  ss_Template :: PodTemplateSpec
  ss_ServiceName :: string
  ss_rest :: opaque

record StatefulSetStatus =
  st_ObservedGeneration :: int
  st_ReadyReplicas :: int
  st_AvailableReplicas :: int
  st_CurrentRevision :: string
  st_UpdateRevision :: string

record StatefulSet =
  sts_meta :: ObjectMeta
  sts_Spec :: StatefulSetSpec
  sts_Status :: StatefulSetStatus

definition zero_StatefulSetSpec :: StatefulSetSpec where
  "zero_StatefulSetSpec =
     \<lparr>ss_Replicas = None, ss_Selector = None,
      ss_Template = \<lparr>pt_Labels = fmempty, pt_Annotations = fmempty, pt_Spec = zero_PodSpec\<rparr>,
      ss_ServiceName = '''', ss_rest = ''''\<rparr>"

definition zero_StatefulSetStatus :: StatefulSetStatus where
  "zero_StatefulSetStatus =
     \<lparr>st_ObservedGeneration = 0, st_ReadyReplicas = 0, st_AvailableReplicas = 0,
      st_CurrentRevision = '''', st_UpdateRevision = ''''\<rparr>"

definition zero_StatefulSet :: StatefulSet where
  "zero_StatefulSet =
     \<lparr>sts_meta = zero_ObjectMeta, sts_Spec = zero_StatefulSetSpec,
      sts_Status = zero_StatefulSetStatus\<rparr>"

subsection \<open>The other kinds\<close>

record ConfigMap =
  cm_meta :: ObjectMeta
  cm_Data :: smap

record PersistentVolumeClaimSpec =
  pc_AccessModes :: "string list"
  pc_Selector :: "opaque option"
  pc_Requests :: ResourceList \<comment> \<open>\<open>Resources.Requests\<close>\<close>
  pc_Resources_rest :: opaque \<comment> \<open>the other fields of \<open>Resources\<close>\<close>
  pc_VolumeName :: string
  pc_StorageClassName :: "string option"
  pc_VolumeMode :: "string option"
  pc_rest :: opaque

definition zero_PersistentVolumeClaimSpec :: PersistentVolumeClaimSpec where
  "zero_PersistentVolumeClaimSpec =
     \<lparr>pc_AccessModes = [], pc_Selector = None, pc_Requests = fmempty, pc_Resources_rest = '''',
      pc_VolumeName = '''', pc_StorageClassName = None, pc_VolumeMode = None, pc_rest = ''''\<rparr>"

record PersistentVolumeClaim =
  pvc_meta :: ObjectMeta
  pvc_Spec :: PersistentVolumeClaimSpec

record ServiceAccountObject =
  sa_meta :: ObjectMeta

record ServiceObject =
  svc_meta :: ObjectMeta
  svc_Spec :: opaque

record IngressObject =
  ing_meta :: ObjectMeta
  ing_Spec :: opaque

subsection \<open>Keys\<close>

definition meta_key :: "ObjectMeta \<Rightarrow> NamespacedName" where
  "meta_key m = \<lparr>nn_Namespace = om_Namespace m, nn_Name = om_Name m\<rparr>"

lemma meta_key_named [simp]:
  "meta_key (named_ObjectMeta name ns) = \<lparr>nn_Namespace = ns, nn_Name = name\<rparr>"
  by (simp add: meta_key_def named_ObjectMeta_def)

lemma named_ObjectMeta_simps [simp]:
  "om_Name (named_ObjectMeta name ns) = name"
  "om_Namespace (named_ObjectMeta name ns) = ns"
  "om_Labels (named_ObjectMeta name ns) = fmempty"
  by (simp_all add: named_ObjectMeta_def zero_ObjectMeta_def)

end
