(* ===== verification/Go_Errors.thy ===== *)
theory Go_Errors
  imports K8s_Objects
begin

section \<open>Errors\<close>

text \<open>
  The values of Go's \<open>error\<close> interface the operator handles, and the outcome of a function that
  can also panic. The message of the error that blocks a StatefulSet recreate
  (\<open>internal/controller/teamcity_feedback.go\<close>, \<open>internal/resource/statefulset_recreate.go\<close>) is
  built here, because \<open>Error()\<close> has to be defined on every error.
\<close>

subsection \<open>Immutable field changes\<close>

text \<open>\<open>ImmutableStatefulSetFieldChange\<close> describes one immutable StatefulSet field drift.\<close>

record ImmutableStatefulSetFieldChange =
  fc_Field :: string
  fc_Current :: string
  fc_Desired :: string

definition FormatImmutableStatefulSetFieldChanges :: "ImmutableStatefulSetFieldChange list \<Rightarrow> string"
  where
  "FormatImmutableStatefulSetFieldChanges changes =
     strings_Join
       (map (\<lambda>change. fc_Field change @ '': current='' @ fc_Current change @ '', desired='' @
               fc_Desired change) changes)
       ''; ''"

subsection \<open>The error that blocks a recreate\<close>

definition AllowStsRecreateAnnotationKey :: string where
  "AllowStsRecreateAnnotationKey = ''teamcity.jetbrains.com/allow-sts-recreate''"

definition AllowStsRecreateAnnotationValue :: string where
  "AllowStsRecreateAnnotationValue = ''true''"

record StatefulSetRecreateBlockedError =
  rb_StatefulSetName :: string
  rb_NodeName :: string
  rb_Changes :: "ImmutableStatefulSetFieldChange list"

definition newStatefulSetRecreateBlockedError ::
  "string \<Rightarrow> string \<Rightarrow> ImmutableStatefulSetFieldChange list \<Rightarrow> StatefulSetRecreateBlockedError" where
  "newStatefulSetRecreateBlockedError statefulSetName nodeName changes =
     \<lparr>rb_StatefulSetName = statefulSetName, rb_NodeName = nodeName, rb_Changes = changes\<rparr>"

definition UserMessage :: "StatefulSetRecreateBlockedError \<Rightarrow> string" where
  "UserMessage e =
     (let changeSummary = FormatImmutableStatefulSetFieldChanges (rb_Changes e);
          changeSummary =
            (if changeSummary = '''' then ''one or more immutable StatefulSet fields changed''
             else changeSummary)
      in ''Cannot update StatefulSet '' @ strconv_Quote (rb_StatefulSetName e) @
         '' for node '' @ strconv_Quote (rb_NodeName e) @ '': '' @ changeSummary @
         ''. Kubernetes does not allow these fields to be changed after the StatefulSet is created. '' @
         ''To apply this change, add annotation '' @ AllowStsRecreateAnnotationKey @ ''='' @
         strconv_Quote AllowStsRecreateAnnotationValue @
         '' to the TeamCity resource and reconcile again; '' @
         ''the operator will delete and recreate the StatefulSet, which restarts the TeamCity node.'')"

subsection \<open>The error values\<close>

text \<open>
  An error answered by the API server carries the reason the helpers of \<open>api/errors\<close> test and a
  message. \<open>WrapError\<close> is \<open>fmt.Errorf("prefix: %w", err)\<close>.
\<close>

datatype StatusReason = NotFound | Conflict | AlreadyExists | OtherReason

datatype go_error =
    StatusError StatusReason string
  | FmtError string
  | WrapError string go_error
  | RecreateBlocked StatefulSetRecreateBlockedError

text \<open>\<open>err.Error()\<close>.\<close>

primrec error_Error :: "go_error \<Rightarrow> string" where
  "error_Error (StatusError r msg) = msg"
| "error_Error (FmtError msg) = msg"
| "error_Error (WrapError pre e) = pre @ '': '' @ error_Error e"
| "error_Error (RecreateBlocked b) = UserMessage b"

text \<open>\<open>errors.IsNotFound\<close> looks through wrapped errors, as \<open>errors.As\<close> does.\<close>

primrec IsNotFound :: "go_error \<Rightarrow> bool" where
  "IsNotFound (StatusError r msg) = (r = NotFound)"
| "IsNotFound (FmtError msg) = False"
| "IsNotFound (WrapError pre e) = IsNotFound e"
| "IsNotFound (RecreateBlocked b) = False"

text \<open>\<open>errors.As(err, &recreateBlocked)\<close>.\<close>

primrec as_recreateBlocked :: "go_error \<Rightarrow> StatefulSetRecreateBlockedError option" where
  "as_recreateBlocked (StatusError r msg) = None"
| "as_recreateBlocked (FmtError msg) = None"
| "as_recreateBlocked (WrapError pre e) = as_recreateBlocked e"
| "as_recreateBlocked (RecreateBlocked b) = Some b"

text \<open>The outcome of a function that returns a value, returns an error, or panics.\<close>

datatype 'a res = Ok 'a | Err go_error | Panic string

text \<open>\<open>isStatefulSetImmutableFieldUpdateError\<close>, on an error that is not nil.\<close>

definition isStatefulSetImmutableFieldUpdateError :: "go_error \<Rightarrow> bool" where
  "isStatefulSetImmutableFieldUpdateError err =
     (let message = error_Error err
      in strings_Contains message ''Forbidden'' \<and>
         strings_Contains message ''statefulset spec for fields other than'')"

subsection \<open>What the message tells the user\<close>

lemma UserMessage_names_annotation:
  "strings_Contains (UserMessage b)
     (AllowStsRecreateAnnotationKey @ ''='' @ strconv_Quote AllowStsRecreateAnnotationValue)"
  unfolding UserMessage_def Let_def strings_Contains_iff
  by (intro exI [of _ "''Cannot update StatefulSet '' @ strconv_Quote (rb_StatefulSetName b) @
         '' for node '' @ strconv_Quote (rb_NodeName b) @ '': '' @
         (if FormatImmutableStatefulSetFieldChanges (rb_Changes b) = ''''
          then ''one or more immutable StatefulSet fields changed''
          else FormatImmutableStatefulSetFieldChanges (rb_Changes b)) @
         ''. Kubernetes does not allow these fields to be changed after the StatefulSet is created. '' @
         ''To apply this change, add annotation ''"]
      exI [of _ "'' to the TeamCity resource and reconcile again; '' @
         ''the operator will delete and recreate the StatefulSet, which restarts the TeamCity node.''"])
    simp

lemma as_recreateBlocked_not_IsNotFound: "as_recreateBlocked e = Some b \<Longrightarrow> \<not> IsNotFound e"
  by (induction e) auto

end
