(* ===== verification/TeamCity_Types.thy ===== *)
theory TeamCity_Types
  imports Go_Errors
begin

section \<open>The TeamCity resource (api/v1beta1/teamcity_types.go)\<close>

text \<open>
  The custom resource the operator reconciles, its accessors, and the test whether an update
  changes the service name of a node. Fields of Kubernetes types that the operator only copies
  (ports, endpoints, affinities, service and ingress specs) are opaque.
\<close>

subsection \<open>The resource\<close>

record NodeSpec =
  ns_InitContainers :: "Container list"
  ns_Requests :: ResourceList
  ns_Env :: "EnvVar list"
  ns_Limits :: ResourceList
  ns_PodSecurityContext :: opaque
  ns_LivenessProbeSettings :: Probe
  ns_ReadinessProbeSettings :: Probe
  ns_StartupProbeSettings :: Probe
  ns_NodeSelector :: smap
  ns_Affinity :: opaque
  ns_ServiceName :: string
  ns_Responsibilities :: "string list"

record Node =
  node_Name :: string
  node_Annotations :: smap
  node_Spec :: NodeSpec

type_synonym DatabaseSecret = string \<comment> \<open>its only field, \<open>Secret\<close>\<close>

record CustomPersistentVolumeClaim =
  cc_Name :: string
  cc_Annotations :: smap
  cc_VolumeMount :: VolumeMount
  cc_Spec :: PersistentVolumeClaimSpec

record Ingress =
  ingress_Name :: string
  ingress_Annotations :: smap
  ingress_IngressSpec :: opaque

record Service =
  service_Name :: string
  service_Annotations :: smap
  service_ServiceSpec :: opaque

record ServiceAccount =
  account_Name :: string
  account_Annotations :: smap

record TeamCitySpec =
  sp_Image :: string
  sp_MainNode :: Node
  sp_SecondaryNodes :: "Node list"
  sp_DataDirVolumeClaim :: CustomPersistentVolumeClaim
  sp_PersistentVolumeClaims :: "CustomPersistentVolumeClaim list"
  sp_XmxPercentage :: int \<comment> \<open>an \<open>int64\<close>\<close>
  sp_TeamCityServerPort :: opaque
  sp_ReadinessEndpoint :: opaque
  sp_HealthEndpoint :: opaque
  sp_DatabaseSecret :: DatabaseSecret
  sp_StartupPropertiesConfig :: smap
  sp_ServiceList :: "Service list"
  sp_IngressList :: "Ingress list"
  sp_ServiceAccount :: ServiceAccount

record TeamCityStatus =
  ts_State :: string
  ts_Message :: string

record TeamCity =
  tc_meta :: ObjectMeta
  tc_Spec :: TeamCitySpec
  tc_Status :: TeamCityStatus

abbreviation tc_Name :: "TeamCity \<Rightarrow> string" where
  "tc_Name instance \<equiv> om_Name (tc_meta instance)"

abbreviation tc_Namespace :: "TeamCity \<Rightarrow> string" where
  "tc_Namespace instance \<equiv> om_Namespace (tc_meta instance)"

abbreviation tc_Labels :: "TeamCity \<Rightarrow> smap" where
  "tc_Labels instance \<equiv> om_Labels (tc_meta instance)"

abbreviation tc_Annotations :: "TeamCity \<Rightarrow> smap" where
  "tc_Annotations instance \<equiv> om_Annotations (tc_meta instance)"

abbreviation tc_MainNode :: "TeamCity \<Rightarrow> Node" where
  "tc_MainNode instance \<equiv> sp_MainNode (tc_Spec instance)"

abbreviation tc_SecondaryNodes :: "TeamCity \<Rightarrow> Node list" where
  "tc_SecondaryNodes instance \<equiv> sp_SecondaryNodes (tc_Spec instance)"

text \<open>\<open>NodeSpec{}\<close>, from which the update replica's node is built.\<close>

definition zero_Probe :: Probe where
  "zero_Probe = \<lparr>pr_HTTPGet = None, pr_rest = ''''\<rparr>"

definition zero_NodeSpec :: NodeSpec where
  "zero_NodeSpec =
     \<lparr>ns_InitContainers = [], ns_Requests = fmempty, ns_Env = [], ns_Limits = fmempty,
      ns_PodSecurityContext = '''', ns_LivenessProbeSettings = zero_Probe,
      ns_ReadinessProbeSettings = zero_Probe, ns_StartupProbeSettings = zero_Probe,
      ns_NodeSelector = fmempty, ns_Affinity = '''', ns_ServiceName = '''',
      ns_Responsibilities = []\<rparr>"

subsection \<open>Accessors\<close>

definition GetNamespacedNameFromNamespace :: "Node \<Rightarrow> string \<Rightarrow> NamespacedName" where
  "GetNamespacedNameFromNamespace n namespace =
     \<lparr>nn_Namespace = namespace, nn_Name = node_Name n\<rparr>"

definition UpdatePolicyAnnotationKey :: string where
  "UpdatePolicyAnnotationKey = ''teamcity.jetbrains.com/update-policy''"

definition ZeroDownTimeAnnotation :: string where
  "ZeroDownTimeAnnotation = ''zero-downtime''"

definition GetAllNodes :: "TeamCity \<Rightarrow> Node list" where
  "GetAllNodes instance = sp_SecondaryNodes (tc_Spec instance) @ [sp_MainNode (tc_Spec instance)]"

definition StartUpPropertiesConfigProvided :: "TeamCity \<Rightarrow> bool" where
  "StartUpPropertiesConfigProvided instance =
     (fcard (fmdom (sp_StartupPropertiesConfig (tc_Spec instance))) \<noteq> 0)"

definition DatabaseSecretProvided :: "TeamCity \<Rightarrow> bool" where
  "DatabaseSecretProvided instance = (sp_DatabaseSecret (tc_Spec instance) \<noteq> '''')"

definition DataDirPath :: "TeamCity \<Rightarrow> string" where
  "DataDirPath instance = vm_MountPath (cc_VolumeMount (sp_DataDirVolumeClaim (tc_Spec instance)))"

definition GetAllCustomPersistentVolumeClaim :: "TeamCity \<Rightarrow> CustomPersistentVolumeClaim list" where
  "GetAllCustomPersistentVolumeClaim instance =
     sp_PersistentVolumeClaims (tc_Spec instance) @ [sp_DataDirVolumeClaim (tc_Spec instance)]"

definition ServiceAccountProvided :: "TeamCity \<Rightarrow> bool" where
  "ServiceAccountProvided instance = (account_Name (sp_ServiceAccount (tc_Spec instance)) \<noteq> '''')"

definition IsMultiNode :: "TeamCity \<Rightarrow> bool" where
  "IsMultiNode instance = (length (sp_SecondaryNodes (tc_Spec instance)) > 0)"

definition UsesZeroDownTimeUpgradePolicy :: "TeamCity \<Rightarrow> bool" where
  "UsesZeroDownTimeUpgradePolicy instance =
     (map_get (om_Annotations (tc_meta instance)) UpdatePolicyAnnotationKey = ZeroDownTimeAnnotation)"

definition AllowsStatefulSetRecreate :: "TeamCity \<Rightarrow> bool" where
  "AllowsStatefulSetRecreate instance =
     (map_get (om_Annotations (tc_meta instance)) AllowStsRecreateAnnotationKey =
        AllowStsRecreateAnnotationValue)"

subsection \<open>Changes of a service name\<close>

text \<open>The first loop fills a map from node name to service name; a later node of the same name wins.\<close>

definition oldSecondaryServiceNames :: "Node list \<Rightarrow> smap" where
  "oldSecondaryServiceNames nodes =
     fold (\<lambda>node m. fmupd (node_Name node) (ns_ServiceName (node_Spec node)) m) nodes fmempty"

text \<open>The second loop returns true at the first updated node whose old service name differs.\<close>

fun secondaryServiceNameChanged :: "smap \<Rightarrow> Node list \<Rightarrow> bool" where
  "secondaryServiceNameChanged m [] = False"
| "secondaryServiceNameChanged m (node # nodes) =
     (case fmlookup m (node_Name node) of
        Some oldServiceName \<Rightarrow>
          if oldServiceName \<noteq> ns_ServiceName (node_Spec node) then True
          else secondaryServiceNameChanged m nodes
      | None \<Rightarrow> secondaryServiceNameChanged m nodes)"

definition ServiceNameChangedInSpec :: "TeamCity \<Rightarrow> TeamCity \<Rightarrow> bool" where
  "ServiceNameChangedInSpec old updated =
     (if ns_ServiceName (node_Spec (sp_MainNode (tc_Spec old))) \<noteq>
         ns_ServiceName (node_Spec (sp_MainNode (tc_Spec updated)))
      then True
      else secondaryServiceNameChanged
             (oldSecondaryServiceNames (sp_SecondaryNodes (tc_Spec old)))
             (sp_SecondaryNodes (tc_Spec updated)))"

subsection \<open>Facts\<close>

lemma set_GetAllNodes [simp]:
  "set (GetAllNodes instance) = insert (tc_MainNode instance) (set (tc_SecondaryNodes instance))"
  by (simp add: GetAllNodes_def)

lemma IsMultiNode_iff: "IsMultiNode instance \<longleftrightarrow> tc_SecondaryNodes instance \<noteq> []"
  by (simp add: IsMultiNode_def)

lemma AllowsStatefulSetRecreate_iff:
  "AllowsStatefulSetRecreate instance \<longleftrightarrow>
     fmlookup (tc_Annotations instance) AllowStsRecreateAnnotationKey = Some ''true''"
  by (auto simp: AllowsStatefulSetRecreate_def map_get_def AllowStsRecreateAnnotationValue_def
      split: option.splits)

lemma UsesZeroDownTimeUpgradePolicy_iff:
  "UsesZeroDownTimeUpgradePolicy instance \<longleftrightarrow>
     fmlookup (tc_Annotations instance) UpdatePolicyAnnotationKey = Some ''zero-downtime''"
  by (auto simp: UsesZeroDownTimeUpgradePolicy_def map_get_def ZeroDownTimeAnnotation_def
      split: option.splits)

lemma oldSecondaryServiceNames_fold:
  "fmlookup (fold (\<lambda>node m. fmupd (node_Name node) (ns_ServiceName (node_Spec node)) m) nodes m) k =
     (case find (\<lambda>node. node_Name node = k) (rev nodes) of
        Some node \<Rightarrow> Some (ns_ServiceName (node_Spec node)) | None \<Rightarrow> fmlookup m k)"
proof (induction nodes arbitrary: m)
  case Nil
  then show ?case by simp
next
  case (Cons node nodes)
  then show ?case by (simp add: find_snoc split: option.splits)
qed

lemma oldSecondaryServiceNames_distinct:
  assumes "distinct (map node_Name nodes)"
  shows "fmlookup (oldSecondaryServiceNames nodes) k = Some v \<longleftrightarrow>
    (\<exists>node \<in> set nodes. node_Name node = k \<and> ns_ServiceName (node_Spec node) = v)"
proof (cases "find (\<lambda>node. node_Name node = k) (rev nodes)")
  case None
  then have "\<forall>node \<in> set nodes. node_Name node \<noteq> k" by (auto simp: find_None_iff)
  with None show ?thesis
    by (auto simp: oldSecondaryServiceNames_def oldSecondaryServiceNames_fold)
next
  case (Some n)
  then have n: "n \<in> set nodes" "node_Name n = k" by (auto dest: find_SomeD)
  then have "node = n" if "node \<in> set nodes" "node_Name node = k" for node
    using assms that by (metis distinct_map inj_onD)
  with n(1,2) have "(\<exists>node \<in> set nodes. node_Name node = k \<and> ns_ServiceName (node_Spec node) = v) \<longleftrightarrow>
      ns_ServiceName (node_Spec n) = v"
    by blast
  moreover from Some have "fmlookup (oldSecondaryServiceNames nodes) k = Some (ns_ServiceName (node_Spec n))"
    by (simp add: oldSecondaryServiceNames_def oldSecondaryServiceNames_fold)
  ultimately show ?thesis by simp
qed

lemma secondaryServiceNameChanged_iff:
  "secondaryServiceNameChanged m nodes \<longleftrightarrow>
     (\<exists>node \<in> set nodes. \<exists>v. fmlookup m (node_Name node) = Some v \<and> v \<noteq> ns_ServiceName (node_Spec node))"
  by (induction nodes) (auto split: option.splits)

end
