(* ===== verification/Labels.thy ===== *)
theory Labels
  imports TeamCity_Types
begin

section \<open>Labels (internal/metadata/label.go)\<close>

text \<open>
  The labels the operator puts on the objects it owns and selects them by. The interface
  \<open>operator_labels\<close> states what each of the three label functions promises to its callers: the
  operator's own labels cannot be overridden from the resource, and the other labels of the
  resource are carried over.
\<close>

subsection \<open>The functions\<close>

definition getDefaultLabelsFromInstanceName :: "string \<Rightarrow> smap" where
  "getDefaultLabelsFromInstanceName instanceName =
     fmap_of_list
       [(''app.kubernetes.io/name'', instanceName),
        (''app.kubernetes.io/component'', ''teamcity-server''),
        (''app.kubernetes.io/part-of'', ''teamcity'')]"

definition GetLabels :: "string \<Rightarrow> smap \<Rightarrow> smap" where
  "GetLabels instanceName instanceLabels =
     fold (\<lambda>(key, value) labels.
             (case fmlookup labels key of
                Some isLabelPresent \<Rightarrow> labels
              | None \<Rightarrow> fmupd key value labels))
       (map_range instanceLabels)
       (getDefaultLabelsFromInstanceName instanceName)"

definition getNodeNameLabel :: "string \<Rightarrow> smap" where
  "getNodeNameLabel nodeName = fmap_of_list [(''teamcity.jetbrains.com/node-name'', nodeName)]"

definition getNodeResponsibilityLabel :: "string \<Rightarrow> smap" where
  "getNodeResponsibilityLabel nodeRole = fmap_of_list [(''teamcity.jetbrains.com/role'', nodeRole)]"

definition getNodeLabels :: "string \<Rightarrow> string \<Rightarrow> smap" where
  "getNodeLabels nodeName nodeRole =
     fmap_of_list
       [(''teamcity.jetbrains.com/node-name'', nodeName),
        (''teamcity.jetbrains.com/role'', nodeRole)]"

definition mergeLabels :: "smap \<Rightarrow> smap \<Rightarrow> smap" where
  "mergeLabels l1 l2 =
     (let merged = fmempty;
          merged = fold (\<lambda>(k, v) m. fmupd k v m) (map_range l1) merged
      in fold (\<lambda>(key, value) m. fmupd key value m) (map_range l2) merged)"

definition GetStatefulSetCommonLabels :: "string \<Rightarrow> string \<Rightarrow> smap \<Rightarrow> smap" where
  "GetStatefulSetCommonLabels instanceName nodeRole instanceLabels =
     (let commonLabels = GetLabels instanceName instanceLabels;
          nodeResponsibility = getNodeResponsibilityLabel nodeRole
      in mergeLabels commonLabels nodeResponsibility)"

definition GetStatefulSetLabels :: "string \<Rightarrow> string \<Rightarrow> string \<Rightarrow> smap \<Rightarrow> smap" where
  "GetStatefulSetLabels instanceName nodeName nodeRole instanceLabels =
     (let commonStatefulSetLabels = GetStatefulSetCommonLabels instanceName nodeRole instanceLabels;
          nodeNameLabel = getNodeNameLabel nodeName
      in mergeLabels commonStatefulSetLabels nodeNameLabel)"

subsection \<open>The loops, whatever the iteration order\<close>

lemma fold_add_absent:
  assumes "distinct (map fst kvs)"
  shows "fold (\<lambda>(k, v) m. case fmlookup m k of Some x \<Rightarrow> m | None \<Rightarrow> fmupd k v m) kvs m =
    fmap_of_list kvs ++\<^sub>f m"
  using assms
proof (induction kvs arbitrary: m)
  case Nil
  then show ?case by simp
next
  case (Cons kv kvs)
  obtain k v where kv: "kv = (k, v)" by (cases kv)
  from Cons.prems kv have k: "k \<notin> fst ` set kvs" by simp
  show ?case
  proof (cases "fmlookup m k")
    case None
    have "fmap_of_list kvs ++\<^sub>f fmupd k v m = fmap_of_list (kv # kvs) ++\<^sub>f m"
      using None by (intro fmap_ext) (auto simp: kv split: option.splits)
    with Cons None kv show ?thesis by simp
  next
    case (Some x)
    have "fmap_of_list kvs ++\<^sub>f m = fmap_of_list (kv # kvs) ++\<^sub>f m"
      using Some by (intro fmap_ext) (auto simp: kv split: option.splits)
    with Cons Some kv show ?thesis by simp
  qed
qed

lemma fold_overwrite:
  assumes "distinct (map fst kvs)"
  shows "fold (\<lambda>(k, v) m. fmupd k v m) kvs m = m ++\<^sub>f fmap_of_list kvs"
  using assms
proof (induction kvs arbitrary: m)
  case Nil
  then show ?case by simp
next
  case (Cons kv kvs)
  obtain k v where kv: "kv = (k, v)" by (cases kv)
  from Cons.prems kv have k: "k \<notin> fst ` set kvs" by simp
  then have "fmlookup (fmap_of_list kvs) k = None" by (simp add: fmlookup_of_list map_of_eq_None_iff)
  then have "fmupd k v m ++\<^sub>f fmap_of_list kvs = m ++\<^sub>f fmap_of_list (kv # kvs)"
    by (intro fmap_ext) (auto simp: kv split: option.splits)
  with Cons kv show ?case by simp
qed

lemma fmap_of_map_range [simp]: "fmap_of_list (map_range m) = m"
  by (rule fmap_ext) (simp add: fmlookup_of_list map_of_map_range)

lemma GetLabels_eq:
  "GetLabels instanceName il = il ++\<^sub>f getDefaultLabelsFromInstanceName instanceName"
  unfolding GetLabels_def by (simp add: fold_add_absent [OF distinct_map_range])

text \<open>Any enumeration of the map without repeated keys gives the same labels.\<close>

lemma GetLabels_any_order:
  assumes "distinct (map fst kvs)" and "map_of kvs = fmlookup il"
  shows "fold (\<lambda>(key, value) labels. case fmlookup labels key of Some x \<Rightarrow> labels
            | None \<Rightarrow> fmupd key value labels) kvs (getDefaultLabelsFromInstanceName n) = GetLabels n il"
proof -
  have "fmap_of_list kvs = il" using assms(2) by (intro fmap_ext) (simp add: fmlookup_of_list)
  then show ?thesis by (simp add: fold_add_absent [OF assms(1)] GetLabels_eq)
qed

lemma mergeLabels_eq [simp]: "mergeLabels l1 l2 = l1 ++\<^sub>f l2"
  unfolding mergeLabels_def Let_def by (simp add: fold_overwrite [OF distinct_map_range])

subsection \<open>The interface\<close>

text \<open>
  \<open>labels il\<close> are the labels made from the labels \<open>il\<close> of the TeamCity resource; \<open>own\<close> are the
  labels that are the operator's.
\<close>

locale operator_labels =
  fixes labels :: "smap \<Rightarrow> smap" and own :: smap
  assumes own_kept: "fmlookup own k = Some v \<Longrightarrow> fmlookup (labels il) k = Some v"
    and carried: "fmlookup own k = None \<Longrightarrow> fmlookup (labels il) k = fmlookup il k"
begin

lemma labels_eq: "labels il = il ++\<^sub>f own"
proof (rule fmap_ext)
  fix k
  show "fmlookup (labels il) k = fmlookup (il ++\<^sub>f own) k"
    by (cases "fmlookup own k") (auto simp: own_kept carried)
qed

lemma own_subset: "own \<subseteq>\<^sub>f labels il"
  by (auto simp: fmsubset_alt_def own_kept)

lemma override_irrelevant: "fmlookup own k = Some w \<Longrightarrow> labels (fmupd k v il) = labels il"
  by (rule fmap_ext) (auto simp: labels_eq split: option.splits)

lemma labels_idem: "labels (labels il) = labels il"
  by (simp add: labels_eq flip: fmadd_assoc)

end

text \<open>
  A selector built from the resource's labels, and the labels of an object it is meant to select:
  the object has every label of the selector unless the resource itself carries one of the labels
  the operator adds to the object only.
\<close>

locale selector_labels =
  sel: operator_labels sel sel_own + obj: operator_labels obj obj_own
  for sel sel_own obj obj_own +
  assumes own_extends: "sel_own \<subseteq>\<^sub>f obj_own"
begin

lemma selects:
  assumes "\<And>k. fmlookup obj_own k \<noteq> None \<Longrightarrow> fmlookup sel_own k = None \<Longrightarrow> fmlookup il k = None"
  shows "sel il \<subseteq>\<^sub>f obj il"
  unfolding fmsubset_alt_def
proof
  fix k v
  assume s: "fmlookup (sel il) k = Some v"
  show "fmlookup (obj il) k = Some v"
  proof (cases "fmlookup sel_own k")
    case (Some w)
    with own_extends have "fmlookup obj_own k = Some w" by (auto simp: fmsubset_alt_def)
    moreover from s Some have "w = v" by (simp add: sel.own_kept)
    ultimately show ?thesis by (simp add: obj.own_kept)
  next
    case None
    with s have il: "fmlookup il k = Some v" by (simp add: sel.carried)
    with assms [of k] None have "fmlookup obj_own k = None" by (metis option.distinct(1))
    with il show ?thesis by (simp add: obj.carried)
  qed
qed

end

lemma default_label_keys:
  "fmlookup (getDefaultLabelsFromInstanceName n) k =
     (if k = ''app.kubernetes.io/name'' then Some n
      else if k = ''app.kubernetes.io/component'' then Some ''teamcity-server''
      else if k = ''app.kubernetes.io/part-of'' then Some ''teamcity'' else None)"
  by (simp add: getDefaultLabelsFromInstanceName_def fmlookup_of_list)

lemma role_label_keys:
  "fmlookup (getNodeResponsibilityLabel r) k = (if k = ''teamcity.jetbrains.com/role'' then Some r else None)"
  by (simp add: getNodeResponsibilityLabel_def fmlookup_of_list)

lemma node_name_label_keys:
  "fmlookup (getNodeNameLabel n) k = (if k = ''teamcity.jetbrains.com/node-name'' then Some n else None)"
  by (simp add: getNodeNameLabel_def fmlookup_of_list)

lemmas label_keys = default_label_keys role_label_keys node_name_label_keys

lemmas label_eqs = GetLabels_eq GetStatefulSetCommonLabels_def GetStatefulSetLabels_def Let_def

interpretation instance_labels: operator_labels
  "GetLabels n" "getDefaultLabelsFromInstanceName n"
  by unfold_locales (auto simp: label_eqs split: option.splits)

interpretation role_labels: operator_labels
  "GetStatefulSetCommonLabels n r"
  "getDefaultLabelsFromInstanceName n ++\<^sub>f getNodeResponsibilityLabel r"
  by unfold_locales (auto simp: label_eqs split: option.splits)

interpretation node_labels: operator_labels
  "GetStatefulSetLabels n node r"
  "getDefaultLabelsFromInstanceName n ++\<^sub>f getNodeResponsibilityLabel r ++\<^sub>f getNodeNameLabel node"
  by unfold_locales (auto simp: label_eqs split: option.splits)

interpretation role_selector: selector_labels
  "GetStatefulSetCommonLabels n r"
  "getDefaultLabelsFromInstanceName n ++\<^sub>f getNodeResponsibilityLabel r"
  "GetStatefulSetLabels n node r"
  "getDefaultLabelsFromInstanceName n ++\<^sub>f getNodeResponsibilityLabel r ++\<^sub>f getNodeNameLabel node"
  by unfold_locales (auto simp: fmsubset_alt_def label_keys split: if_splits option.splits)

interpretation instance_selector: selector_labels
  "GetLabels n" "getDefaultLabelsFromInstanceName n"
  "GetStatefulSetLabels n node r"
  "getDefaultLabelsFromInstanceName n ++\<^sub>f getNodeResponsibilityLabel r ++\<^sub>f getNodeNameLabel node"
  by unfold_locales (auto simp: fmsubset_alt_def label_keys split: if_splits option.splits)

text \<open>A selector by role matches only StatefulSets of that role.\<close>

lemma selector_role:
  assumes "GetStatefulSetCommonLabels n r il \<subseteq>\<^sub>f GetStatefulSetLabels n' node r' il'"
  shows "r' = r"
proof -
  have "fmlookup (GetStatefulSetCommonLabels n r il) ''teamcity.jetbrains.com/role'' = Some r"
    by (rule role_labels.own_kept) (simp add: label_keys)
  moreover have "fmlookup (GetStatefulSetLabels n' node r' il') ''teamcity.jetbrains.com/role'' = Some r'"
    by (rule node_labels.own_kept) (simp add: label_keys)
  ultimately show ?thesis using assms by (auto simp: fmsubset_alt_def)
qed

end
