(* ===== verification/K8s_Library.thy ===== *)
theory K8s_Library
  imports Labels
begin

section \<open>Objects of any kind, and the library functions the operator calls\<close>

text \<open>
  \<open>client.Object\<close> is the interface every Kubernetes object implements: a value of it is one of
  the kinds the operator handles. A type assertion or a type switch on it is a case analysis.
\<close>

datatype k8s_object =
    TeamCityObject TeamCity
  | StatefulSetObject StatefulSet
  | ConfigMapObject ConfigMap
  | PersistentVolumeClaimObject PersistentVolumeClaim
  | ServiceAccountObj ServiceAccountObject
  | ServiceObj ServiceObject
  | IngressObj IngressObject

datatype kind =
    KindTeamCity
  | KindStatefulSet
  | KindConfigMap
  | KindPersistentVolumeClaim
  | KindServiceAccount
  | KindService
  | KindIngress

primrec object_meta :: "k8s_object \<Rightarrow> ObjectMeta" where
  "object_meta (TeamCityObject o1) = tc_meta o1"
| "object_meta (StatefulSetObject o1) = sts_meta o1"
| "object_meta (ConfigMapObject o1) = cm_meta o1"
| "object_meta (PersistentVolumeClaimObject o1) = pvc_meta o1"
| "object_meta (ServiceAccountObj o1) = sa_meta o1"
| "object_meta (ServiceObj o1) = svc_meta o1"
| "object_meta (IngressObj o1) = ing_meta o1"

primrec object_kind :: "k8s_object \<Rightarrow> kind" where
  "object_kind (TeamCityObject o1) = KindTeamCity"
| "object_kind (StatefulSetObject o1) = KindStatefulSet"
| "object_kind (ConfigMapObject o1) = KindConfigMap"
| "object_kind (PersistentVolumeClaimObject o1) = KindPersistentVolumeClaim"
| "object_kind (ServiceAccountObj o1) = KindServiceAccount"
| "object_kind (ServiceObj o1) = KindService"
| "object_kind (IngressObj o1) = KindIngress"

text \<open>What \<open>%T\<close> prints for a pointer to an object.\<close>

primrec go_type :: "k8s_object \<Rightarrow> string" where
  "go_type (TeamCityObject o1) = ''*v1beta1.TeamCity''"
| "go_type (StatefulSetObject o1) = ''*v1.StatefulSet''"
| "go_type (ConfigMapObject o1) = ''*v1.ConfigMap''"
| "go_type (PersistentVolumeClaimObject o1) = ''*v1.PersistentVolumeClaim''"
| "go_type (ServiceAccountObj o1) = ''*v1.ServiceAccount''"
| "go_type (ServiceObj o1) = ''*v1.Service''"
| "go_type (IngressObj o1) = ''*v1.Ingress''"

abbreviation GetName :: "k8s_object \<Rightarrow> string" where
  "GetName obj \<equiv> om_Name (object_meta obj)"

definition object_key :: "k8s_object \<Rightarrow> NamespacedName" where
  "object_key obj = meta_key (object_meta obj)"

type_synonym object_id = "kind \<times> NamespacedName"

definition object_id :: "k8s_object \<Rightarrow> object_id" where
  "object_id obj = (object_kind obj, object_key obj)"

text \<open>
  A function that changes an object through a pointer and returns an error: the outcome, and the
  object as the function leaves it.
\<close>

type_synonym mutation = "k8s_object \<Rightarrow> unit res \<times> k8s_object"

text \<open>
  The pure functions of \<open>k8s.io/apimachinery\<close>, \<open>k8s.io/api\<close> and \<open>controllerutil\<close> the operator
  calls are not code of the repository: a value of this record supplies them.
  \<open>SetControllerReference\<close> returns an error or nil and the metadata it leaves. The order in which
  Go visits the keys of a map is unspecified, so it is supplied too where it could matter.
\<close>

record k8s_lib =
  Quantity_String :: "Quantity \<Rightarrow> string"
  Quantity_Value :: "Quantity \<Rightarrow> int"
  ResourceList_Memory :: "ResourceList \<Rightarrow> Quantity"
  ResourceList_Storage :: "ResourceList \<Rightarrow> Quantity"
  NewQuantity_DecimalSI_String :: "int \<Rightarrow> string"
  DeepDerivative_StatefulSetSpec :: "StatefulSetSpec \<Rightarrow> StatefulSetSpec \<Rightarrow> bool"
  DeepDerivative_PersistentVolumeClaimSpec ::
    "PersistentVolumeClaimSpec \<Rightarrow> PersistentVolumeClaimSpec \<Rightarrow> bool"
  SetControllerReference :: "TeamCity \<Rightarrow> ObjectMeta \<Rightarrow> go_error option \<times> ObjectMeta"
  RemoveFinalizer :: "string list \<Rightarrow> string \<Rightarrow> string list"
  range_keys :: "smap \<Rightarrow> string list" \<comment> \<open>the order in which \<open>range\<close> visits a map\<close>

text \<open>
  What every builder does last: \<open>if err := controllerutil.SetControllerReference(...); err != nil
  { return fmt.Errorf("failed setting controller reference: %w", err) }; return nil\<close>.
\<close>

definition setOwner :: "k8s_lib \<Rightarrow> TeamCity \<Rightarrow> ObjectMeta \<Rightarrow> unit res \<times> ObjectMeta" where
  "setOwner L instance meta =
     (case SetControllerReference L instance meta of
        (Some err, meta') \<Rightarrow> (Err (WrapError ''failed setting controller reference'' err), meta')
      | (None, meta') \<Rightarrow> (Ok (), meta'))"

text \<open>
  Documented behaviour. \<open>Quantity.String\<close> prints the canonical form of the quantity, which for the
  zero quantity is 0: it never prints nothing. \<open>SetControllerReference\<close> sets an owner reference
  and changes nothing else of the metadata. A \<open>range\<close> over a map visits each of its keys once.
\<close>

definition quantity_strings_not_empty :: "k8s_lib \<Rightarrow> bool" where
  "quantity_strings_not_empty L \<longleftrightarrow> (\<forall>q. Quantity_String L q \<noteq> [])"

definition visits_all_keys :: "k8s_lib \<Rightarrow> bool" where
  "visits_all_keys L \<longleftrightarrow> (\<forall>m. distinct (range_keys L m) \<and> set (range_keys L m) = fset (fmdom m))"

definition controller_reference_only :: "k8s_lib \<Rightarrow> bool" where
  "controller_reference_only L \<longleftrightarrow>
     (\<forall>owner m. snd (SetControllerReference L owner m) =
        m\<lparr>om_OwnerReferences := om_OwnerReferences (snd (SetControllerReference L owner m))\<rparr>)"

definition controller_reference_stable :: "k8s_lib \<Rightarrow> bool" where
  "controller_reference_stable L \<longleftrightarrow>
     (\<forall>owner m. SetControllerReference L owner (snd (SetControllerReference L owner m)) =
        SetControllerReference L owner m)"

lemma setOwner_meta:
  assumes "controller_reference_only L"
  shows "om_Name (snd (setOwner L t m)) = om_Name m"
    "om_Namespace (snd (setOwner L t m)) = om_Namespace m"
    "om_Labels (snd (setOwner L t m)) = om_Labels m"
    "om_Annotations (snd (setOwner L t m)) = om_Annotations m"
proof -
  have "snd (setOwner L t m) = snd (SetControllerReference L t m)"
    by (simp add: setOwner_def split: prod.split option.split)
  moreover obtain refs where "snd (SetControllerReference L t m) = m\<lparr>om_OwnerReferences := refs\<rparr>"
    using assms unfolding controller_reference_only_def by blast
  ultimately show "om_Name (snd (setOwner L t m)) = om_Name m"
    "om_Namespace (snd (setOwner L t m)) = om_Namespace m"
    "om_Labels (snd (setOwner L t m)) = om_Labels m"
    "om_Annotations (snd (setOwner L t m)) = om_Annotations m"
    by simp_all
qed

lemma setOwner_no_panic: "fst (setOwner L t m) \<noteq> Panic p"
  by (simp add: setOwner_def split: prod.split option.split)

lemma setOwner_stable:
  "controller_reference_stable L \<Longrightarrow> setOwner L t (snd (setOwner L t m)) = setOwner L t m"
  unfolding controller_reference_stable_def setOwner_def
  by (auto split: prod.split option.split dest!: spec [of _ t] spec [of _ m])

end
