(* ===== verification/Webhook.thy ===== *)
theory Webhook
  imports K8s_Library
begin

section \<open>The admission webhook (api/v1beta1/teamcity_webhook.go)\<close>

text \<open>
  The validations the API server asks for before it stores a TeamCity resource. A function that
  returns \<open>(admission.Warnings, error)\<close> returns the pair of the warnings and the error, \<open>None\<close> for
  nil. The text of a resource quantity is computed by the library value \<open>L\<close>.
\<close>

subsection \<open>The responsibilities of a node\<close>

definition allTeamCityResponsibilities :: "string list" where
  "allTeamCityResponsibilities =
     [''MAIN_NODE'',
      ''CAN_PROCESS_BUILD_MESSAGES'',
      ''CAN_CHECK_FOR_CHANGES'',
      ''CAN_PROCESS_BUILD_TRIGGERS'',
      ''CAN_PROCESS_USER_DATA_MODIFICATION_REQUESTS'']"

definition minimumRequiredMainNodeResponsibilities :: "string list" where
  "minimumRequiredMainNodeResponsibilities =
     [''MAIN_NODE'',
      ''CAN_PROCESS_USER_DATA_MODIFICATION_REQUESTS'']"

definition validSecondaryNodeResponsibilities :: "string list" where
  "validSecondaryNodeResponsibilities =
     [''CAN_PROCESS_BUILD_MESSAGES'',
      ''CAN_CHECK_FOR_CHANGES'',
      ''CAN_PROCESS_BUILD_TRIGGERS'',
      ''CAN_PROCESS_USER_DATA_MODIFICATION_REQUESTS'']"

definition validMainNodeResponsibilities :: "string list" where
  "validMainNodeResponsibilities = allTeamCityResponsibilities"

datatype admission_error =
    ValidationError string string \<comment> \<open>path, message\<close>
  | AdmissionError string

type_synonym admission = "string list \<times> admission_error option"

subsection \<open>Helpers on slices\<close>

definition string_set_map :: "string list \<Rightarrow> (string, bool) fmap" where
  "string_set_map xs = fold (\<lambda>v m. fmupd v True m) xs fmempty"

fun all_found_in :: "(string, bool) fmap \<Rightarrow> string list \<Rightarrow> bool" where
  "all_found_in m [] = True"
| "all_found_in m (e # es) = (if fmlookup m e = None then False else all_found_in m es)"

definition areAllElementsAllowed :: "string list \<Rightarrow> string list \<Rightarrow> bool" where
  "areAllElementsAllowed elements allowed =
     (let allowedMap = string_set_map allowed in all_found_in allowedMap elements)"

definition allElementsInOtherSlice :: "string list \<Rightarrow> string list \<Rightarrow> bool" where
  "allElementsInOtherSlice slice1 slice2 =
     (let m = string_set_map slice2 in all_found_in m slice1)"

subsection \<open>Memory, percentage and volume claims\<close>

definition validateXmxPercentage :: "TeamCity \<Rightarrow> admission_error option" where
  "validateXmxPercentage teamcity =
     (if sp_XmxPercentage (tc_Spec teamcity) \<le> 0
      then Some (ValidationError ''teamcity.spec.xmxPercentage''
             ''Xmx percentage cannot be set to 0 or lower'')
      else None)"

definition validateRequestsInNode :: "k8s_lib \<Rightarrow> string \<Rightarrow> Node \<Rightarrow> admission_error option" where
  "validateRequestsInNode L objectPath node =
     (if length (Quantity_String L (ResourceList_Memory L (ns_Requests (node_Spec node)))) \<le> 0
      then Some (ValidationError (objectPath @ ''.'' @ ''requests.memory'')
             ''Requested memory cannot be empty'')
      else None)"

fun validateRequestsOfSecondaryNodes :: "k8s_lib \<Rightarrow> nat \<Rightarrow> Node list \<Rightarrow> admission_error option" where
  "validateRequestsOfSecondaryNodes L idx [] = None"
| "validateRequestsOfSecondaryNodes L idx (secondaryNode # nodes) =
     (case validateRequestsInNode L (''teamcity.spec.secondaryNode['' @ format_nat idx @ '']'')
             secondaryNode of
        Some err \<Rightarrow> Some err
      | None \<Rightarrow> validateRequestsOfSecondaryNodes L (idx + 1) nodes)"

definition validateRequestsOfAllNodes :: "k8s_lib \<Rightarrow> TeamCity \<Rightarrow> admission_error option" where
  "validateRequestsOfAllNodes L teamcity =
     (case validateRequestsInNode L ''teamcity.spec.mainNode'' (sp_MainNode (tc_Spec teamcity)) of
        Some err \<Rightarrow> Some err
      | None \<Rightarrow> validateRequestsOfSecondaryNodes L 0 (sp_SecondaryNodes (tc_Spec teamcity)))"

definition validateCustomPersistentVolumeClaim ::
  "k8s_lib \<Rightarrow> string \<Rightarrow> CustomPersistentVolumeClaim \<Rightarrow> admission_error option" where
  "validateCustomPersistentVolumeClaim L objectPath claim =
     (if length (cc_Name claim) \<le> 0
      then Some (ValidationError (objectPath @ ''.'' @ ''name'') ''Claim name is not set'')
      else if length (vm_Name (cc_VolumeMount claim)) \<le> 0
      then Some (ValidationError (objectPath @ ''.'' @ ''volumeMount.name'') ''Volume mount name is not set'')
      else if length (vm_MountPath (cc_VolumeMount claim)) \<le> 0
      then Some (ValidationError (objectPath @ ''.'' @ ''volumeMount.mountPath'') ''Volume mount path is not set'')
      else if length (Quantity_String L (ResourceList_Storage L (pc_Requests (cc_Spec claim)))) \<le> 0
      then Some (ValidationError (objectPath @ ''.'' @ ''spec.resources.requests.storage'')
             ''Storage request is not set'')
      else None)"

fun validateAdditionalVolumeClaims ::
  "k8s_lib \<Rightarrow> nat \<Rightarrow> CustomPersistentVolumeClaim list \<Rightarrow> admission_error option" where
  "validateAdditionalVolumeClaims L idx [] = None"
| "validateAdditionalVolumeClaims L idx (additionalVolumeClaim # claims) =
     (case validateCustomPersistentVolumeClaim L
             (''teamcity.spec.persistentVolumeClaims['' @ format_nat idx @ '']'') additionalVolumeClaim of
        Some err \<Rightarrow> Some err
      | None \<Rightarrow> validateAdditionalVolumeClaims L (idx + 1) claims)"

definition validateAllCustomPersistentVolumeClaimsInObject ::
  "k8s_lib \<Rightarrow> TeamCity \<Rightarrow> admission_error option" where
  "validateAllCustomPersistentVolumeClaimsInObject L teamcity =
     (case validateCustomPersistentVolumeClaim L ''teamcity.spec.dataDirVolumeClaim''
             (sp_DataDirVolumeClaim (tc_Spec teamcity)) of
        Some err \<Rightarrow> Some err
      | None \<Rightarrow> validateAdditionalVolumeClaims L 0 (sp_PersistentVolumeClaims (tc_Spec teamcity)))"

subsection \<open>Responsibilities\<close>

fun appendResponsibilities :: "string list \<Rightarrow> Node list \<Rightarrow> string list" where
  "appendResponsibilities responsibilities [] = responsibilities"
| "appendResponsibilities responsibilities (secondaryNode # nodes) =
     appendResponsibilities (responsibilities @ ns_Responsibilities (node_Spec secondaryNode)) nodes"

definition getAllResponsibilitiesFromAllNodes :: "Node \<Rightarrow> Node list \<Rightarrow> string list" where
  "getAllResponsibilitiesFromAllNodes mainNode secondaryNodes =
     (let responsibilities = [];
          responsibilities = responsibilities @ ns_Responsibilities (node_Spec mainNode)
      in appendResponsibilities responsibilities secondaryNodes)"

definition allNodesHaveEmptyResponsibility :: "Node \<Rightarrow> Node list \<Rightarrow> bool" where
  "allNodesHaveEmptyResponsibility mainNode secondaryNodes =
     (let responsibilities = getAllResponsibilitiesFromAllNodes mainNode secondaryNodes
      in length responsibilities = 0)"

definition validatePresenceOfAllResponsibilities :: "string list \<Rightarrow> Node \<Rightarrow> Node list \<Rightarrow> string" where
  "validatePresenceOfAllResponsibilities allResponsibilities mainNode secondaryNodes =
     (let responsibilities = getAllResponsibilitiesFromAllNodes mainNode secondaryNodes
      in if \<not> allElementsInOtherSlice allResponsibilities responsibilities
         then ''Not all responsibilities are distributed across the nodes. This may impact functionality of the server. Make sure that the following responsibilities are present in configuration '' @
              strings_Join allResponsibilities '', ''
         else '''')"

definition validateMainNodeResponsibilities ::
  "string \<Rightarrow> Node \<Rightarrow> string list \<Rightarrow> string list \<Rightarrow> admission_error option" where
  "validateMainNodeResponsibilities objectPath node validResponsibilities requiredResponsibilities =
     (let responsibilities = ns_Responsibilities (node_Spec node) in
      if length responsibilities < 1
      then Some (ValidationError (objectPath @ ''.'' @ ''responsibilities'')
             (''Main node cannot have empty responsibilities. Minimum required values are: '' @
              strings_Join requiredResponsibilities '', '' @ ''. Valid values are: '' @
              strings_Join validResponsibilities '', '' @ ''.''))
      else if \<not> areAllElementsAllowed responsibilities validResponsibilities
      then Some (ValidationError (objectPath @ ''.'' @ ''responsibilities'')
             (''Main node does not have valid responsibilities. Minimum required values are: '' @
              strings_Join requiredResponsibilities '', '' @ ''. Valid values are: '' @
              strings_Join validResponsibilities '', ''))
      else if \<not> allElementsInOtherSlice requiredResponsibilities responsibilities
      then Some (ValidationError (objectPath @ ''.'' @ ''responsibilities'')
             (''Main node does not have required responsibilities. Minimum required values are: '' @
              strings_Join requiredResponsibilities '', ''))
      else None)"

definition validateNodeResponsibilities :: "string \<Rightarrow> Node \<Rightarrow> string list \<Rightarrow> admission_error option" where
  "validateNodeResponsibilities objectPath node validResponsibilities =
     (let responsibilities = ns_Responsibilities (node_Spec node) in
      if \<not> areAllElementsAllowed responsibilities validResponsibilities
      then Some (ValidationError (objectPath @ ''.'' @ ''responsibilities'')
             (''Secondary node does not contain valid responsibilities. Valid values are: '' @
              strings_Join validResponsibilities '', ''))
      else None)"

fun validateResponsibilitiesOfSecondaryNodes :: "nat \<Rightarrow> Node list \<Rightarrow> admission_error option" where
  "validateResponsibilitiesOfSecondaryNodes idx [] = None"
| "validateResponsibilitiesOfSecondaryNodes idx (secondaryNode # nodes) =
     (case validateNodeResponsibilities (''teamcity.spec.secondaryNode['' @ format_nat idx @ '']'')
             secondaryNode validSecondaryNodeResponsibilities of
        Some err \<Rightarrow> Some err
      | None \<Rightarrow> validateResponsibilitiesOfSecondaryNodes (idx + 1) nodes)"

definition validateResponsibilitiesOfAllNodes :: "TeamCity \<Rightarrow> string \<times> admission_error option" where
  "validateResponsibilitiesOfAllNodes teamcity =
     (let mainNode = sp_MainNode (tc_Spec teamcity);
          secondaryNodes = sp_SecondaryNodes (tc_Spec teamcity) in
      if allNodesHaveEmptyResponsibility mainNode secondaryNodes then ('''', None)
      else
        (case validateMainNodeResponsibilities ''teamcity.spec.mainNode'' mainNode
                validMainNodeResponsibilities minimumRequiredMainNodeResponsibilities of
           Some err \<Rightarrow> ('''', Some err)
         | None \<Rightarrow>
             (case validateResponsibilitiesOfSecondaryNodes 0 secondaryNodes of
                Some err \<Rightarrow> ('''', Some err)
              | None \<Rightarrow>
                  (let warning = validatePresenceOfAllResponsibilities allTeamCityResponsibilities
                                   mainNode secondaryNodes
                   in if warning \<noteq> '''' then (warning, None) else ('''', None)))))"

subsection \<open>The webhook\<close>

definition validateCommonFields :: "k8s_lib \<Rightarrow> TeamCity \<Rightarrow> admission" where
  "validateCommonFields L teamcity =
     (case validateRequestsOfAllNodes L teamcity of
        Some err \<Rightarrow> ([], Some err)
      | None \<Rightarrow>
     (case validateXmxPercentage teamcity of
        Some err \<Rightarrow> ([], Some err)
      | None \<Rightarrow>
     (case validateAllCustomPersistentVolumeClaimsInObject L teamcity of
        Some err \<Rightarrow> ([], Some err)
      | None \<Rightarrow>
     (case validateResponsibilitiesOfAllNodes teamcity of
        (responsibilityWarning, err) \<Rightarrow>
          if err \<noteq> None \<or> responsibilityWarning \<noteq> '''' then ([responsibilityWarning], err)
          else ([], None)))))"

definition ValidateCreate :: "k8s_lib \<Rightarrow> TeamCity \<Rightarrow> admission" where
  "ValidateCreate L instance =
     (case validateCommonFields L instance of
        (warn, Some err) \<Rightarrow> (warn, Some err)
      | (warn, None) \<Rightarrow> ([], None))"

definition serviceNameChangeRefused :: string where
  "serviceNameChangeRefused =
     ''changing spec.*.serviceName on an existing TeamCity requires annotation '' @
     AllowStsRecreateAnnotationKey @ ''='' @ strconv_Quote AllowStsRecreateAnnotationValue @ ''. '' @
     ''Kubernetes does not allow StatefulSet spec.serviceName to be updated in place; '' @
     ''with the annotation, the operator will delete and recreate the affected StatefulSet(s) and restart the node(s)''"

definition serviceNameChangeWarning :: string where
  "serviceNameChangeWarning =
     ''spec.*.serviceName changed: the affected StatefulSet(s) will be recreated and the node(s) restarted''"

definition ValidateUpdate :: "k8s_lib \<Rightarrow> TeamCity \<Rightarrow> k8s_object \<Rightarrow> admission" where
  "ValidateUpdate L instance old =
     (case old of
        TeamCityObject oldTeamCity \<Rightarrow>
          (case validateCommonFields L instance of
             (warn, Some err) \<Rightarrow> ([], Some err)
           | (warn, None) \<Rightarrow>
               if ServiceNameChangedInSpec oldTeamCity instance
               then if \<not> AllowsStatefulSetRecreate instance
                    then ([], Some (AdmissionError serviceNameChangeRefused))
                    else (warn @ [serviceNameChangeWarning], None)
               else (warn, None))
      | other \<Rightarrow> ([], Some (AdmissionError (''expected a TeamCity object but got '' @ go_type old))))"

definition ValidateDelete :: "TeamCity \<Rightarrow> admission" where
  "ValidateDelete instance = ([], None)"

definition Default :: "TeamCity \<Rightarrow> TeamCity" where
  "Default instance = instance"

subsection \<open>What the helpers compute\<close>

lemma fmlookup_string_set_map: "fmlookup (string_set_map xs) k = (if k \<in> set xs then Some True else None)"
proof -
  have "fmlookup (fold (\<lambda>v m. fmupd v True m) xs m) k = (if k \<in> set xs then Some True else fmlookup m k)" for m
    by (induction xs arbitrary: m) auto
  then show ?thesis by (simp add: string_set_map_def)
qed

lemma all_found_in_iff: "all_found_in m es \<longleftrightarrow> (\<forall>e \<in> set es. fmlookup m e \<noteq> None)"
  by (induction es) auto

lemma areAllElementsAllowed_iff [simp]: "areAllElementsAllowed elements allowed \<longleftrightarrow> set elements \<subseteq> set allowed"
  by (auto simp: areAllElementsAllowed_def all_found_in_iff fmlookup_string_set_map split: if_splits)

lemma allElementsInOtherSlice_iff [simp]: "allElementsInOtherSlice xs ys \<longleftrightarrow> set xs \<subseteq> set ys"
  by (auto simp: allElementsInOtherSlice_def all_found_in_iff fmlookup_string_set_map split: if_splits)

lemma appendResponsibilities_eq:
  "appendResponsibilities rs nodes = rs @ concat (map (\<lambda>node. ns_Responsibilities (node_Spec node)) nodes)"
  by (induction nodes arbitrary: rs) auto

definition responsibilities_of :: "Node \<Rightarrow> string set" where
  "responsibilities_of node = set (ns_Responsibilities (node_Spec node))"

definition all_responsibilities_of :: "TeamCity \<Rightarrow> string set" where
  "all_responsibilities_of teamcity =
     responsibilities_of (tc_MainNode teamcity) \<union> \<Union> (responsibilities_of ` set (tc_SecondaryNodes teamcity))"

lemma set_getAllResponsibilities [simp]:
  "set (getAllResponsibilitiesFromAllNodes (tc_MainNode teamcity) (tc_SecondaryNodes teamcity)) =
     all_responsibilities_of teamcity"
  by (auto simp: getAllResponsibilitiesFromAllNodes_def appendResponsibilities_eq
      all_responsibilities_of_def responsibilities_of_def)

lemma allNodesHaveEmptyResponsibility_iff [simp]:
  "allNodesHaveEmptyResponsibility (tc_MainNode teamcity) (tc_SecondaryNodes teamcity) \<longleftrightarrow>
     all_responsibilities_of teamcity = {}"
  by (simp add: allNodesHaveEmptyResponsibility_def flip: set_getAllResponsibilities)

lemma validateResponsibilitiesOfSecondaryNodes_None:
  "validateResponsibilitiesOfSecondaryNodes idx nodes = None \<longleftrightarrow>
     (\<forall>node \<in> set nodes. responsibilities_of node \<subseteq> set validSecondaryNodeResponsibilities)"
  by (induction idx nodes rule: validateResponsibilitiesOfSecondaryNodes.induct)
    (auto simp: validateNodeResponsibilities_def responsibilities_of_def Let_def)

text \<open>The index in the path of an error is that of the first node, or claim, at fault.\<close>

lemma validateRequestsOfSecondaryNodes_None:
  "validateRequestsOfSecondaryNodes L idx nodes = None \<longleftrightarrow>
     (\<forall>node \<in> set nodes. Quantity_String L (ResourceList_Memory L (ns_Requests (node_Spec node))) \<noteq> '''')"
  by (induction L idx nodes rule: validateRequestsOfSecondaryNodes.induct)
    (auto simp: validateRequestsInNode_def)

lemma validateRequestsOfAllNodes_None:
  "validateRequestsOfAllNodes L teamcity = None \<longleftrightarrow>
     (\<forall>node \<in> set (GetAllNodes teamcity).
        Quantity_String L (ResourceList_Memory L (ns_Requests (node_Spec node))) \<noteq> '''')"
  by (auto simp: validateRequestsOfAllNodes_def validateRequestsInNode_def
      validateRequestsOfSecondaryNodes_None)

definition claim_complete :: "k8s_lib \<Rightarrow> CustomPersistentVolumeClaim \<Rightarrow> bool" where
  "claim_complete L claim \<longleftrightarrow> cc_Name claim \<noteq> '''' \<and> vm_Name (cc_VolumeMount claim) \<noteq> '''' \<and>
     vm_MountPath (cc_VolumeMount claim) \<noteq> '''' \<and>
     Quantity_String L (ResourceList_Storage L (pc_Requests (cc_Spec claim))) \<noteq> ''''"

lemma validateCustomPersistentVolumeClaim_None:
  "validateCustomPersistentVolumeClaim L path claim = None \<longleftrightarrow> claim_complete L claim"
  by (simp add: validateCustomPersistentVolumeClaim_def claim_complete_def)

lemma validateAdditionalVolumeClaims_None:
  "validateAdditionalVolumeClaims L idx claims = None \<longleftrightarrow> (\<forall>claim \<in> set claims. claim_complete L claim)"
  by (induction L idx claims rule: validateAdditionalVolumeClaims.induct)
    (auto simp: validateCustomPersistentVolumeClaim_None)

lemma validateAllCustomPersistentVolumeClaimsInObject_None:
  "validateAllCustomPersistentVolumeClaimsInObject L teamcity = None \<longleftrightarrow>
     (\<forall>claim \<in> set (GetAllCustomPersistentVolumeClaim teamcity). claim_complete L claim)"
  by (auto simp: validateAllCustomPersistentVolumeClaimsInObject_def GetAllCustomPersistentVolumeClaim_def
      validateCustomPersistentVolumeClaim_None validateAdditionalVolumeClaims_None)

text \<open>When the main node and the secondary nodes are given responsibilities the webhook accepts.\<close>

definition responsibilities_accepted :: "TeamCity \<Rightarrow> bool" where
  "responsibilities_accepted teamcity \<longleftrightarrow>
     all_responsibilities_of teamcity = {} \<or>
     (set minimumRequiredMainNodeResponsibilities \<subseteq> responsibilities_of (tc_MainNode teamcity) \<and>
      responsibilities_of (tc_MainNode teamcity) \<subseteq> set validMainNodeResponsibilities \<and>
      (\<forall>node \<in> set (tc_SecondaryNodes teamcity).
         responsibilities_of node \<subseteq> set validSecondaryNodeResponsibilities))"

lemma validateMainNodeResponsibilities_None:
  "validateMainNodeResponsibilities path node validMainNodeResponsibilities
       minimumRequiredMainNodeResponsibilities = None \<longleftrightarrow>
     set minimumRequiredMainNodeResponsibilities \<subseteq> responsibilities_of node \<and>
     responsibilities_of node \<subseteq> set validMainNodeResponsibilities"
  by (auto simp: validateMainNodeResponsibilities_def responsibilities_of_def Let_def
      minimumRequiredMainNodeResponsibilities_def)

lemma validateResponsibilities_accepts:
  "snd (validateResponsibilitiesOfAllNodes teamcity) = None \<longleftrightarrow> responsibilities_accepted teamcity"
proof (cases "all_responsibilities_of teamcity = {}")
  case True
  then show ?thesis by (simp add: validateResponsibilitiesOfAllNodes_def responsibilities_accepted_def)
next
  case False
  let ?main = "validateMainNodeResponsibilities ''teamcity.spec.mainNode'' (tc_MainNode teamcity)
    validMainNodeResponsibilities minimumRequiredMainNodeResponsibilities"
  let ?secondary = "validateResponsibilitiesOfSecondaryNodes 0 (tc_SecondaryNodes teamcity)"
  from False have "snd (validateResponsibilitiesOfAllNodes teamcity) = None \<longleftrightarrow> ?main = None \<and> ?secondary = None"
    by (cases ?main; cases ?secondary) (simp_all add: validateResponsibilitiesOfAllNodes_def Let_def)
  with False show ?thesis
    by (simp only: validateMainNodeResponsibilities_None validateResponsibilitiesOfSecondaryNodes_None
        responsibilities_accepted_def) blast
qed

lemma presence_warning:
  "validatePresenceOfAllResponsibilities allTeamCityResponsibilities (tc_MainNode teamcity)
       (tc_SecondaryNodes teamcity) = '''' \<longleftrightarrow>
     set allTeamCityResponsibilities \<subseteq> all_responsibilities_of teamcity"
  by (simp add: validatePresenceOfAllResponsibilities_def Let_def)

lemma validateResponsibilities_warning:
  assumes "snd (validateResponsibilitiesOfAllNodes teamcity) = None"
  shows "fst (validateResponsibilitiesOfAllNodes teamcity) = '''' \<longleftrightarrow>
    all_responsibilities_of teamcity = {} \<or>
    set allTeamCityResponsibilities \<subseteq> all_responsibilities_of teamcity"
  using assms
  by (auto simp: validateResponsibilitiesOfAllNodes_def Let_def simp flip: presence_warning
      split: option.splits if_splits)

text \<open>The declarative content of the checks common to create and update.\<close>

definition admissible :: "k8s_lib \<Rightarrow> TeamCity \<Rightarrow> bool" where
  "admissible L teamcity \<longleftrightarrow>
     (\<forall>node \<in> set (GetAllNodes teamcity).
        Quantity_String L (ResourceList_Memory L (ns_Requests (node_Spec node))) \<noteq> '''') \<and>
     0 < sp_XmxPercentage (tc_Spec teamcity) \<and>
     (\<forall>claim \<in> set (GetAllCustomPersistentVolumeClaim teamcity). claim_complete L claim) \<and>
     responsibilities_accepted teamcity"

lemma validateCommonFields_None:
  "snd (validateCommonFields L teamcity) = None \<longleftrightarrow> admissible L teamcity"
proof -
  have x: "validateXmxPercentage teamcity = None \<longleftrightarrow> 0 < sp_XmxPercentage (tc_Spec teamcity)"
    by (auto simp: validateXmxPercentage_def)
  have "snd (validateCommonFields L teamcity) = None \<longleftrightarrow>
      validateRequestsOfAllNodes L teamcity = None \<and> validateXmxPercentage teamcity = None \<and>
      validateAllCustomPersistentVolumeClaimsInObject L teamcity = None \<and>
      snd (validateResponsibilitiesOfAllNodes teamcity) = None"
    by (auto simp: validateCommonFields_def split: option.splits prod.splits)
  then show ?thesis
    by (simp only: x validateRequestsOfAllNodes_None validateAllCustomPersistentVolumeClaimsInObject_None
        validateResponsibilities_accepts admissible_def)
qed

lemma validateCommonFields_warnings:
  assumes "admissible L teamcity"
  shows "fst (validateCommonFields L teamcity) =
    (if all_responsibilities_of teamcity = {} \<or>
        set allTeamCityResponsibilities \<subseteq> all_responsibilities_of teamcity then []
     else [fst (validateResponsibilitiesOfAllNodes teamcity)])"
proof -
  have "snd (validateCommonFields L teamcity) = None" using assms by (simp add: validateCommonFields_None)
  moreover have "snd (validateResponsibilitiesOfAllNodes teamcity) = None"
    using assms by (simp add: admissible_def validateResponsibilities_accepts)
  ultimately show ?thesis
    using validateResponsibilities_warning [of teamcity]
    by (auto simp: validateCommonFields_def split: option.splits prod.splits if_splits)
qed

end
