(* ===== verification/Predicates.thy ===== *)
theory Predicates
  imports K8s_Library
begin

section \<open>Which events wake the reconciler (internal/predicate/predicate.go)\<close>

text \<open>
  A predicate of controller-runtime is four functions, one per kind of event, that say whether the
  event is handed to the reconciler. The objects of an event are values of an interface, nil being
  \<open>None\<close>. \<open>reflect.DeepEqual\<close> of two specs is equality; it tells a nil slice from an empty one, which
  the model does not, but \<open>DeepDerivative\<close>, asked next, does not either.
\<close>

subsection \<open>Events\<close>

record CreateEvent =
  ce_Object :: "k8s_object option"

record UpdateEvent =
  ue_ObjectOld :: "k8s_object option"
  ue_ObjectNew :: "k8s_object option"

record DeleteEvent =
  de_Object :: "k8s_object option"
  de_DeleteStateUnknown :: bool

record GenericEvent =
  ge_Object :: "k8s_object option"

record Funcs =
  CreateFunc :: "CreateEvent \<Rightarrow> bool"
  UpdateFunc :: "UpdateEvent \<Rightarrow> bool"
  DeleteFunc :: "DeleteEvent \<Rightarrow> bool"
  GenericFunc :: "GenericEvent \<Rightarrow> bool"

subsection \<open>The filters\<close>

text \<open>The type assertions \<open>obj.(*v1.StatefulSet)\<close> and \<open>obj.(*v12.PersistentVolumeClaim)\<close>.\<close>

definition as_StatefulSet :: "k8s_object option \<Rightarrow> StatefulSet option" where
  "as_StatefulSet obj = (case obj of Some (StatefulSetObject s) \<Rightarrow> Some s | _ \<Rightarrow> None)"

definition as_PersistentVolumeClaim :: "k8s_object option \<Rightarrow> PersistentVolumeClaim option" where
  "as_PersistentVolumeClaim obj = (case obj of Some (PersistentVolumeClaimObject p) \<Rightarrow> Some p | _ \<Rightarrow> None)"

text \<open>\<open>equal\<close>, for the type whose \<open>DeepDerivative\<close> is given.\<close>

definition equal :: "('a \<Rightarrow> 'a \<Rightarrow> bool) \<Rightarrow> 'a \<Rightarrow> 'a \<Rightarrow> bool" where
  "equal deepDerivative x y \<longleftrightarrow> x = y \<or> deepDerivative x y"

definition shouldFilterOutUpdateEventForPersistentVolumeClaim :: "k8s_lib \<Rightarrow> UpdateEvent \<Rightarrow> bool" where
  "shouldFilterOutUpdateEventForPersistentVolumeClaim L event =
     (case as_PersistentVolumeClaim (ue_ObjectOld event) of
        None \<Rightarrow> False
      | Some oldPVC \<Rightarrow>
          (case as_PersistentVolumeClaim (ue_ObjectNew event) of
             None \<Rightarrow> False
           | Some newPVC \<Rightarrow>
               if equal (DeepDerivative_PersistentVolumeClaimSpec L) (pvc_Spec oldPVC) (pvc_Spec newPVC)
               then False else True))"

definition shouldFilterOutUpdateEventForStatefulSet :: "k8s_lib \<Rightarrow> UpdateEvent \<Rightarrow> bool" where
  "shouldFilterOutUpdateEventForStatefulSet L event =
     (case as_StatefulSet (ue_ObjectOld event) of
        None \<Rightarrow> False
      | Some oldStatefulSet \<Rightarrow>
          (case as_StatefulSet (ue_ObjectNew event) of
             None \<Rightarrow> False
           | Some newStatefulSet \<Rightarrow>
               if equal (DeepDerivative_StatefulSetSpec L) (sts_Spec oldStatefulSet) (sts_Spec newStatefulSet)
               then False else True))"

subsection \<open>The three predicates\<close>

definition TeamcityEventPredicates :: Funcs where
  "TeamcityEventPredicates =
     \<lparr>CreateFunc = \<lambda>createEvent. True,
      UpdateFunc = \<lambda>updateEvent. True,
      DeleteFunc = \<lambda>deleteEvent. \<not> de_DeleteStateUnknown deleteEvent,
      GenericFunc = \<lambda>genericEvent. True\<rparr>"

definition StatefulSetEventPredicates :: "k8s_lib \<Rightarrow> Funcs" where
  "StatefulSetEventPredicates L =
     \<lparr>CreateFunc = \<lambda>createEvent. True,
      UpdateFunc = \<lambda>updateEvent. shouldFilterOutUpdateEventForStatefulSet L updateEvent,
      DeleteFunc = \<lambda>deleteEvent. \<not> de_DeleteStateUnknown deleteEvent,
      GenericFunc = \<lambda>genericEvent. True\<rparr>"

definition PersistentVolumeClaimEventPredicates :: "k8s_lib \<Rightarrow> Funcs" where
  "PersistentVolumeClaimEventPredicates L =
     \<lparr>CreateFunc = \<lambda>createEvent. True,
      UpdateFunc = \<lambda>updateEvent. shouldFilterOutUpdateEventForPersistentVolumeClaim L updateEvent,
      DeleteFunc = \<lambda>deleteEvent. \<not> de_DeleteStateUnknown deleteEvent,
      GenericFunc = \<lambda>genericEvent. True\<rparr>"

subsection \<open>What a filter of updates promises\<close>

text \<open>
  \<open>spec_of\<close> reads the part of an object the filter watches, \<open>None\<close> when the object is of another
  kind; \<open>covers x y\<close> is the library's test that \<open>y\<close> has every field \<open>x\<close> sets.
\<close>

locale update_filter =
  fixes spec_of :: "k8s_object \<Rightarrow> 'a option" and covers :: "'a \<Rightarrow> 'a \<Rightarrow> bool"
    and passes :: "UpdateEvent \<Rightarrow> bool"
  assumes passes_iff:
    "passes event \<longleftrightarrow>
       (\<exists>x y. Option.bind (ue_ObjectOld event) spec_of = Some x \<and>
              Option.bind (ue_ObjectNew event) spec_of = Some y \<and> x \<noteq> y \<and> \<not> covers x y)"
begin

lemma same_spec_ignored:
  assumes "Option.bind (ue_ObjectOld event) spec_of = Option.bind (ue_ObjectNew event) spec_of"
  shows "\<not> passes event"
  using assms by (auto simp: passes_iff)

lemma extension_ignored:
  assumes "Option.bind (ue_ObjectOld event) spec_of = Some x"
    and "Option.bind (ue_ObjectNew event) spec_of = Some y" and "covers x y"
  shows "\<not> passes event"
  using assms by (auto simp: passes_iff)

lemma passes_watched: "passes event \<Longrightarrow> Option.bind (ue_ObjectOld event) spec_of \<noteq> None"
  by (auto simp: passes_iff)

end

definition statefulset_spec :: "k8s_object \<Rightarrow> StatefulSetSpec option" where
  "statefulset_spec obj = (case obj of StatefulSetObject s \<Rightarrow> Some (sts_Spec s) | _ \<Rightarrow> None)"

definition claim_spec :: "k8s_object \<Rightarrow> PersistentVolumeClaimSpec option" where
  "claim_spec obj = (case obj of PersistentVolumeClaimObject p \<Rightarrow> Some (pvc_Spec p) | _ \<Rightarrow> None)"

lemma as_StatefulSet_spec: "map_option sts_Spec (as_StatefulSet obj) = Option.bind obj statefulset_spec"
  by (simp add: as_StatefulSet_def statefulset_spec_def split: option.split k8s_object.split)

lemma as_PersistentVolumeClaim_spec:
  "map_option pvc_Spec (as_PersistentVolumeClaim obj) = Option.bind obj claim_spec"
  by (simp add: as_PersistentVolumeClaim_def claim_spec_def split: option.split k8s_object.split)

interpretation statefulset_filter: update_filter statefulset_spec "DeepDerivative_StatefulSetSpec L"
  "UpdateFunc (StatefulSetEventPredicates L)"
  by unfold_locales
    (auto simp: StatefulSetEventPredicates_def shouldFilterOutUpdateEventForStatefulSet_def equal_def
      as_StatefulSet_spec [symmetric] split: option.split)

interpretation claim_filter: update_filter claim_spec "DeepDerivative_PersistentVolumeClaimSpec L"
  "UpdateFunc (PersistentVolumeClaimEventPredicates L)"
  by unfold_locales
    (auto simp: PersistentVolumeClaimEventPredicates_def equal_def
      shouldFilterOutUpdateEventForPersistentVolumeClaim_def
      as_PersistentVolumeClaim_spec [symmetric] split: option.split)

end
