(* ===== verification/Watches.thy ===== *)
theory Watches
  imports Predicates
begin

section \<open>What the controller watches (SetupWithManager in internal/controller/teamcity_controller.go)\<close>

text \<open>
  The controller is registered with a list of watches: the kind it is for, and the kinds it owns, each
  with its predicates, if any. What controller-runtime makes of an event that passes the predicates
  of a watch (a request for the object itself, or for the resource that controls an owned object) is not
  code of the repository, and not modelled.
\<close>

datatype watch_source = For | Owns

record watch =
  watch_Source :: watch_source
  watch_Kind :: kind
  watch_Predicates :: "Funcs option"

record controller_setup =
  setup_Watches :: "watch list"
  setup_MaxConcurrentReconciles :: int

definition SetupWithManager :: "k8s_lib \<Rightarrow> controller_setup" where
  "SetupWithManager L =
     \<lparr>setup_Watches =
        [\<lparr>watch_Source = For, watch_Kind = KindTeamCity, watch_Predicates = Some TeamcityEventPredicates\<rparr>,
         \<lparr>watch_Source = Owns, watch_Kind = KindStatefulSet, watch_Predicates = Some (StatefulSetEventPredicates L)\<rparr>,
         \<lparr>watch_Source = Owns, watch_Kind = KindService, watch_Predicates = None\<rparr>,
         \<lparr>watch_Source = Owns, watch_Kind = KindIngress, watch_Predicates = None\<rparr>,
         \<lparr>watch_Source = Owns, watch_Kind = KindServiceAccount, watch_Predicates = None\<rparr>,
         \<lparr>watch_Source = Owns, watch_Kind = KindPersistentVolumeClaim,
          watch_Predicates = Some (PersistentVolumeClaimEventPredicates L)\<rparr>],
      setup_MaxConcurrentReconciles = 1\<rparr>"

end
