(* ===== verification/Cluster.thy ===== *)
theory Cluster
  imports K8s_Library
begin

section \<open>Talking to the cluster\<close>

text \<open>
  The API server, controller-runtime's client and \<open>controllerutil\<close> are not code of the
  repository. The operator sees them through the functions of a \<open>client\<close> record over a world \<open>'w\<close>
  nothing is assumed about: a call may answer anything, and may change the world in any way, so
  the changes other actors make between two calls are covered too. Each function the operator
  runs is a state transformer over the world and the history of the calls made so far; a call
  appends itself, with the answer it got, to the history.
\<close>

subsection \<open>The client\<close>

text \<open>
  \<open>cl_CreateOrUpdate obj mutate\<close> is \<open>controllerutil.CreateOrUpdate\<close>: the outcome and the object it
  leaves behind \<open>obj\<close>; the \<open>OperationResult\<close> is only logged by the operator and is left out.
  \<open>cl_RetryOnConflict\<close> is \<open>retry.RetryOnConflict(retry.DefaultRetry, fn)\<close> for a closure \<open>fn\<close> that
  changes the object and the world.
\<close>

record 'w client =
  cl_Get_TeamCity :: "NamespacedName \<Rightarrow> 'w \<Rightarrow> (go_error + TeamCity) \<times> 'w"
  cl_Update_TeamCity :: "TeamCity \<Rightarrow> 'w \<Rightarrow> (go_error + unit) \<times> 'w"
  cl_Status_Update_TeamCity :: "TeamCity \<Rightarrow> 'w \<Rightarrow> (go_error + unit) \<times> 'w"
  cl_Get_StatefulSet :: "NamespacedName \<Rightarrow> 'w \<Rightarrow> (go_error + StatefulSet) \<times> 'w"
  cl_Get_ConfigMap :: "NamespacedName \<Rightarrow> 'w \<Rightarrow> (go_error + ConfigMap) \<times> 'w"
  cl_Create_ConfigMap :: "ConfigMap \<Rightarrow> 'w \<Rightarrow> (go_error + unit) \<times> 'w"
  cl_Update_ConfigMap :: "ConfigMap \<Rightarrow> 'w \<Rightarrow> (go_error + unit) \<times> 'w"
  cl_List :: "kind \<Rightarrow> string \<Rightarrow> smap \<Rightarrow> 'w \<Rightarrow> (go_error + k8s_object list) \<times> 'w"
  cl_Delete :: "kind \<Rightarrow> NamespacedName \<Rightarrow> string option \<Rightarrow> 'w \<Rightarrow> (go_error + unit) \<times> 'w"
  cl_CreateOrUpdate :: "k8s_object \<Rightarrow> mutation \<Rightarrow> 'w \<Rightarrow> (unit res \<times> k8s_object) \<times> 'w"
  cl_RetryOnConflict ::
    "(k8s_object \<times> 'w \<Rightarrow> unit res \<times> (k8s_object \<times> 'w)) \<Rightarrow> k8s_object \<times> 'w \<Rightarrow> unit res \<times> (k8s_object \<times> 'w)"

text \<open>
  \<open>TeamcityReconciler\<close>: its client, the library functions (its scheme is used by
  \<open>SetControllerReference\<close> only), and its event recorder, which may be nil.
\<close>

datatype event_type = EventTypeNormal | EventTypeWarning

record 'w TeamcityReconciler =
  r_Client :: "'w client"
  r_Lib :: k8s_lib
  r_Recorder :: "(TeamCity \<Rightarrow> event_type \<Rightarrow> string \<Rightarrow> string \<Rightarrow> 'w \<Rightarrow> 'w) option"

subsection \<open>The history of calls\<close>

datatype api_call =
    GetTeamCity NamespacedName "go_error + TeamCity"
  | UpdateTeamCity TeamCity "go_error + unit"
  | UpdateTeamCityStatus TeamCity "go_error + unit"
  | GetStatefulSet NamespacedName "go_error + StatefulSet"
  | GetConfigMap NamespacedName "go_error + ConfigMap"
  | CreateConfigMap ConfigMap "go_error + unit"
  | UpdateConfigMap ConfigMap "go_error + unit"
  | ListObjects kind string smap "go_error + k8s_object list"
  | DeleteObject kind NamespacedName "string option" "go_error + unit"
  | CreateOrUpdateObject k8s_object "unit res" k8s_object \<comment> \<open>as given, the outcome, as left\<close>
  | RecordEvent TeamCity event_type string string

record 'w sys =
  world :: 'w
  history :: "api_call list"

type_synonym ('w, 'a) act = "('w sys, 'a) state"

abbreviation result :: "'a \<Rightarrow> ('w, 'a) act" where
  "result \<equiv> State_Monad.return"

definition api :: "('w \<Rightarrow> 'a \<times> 'w) \<Rightarrow> ('a \<Rightarrow> api_call) \<Rightarrow> ('w, 'a) act" where
  "api f entry =
     State (\<lambda>s. case f (world s) of
       (a, w') \<Rightarrow> (a, s\<lparr>world := w', history := history s @ [entry a]\<rparr>))"

subsection \<open>The calls\<close>

definition client_Get_TeamCity :: "'w client \<Rightarrow> NamespacedName \<Rightarrow> ('w, go_error + TeamCity) act" where
  "client_Get_TeamCity C n = api (cl_Get_TeamCity C n) (GetTeamCity n)"

definition client_Update_TeamCity :: "'w client \<Rightarrow> TeamCity \<Rightarrow> ('w, go_error + unit) act" where
  "client_Update_TeamCity C t = api (cl_Update_TeamCity C t) (UpdateTeamCity t)"

definition client_Status_Update_TeamCity :: "'w client \<Rightarrow> TeamCity \<Rightarrow> ('w, go_error + unit) act" where
  "client_Status_Update_TeamCity C t = api (cl_Status_Update_TeamCity C t) (UpdateTeamCityStatus t)"

definition client_Get_StatefulSet ::
  "'w client \<Rightarrow> NamespacedName \<Rightarrow> ('w, go_error + StatefulSet) act" where
  "client_Get_StatefulSet C n = api (cl_Get_StatefulSet C n) (GetStatefulSet n)"

definition client_Get_ConfigMap :: "'w client \<Rightarrow> NamespacedName \<Rightarrow> ('w, go_error + ConfigMap) act" where
  "client_Get_ConfigMap C n = api (cl_Get_ConfigMap C n) (GetConfigMap n)"

definition client_Create_ConfigMap :: "'w client \<Rightarrow> ConfigMap \<Rightarrow> ('w, go_error + unit) act" where
  "client_Create_ConfigMap C m = api (cl_Create_ConfigMap C m) (CreateConfigMap m)"

definition client_Update_ConfigMap :: "'w client \<Rightarrow> ConfigMap \<Rightarrow> ('w, go_error + unit) act" where
  "client_Update_ConfigMap C m = api (cl_Update_ConfigMap C m) (UpdateConfigMap m)"

text \<open>\<open>List\<close> with the options \<open>InNamespace\<close> and \<open>MatchingLabels\<close>.\<close>

definition client_List ::
  "'w client \<Rightarrow> kind \<Rightarrow> string \<Rightarrow> smap \<Rightarrow> ('w, go_error + k8s_object list) act" where
  "client_List C k namespace labels = api (cl_List C k namespace labels) (ListObjects k namespace labels)"

text \<open>\<open>Delete\<close> uses the kind and the key of the object; the propagation policy is optional.\<close>

definition client_Delete ::
  "'w client \<Rightarrow> kind \<Rightarrow> NamespacedName \<Rightarrow> string option \<Rightarrow> ('w, go_error + unit) act" where
  "client_Delete C k n policy = api (cl_Delete C k n policy) (DeleteObject k n policy)"

text \<open>
  The two places that apply an object do it in the same way: \<open>CreateOrUpdate\<close> inside
  \<open>RetryOnConflict\<close>, the object being shared by the attempts.
\<close>

definition applyWithRetry :: "'w client \<Rightarrow> k8s_object \<Rightarrow> mutation \<Rightarrow> ('w, unit res \<times> k8s_object) act" where
  "applyWithRetry C obj mutate =
     api (\<lambda>w. case cl_RetryOnConflict C
                    (\<lambda>(ob, w). case cl_CreateOrUpdate C ob mutate w of ((apiError, ob'), w') \<Rightarrow> (apiError, (ob', w')))
                    (obj, w) of
            (err, (obj', w')) \<Rightarrow> ((err, obj'), w'))
         (\<lambda>(err, obj'). CreateOrUpdateObject obj err obj')"

text \<open>\<open>if r.Recorder != nil { r.Recorder.Event(instance, type, reason, message) }\<close>.\<close>

definition recordEvent ::
  "'w TeamcityReconciler \<Rightarrow> TeamCity \<Rightarrow> event_type \<Rightarrow> string \<Rightarrow> string \<Rightarrow> ('w, unit) act" where
  "recordEvent R instance eventtype reason message =
     (case r_Recorder R of
        None \<Rightarrow> result ()
      | Some record \<Rightarrow>
          api (\<lambda>w. ((), record instance eventtype reason message w))
              (\<lambda>_. RecordEvent instance eventtype reason message))"

subsection \<open>Reasoning about every run\<close>

text \<open>A sequence after a branch is a branch of sequences.\<close>

lemma bind_cases [simp]:
  "(case x of Inl e \<Rightarrow> f1 e | Inr a \<Rightarrow> g1 a) \<bind> (h :: 'a \<Rightarrow> ('w, 'b) act) =
     (case x of Inl e \<Rightarrow> f1 e \<bind> h | Inr a \<Rightarrow> g1 a \<bind> h)"
  "(case y of None \<Rightarrow> f2 | Some b \<Rightarrow> g2 b) \<bind> h = (case y of None \<Rightarrow> f2 \<bind> h | Some b \<Rightarrow> g2 b \<bind> h)"
  "(case z of (c, d) \<Rightarrow> f3 c d) \<bind> h = (case z of (c, d) \<Rightarrow> f3 c d \<bind> h)"
  "(case u of Ok a \<Rightarrow> f4 a | Err e \<Rightarrow> g4 e | Panic p \<Rightarrow> h4 p) \<bind> h =
     (case u of Ok a \<Rightarrow> f4 a \<bind> h | Err e \<Rightarrow> g4 e \<bind> h | Panic p \<Rightarrow> h4 p \<bind> h)"
  "(if t then m else n) \<bind> h = (if t then m \<bind> h else n \<bind> h)"
  by (simp_all split: sum.split option.split prod.split res.split)

text \<open>
  \<open>runs m Q\<close>: from every world, \<open>m\<close> returns a value \<open>a\<close> and makes the calls \<open>cs\<close> such that
  \<open>Q a cs\<close>. Nothing is known of the world, so this is what the operator does whatever the
  cluster answers.
\<close>

definition runs :: "('w, 'a) act \<Rightarrow> ('a \<Rightarrow> api_call list \<Rightarrow> bool) \<Rightarrow> bool" where
  "runs m Q \<longleftrightarrow>
     (\<forall>s. \<exists>cs. history (snd (run_state m s)) = history s @ cs \<and> Q (fst (run_state m s)) cs)"

lemma runsD:
  assumes "runs m Q" and "run_state m s = (a, s')"
  obtains cs where "history s' = history s @ cs" "Q a cs"
  using assms unfolding runs_def by (metis fst_conv snd_conv)

lemma runs_history:
  "runs m Q \<Longrightarrow> run_state m s = (a, s') \<Longrightarrow> history s' = history s @ cs \<Longrightarrow> Q a cs"
  by (erule runsD) auto

named_theorems runs_rules "how the steps of the operator run"

lemma runs_return [runs_rules]: "Q a [] \<Longrightarrow> runs (result a) Q"
  by (simp add: runs_def)

lemma runs_api: "(\<And>a. Q a [entry a]) \<Longrightarrow> runs (api f entry) Q"
  by (auto simp: runs_def api_def split: prod.splits)

lemma runs_bind:
  assumes "runs m Q" and "\<And>a cs. Q a cs \<Longrightarrow> runs (f a) (\<lambda>b ds. S b (cs @ ds))"
  shows "runs (m \<bind> f) S"
  unfolding runs_def
proof
  fix s
  obtain a s1 where m: "run_state m s = (a, s1)" by (metis surj_pair)
  with assms(1) obtain cs where cs: "history s1 = history s @ cs" "Q a cs" by (rule runsD)
  obtain b s2 where f: "run_state (f a) s1 = (b, s2)" by (metis surj_pair)
  with assms(2) [OF cs(2)] obtain ds where ds: "history s2 = history s1 @ ds" "S b (cs @ ds)"
    by (rule runsD)
  from m f cs ds show "\<exists>cs. history (snd (run_state (m \<bind> f) s)) = history s @ cs \<and>
      S (fst (run_state (m \<bind> f) s)) cs"
    by auto
qed

lemma runs_mono: "runs m Q \<Longrightarrow> (\<And>a cs. Q a cs \<Longrightarrow> S a cs) \<Longrightarrow> runs m S"
  unfolding runs_def by blast

lemma runs_conj: "runs m Q \<Longrightarrow> runs m S \<Longrightarrow> runs m (\<lambda>a cs. Q a cs \<and> S a cs)"
  unfolding runs_def
proof
  fix s
  assume q: "\<forall>s. \<exists>cs. history (snd (run_state m s)) = history s @ cs \<and> Q (fst (run_state m s)) cs"
    and r: "\<forall>s. \<exists>cs. history (snd (run_state m s)) = history s @ cs \<and> S (fst (run_state m s)) cs"
  from q [rule_format, of s] r [rule_format, of s]
  show "\<exists>cs. history (snd (run_state m s)) = history s @ cs \<and> Q (fst (run_state m s)) cs \<and>
      S (fst (run_state m s)) cs"
    by auto
qed

text \<open>A call that is the first step of a sequence.\<close>

lemma runs_api_bind:
  assumes "\<And>a. runs (f a) (\<lambda>b ds. S b (entry a # ds))"
  shows "runs (api g entry \<bind> f) S"
  by (rule runs_bind [OF runs_api [of "\<lambda>a cs. cs = [entry a]"]]) (use assms in auto)

lemmas client_defs =
  client_Get_TeamCity_def client_Update_TeamCity_def client_Status_Update_TeamCity_def
  client_Get_StatefulSet_def client_Get_ConfigMap_def client_Create_ConfigMap_def
  client_Update_ConfigMap_def client_List_def client_Delete_def applyWithRetry_def

lemma runs_calls [runs_rules]:
  "(\<And>a1. runs (f1 a1) (\<lambda>b ds. S b (GetTeamCity n a1 # ds))) \<Longrightarrow> runs (client_Get_TeamCity C n \<bind> f1) S"
  "(\<And>a2. runs (f2 a2) (\<lambda>b ds. S b (UpdateTeamCity t a2 # ds))) \<Longrightarrow> runs (client_Update_TeamCity C t \<bind> f2) S"
  "(\<And>a3. runs (f3 a3) (\<lambda>b ds. S b (UpdateTeamCityStatus t a3 # ds))) \<Longrightarrow> runs (client_Status_Update_TeamCity C t \<bind> f3) S"
  "(\<And>a4. runs (f4 a4) (\<lambda>b ds. S b (GetStatefulSet n a4 # ds))) \<Longrightarrow> runs (client_Get_StatefulSet C n \<bind> f4) S"
  "(\<And>a5. runs (f5 a5) (\<lambda>b ds. S b (GetConfigMap n a5 # ds))) \<Longrightarrow> runs (client_Get_ConfigMap C n \<bind> f5) S"
  "(\<And>a6. runs (f6 a6) (\<lambda>b ds. S b (CreateConfigMap m a6 # ds))) \<Longrightarrow> runs (client_Create_ConfigMap C m \<bind> f6) S"
  "(\<And>a7. runs (f7 a7) (\<lambda>b ds. S b (UpdateConfigMap m a7 # ds))) \<Longrightarrow> runs (client_Update_ConfigMap C m \<bind> f7) S"
  "(\<And>a8. runs (f8 a8) (\<lambda>b ds. S b (ListObjects k ns l a8 # ds))) \<Longrightarrow> runs (client_List C k ns l \<bind> f8) S"
  "(\<And>a9. runs (f9 a9) (\<lambda>b ds. S b (DeleteObject k n p a9 # ds))) \<Longrightarrow> runs (client_Delete C k n p \<bind> f9) S"
  "(\<And>a10 ob'. runs (f10 (a10, ob')) (\<lambda>b ds. S b (CreateOrUpdateObject ob a10 ob' # ds))) \<Longrightarrow>
     runs (applyWithRetry C ob mutate \<bind> f10) S"
  by (auto simp: client_defs intro!: runs_api_bind)

lemma runs_cases [runs_rules]:
  "(\<And>e. x = Inl e \<Longrightarrow> runs (f1 e) S) \<Longrightarrow> (\<And>a. x = Inr a \<Longrightarrow> runs (g1 a) S) \<Longrightarrow>
     runs (case x of Inl e \<Rightarrow> f1 e | Inr a \<Rightarrow> g1 a) S"
  "(y = None \<Longrightarrow> runs f2 S) \<Longrightarrow> (\<And>b. y = Some b \<Longrightarrow> runs (g2 b) S) \<Longrightarrow>
     runs (case y of None \<Rightarrow> f2 | Some b \<Rightarrow> g2 b) S"
  "(\<And>c d. z = (c, d) \<Longrightarrow> runs (f3 c d) S) \<Longrightarrow> runs (case z of (c, d) \<Rightarrow> f3 c d) S"
  "(\<And>a. u = Ok a \<Longrightarrow> runs (f4 a) S) \<Longrightarrow> (\<And>e. u = Err e \<Longrightarrow> runs (g4 e) S) \<Longrightarrow>
     (\<And>p. u = Panic p \<Longrightarrow> runs (h4 p) S) \<Longrightarrow>
     runs (case u of Ok a \<Rightarrow> f4 a | Err e \<Rightarrow> g4 e | Panic p \<Rightarrow> h4 p) S"
  "(t \<Longrightarrow> runs m S) \<Longrightarrow> (\<not> t \<Longrightarrow> runs n S) \<Longrightarrow> runs (if t then m else n) S"
  by (simp_all split: sum.split option.split prod.split res.split)

subsection \<open>Every call satisfies a condition\<close>

text \<open>\<open>emits I m\<close>: every call \<open>m\<close> makes satisfies \<open>I\<close>.\<close>

definition emits :: "(api_call \<Rightarrow> bool) \<Rightarrow> ('w, 'a) act \<Rightarrow> bool" where
  "emits I m \<longleftrightarrow> runs m (\<lambda>a cs. list_all I cs)"

named_theorems emits_rules "how the condition on calls is established"

lemma emits_return [emits_rules]: "emits I (result a)"
  by (simp add: emits_def runs_return)

lemma emits_bind [emits_rules]: "emits I m \<Longrightarrow> (\<And>a. emits I (f a)) \<Longrightarrow> emits I (m \<bind> f)"
  unfolding emits_def by (rule runs_bind, assumption) (auto elim: runs_mono)

lemma emits_api: "(\<And>a. I (entry a)) \<Longrightarrow> emits I (api f entry)"
  by (simp add: emits_def runs_api)

lemma emits_client [emits_rules]:
  "(\<And>a. I (GetTeamCity n a)) \<Longrightarrow> emits I (client_Get_TeamCity C n)"
  "(\<And>a. I (UpdateTeamCity t a)) \<Longrightarrow> emits I (client_Update_TeamCity C t)"
  "(\<And>a. I (UpdateTeamCityStatus t a)) \<Longrightarrow> emits I (client_Status_Update_TeamCity C t)"
  "(\<And>a. I (GetStatefulSet n a)) \<Longrightarrow> emits I (client_Get_StatefulSet C n)"
  "(\<And>a. I (GetConfigMap n a)) \<Longrightarrow> emits I (client_Get_ConfigMap C n)"
  "(\<And>a. I (CreateConfigMap m a)) \<Longrightarrow> emits I (client_Create_ConfigMap C m)"
  "(\<And>a. I (UpdateConfigMap m a)) \<Longrightarrow> emits I (client_Update_ConfigMap C m)"
  "(\<And>a. I (ListObjects k ns l a)) \<Longrightarrow> emits I (client_List C k ns l)"
  "(\<And>a. I (DeleteObject k n p a)) \<Longrightarrow> emits I (client_Delete C k n p)"
  "(\<And>a ob'. I (CreateOrUpdateObject ob a ob')) \<Longrightarrow> emits I (applyWithRetry C ob f)"
  by (auto simp: client_defs intro!: emits_api)

lemma emits_recordEvent [emits_rules]:
  "I (RecordEvent t e r msg) \<Longrightarrow> emits I (recordEvent R t e r msg)"
  by (auto simp: recordEvent_def intro: emits_return emits_api split: option.splits)

lemma emits_sum [emits_rules]:
  "(\<And>e. x = Inl e \<Longrightarrow> emits I (f e)) \<Longrightarrow> (\<And>a. x = Inr a \<Longrightarrow> emits I (g a)) \<Longrightarrow>
     emits I (case x of Inl e \<Rightarrow> f e | Inr a \<Rightarrow> g a)"
  by (cases x) auto

lemma emits_res [emits_rules]:
  "(\<And>a. x = Ok a \<Longrightarrow> emits I (f a)) \<Longrightarrow> (\<And>e. x = Err e \<Longrightarrow> emits I (g e)) \<Longrightarrow>
     (\<And>p. x = Panic p \<Longrightarrow> emits I (h p)) \<Longrightarrow>
     emits I (case x of Ok a \<Rightarrow> f a | Err e \<Rightarrow> g e | Panic p \<Rightarrow> h p)"
  by (cases x) auto

lemma emits_option [emits_rules]:
  "(x = None \<Longrightarrow> emits I f) \<Longrightarrow> (\<And>a. x = Some a \<Longrightarrow> emits I (g a)) \<Longrightarrow>
     emits I (case x of None \<Rightarrow> f | Some a \<Rightarrow> g a)"
  by (cases x) auto

lemma emits_prod [emits_rules]:
  "(\<And>a b. x = (a, b) \<Longrightarrow> emits I (f a b)) \<Longrightarrow> emits I (case x of (a, b) \<Rightarrow> f a b)"
  by (cases x) auto

lemma emits_if [emits_rules]:
  "(b \<Longrightarrow> emits I m) \<Longrightarrow> (\<not> b \<Longrightarrow> emits I n) \<Longrightarrow> emits I (if b then m else n)"
  by auto

lemma emits_mono: "emits I m \<Longrightarrow> (\<And>c. I c \<Longrightarrow> J c) \<Longrightarrow> emits J m"
  unfolding emits_def by (erule runs_mono) (auto elim: list.pred_mono_strong)

lemma emitsD:
  assumes "emits I m" and "run_state m s = (a, s')"
  obtains cs where "history s' = history s @ cs" "list_all I cs"
  using runsD [OF assms(1) [unfolded emits_def] assms(2)] by blast

subsection \<open>Running one call\<close>

lemma run_api:
  "run_state (api f entry) s =
     (case f (world s) of (a, w') \<Rightarrow> (a, s\<lparr>world := w', history := history s @ [entry a]\<rparr>))"
  by (simp add: api_def)

end
