(* ===== verification/Samples.thy ===== *)
theory Samples
  imports Cluster
begin

section \<open>A concrete library, resource and cluster\<close>

text \<open>
  One value of each parameter of the model, on which the properties with hypotheses are
  instantiated: a library whose functions behave as documented, a small TeamCity resource, and a
  cluster that stores the checkpoint.
\<close>

subsection \<open>The library\<close>

definition sample_owner :: "TeamCity \<Rightarrow> ObjectMeta \<Rightarrow> go_error option \<times> ObjectMeta" where
  "sample_owner owner m = (None, m\<lparr>om_OwnerReferences := [tc_Name owner]\<rparr>)"

definition sample_lib :: k8s_lib where
  "sample_lib =
     \<lparr>Quantity_String = \<lambda>q. if q = '''' then ''0'' else q,
      Quantity_Value = \<lambda>q. 1000,
      ResourceList_Memory = \<lambda>rl. map_get rl ''memory'',
      ResourceList_Storage = \<lambda>rl. map_get rl ''storage'',
      NewQuantity_DecimalSI_String = \<lambda>n. format_nat (nat n),
      DeepDerivative_StatefulSetSpec = \<lambda>x y. x = y,
      DeepDerivative_PersistentVolumeClaimSpec = \<lambda>x y. x = y,
      SetControllerReference = sample_owner,
      RemoveFinalizer = \<lambda>fs f. removeAll f fs,
      range_keys = \<lambda>m. rev (sorted_list_of_fset (fmdom m))\<rparr>"

lemma sample_lib_simps [simp]:
  "Quantity_String sample_lib q = (if q = '''' then ''0'' else q)"
  "ResourceList_Memory sample_lib rl = map_get rl ''memory''"
  "ResourceList_Storage sample_lib rl = map_get rl ''storage''"
  "SetControllerReference sample_lib = sample_owner"
  "DeepDerivative_StatefulSetSpec sample_lib x y \<longleftrightarrow> x = y"
  "RemoveFinalizer sample_lib fs f = removeAll f fs"
  "range_keys sample_lib m = rev (sorted_list_of_fset (fmdom m))"
  by (simp_all add: sample_lib_def)

lemma sample_lib_documented:
  "quantity_strings_not_empty sample_lib" "controller_reference_only sample_lib"
  "controller_reference_stable sample_lib" "visits_all_keys sample_lib"
  by (simp_all add: quantity_strings_not_empty_def controller_reference_only_def
      controller_reference_stable_def sample_owner_def visits_all_keys_def sorted_list_of_fset.rep_eq)

subsection \<open>The resource\<close>

definition sample_claim :: CustomPersistentVolumeClaim where
  "sample_claim =
     \<lparr>cc_Name = ''data-dir'', cc_Annotations = fmempty,
      cc_VolumeMount = \<lparr>vm_Name = ''data-dir'', vm_MountPath = ''/storage'', vm_rest = ''''\<rparr>,
      cc_Spec = zero_PersistentVolumeClaimSpec\<rparr>"

definition sample_node :: "string \<Rightarrow> Node" where
  "sample_node name = \<lparr>node_Name = name, node_Annotations = fmempty, node_Spec = zero_NodeSpec\<rparr>"

definition sample_spec :: "Node list \<Rightarrow> TeamCitySpec" where
  "sample_spec secondaries =
     \<lparr>sp_Image = ''teamcity'', sp_MainNode = sample_node ''main'', sp_SecondaryNodes = secondaries,
      sp_DataDirVolumeClaim = sample_claim, sp_PersistentVolumeClaims = [], sp_XmxPercentage = 95,
      sp_TeamCityServerPort = ''8111'', sp_ReadinessEndpoint = ''ready'', sp_HealthEndpoint = ''health'',
      sp_DatabaseSecret = '''', sp_StartupPropertiesConfig = fmempty, sp_ServiceList = [],
      sp_IngressList = [], sp_ServiceAccount = \<lparr>account_Name = '''', account_Annotations = fmempty\<rparr>\<rparr>"

text \<open>\<open>annotations\<close>, whether it is marked for deletion, and the secondary nodes.\<close>

definition sample_tc :: "smap \<Rightarrow> bool \<Rightarrow> Node list \<Rightarrow> TeamCity" where
  "sample_tc annotations deleted secondaries =
     \<lparr>tc_meta = (named_ObjectMeta ''tc'' ''ns'')
        \<lparr>om_Annotations := annotations, om_DeletionTimestamp := if deleted then Some ''now'' else None\<rparr>,
      tc_Spec = sample_spec secondaries, tc_Status = \<lparr>ts_State = '''', ts_Message = ''''\<rparr>\<rparr>"

lemma sample_tc_simps [simp]:
  "tc_Name (sample_tc a d s) = ''tc''" "tc_Namespace (sample_tc a d s) = ''ns''"
  "tc_Annotations (sample_tc a d s) = a" "tc_Labels (sample_tc a d s) = fmempty"
  "om_DeletionTimestamp (tc_meta (sample_tc a d s)) = (if d then Some ''now'' else None)"
  "tc_MainNode (sample_tc a d s) = sample_node ''main''" "tc_SecondaryNodes (sample_tc a d s) = s"
  "node_Name (sample_node n) = n" "node_Spec (sample_node n) = zero_NodeSpec"
  by (simp_all add: sample_tc_def sample_spec_def sample_node_def named_ObjectMeta_def zero_ObjectMeta_def)

subsection \<open>The cluster\<close>

text \<open>The world is the checkpoint's ConfigMap, if any; StatefulSets answer as told; lists fail.\<close>

definition sample_error :: go_error where
  "sample_error = StatusError OtherReason ''unavailable''"

definition sample_not_found :: go_error where
  "sample_not_found = StatusError NotFound ''not found''"

definition sample_client ::
  "TeamCity \<Rightarrow> (NamespacedName \<Rightarrow> go_error + StatefulSet) \<Rightarrow> (go_error + k8s_object list) \<Rightarrow>
     ConfigMap option client" where
  "sample_client t sts listed =
     \<lparr>cl_Get_TeamCity = \<lambda>n w. (Inr t, w),
      cl_Update_TeamCity = \<lambda>t w. (Inr (), w),
      cl_Status_Update_TeamCity = \<lambda>t w. (Inr (), w),
      cl_Get_StatefulSet = \<lambda>n w. (sts n, w),
      cl_Get_ConfigMap = \<lambda>n w. (case w of None \<Rightarrow> Inl sample_not_found | Some cm \<Rightarrow> Inr cm, w),
      cl_Create_ConfigMap = \<lambda>m w. (Inr (), Some m),
      cl_Update_ConfigMap = \<lambda>m w. (Inr (), Some m),
      cl_List = \<lambda>k ns labels w. (listed, w),
      cl_Delete = \<lambda>k n p w. (Inr (), if k = KindConfigMap then None else w),
      cl_CreateOrUpdate = \<lambda>obj f w. (f obj, w),
      cl_RetryOnConflict = \<lambda>f x. f x\<rparr>"

definition sample_reconciler ::
  "TeamCity \<Rightarrow> (NamespacedName \<Rightarrow> go_error + StatefulSet) \<Rightarrow> (go_error + k8s_object list) \<Rightarrow>
     ConfigMap option TeamcityReconciler" where
  "sample_reconciler t sts listed =
     \<lparr>r_Client = sample_client t sts listed, r_Lib = sample_lib, r_Recorder = None\<rparr>"

lemma sample_reconciler_simps [simp]:
  "r_Client (sample_reconciler t sts listed) = sample_client t sts listed"
  "r_Lib (sample_reconciler t sts listed) = sample_lib"
  "r_Recorder (sample_reconciler t sts listed) = None"
  by (simp_all add: sample_reconciler_def)

text \<open>Running a call of the sample client.\<close>

lemma sample_runs [simp]:
  "run_state (client_Get_TeamCity (sample_client t sts listed) n) s =
     (Inr t, s\<lparr>history := history s @ [GetTeamCity n (Inr t)]\<rparr>)"
  "run_state (client_Update_TeamCity (sample_client t sts listed) t') s =
     (Inr (), s\<lparr>history := history s @ [UpdateTeamCity t' (Inr ())]\<rparr>)"
  "run_state (client_Status_Update_TeamCity (sample_client t sts listed) t') s =
     (Inr (), s\<lparr>history := history s @ [UpdateTeamCityStatus t' (Inr ())]\<rparr>)"
  "run_state (client_Get_StatefulSet (sample_client t sts listed) n) s =
     (sts n, s\<lparr>history := history s @ [GetStatefulSet n (sts n)]\<rparr>)"
  "run_state (client_Get_ConfigMap (sample_client t sts listed) n) s =
     (let r = (case world s of None \<Rightarrow> Inl sample_not_found | Some cm \<Rightarrow> Inr cm) in
      (r, s\<lparr>history := history s @ [GetConfigMap n r]\<rparr>))"
  "run_state (client_Create_ConfigMap (sample_client t sts listed) m) s =
     (Inr (), s\<lparr>world := Some m, history := history s @ [CreateConfigMap m (Inr ())]\<rparr>)"
  "run_state (client_Update_ConfigMap (sample_client t sts listed) m) s =
     (Inr (), s\<lparr>world := Some m, history := history s @ [UpdateConfigMap m (Inr ())]\<rparr>)"
  "run_state (client_List (sample_client t sts listed) k ns labels) s =
     (listed, s\<lparr>history := history s @ [ListObjects k ns labels listed]\<rparr>)"
  "run_state (client_Delete (sample_client t sts listed) k n p) s =
     (Inr (), s\<lparr>world := if k = KindConfigMap then None else world s,
               history := history s @ [DeleteObject k n p (Inr ())]\<rparr>)"
  "run_state (applyWithRetry (sample_client t sts listed) obj f) s =
     (f obj, s\<lparr>history := history s @ [CreateOrUpdateObject obj (fst (f obj)) (snd (f obj))]\<rparr>)"
  by (simp_all add: client_defs run_api sample_client_def Let_def split: prod.split)

end
