(* ===== verification/Admission_Properties.thy ===== *)
theory Admission_Properties
  imports Webhook Watches Samples
begin

section \<open>Properties of admission, labels and event filters\<close>

text \<open>
  The properties of the webhook (\<open>api/v1beta1/teamcity_webhook.go\<close>), of the labels
  (\<open>internal/metadata/label.go\<close>) and of the event predicates (\<open>internal/predicate/predicate.go\<close>),
  each with an instance of it where it has hypotheses.
\<close>

subsection \<open>The webhook\<close>


text \<open>
  (C35) Updating a TeamCity resource is admitted exactly when the new resource is admissible and, if
  a service name changes, the resource allows recreating its StatefulSets. An admitted update
  carries the warning about missing responsibilities when some are given and not all are covered,
  and the warning about the restart when a service name changes.
\<close>

theorem ValidateUpdate_result:
  "ValidateUpdate L t (TeamCityObject old) =
     (if \<not> admissible L t then ([], snd (validateCommonFields L t))
      else if ServiceNameChangedInSpec old t \<and> \<not> AllowsStatefulSetRecreate t
      then ([], Some (AdmissionError serviceNameChangeRefused))
      else
        ((if all_responsibilities_of t = {} \<or> set allTeamCityResponsibilities \<subseteq> all_responsibilities_of t
          then [] else [fst (validateResponsibilitiesOfAllNodes t)]) @
         (if ServiceNameChangedInSpec old t then [serviceNameChangeWarning] else []), None))"
proof (cases "admissible L t")
  case True
  then have "snd (validateCommonFields L t) = None" by (simp add: validateCommonFields_None)
  with True validateCommonFields_warnings [OF True] show ?thesis
    by (cases "validateCommonFields L t") (simp add: ValidateUpdate_def)
next
  case False
  then have "snd (validateCommonFields L t) \<noteq> None" by (simp add: validateCommonFields_None)
  with False show ?thesis by (cases "validateCommonFields L t") (auto simp: ValidateUpdate_def)
qed

text \<open>
  When no two old secondary nodes share a name, a service name counts as changed exactly when
  that of the main node differs or some secondary node present before and after under one name has
  two different service names. A node that is added, removed or renamed does not count.
\<close>

lemma ServiceNameChanged_iff:
  assumes "distinct (map node_Name (tc_SecondaryNodes old))"
  shows "ServiceNameChangedInSpec old updated \<longleftrightarrow>
    ns_ServiceName (node_Spec (tc_MainNode old)) \<noteq> ns_ServiceName (node_Spec (tc_MainNode updated)) \<or>
    (\<exists>a \<in> set (tc_SecondaryNodes old). \<exists>b \<in> set (tc_SecondaryNodes updated).
       node_Name a = node_Name b \<and> ns_ServiceName (node_Spec a) \<noteq> ns_ServiceName (node_Spec b))"
  by (auto simp: ServiceNameChangedInSpec_def secondaryServiceNameChanged_iff
      oldSecondaryServiceNames_distinct [OF assms])

text \<open>
  The memory requests are never the reason of a refusal: the text of a quantity is never
  empty, as its canonical form for a missing quantity is 0, so the check of an empty text passes.
  The same holds for the storage request of a claim.
\<close>

lemma request_checks_pass:
  assumes "quantity_strings_not_empty L"
  shows "validateRequestsOfAllNodes L t = None \<and>
    (claim_complete L claim \<longleftrightarrow> cc_Name claim \<noteq> '''' \<and> vm_Name (cc_VolumeMount claim) \<noteq> '''' \<and>
       vm_MountPath (cc_VolumeMount claim) \<noteq> '''')"
  using assms by (simp add: validateRequestsOfAllNodes_None claim_complete_def quantity_strings_not_empty_def)

text \<open>
  The loops over nodes and claims stop at the first one at fault, and the path of the error holds
  its index.
\<close>

lemma first_node_at_fault:
  "validateResponsibilitiesOfSecondaryNodes idx nodes = Some err \<Longrightarrow>
     \<exists>k < length nodes. \<not> responsibilities_of (nodes ! k) \<subseteq> set validSecondaryNodeResponsibilities \<and>
       (\<forall>j < k. responsibilities_of (nodes ! j) \<subseteq> set validSecondaryNodeResponsibilities) \<and>
       Some err = validateNodeResponsibilities (''teamcity.spec.secondaryNode['' @ format_nat (idx + k) @ '']'')
         (nodes ! k) validSecondaryNodeResponsibilities"
proof (induction idx nodes rule: validateResponsibilitiesOfSecondaryNodes.induct)
  case (1 idx)
  then show ?case by simp
next
  case (2 idx node nodes)
  have ok: "validateNodeResponsibilities path node validSecondaryNodeResponsibilities = None \<longleftrightarrow>
      responsibilities_of node \<subseteq> set validSecondaryNodeResponsibilities" for path
    by (simp add: validateNodeResponsibilities_def responsibilities_of_def Let_def)
  show ?case
  proof (cases "responsibilities_of node \<subseteq> set validSecondaryNodeResponsibilities")
    case True
    then have none: "validateNodeResponsibilities (''teamcity.spec.secondaryNode['' @ format_nat idx @ '']'')
        node validSecondaryNodeResponsibilities = None" by (simp add: ok)
    with "2.prems" "2.IH" obtain k where "k < length nodes"
      "\<not> responsibilities_of (nodes ! k) \<subseteq> set validSecondaryNodeResponsibilities"
      "\<forall>j < k. responsibilities_of (nodes ! j) \<subseteq> set validSecondaryNodeResponsibilities"
      "Some err = validateNodeResponsibilities
         (''teamcity.spec.secondaryNode['' @ format_nat (idx + 1 + k) @ '']'') (nodes ! k)
         validSecondaryNodeResponsibilities"
      by auto
    moreover have "responsibilities_of ((node # nodes) ! j) \<subseteq> set validSecondaryNodeResponsibilities"
      if "j < Suc k" for j
      using that True calculation(3) by (cases j) simp_all
    ultimately show ?thesis by (intro exI [of _ "Suc k"]) simp
  next
    case False
    then obtain e where "validateNodeResponsibilities (''teamcity.spec.secondaryNode['' @ format_nat idx @ '']'')
        node validSecondaryNodeResponsibilities = Some e"
      using ok by fastforce
    with False "2.prems" show ?thesis by (intro exI [of _ 0]) simp
  qed
qed

text \<open>
  A refusal because of a secondary node's responsibilities names the first node that has a
  responsibility a secondary node cannot have, by its index in the list.
\<close>

lemma refusal_names_first_node:
  assumes "validateResponsibilitiesOfSecondaryNodes 0 nodes = Some err"
  shows "\<exists>k < length nodes.
    (\<exists>r \<in> responsibilities_of (nodes ! k). r \<notin> set validSecondaryNodeResponsibilities) \<and>
    (\<forall>j < k. responsibilities_of (nodes ! j) \<subseteq> set validSecondaryNodeResponsibilities) \<and>
    (\<exists>msg. err = ValidationError (''teamcity.spec.secondaryNode['' @ format_nat k @ ''].responsibilities'') msg)"
proof -
  from first_node_at_fault [OF assms] obtain k where "k < length nodes"
    "\<not> responsibilities_of (nodes ! k) \<subseteq> set validSecondaryNodeResponsibilities"
    "\<forall>j < k. responsibilities_of (nodes ! j) \<subseteq> set validSecondaryNodeResponsibilities"
    "Some err = validateNodeResponsibilities (''teamcity.spec.secondaryNode['' @ format_nat k @ '']'')
       (nodes ! k) validSecondaryNodeResponsibilities"
    by auto
  then show ?thesis
    by (intro exI [of _ k]) (auto simp: validateNodeResponsibilities_def Let_def split: if_splits)
qed

subsection \<open>Labels\<close>

text \<open>
  The labels of a node's StatefulSet are those of the TeamCity resource overridden by the
  operator's own: name, component, part-of, the node's role and its name. Whatever labels the
  resource carries, the five are the operator's.
\<close>

lemma StatefulSet_labels:
  "GetStatefulSetLabels n node role il =
     il ++\<^sub>f fmap_of_list
       [(''app.kubernetes.io/name'', n), (''app.kubernetes.io/component'', ''teamcity-server''),
        (''app.kubernetes.io/part-of'', ''teamcity''), (''teamcity.jetbrains.com/role'', role),
        (''teamcity.jetbrains.com/node-name'', node)]"
  unfolding node_labels.labels_eq
  by (rule fmap_ext) (auto simp: label_keys fmlookup_of_list)

text \<open>
  (C37) The selector by which the operator looks for obsolete secondary nodes matches the labels of a
  StatefulSet of the same resource exactly when its role is that of a secondary node and the
  resource does not itself carry another node's name as a label: never the main node's StatefulSet,
  nor the update replica.
\<close>

theorem secondary_selector:
  "GetStatefulSetCommonLabels n ''secondary'' il \<subseteq>\<^sub>f GetStatefulSetLabels n node role il \<longleftrightarrow>
     role = ''secondary'' \<and>
     fmlookup il ''teamcity.jetbrains.com/node-name'' \<in> {None, Some node}"
proof
  let ?sel = "GetStatefulSetCommonLabels n ''secondary'' il" and ?obj = "GetStatefulSetLabels n node role il"
  assume sub: "?sel \<subseteq>\<^sub>f ?obj"
  from sub have "role = ''secondary''" by (rule selector_role)
  moreover have "fmlookup ?sel ''teamcity.jetbrains.com/node-name'' = fmlookup il ''teamcity.jetbrains.com/node-name''"
    by (rule role_labels.carried) (simp add: label_keys)
  moreover have "fmlookup ?obj ''teamcity.jetbrains.com/node-name'' = Some node"
    by (rule node_labels.own_kept) (simp add: label_keys)
  ultimately show "role = ''secondary'' \<and> fmlookup il ''teamcity.jetbrains.com/node-name'' \<in> {None, Some node}"
    using sub by (cases "fmlookup il ''teamcity.jetbrains.com/node-name''") (auto simp: fmsubset_alt_def)
next
  assume role: "role = ''secondary'' \<and> fmlookup il ''teamcity.jetbrains.com/node-name'' \<in> {None, Some node}"
  have "fmlookup (GetStatefulSetLabels n node role il) k = Some v"
    if "fmlookup (GetStatefulSetCommonLabels n ''secondary'' il) k = Some v" for k v
  proof (cases "k = ''teamcity.jetbrains.com/node-name''")
    case True
    with that have "fmlookup il k = Some v" by (subst (asm) role_labels.carried) (simp_all add: label_keys)
    with True role have "v = node" by auto
    with True show ?thesis by (intro node_labels.own_kept) (simp add: label_keys)
  next
    case False
    with that role show ?thesis by (simp add: role_labels.labels_eq node_labels.labels_eq label_keys)
  qed
  then show "GetStatefulSetCommonLabels n ''secondary'' il \<subseteq>\<^sub>f GetStatefulSetLabels n node role il"
    by (auto simp: fmsubset_alt_def)
qed

subsection \<open>Events\<close>

lemma statefulset_spec_iff: "statefulset_spec obj = Some x \<longleftrightarrow> (\<exists>s. obj = StatefulSetObject s \<and> x = sts_Spec s)"
  by (cases obj) (auto simp: statefulset_spec_def)

lemma claim_spec_iff: "claim_spec obj = Some x \<longleftrightarrow> (\<exists>p. obj = PersistentVolumeClaimObject p \<and> x = pvc_Spec p)"
  by (cases obj) (auto simp: claim_spec_def)

text \<open>
  (C40) Six kinds of objects are watched, TeamCity resources for themselves and the others as objects a
  TeamCity resource owns; ConfigMaps, such as the checkpoint of an upgrade, are not. Services,
  ingresses and service accounts have no filter. The filters of the other kinds pass creations, and
  deletions unless the final state is unknown; updates pass the filter of TeamCity resources always,
  and that of StatefulSets and volume claims only if the spec changed and the new one lacks something
  the old one sets, so never when the status alone changed nor when fields were only added.
\<close>

theorem update_filters:
  assumes "w \<in> set (setup_Watches (SetupWithManager L))" and "watch_Kind w = object_kind new"
  shows "map (\<lambda>w. (watch_Source w, watch_Kind w)) (setup_Watches (SetupWithManager L)) =
      [(For, KindTeamCity), (Owns, KindStatefulSet), (Owns, KindService), (Owns, KindIngress),
       (Owns, KindServiceAccount), (Owns, KindPersistentVolumeClaim)] \<and>
    (case watch_Predicates w of
       None \<Rightarrow> watch_Kind w \<in> {KindService, KindIngress, KindServiceAccount}
     | Some f \<Rightarrow>
         watch_Kind w \<in> {KindTeamCity, KindStatefulSet, KindPersistentVolumeClaim} \<and>
         CreateFunc f ce \<and> GenericFunc f ge \<and> (DeleteFunc f de \<longleftrightarrow> \<not> de_DeleteStateUnknown de) \<and>
         (UpdateFunc f \<lparr>ue_ObjectOld = Some old, ue_ObjectNew = Some new\<rparr> \<longleftrightarrow>
           (case new of
              StatefulSetObject s \<Rightarrow> \<exists>s0. old = StatefulSetObject s0 \<and> sts_Spec s0 \<noteq> sts_Spec s \<and>
                \<not> DeepDerivative_StatefulSetSpec L (sts_Spec s0) (sts_Spec s)
            | PersistentVolumeClaimObject p \<Rightarrow> \<exists>p0. old = PersistentVolumeClaimObject p0 \<and> pvc_Spec p0 \<noteq> pvc_Spec p \<and>
                \<not> DeepDerivative_PersistentVolumeClaimSpec L (pvc_Spec p0) (pvc_Spec p)
            | _ \<Rightarrow> True)))"
proof -
  have funcs: "CreateFunc TeamcityEventPredicates ce" "CreateFunc (StatefulSetEventPredicates L) ce"
    "CreateFunc (PersistentVolumeClaimEventPredicates L) ce"
    "GenericFunc TeamcityEventPredicates ge" "GenericFunc (StatefulSetEventPredicates L) ge"
    "GenericFunc (PersistentVolumeClaimEventPredicates L) ge"
    "DeleteFunc TeamcityEventPredicates de = (\<not> de_DeleteStateUnknown de)"
    "DeleteFunc (StatefulSetEventPredicates L) de = (\<not> de_DeleteStateUnknown de)"
    "DeleteFunc (PersistentVolumeClaimEventPredicates L) de = (\<not> de_DeleteStateUnknown de)"
    "UpdateFunc TeamcityEventPredicates event" for event
    by (simp_all add: TeamcityEventPredicates_def StatefulSetEventPredicates_def PersistentVolumeClaimEventPredicates_def)
  show ?thesis
    using assms
    by (cases new) (auto simp: SetupWithManager_def funcs statefulset_filter.passes_iff claim_filter.passes_iff
        statefulset_spec_iff claim_spec_iff)
qed

text \<open>A StatefulSet whose service name changes passes; one of which the status alone changes does not.\<close>

definition sample_watch :: watch where
  "sample_watch = \<lparr>watch_Source = Owns, watch_Kind = KindStatefulSet,
     watch_Predicates = Some (StatefulSetEventPredicates sample_lib)\<rparr>"

theorem update_filters_witness:
  "UpdateFunc (StatefulSetEventPredicates sample_lib)
     \<lparr>ue_ObjectOld = Some (StatefulSetObject zero_StatefulSet),
      ue_ObjectNew = Some (StatefulSetObject (zero_StatefulSet\<lparr>sts_Spec := zero_StatefulSetSpec\<lparr>ss_ServiceName := ''s''\<rparr>\<rparr>))\<rparr> \<and>
   \<not> UpdateFunc (StatefulSetEventPredicates sample_lib)
     \<lparr>ue_ObjectOld = Some (StatefulSetObject zero_StatefulSet),
      ue_ObjectNew = Some (StatefulSetObject (zero_StatefulSet\<lparr>sts_Status := zero_StatefulSetStatus\<lparr>st_ReadyReplicas := 1\<rparr>\<rparr>))\<rparr>"
proof -
  have w: "sample_watch \<in> set (setup_Watches (SetupWithManager sample_lib))" "watch_Kind sample_watch = KindStatefulSet"
    by (simp_all add: sample_watch_def SetupWithManager_def)
  have "zero_StatefulSetSpec \<noteq> zero_StatefulSetSpec\<lparr>ss_ServiceName := ''s''\<rparr>" by (simp add: zero_StatefulSetSpec_def)
  then show ?thesis
    using update_filters [OF w(1), of "StatefulSetObject (zero_StatefulSet\<lparr>sts_Spec := zero_StatefulSetSpec\<lparr>ss_ServiceName := ''s''\<rparr>\<rparr>)"
        "\<lparr>ce_Object = None\<rparr>" "\<lparr>ge_Object = None\<rparr>" "\<lparr>de_Object = None, de_DeleteStateUnknown = True\<rparr>"
        "StatefulSetObject zero_StatefulSet"]
      update_filters [OF w(1), of "StatefulSetObject (zero_StatefulSet\<lparr>sts_Status := zero_StatefulSetStatus\<lparr>st_ReadyReplicas := 1\<rparr>\<rparr>)"
        "\<lparr>ce_Object = None\<rparr>" "\<lparr>ge_Object = None\<rparr>" "\<lparr>de_Object = None, de_DeleteStateUnknown = True\<rparr>"
        "StatefulSetObject zero_StatefulSet"]
    by (simp add: w(2) sample_watch_def zero_StatefulSet_def)
qed

end
