(* ===== verification/Go_Float.thy ===== *)
theory Go_Float
  imports Complex_Main "HOL-Library.Log_Nat"
begin

section \<open>Go's float64, as far as the heap size computation uses it\<close>

text \<open>
  A \<open>float64\<close> is a rational number; each operation rounds the exact result to 53 significant bits,
  ties to even (IEEE 754). The operands here are integers of 64 bits and quotients of them by 100,
  so no result is subnormal or overflows, and the exponent range is left out.
\<close>

subsection \<open>Rounding\<close>

text \<open>\<open>rat_log2 x\<close> is the exponent of a positive \<open>x\<close>: \<open>2 ^ rat_log2 x \<le> x < 2 ^ (rat_log2 x + 1)\<close>.\<close>

definition rat_log2 :: "rat \<Rightarrow> int" where
  "rat_log2 x =
     (case quotient_of x of
        (n, d) \<Rightarrow>
          (let l = int (floorlog 2 (nat n)) - int (floorlog 2 (nat d))
           in if 2 powi l \<le> x then l else l - 1))"

definition round_half_even :: "rat \<Rightarrow> int" where
  "round_half_even x =
     (let f = \<lfloor>x\<rfloor>; r = x - of_int f
      in if r < 1 / 2 then f else if r > 1 / 2 then f + 1 else if even f then f else f + 1)"

definition round_positive :: "rat \<Rightarrow> rat" where
  "round_positive x =
     (let e = rat_log2 x - 52 in of_int (round_half_even (x / 2 powi e)) * 2 powi e)"

definition float64 :: "rat \<Rightarrow> rat" where
  "float64 x = (if x = 0 then 0 else if x < 0 then - round_positive (- x) else round_positive x)"

text \<open>
  \<open>int64(x)\<close> truncates towards zero. For a value out of range the result depends on the
  implementation; this is the one of amd64.
\<close>

definition truncate_rat :: "rat \<Rightarrow> int" where
  "truncate_rat x = (if x < 0 then - \<lfloor>- x\<rfloor> else \<lfloor>x\<rfloor>)"

definition int64_of_float64 :: "rat \<Rightarrow> int" where
  "int64_of_float64 x =
     (let n = truncate_rat x in if - (2 ^ 63) \<le> n \<and> n < 2 ^ 63 then n else - (2 ^ 63))"

subsection \<open>The exponent\<close>

lemma floorlog2_bounds:
  assumes "0 < n"
  shows "(2::rat) powi (int (floorlog 2 (nat n)) - 1) \<le> of_int n"
    and "of_int n < (2::rat) powi int (floorlog 2 (nat n))"
proof -
  let ?b = "floorlog 2 (nat n)"
  from assms have b: "2 ^ (?b - 1) \<le> nat n" "nat n < 2 ^ ?b" "0 < ?b"
    using floorlog_bounds [of "nat n" 2] by (auto simp: floorlog_def)
  from b(2) have "int (nat n) < int (2 ^ ?b)" by (simp only: of_nat_less_iff)
  with assms have "n < 2 ^ ?b" by simp
  then have "(of_int n :: rat) < of_int (2 ^ ?b)" by (simp only: of_int_less_iff)
  then show "of_int n < (2::rat) powi int ?b" by simp
  from b(1) have "int (2 ^ (?b - 1)) \<le> int (nat n)" by (simp only: of_nat_le_iff)
  with assms have "2 ^ (?b - 1) \<le> n" by simp
  then have "(of_int (2 ^ (?b - 1)) :: rat) \<le> of_int n" by (simp only: of_int_le_iff)
  then have "(2::rat) ^ (?b - 1) \<le> of_int n" by simp
  moreover from b(3) have "int ?b - 1 = int (?b - 1)" by simp
  ultimately show "(2::rat) powi (int ?b - 1) \<le> of_int n" by (metis power_int_of_nat)
qed

lemma rat_log2:
  assumes "0 < x"
  shows "2 powi rat_log2 x \<le> x" and "x < 2 powi (rat_log2 x + 1)"
proof -
  obtain n d where q: "quotient_of x = (n, d)" by (metis surj_pair)
  then have d: "0 < d" by (rule quotient_of_denom_pos)
  from q have x: "x = of_int n / of_int d" by (rule quotient_of_div)
  with assms d have n: "0 < n" by (simp add: zero_less_divide_iff)
  let ?bn = "int (floorlog 2 (nat n))" and ?bd = "int (floorlog 2 (nat d))"
  have "x < 2 powi ?bn / 2 powi (?bd - 1)"
    unfolding x using floorlog2_bounds [OF n] floorlog2_bounds [OF d] n d
    by (intro frac_less) auto
  moreover have "(2::rat) powi ?bn / 2 powi (?bd - 1) = 2 powi (?bn - (?bd - 1))"
    by (subst power_int_diff) auto
  ultimately have upper: "x < 2 powi (?bn - ?bd + 1)"
    by (simp only: diff_diff_eq2 diff_add_eq)
  have "2 powi (?bn - 1) / 2 powi ?bd \<le> x"
    unfolding x using floorlog2_bounds [OF n] floorlog2_bounds [OF d] n d
    by (intro frac_le) auto
  moreover have "(2::rat) powi (?bn - 1) / 2 powi ?bd = 2 powi (?bn - 1 - ?bd)"
    by (subst (2) power_int_diff) auto
  moreover have "?bn - 1 - ?bd = ?bn - ?bd - 1" by simp
  ultimately have lower: "2 powi (?bn - ?bd - 1) \<le> x"
    by (simp only:)
  show "2 powi rat_log2 x \<le> x" and "x < 2 powi (rat_log2 x + 1)"
    using upper lower by (auto simp: rat_log2_def q Let_def not_le)
qed

subsection \<open>Rounding to the nearest\<close>

lemma round_half_even_error: "\<bar>of_int (round_half_even x) - x\<bar> \<le> 1 / 2"
proof -
  have "of_int \<lfloor>x\<rfloor> \<le> x" "x < of_int \<lfloor>x\<rfloor> + 1" by linarith+
  then show ?thesis by (auto simp: round_half_even_def Let_def abs_if; linarith)
qed

lemma round_half_even_of_int [simp]: "round_half_even (of_int k) = k"
  by (simp add: round_half_even_def)

lemma round_half_even_le: "x \<le> of_int k \<Longrightarrow> round_half_even x \<le> k"
proof (cases "x = of_int k")
  case False
  assume "x \<le> of_int k"
  with False have "\<lfloor>x\<rfloor> < k" by (simp add: floor_less_iff)
  then show ?thesis by (auto simp: round_half_even_def Let_def)
qed simp

lemma round_half_even_ge: "of_int k \<le> x \<Longrightarrow> k \<le> round_half_even x"
proof -
  assume "of_int k \<le> x"
  then have "k \<le> \<lfloor>x\<rfloor>" by (simp add: le_floor_iff)
  then show ?thesis by (auto simp: round_half_even_def Let_def)
qed

text \<open>A value of 53 significant bits is a float64, and rounding never crosses one.\<close>

definition representable :: "rat \<Rightarrow> bool" where
  "representable y \<longleftrightarrow> (\<exists>m e. \<bar>m\<bar> \<le> 2 ^ 53 \<and> y = of_int m * 2 powi e)"

lemma representable_of_int: "\<bar>m\<bar> \<le> 2 ^ 53 \<Longrightarrow> representable (of_int m)"
  unfolding representable_def by (rule exI [of _ m], rule exI [of _ 0]) simp

lemma representable_scaled:
  assumes "representable y" and "0 < y" and "2 powi k \<le> y"
  shows "\<exists>m. y / 2 powi (k - 52) = of_int m"
proof -
  obtain m e where m: "\<bar>m\<bar> \<le> 2 ^ 53" "y = of_int m * 2 powi e"
    using assms(1) by (auto simp: representable_def)
  show ?thesis
  proof (cases "k - 52 \<le> e")
    case True
    then have "(2::rat) powi e = 2 powi (k - 52) * 2 ^ nat (e - (k - 52))"
      by (simp flip: power_int_of_nat power_int_add)
    with m have "y / 2 powi (k - 52) = of_int (m * 2 ^ nat (e - (k - 52)))" by simp
    then show ?thesis by blast
  next
    case False
    from m(1) have "of_int m \<le> (of_int (2 ^ 53) :: rat)" by (simp only: of_int_le_iff)
    then have m53: "of_int m \<le> (2::rat) powi 53" by simp
    then have "y \<le> 2 powi 53 * 2 powi e" using m(2) by (simp add: mult_right_mono)
    also have "\<dots> = 2 powi (53 + e)" by (subst power_int_add) auto
    finally have y: "y \<le> 2 powi (53 + e)" .
    from False have "53 + e \<le> k" by simp
    then have "(2::rat) powi (53 + e) \<le> 2 powi k" by (intro power_int_increasing) auto
    with y assms(3) have "y = 2 powi k" by simp
    then have "y / 2 powi (k - 52) = 2 powi (k - (k - 52))" by (subst power_int_diff) auto
    then have "y / 2 powi (k - 52) = of_int (2 ^ 52)" by simp
    then show ?thesis by blast
  qed
qed

lemma powi_pos [simp]: "0 < (2::rat) powi e"
  by simp

lemma round_positive_le:
  assumes "0 < x" and "x \<le> y" and "representable y"
  shows "round_positive x \<le> y"
proof -
  let ?k = "rat_log2 x"
  from rat_log2 [OF assms(1)] assms(2) have "2 powi ?k \<le> y" by simp
  with assms obtain m where m: "y / 2 powi (?k - 52) = of_int m"
    using representable_scaled by (meson less_le_trans)
  from assms(2) have "x / 2 powi (?k - 52) \<le> of_int m"
    unfolding m [symmetric] by (intro divide_right_mono) auto
  then have "round_half_even (x / 2 powi (?k - 52)) \<le> m" by (rule round_half_even_le)
  then have "round_positive x \<le> of_int m * 2 powi (?k - 52)"
    by (simp add: round_positive_def Let_def)
  also have "\<dots> = y" by (simp flip: m)
  finally show ?thesis .
qed

lemma round_positive_error:
  assumes "0 < x"
  shows "\<bar>round_positive x - x\<bar> \<le> x / 2 ^ 53"
proof -
  let ?e = "rat_log2 x - 52" and ?q = "x / 2 powi (rat_log2 x - 52)"
  have "round_positive x - x = (of_int (round_half_even ?q) - ?q) * 2 powi ?e"
    by (simp add: round_positive_def Let_def left_diff_distrib)
  then have "\<bar>round_positive x - x\<bar> = \<bar>of_int (round_half_even ?q) - ?q\<bar> * 2 powi ?e"
    by (simp add: abs_mult)
  also have "\<dots> \<le> 1 / 2 * 2 powi ?e" using round_half_even_error by (intro mult_right_mono) auto
  also have "\<dots> = 2 powi rat_log2 x / 2 ^ 53"
    by (subst power_int_diff) auto
  also have "\<dots> \<le> x / 2 ^ 53" using rat_log2 [OF assms] by (intro divide_right_mono) auto
  finally show ?thesis .
qed

lemma float64_error: "\<bar>float64 x - x\<bar> \<le> \<bar>x\<bar> / 2 ^ 53"
  using round_positive_error [of x] round_positive_error [of "- x"]
  by (auto simp: float64_def abs_if split: if_splits)

lemma float64_nonneg: "0 \<le> x \<Longrightarrow> 0 \<le> float64 x"
  using float64_error [of x] by (cases "x = 0") (auto simp: float64_def abs_if split: if_splits)

lemma float64_le:
  assumes "0 \<le> x" and "x \<le> y" and "representable y"
  shows "float64 x \<le> y"
  using assms round_positive_le [of x y] by (auto simp: float64_def)

lemma float64_of_int:
  assumes "0 \<le> m" and "m \<le> 2 ^ 53"
  shows "float64 (of_int m) = of_int m"
proof (cases "m = 0")
  case True
  then show ?thesis by (simp add: float64_def)
next
  case False
  let ?x = "of_int m :: rat"
  from assms False have x: "0 < ?x" by simp
  from assms have rep: "representable ?x" by (intro representable_of_int) simp
  obtain k where k: "?x / 2 powi (rat_log2 ?x - 52) = of_int k"
    using representable_scaled [OF rep x rat_log2(1) [OF x]] by blast
  then have "round_positive ?x = ?x / 2 powi (rat_log2 ?x - 52) * 2 powi (rat_log2 ?x - 52)"
    by (simp add: round_positive_def Let_def)
  with x show ?thesis by (simp add: float64_def)
qed

end
