(* ===== verification/Node_Resources.thy ===== *)
theory Node_Resources
  imports K8s_Library Go_Float
begin

section \<open>The StatefulSet of a node (internal/resource/statefulset_utils.go and its users)\<close>

text \<open>
  How the desired StatefulSet of a TeamCity node is made from the resource: environment, volumes,
  container and spec (\<open>statefulset_utils.go\<close>, \<open>util.go\<close>), which changes of it cannot be applied in
  place (\<open>statefulset_recreate.go\<close>), and the temporary replica of the main node that serves while
  the main node is upgraded (\<open>update_with_ro_utils.go\<close>). A Go function that fills in an object
  through a pointer takes the object and returns it changed.
\<close>

subsection \<open>Startup properties (util.go)\<close>

definition SortKeysAlphabeticallyInMap :: "k8s_lib \<Rightarrow> smap \<Rightarrow> string list" where
  "SortKeysAlphabeticallyInMap L input =
     (let s = fold (\<lambda>k s. s @ [k]) (range_keys L input) [] in sort_Strings s)"

definition ConvertStartUpPropertiesToServerOptions :: "k8s_lib \<Rightarrow> smap \<Rightarrow> string" where
  "ConvertStartUpPropertiesToServerOptions L startupProperties =
     (let sortedKeys = SortKeysAlphabeticallyInMap L startupProperties
      in fold (\<lambda>k res. res @ '' -D'' @ k @ ''='' @ map_get startupProperties k) sortedKeys '''')"

definition ConvertResponsibilitiesToServerOptions :: "string list \<Rightarrow> string" where
  "ConvertResponsibilitiesToServerOptions responsibilities =
     (let stringResponsibilities = strings_Join responsibilities '',''
      in '' -Dteamcity.server.responsibilities='' @ stringResponsibilities)"

subsection \<open>Environment\<close>

definition TEAMCITY_CONTAINER_NAME :: string where
  "TEAMCITY_CONTAINER_NAME = ''teamcity-server''"

definition TEAMCITY_DB_USER_SECRET_KEY :: string where
  "TEAMCITY_DB_USER_SECRET_KEY = ''connectionProperties.user''"

definition TEAMCITY_DB_PASSWORD_SECRET_KEY :: string where
  "TEAMCITY_DB_PASSWORD_SECRET_KEY = ''connectionProperties.password''"

definition TEAMCITY_DB_URL_SECRET_KEY :: string where
  "TEAMCITY_DB_URL_SECRET_KEY = ''connectionUrl''"

definition PodNameEnvVariableBuilder :: EnvVar where
  "PodNameEnvVariableBuilder =
     \<lparr>ev_Name = ''POD_NAME'', ev_Value = '''', ev_ValueFrom = Some (FieldRef ''metadata.name'')\<rparr>"

definition PodNamespaceEnvVariableBuilder :: EnvVar where
  "PodNamespaceEnvVariableBuilder =
     \<lparr>ev_Name = ''POD_NAMESPACE'', ev_Value = '''', ev_ValueFrom = Some (FieldRef ''metadata.namespace'')\<rparr>"

definition DataDirPathEnvVar :: "string \<Rightarrow> EnvVar" where
  "DataDirPathEnvVar dataDirPath =
     \<lparr>ev_Name = ''TEAMCITY_DATA_PATH'', ev_Value = dataDirPath, ev_ValueFrom = None\<rparr>"

definition LogDirPathEnvVar :: "string \<Rightarrow> EnvVar" where
  "LogDirPathEnvVar dataDirPath =
     \<lparr>ev_Name = ''TEAMCITY_LOGS_PATH'', ev_Value = dataDirPath @ ''/logs'', ev_ValueFrom = None\<rparr>"

definition ServerMemOptsEnvVar :: "string \<Rightarrow> EnvVar" where
  "ServerMemOptsEnvVar xmxValue =
     \<lparr>ev_Name = ''TEAMCITY_SERVER_MEM_OPTS'', ev_Value = ''-Xmx'' @ xmxValue, ev_ValueFrom = None\<rparr>"

definition ServerOptsEnvVar :: "string \<Rightarrow> string \<Rightarrow> string \<Rightarrow> EnvVar" where
  "ServerOptsEnvVar dataDirPath nodeName extraServerOpts =
     \<lparr>ev_Name = ''TEAMCITY_SERVER_OPTS'',
      ev_Value = ''-XX:+HeapDumpOnOutOfMemoryError -XX:+DisableExplicitGC'' @
        '' -XX:HeapDumpPath='' @ dataDirPath @ ''/memoryDumps/'' @ nodeName @
        '' -Dteamcity.server.nodeId='' @ nodeName @
        '' -Dteamcity.server.rootURL=http://$(POD_NAME).$(POD_NAMESPACE)'' @
        extraServerOpts,
      ev_ValueFrom = None\<rparr>"

definition DefaultEnvironmentVariableBuilder :: "string \<Rightarrow> string \<Rightarrow> string \<Rightarrow> string \<Rightarrow> EnvVar list" where
  "DefaultEnvironmentVariableBuilder nodeName xmxValue dataDirPath extraServerOpts =
     [PodNameEnvVariableBuilder,
      PodNamespaceEnvVariableBuilder,
      DataDirPathEnvVar dataDirPath,
      LogDirPathEnvVar dataDirPath,
      ServerMemOptsEnvVar xmxValue,
      ServerOptsEnvVar dataDirPath nodeName extraServerOpts]"

definition DatabaseEnvVarBuilder :: "string \<Rightarrow> EnvVar list" where
  "DatabaseEnvVarBuilder databaseSecretName =
     [\<lparr>ev_Name = ''TEAMCITY_DB_USER'', ev_Value = '''',
       ev_ValueFrom = Some (SecretKeyRef databaseSecretName TEAMCITY_DB_USER_SECRET_KEY)\<rparr>,
      \<lparr>ev_Name = ''TEAMCITY_DB_PASSWORD'', ev_Value = '''',
       ev_ValueFrom = Some (SecretKeyRef databaseSecretName TEAMCITY_DB_PASSWORD_SECRET_KEY)\<rparr>,
      \<lparr>ev_Name = ''TEAMCITY_DB_URL'', ev_Value = '''',
       ev_ValueFrom = Some (SecretKeyRef databaseSecretName TEAMCITY_DB_URL_SECRET_KEY)\<rparr>]"

text \<open>
  The heap size in bytes: \<open>ratio := float64(percentage) / 100\<close>, then
  \<open>int64(ratio * float64(requestedMemoryValue))\<close>.
\<close>

definition xmx_bytes :: "int \<Rightarrow> int \<Rightarrow> int" where
  "xmx_bytes percentage requestedMemoryValue =
     (let ratio = float64 (float64 (of_int percentage) / 100)
      in int64_of_float64 (float64 (ratio * float64 (of_int requestedMemoryValue))))"

definition XmxValueCalculator :: "k8s_lib \<Rightarrow> int \<Rightarrow> int \<Rightarrow> string" where
  "XmxValueCalculator L percentage requestedMemoryValue =
     NewQuantity_DecimalSI_String L (xmx_bytes percentage requestedMemoryValue)"

definition BuildEnvVariablesFromGlobalAndNodeSpecificSettings ::
  "k8s_lib \<Rightarrow> TeamCity \<Rightarrow> Node \<Rightarrow> EnvVar list" where
  "BuildEnvVariablesFromGlobalAndNodeSpecificSettings L instance node =
     (let dataDirPath = DataDirPath instance;
          extraServerOpts =
            ConvertStartUpPropertiesToServerOptions L (sp_StartupPropertiesConfig (tc_Spec instance));
          responsibilities =
            (if length (ns_Responsibilities (node_Spec node)) > 0
             then ConvertResponsibilitiesToServerOptions (ns_Responsibilities (node_Spec node))
             else '''');
          extraServerOpts = responsibilities @ extraServerOpts;
          xmxValue = XmxValueCalculator L (sp_XmxPercentage (tc_Spec instance))
                       (Quantity_Value L (ResourceList_Memory L (ns_Requests (node_Spec node))));
          envVars = DefaultEnvironmentVariableBuilder (node_Name node) xmxValue dataDirPath extraServerOpts;
          envVars = envVars @ ns_Env (node_Spec node)
      in if DatabaseSecretProvided instance
         then envVars @ DatabaseEnvVarBuilder (sp_DatabaseSecret (tc_Spec instance))
         else envVars)"

subsection \<open>Volumes\<close>

definition createVolumeFromCustomPersistentVolumeClaim :: "CustomPersistentVolumeClaim \<Rightarrow> Volume" where
  "createVolumeFromCustomPersistentVolumeClaim persistentVolumeClaim =
     \<lparr>vol_Name = cc_Name persistentVolumeClaim,
      vol_Source = PersistentVolumeClaimSource (cc_Name persistentVolumeClaim)\<rparr>"

fun BuildVolumesFromPersistentVolumeClaims :: "CustomPersistentVolumeClaim list \<Rightarrow> Volume list" where
  "BuildVolumesFromPersistentVolumeClaims [] = []"
| "BuildVolumesFromPersistentVolumeClaims (claim # claims) =
     createVolumeFromCustomPersistentVolumeClaim claim # BuildVolumesFromPersistentVolumeClaims claims"

definition createVolumeMountFromCustomPersistentVolumeClaim ::
  "CustomPersistentVolumeClaim \<Rightarrow> VolumeMount" where
  "createVolumeMountFromCustomPersistentVolumeClaim persistentVolumeClaim =
     \<lparr>vm_Name = vm_Name (cc_VolumeMount persistentVolumeClaim),
      vm_MountPath = vm_MountPath (cc_VolumeMount persistentVolumeClaim),
      vm_rest = ''''\<rparr>"

fun BuildVolumeMountsFromPersistentVolumeClaims ::
  "CustomPersistentVolumeClaim list \<Rightarrow> VolumeMount list" where
  "BuildVolumeMountsFromPersistentVolumeClaims [] = []"
| "BuildVolumeMountsFromPersistentVolumeClaims (claim # claims) =
     createVolumeMountFromCustomPersistentVolumeClaim claim #
     BuildVolumeMountsFromPersistentVolumeClaims claims"

subsection \<open>Container and StatefulSet\<close>

definition LifecycleOptionsBuilder :: Lifecycle where
  "LifecycleOptionsBuilder =
     \<lparr>lc_PostStart = None,
      lc_PreStop_Exec_Command = Some [''/bin/sh'', ''-c'', ''/opt/teamcity/bin/shutdown.sh'']\<rparr>"

definition ConfigureContainer :: "k8s_lib \<Rightarrow> TeamCity \<Rightarrow> Node \<Rightarrow> Container \<Rightarrow> Container" where
  "ConfigureContainer L instance node container =
     (let allPersistentVolumeClaims = GetAllCustomPersistentVolumeClaim instance;
          volumeMounts = BuildVolumeMountsFromPersistentVolumeClaims allPersistentVolumeClaims;
          envVars = BuildEnvVariablesFromGlobalAndNodeSpecificSettings L instance node
      in container\<lparr>
           ct_Name := TEAMCITY_CONTAINER_NAME,
           ct_Image := sp_Image (tc_Spec instance),
           ct_ImagePullPolicy := ''IfNotPresent'',
           ct_Lifecycle := Some LifecycleOptionsBuilder,
           ct_LivenessProbe :=
             Some ((ns_LivenessProbeSettings (node_Spec node))
               \<lparr>pr_HTTPGet := Some (sp_ReadinessEndpoint (tc_Spec instance))\<rparr>),
           ct_ReadinessProbe :=
             Some ((ns_ReadinessProbeSettings (node_Spec node))
               \<lparr>pr_HTTPGet := Some (sp_ReadinessEndpoint (tc_Spec instance))\<rparr>),
           ct_StartupProbe :=
             Some ((ns_StartupProbeSettings (node_Spec node))
               \<lparr>pr_HTTPGet := Some (sp_HealthEndpoint (tc_Spec instance))\<rparr>),
           ct_Limits := ns_Limits (node_Spec node),
           ct_Requests := ns_Requests (node_Spec node),
           ct_Ports := [sp_TeamCityServerPort (tc_Spec instance)],
           ct_VolumeMounts := volumeMounts,
           ct_Env := envVars\<rparr>)"

definition ConfigureStatefulSet :: "TeamCity \<Rightarrow> Node \<Rightarrow> StatefulSet \<Rightarrow> StatefulSet" where
  "ConfigureStatefulSet instance node current =
     (let allPersistentVolumeClaims = GetAllCustomPersistentVolumeClaim instance;
          volumes = BuildVolumesFromPersistentVolumeClaims allPersistentVolumeClaims;
          spec = sts_Spec current;
          template = ss_Template spec;
          podSpec = (pt_Spec template)\<lparr>
            ps_Volumes := volumes,
            ps_InitContainers := ns_InitContainers (node_Spec node),
            ps_NodeSelector := ns_NodeSelector (node_Spec node),
            ps_Affinity := Some (ns_Affinity (node_Spec node)),
            ps_SecurityContext := Some (ns_PodSecurityContext (node_Spec node)),
            ps_ServiceAccountName := account_Name (sp_ServiceAccount (tc_Spec instance)),
            ps_DeprecatedServiceAccount := ''''\<rparr>;
          spec = spec\<lparr>
            ss_Replicas := Some 1,
            ss_Template := template\<lparr>pt_Annotations := node_Annotations node, pt_Spec := podSpec\<rparr>\<rparr>;
          spec = (if ns_ServiceName (node_Spec node) \<noteq> ''''
                  then spec\<lparr>ss_ServiceName := ns_ServiceName (node_Spec node)\<rparr>
                  else spec)
      in current\<lparr>sts_Spec := spec\<rparr>)"

text \<open>\<open>sts.Spec.Template.Spec.Containers = containers\<close>.\<close>

definition set_Containers :: "Container list \<Rightarrow> StatefulSet \<Rightarrow> StatefulSet" where
  "set_Containers containers sts =
     (let spec = sts_Spec sts; template = ss_Template spec in
      sts\<lparr>sts_Spec := spec\<lparr>ss_Template := template\<lparr>pt_Spec :=
        (pt_Spec template)\<lparr>ps_Containers := containers\<rparr>\<rparr>\<rparr>\<rparr>)"

definition CreateEmptyStatefulSet :: "string \<Rightarrow> string \<Rightarrow> smap \<Rightarrow> StatefulSet" where
  "CreateEmptyStatefulSet name namespace labels =
     zero_StatefulSet\<lparr>
       sts_meta := (named_ObjectMeta name namespace)\<lparr>om_Labels := labels\<rparr>,
       sts_Spec := zero_StatefulSetSpec\<lparr>
         ss_Selector := Some labels,
         ss_Template := \<lparr>pt_Labels = labels, pt_Annotations = fmempty,
           pt_Spec = zero_PodSpec\<lparr>ps_InitContainers := [], ps_Containers := []\<rparr>\<rparr>\<rparr>\<rparr>"

subsection \<open>Changes that cannot be applied in place (statefulset_recreate.go)\<close>

definition immutableFieldNotSet :: string where
  "immutableFieldNotSet = ''(not set)''"

definition displayStatefulSetFieldValue :: "string \<Rightarrow> string" where
  "displayStatefulSetFieldValue value = (if value = '''' then immutableFieldNotSet else value)"

definition GetImmutableStatefulSetFieldChanges ::
  "StatefulSet \<Rightarrow> StatefulSet \<Rightarrow> ImmutableStatefulSetFieldChange list" where
  "GetImmutableStatefulSetFieldChanges existing desired =
     (let changes = [] in
      if ss_ServiceName (sts_Spec existing) \<noteq> ss_ServiceName (sts_Spec desired)
      then changes @
        [\<lparr>fc_Field = ''spec.serviceName'',
          fc_Current = displayStatefulSetFieldValue (ss_ServiceName (sts_Spec existing)),
          fc_Desired = displayStatefulSetFieldValue (ss_ServiceName (sts_Spec desired))\<rparr>]
      else changes)"

definition ImmutableStatefulSetSpecChanged :: "StatefulSet \<Rightarrow> StatefulSet \<Rightarrow> bool" where
  "ImmutableStatefulSetSpecChanged existing desired =
     (length (GetImmutableStatefulSetFieldChanges existing desired) > 0)"

definition BuildDesiredStatefulSet :: "k8s_lib \<Rightarrow> TeamCity \<Rightarrow> Node \<Rightarrow> smap \<Rightarrow> StatefulSet" where
  "BuildDesiredStatefulSet L instance node labels =
     (let statefulSet = CreateEmptyStatefulSet (node_Name node) (om_Namespace (tc_meta instance)) labels;
          statefulSet = ConfigureStatefulSet instance node statefulSet;
          container = ConfigureContainer L instance node zero_Container
      in set_Containers [container] statefulSet)"

subsection \<open>The update replica (update_with_ro_utils.go)\<close>

definition RoNodeRole :: string where "RoNodeRole = ''update-with-ro''"
definition RoNodePostfix :: string where "RoNodePostfix = ''-update-replica''"

definition BuildRoNode :: "TeamCity \<Rightarrow> string \<Rightarrow> Node" where
  "BuildRoNode instance name =
     \<lparr>node_Name = name, node_Annotations = fmempty,
      node_Spec = zero_NodeSpec\<lparr>ns_Requests := ns_Requests (node_Spec (sp_MainNode (tc_Spec instance)))\<rparr>\<rparr>"

definition GetROStatefulSetNamespacedName :: "TeamCity \<Rightarrow> NamespacedName" where
  "GetROStatefulSetNamespacedName instance =
     \<lparr>nn_Namespace = om_Namespace (tc_meta instance),
      nn_Name = node_Name (sp_MainNode (tc_Spec instance)) @ RoNodePostfix\<rparr>"

definition BuildROStatefulSet :: "TeamCity \<Rightarrow> StatefulSet" where
  "BuildROStatefulSet instance =
     (let node = BuildRoNode instance (nn_Name (GetROStatefulSetNamespacedName instance));
          labels = GetStatefulSetLabels (om_Name (tc_meta instance)) (node_Name node) RoNodeRole
                     (om_Labels (tc_meta instance))
      in zero_StatefulSet\<lparr>sts_meta :=
           (named_ObjectMeta (node_Name node) (om_Namespace (tc_meta instance)))\<lparr>om_Labels := labels\<rparr>\<rparr>)"

text \<open>\<open>containers[0].Env = env\<close>, which writes through to every pod spec sharing the slice.\<close>

definition set_first_Env :: "EnvVar list \<Rightarrow> StatefulSet \<Rightarrow> StatefulSet" where
  "set_first_Env env sts =
     (case ps_Containers (pt_Spec (ss_Template (sts_Spec sts))) of
        [] \<Rightarrow> sts
      | container # containers \<Rightarrow> set_Containers (container\<lparr>ct_Env := env\<rparr> # containers) sts)"

text \<open>
  Returns the outcome, the replica, and the main StatefulSet: the replica's pod spec is a shallow
  copy of the main one, so the environment is written into both. Indexing an empty slice panics.
\<close>

definition UpdateROStatefulSet ::
  "k8s_lib \<Rightarrow> TeamCity \<Rightarrow> StatefulSet \<Rightarrow> StatefulSet \<Rightarrow> unit res \<times> StatefulSet \<times> StatefulSet" where
  "UpdateROStatefulSet L instance mainStatefulSet roStatefulSet =
     (let node = BuildRoNode instance (nn_Name (GetROStatefulSetNamespacedName instance));
          labels = GetStatefulSetLabels (om_Name (tc_meta instance)) (node_Name node) RoNodeRole
                     (om_Labels (tc_meta instance));
          spec = sts_Spec roStatefulSet;
          template = ss_Template spec;
          roStatefulSet = roStatefulSet\<lparr>sts_Spec := spec\<lparr>
            ss_Selector := Some labels,
            ss_Template := template\<lparr>
              pt_Spec := pt_Spec (ss_Template (sts_Spec mainStatefulSet)),
              pt_Labels := labels\<rparr>\<rparr>\<rparr>;
          envVars = BuildEnvVariablesFromGlobalAndNodeSpecificSettings L instance node
      in if ps_Containers (pt_Spec (ss_Template (sts_Spec roStatefulSet))) = []
         then (Panic ''index out of range [0] with length 0'', roStatefulSet, mainStatefulSet)
         else
           (let roStatefulSet = set_first_Env envVars roStatefulSet;
                mainStatefulSet = set_first_Env envVars mainStatefulSet
            in (case setOwner L instance (sts_meta roStatefulSet) of
                  (err, meta) \<Rightarrow> (err, roStatefulSet\<lparr>sts_meta := meta\<rparr>, mainStatefulSet))))"

definition ChangesRequireNodeStatefulSetRestart ::
  "k8s_lib \<Rightarrow> TeamCity \<Rightarrow> Node \<Rightarrow> StatefulSet \<Rightarrow> bool" where
  "ChangesRequireNodeStatefulSetRestart L instance node existing =
     (let desired = ConfigureStatefulSet instance node zero_StatefulSet;
          container = ConfigureContainer L instance node zero_Container;
          desired = set_Containers [container] desired
      in if \<not> DeepDerivative_StatefulSetSpec L (sts_Spec desired) (sts_Spec existing) then True else False)"

end
