(* ===== verification/Builders.thy ===== *)
theory Builders
  imports Node_Resources Cluster
begin

section \<open>The resource builders (internal/resource)\<close>

text \<open>
  One builder per kind of object the operator owns. The Go interface \<open>ResourceBuilder\<close> has four
  methods: the list of empty objects the resource asks for, the function that fills an object in,
  the objects of the cluster nobody asks for any more, and a flag. \<open>Update\<close> changes the object it
  is given and returns an error; here it returns the outcome and the object as it leaves it. A
  failed type assertion panics.
\<close>

subsection \<open>Finding the entry of an object\<close>

definition getPVCIndex :: "k8s_object \<Rightarrow> CustomPersistentVolumeClaim list \<Rightarrow> int" where
  "getPVCIndex object pvcList = first_index (\<lambda>pvc. cc_Name pvc = GetName object) pvcList"

definition getServiceIndex :: "k8s_object \<Rightarrow> Service list \<Rightarrow> int" where
  "getServiceIndex object serviceList = first_index (\<lambda>service. service_Name service = GetName object) serviceList"

definition getIngressIndex :: "k8s_object \<Rightarrow> Ingress list \<Rightarrow> int" where
  "getIngressIndex object ingressList = first_index (\<lambda>ingress. ingress_Name ingress = GetName object) ingressList"

definition getNodeIndex :: "k8s_object \<Rightarrow> Node list \<Rightarrow> int" where
  "getNodeIndex object nodeList = first_index (\<lambda>node. node_Name node = GetName object) nodeList"

definition conversion_panic :: string where
  "conversion_panic = ''interface conversion: client.Object''"

definition not_in_spec :: "string \<Rightarrow> k8s_object \<Rightarrow> go_error" where
  "not_in_spec kindName object =
     WrapError ''failed to update object''
       (FmtError (''the specified '' @ kindName @ '' does not exist: '' @ GetName object))"

subsection \<open>PersistentVolumeClaims (persistentvolumeclaim.go)\<close>

definition PersistentVolumeClaim_BuildObjectList :: "TeamCity \<Rightarrow> k8s_object list" where
  "PersistentVolumeClaim_BuildObjectList instance =
     PersistentVolumeClaimObject
       \<lparr>pvc_meta = named_ObjectMeta (cc_Name (sp_DataDirVolumeClaim (tc_Spec instance)))
                    (om_Namespace (tc_meta instance)),
        pvc_Spec = zero_PersistentVolumeClaimSpec\<rparr> #
     map (\<lambda>pvc. PersistentVolumeClaimObject
            \<lparr>pvc_meta = named_ObjectMeta (cc_Name pvc) (om_Namespace (tc_meta instance)),
             pvc_Spec = zero_PersistentVolumeClaimSpec\<rparr>)
       (sp_PersistentVolumeClaims (tc_Spec instance))"

definition pvcList :: "TeamCity \<Rightarrow> CustomPersistentVolumeClaim list" where
  "pvcList instance = [sp_DataDirVolumeClaim (tc_Spec instance)] @ sp_PersistentVolumeClaims (tc_Spec instance)"

text \<open>The assignments of \<open>Update\<close> before the owner reference, in the source's order.\<close>

definition fillPersistentVolumeClaim ::
  "TeamCity \<Rightarrow> CustomPersistentVolumeClaim \<Rightarrow> PersistentVolumeClaim \<Rightarrow> PersistentVolumeClaim" where
  "fillPersistentVolumeClaim instance desired pvc =
     (let pvc = pvc\<lparr>pvc_meta := (pvc_meta pvc)
            \<lparr>om_Annotations := cc_Annotations desired,
             om_Labels := GetLabels (om_Name (tc_meta instance)) (om_Labels (tc_meta instance))\<rparr>\<rparr>;
          spec = pvc_Spec pvc;
          spec = spec\<lparr>
            pc_AccessModes := pc_AccessModes (cc_Spec desired),
            pc_Selector := pc_Selector (cc_Spec desired),
            pc_Requests := pc_Requests (cc_Spec desired),
            pc_Resources_rest := pc_Resources_rest (cc_Spec desired)\<rparr>;
          spec = (if int (length (pc_VolumeName spec)) < 0
                  then spec\<lparr>pc_VolumeName := pc_VolumeName (cc_Spec desired)\<rparr> else spec);
          spec = (if pc_StorageClassName spec = None
                  then spec\<lparr>pc_StorageClassName := pc_StorageClassName (cc_Spec desired)\<rparr> else spec);
          spec = (if pc_VolumeMode spec = None
                  then spec\<lparr>pc_VolumeMode := pc_VolumeMode (cc_Spec desired)\<rparr> else spec)
      in pvc\<lparr>pvc_Spec := spec\<rparr>)"

definition PersistentVolumeClaim_Update :: "k8s_lib \<Rightarrow> TeamCity \<Rightarrow> mutation" where
  "PersistentVolumeClaim_Update L instance object =
     (let idx = getPVCIndex object (pvcList instance) in
      if idx = -1 then (Err (not_in_spec ''PVC'' object), object)
      else
        (let desired = pvcList instance ! nat idx in
         case object of
           PersistentVolumeClaimObject pvc \<Rightarrow>
             (let pvc = fillPersistentVolumeClaim instance desired pvc in
              case setOwner L instance (pvc_meta pvc) of
                (err, meta) \<Rightarrow> (err, PersistentVolumeClaimObject (pvc\<lparr>pvc_meta := meta\<rparr>)))
         | other \<Rightarrow> (Panic conversion_panic, object)))"

definition PersistentVolumeClaim_GetObsoleteObjects ::
  "'w client \<Rightarrow> TeamCity \<Rightarrow> ('w, go_error + k8s_object list) act" where
  "PersistentVolumeClaim_GetObsoleteObjects C instance =
     do {
       r \<leftarrow> client_List C KindPersistentVolumeClaim (om_Namespace (tc_meta instance))
              (GetLabels (om_Name (tc_meta instance)) (om_Labels (tc_meta instance)));
       (case r of
          Inl err \<Rightarrow> result (Inl err)
        | Inr items \<Rightarrow> result (Inr (filter (\<lambda>pvc. getPVCIndex pvc (pvcList instance) = -1) items)))
     }"

subsection \<open>ServiceAccounts (serviceaccount.go)\<close>

definition getEmptyServiceAccount :: "TeamCity \<Rightarrow> k8s_object" where
  "getEmptyServiceAccount instance =
     ServiceAccountObj \<lparr>sa_meta = named_ObjectMeta (account_Name (sp_ServiceAccount (tc_Spec instance)))
       (om_Namespace (tc_meta instance))\<rparr>"

definition ServiceAccount_BuildObjectList :: "TeamCity \<Rightarrow> k8s_object list" where
  "ServiceAccount_BuildObjectList instance =
     (if ServiceAccountProvided instance then [getEmptyServiceAccount instance] else [])"

definition ServiceAccount_Update :: "k8s_lib \<Rightarrow> TeamCity \<Rightarrow> mutation" where
  "ServiceAccount_Update L instance object =
     (case object of
        ServiceAccountObj serviceAccount \<Rightarrow>
          (let expected = sp_ServiceAccount (tc_Spec instance);
               meta = (sa_meta serviceAccount)
                 \<lparr>om_Annotations := account_Annotations expected,
                  om_Labels := GetLabels (om_Name (tc_meta instance)) (om_Labels (tc_meta instance))\<rparr>
           in case setOwner L instance meta of
                (err, meta) \<Rightarrow> (err, ServiceAccountObj (serviceAccount\<lparr>sa_meta := meta\<rparr>)))
      | other \<Rightarrow> (Panic conversion_panic, object))"

definition ServiceAccount_GetObsoleteObjects ::
  "'w client \<Rightarrow> TeamCity \<Rightarrow> ('w, go_error + k8s_object list) act" where
  "ServiceAccount_GetObsoleteObjects C instance =
     do {
       r \<leftarrow> client_List C KindServiceAccount (om_Namespace (tc_meta instance))
              (GetLabels (om_Name (tc_meta instance)) (om_Labels (tc_meta instance)));
       (case r of
          Inl err \<Rightarrow> result (Inl err)
        | Inr items \<Rightarrow>
            result (Inr (filter
              (\<lambda>sa. \<not> ServiceAccountProvided instance \<or>
                     GetName sa \<noteq> account_Name (sp_ServiceAccount (tc_Spec instance))) items)))
     }"

subsection \<open>Services (service.go)\<close>

definition Service_BuildObjectList :: "TeamCity \<Rightarrow> k8s_object list" where
  "Service_BuildObjectList instance =
     map (\<lambda>service. ServiceObj
            \<lparr>svc_meta = named_ObjectMeta (service_Name service) (om_Namespace (tc_meta instance)),
             svc_Spec = ''''\<rparr>)
       (sp_ServiceList (tc_Spec instance))"

definition Service_Update :: "k8s_lib \<Rightarrow> TeamCity \<Rightarrow> mutation" where
  "Service_Update L instance object =
     (let serviceList = sp_ServiceList (tc_Spec instance);
          idx = getServiceIndex object serviceList in
      if idx = -1 then (Err (not_in_spec ''Service'' object), object)
      else
        (let desired = serviceList ! nat idx in
         case object of
           ServiceObj current \<Rightarrow>
             (let current = current\<lparr>
                    svc_meta := (svc_meta current)
                      \<lparr>om_Labels := GetLabels (om_Name (tc_meta instance)) (om_Labels (tc_meta instance)),
                       om_Annotations := service_Annotations desired\<rparr>,
                    svc_Spec := service_ServiceSpec desired\<rparr>
              in case setOwner L instance (svc_meta current) of
                   (err, meta) \<Rightarrow> (err, ServiceObj (current\<lparr>svc_meta := meta\<rparr>)))
         | other \<Rightarrow> (Panic conversion_panic, object)))"

definition Service_GetObsoleteObjects ::
  "'w client \<Rightarrow> TeamCity \<Rightarrow> ('w, go_error + k8s_object list) act" where
  "Service_GetObsoleteObjects C instance =
     do {
       r \<leftarrow> client_List C KindService (om_Namespace (tc_meta instance))
              (GetLabels (om_Name (tc_meta instance)) (om_Labels (tc_meta instance)));
       (case r of
          Inl err \<Rightarrow> result (Inl err)
        | Inr items \<Rightarrow>
            result (Inr (filter (\<lambda>s. getServiceIndex s (sp_ServiceList (tc_Spec instance)) = -1) items)))
     }"

subsection \<open>Ingresses (ingress.go)\<close>

definition Ingress_BuildObjectList :: "TeamCity \<Rightarrow> k8s_object list" where
  "Ingress_BuildObjectList instance =
     map (\<lambda>ingress. IngressObj
            \<lparr>ing_meta = named_ObjectMeta (ingress_Name ingress) (om_Namespace (tc_meta instance)),
             ing_Spec = ''''\<rparr>)
       (sp_IngressList (tc_Spec instance))"

definition Ingress_Update :: "k8s_lib \<Rightarrow> TeamCity \<Rightarrow> mutation" where
  "Ingress_Update L instance object =
     (let ingressList = sp_IngressList (tc_Spec instance);
          idx = getIngressIndex object ingressList in
      if idx = -1 then (Err (not_in_spec ''Ingress'' object), object)
      else
        (let desired = ingressList ! nat idx in
         case object of
           IngressObj current \<Rightarrow>
             (let current = current\<lparr>
                    ing_meta := (ing_meta current)
                      \<lparr>om_Labels := GetLabels (om_Name (tc_meta instance)) (om_Labels (tc_meta instance)),
                       om_Annotations := ingress_Annotations desired\<rparr>,
                    ing_Spec := ingress_IngressSpec desired\<rparr>
              in case setOwner L instance (ing_meta current) of
                   (err, meta) \<Rightarrow> (err, IngressObj (current\<lparr>ing_meta := meta\<rparr>)))
         | other \<Rightarrow> (Panic conversion_panic, object)))"

definition Ingress_GetObsoleteObjects ::
  "'w client \<Rightarrow> TeamCity \<Rightarrow> ('w, go_error + k8s_object list) act" where
  "Ingress_GetObsoleteObjects C instance =
     do {
       r \<leftarrow> client_List C KindIngress (om_Namespace (tc_meta instance))
              (GetLabels (om_Name (tc_meta instance)) (om_Labels (tc_meta instance)));
       (case r of
          Inl err \<Rightarrow> result (Inl err)
        | Inr items \<Rightarrow>
            result (Inr (filter (\<lambda>ing. getIngressIndex ing (sp_IngressList (tc_Spec instance)) = -1) items)))
     }"

subsection \<open>The StatefulSet of the main node (statefulset.go)\<close>

text \<open>The last steps both StatefulSet builders take: fill in the spec and one container, set the owner.\<close>

definition updateNodeStatefulSet ::
  "k8s_lib \<Rightarrow> TeamCity \<Rightarrow> Node \<Rightarrow> StatefulSet \<Rightarrow> unit res \<times> k8s_object" where
  "updateNodeStatefulSet L instance node statefulSpec =
     (let statefulSpec = ConfigureStatefulSet instance node statefulSpec;
          container = ConfigureContainer L instance node zero_Container;
          statefulSpec = set_Containers [container] statefulSpec
      in case setOwner L instance (sts_meta statefulSpec) of
           (err, meta) \<Rightarrow> (err, StatefulSetObject (statefulSpec\<lparr>sts_meta := meta\<rparr>)))"

definition StatefulSet_BuildObjectList :: "TeamCity \<Rightarrow> k8s_object list" where
  "StatefulSet_BuildObjectList instance =
     (let mainNodeLabels = GetStatefulSetLabels (om_Name (tc_meta instance))
            (node_Name (sp_MainNode (tc_Spec instance))) ''main'' (om_Labels (tc_meta instance));
          mainNode = CreateEmptyStatefulSet (node_Name (sp_MainNode (tc_Spec instance)))
            (om_Namespace (tc_meta instance)) mainNodeLabels
      in [StatefulSetObject mainNode])"

definition StatefulSet_Update :: "k8s_lib \<Rightarrow> TeamCity \<Rightarrow> mutation" where
  "StatefulSet_Update L instance object =
     (case object of
        StatefulSetObject statefulSpec \<Rightarrow>
          (let mainNode = sp_MainNode (tc_Spec instance)
           in updateNodeStatefulSet L instance mainNode statefulSpec)
      | other \<Rightarrow> (Panic conversion_panic, object))"

definition StatefulSet_GetObsoleteObjects ::
  "'w client \<Rightarrow> TeamCity \<Rightarrow> ('w, go_error + k8s_object list) act" where
  "StatefulSet_GetObsoleteObjects C instance = result (Inr [])"

subsection \<open>The StatefulSets of the secondary nodes (secondarystatefulset.go)\<close>

definition SecondaryStatefulSet_BuildObjectList :: "TeamCity \<Rightarrow> k8s_object list" where
  "SecondaryStatefulSet_BuildObjectList instance =
     map (\<lambda>secondaryNode.
            let nodeLabels = GetStatefulSetLabels (om_Name (tc_meta instance))
                  (node_Name secondaryNode) ''secondary'' (om_Labels (tc_meta instance));
                node = CreateEmptyStatefulSet (node_Name secondaryNode)
                  (om_Namespace (tc_meta instance)) nodeLabels
            in StatefulSetObject node)
       (sp_SecondaryNodes (tc_Spec instance))"

definition SecondaryStatefulSet_Update :: "k8s_lib \<Rightarrow> TeamCity \<Rightarrow> mutation" where
  "SecondaryStatefulSet_Update L instance object =
     (let secondaryNodeList = sp_SecondaryNodes (tc_Spec instance);
          idx = getNodeIndex object secondaryNodeList in
      if idx = -1 then (Err (not_in_spec ''Statefulset'' object), object)
      else
        (let desired = secondaryNodeList ! nat idx in
         case object of
           StatefulSetObject statefulSpec \<Rightarrow> updateNodeStatefulSet L instance desired statefulSpec
         | other \<Rightarrow> (Panic conversion_panic, object)))"

definition SecondaryStatefulSet_GetObsoleteObjects ::
  "'w client \<Rightarrow> TeamCity \<Rightarrow> ('w, go_error + k8s_object list) act" where
  "SecondaryStatefulSet_GetObsoleteObjects C instance =
     do {
       let secondaryNodeLabels =
         GetStatefulSetCommonLabels (om_Name (tc_meta instance)) ''secondary'' (om_Labels (tc_meta instance));
       r \<leftarrow> client_List C KindStatefulSet (om_Namespace (tc_meta instance)) secondaryNodeLabels;
       (case r of
          Inl err \<Rightarrow> result (Inl err)
        | Inr items \<Rightarrow>
            result (Inr (filter (\<lambda>sts. getNodeIndex sts (sp_SecondaryNodes (tc_Spec instance)) = -1) items)))
     }"

subsection \<open>The interface value (teamcity_resource_builder.go)\<close>

text \<open>A value of the interface is one of the builders, each holding the resource.\<close>

datatype ResourceBuilder =
    PersistentVolumeClaimBuilder TeamCity
  | ServiceAccountBuilder TeamCity
  | ServiceBuilder TeamCity
  | IngressBuilder TeamCity
  | StatefulSetBuilder TeamCity
  | SecondaryStatefulSetBuilder TeamCity

definition ResourceBuilders :: "TeamCity \<Rightarrow> ResourceBuilder list" where
  "ResourceBuilders instance =
     [PersistentVolumeClaimBuilder instance,
      ServiceAccountBuilder instance,
      ServiceBuilder instance,
      IngressBuilder instance,
      StatefulSetBuilder instance,
      SecondaryStatefulSetBuilder instance]"

text \<open>No implementation of \<open>BuildObjectList\<close> returns an error, but its callers handle one.\<close>

fun BuildObjectList :: "ResourceBuilder \<Rightarrow> go_error + k8s_object list" where
  "BuildObjectList (PersistentVolumeClaimBuilder t) = Inr (PersistentVolumeClaim_BuildObjectList t)"
| "BuildObjectList (ServiceAccountBuilder t) = Inr (ServiceAccount_BuildObjectList t)"
| "BuildObjectList (ServiceBuilder t) = Inr (Service_BuildObjectList t)"
| "BuildObjectList (IngressBuilder t) = Inr (Ingress_BuildObjectList t)"
| "BuildObjectList (StatefulSetBuilder t) = Inr (StatefulSet_BuildObjectList t)"
| "BuildObjectList (SecondaryStatefulSetBuilder t) = Inr (SecondaryStatefulSet_BuildObjectList t)"

fun Update :: "k8s_lib \<Rightarrow> ResourceBuilder \<Rightarrow> mutation" where
  "Update L (PersistentVolumeClaimBuilder t) = PersistentVolumeClaim_Update L t"
| "Update L (ServiceAccountBuilder t) = ServiceAccount_Update L t"
| "Update L (ServiceBuilder t) = Service_Update L t"
| "Update L (IngressBuilder t) = Ingress_Update L t"
| "Update L (StatefulSetBuilder t) = StatefulSet_Update L t"
| "Update L (SecondaryStatefulSetBuilder t) = SecondaryStatefulSet_Update L t"

fun GetObsoleteObjects :: "'w client \<Rightarrow> ResourceBuilder \<Rightarrow> ('w, go_error + k8s_object list) act" where
  "GetObsoleteObjects C (PersistentVolumeClaimBuilder t) = PersistentVolumeClaim_GetObsoleteObjects C t"
| "GetObsoleteObjects C (ServiceAccountBuilder t) = ServiceAccount_GetObsoleteObjects C t"
| "GetObsoleteObjects C (ServiceBuilder t) = Service_GetObsoleteObjects C t"
| "GetObsoleteObjects C (IngressBuilder t) = Ingress_GetObsoleteObjects C t"
| "GetObsoleteObjects C (StatefulSetBuilder t) = StatefulSet_GetObsoleteObjects C t"
| "GetObsoleteObjects C (SecondaryStatefulSetBuilder t) = SecondaryStatefulSet_GetObsoleteObjects C t"

fun UpdateMayRequireStsRecreate :: "ResourceBuilder \<Rightarrow> bool" where
  "UpdateMayRequireStsRecreate (PersistentVolumeClaimBuilder t) = False"
| "UpdateMayRequireStsRecreate (ServiceAccountBuilder t) = False"
| "UpdateMayRequireStsRecreate (ServiceBuilder t) = True"
| "UpdateMayRequireStsRecreate (IngressBuilder t) = True"
| "UpdateMayRequireStsRecreate (StatefulSetBuilder t) = True"
| "UpdateMayRequireStsRecreate (SecondaryStatefulSetBuilder t) = True"

end
