(* ===== verification/Stages.thy ===== *)
theory Stages
  imports Cluster "HOL-Library.Word"
begin

section \<open>Stages of a zero-downtime upgrade (internal/checkpoint/stage.go)\<close>

text \<open>
  A stage is an \<open>int64\<close> with seven named values, written as text into the \<open>stage\<close> key of a
  ConfigMap. The interface \<open>stage_codec\<close> states what the pair of conversions promises to the
  checkpoint that stores a stage and reads it back.
\<close>

subsection \<open>The type\<close>

type_synonym Stage = "64 word"

definition UpdateInitiated :: Stage where "UpdateInitiated = 0"
definition ReplicaCreated :: Stage where "ReplicaCreated = 1"
definition ReplicaStarting :: Stage where "ReplicaStarting = 2"
definition ReplicaReady :: Stage where "ReplicaReady = 3"
definition MainShuttingDown :: Stage where "MainShuttingDown = 4"
definition MainReady :: Stage where "MainReady = 5"
definition UpdateFinished :: Stage where "UpdateFinished = 6"

lemmas stage_defs =
  UpdateInitiated_def ReplicaCreated_def ReplicaStarting_def ReplicaReady_def
  MainShuttingDown_def MainReady_def UpdateFinished_def

definition StageConfigMapKey :: string where "StageConfigMapKey = ''stage''"
definition StageConfigMapNamePrefix :: string where "StageConfigMapNamePrefix = ''update-checkpoint''"

definition StageUpdateInitiated :: string where "StageUpdateInitiated = ''update-initiated''"
definition StageReplicaCreated :: string where "StageReplicaCreated = ''replica-created''"
definition StageReplicaStarting :: string where "StageReplicaStarting = ''replica-starting''"
definition StageReplicaReady :: string where "StageReplicaReady = ''replica-ready''"
definition StageMainShuttingDown :: string where "StageMainShuttingDown = ''main-shutting-down''"
definition StageMainReady :: string where "StageMainReady = ''main-ready''"
definition StageUpdateFinished :: string where "StageUpdateFinished = ''update-finished''"

lemmas stage_string_defs =
  StageUpdateInitiated_def StageReplicaCreated_def StageReplicaStarting_def StageReplicaReady_def
  StageMainShuttingDown_def StageMainReady_def StageUpdateFinished_def

subsection \<open>Conversions\<close>

definition NewStage :: "string \<Rightarrow> Stage" where
  "NewStage stage =
     (if stage = StageReplicaCreated then ReplicaCreated
      else if stage = StageReplicaStarting then ReplicaStarting
      else if stage = StageReplicaReady then ReplicaReady
      else if stage = StageMainReady then MainReady
      else if stage = StageMainShuttingDown then MainShuttingDown
      else if stage = StageUpdateFinished then UpdateFinished
      else UpdateInitiated)"

definition Stage_String :: "Stage \<Rightarrow> string" where
  "Stage_String s =
     (if s = ReplicaCreated then StageReplicaCreated
      else if s = ReplicaStarting then StageReplicaStarting
      else if s = ReplicaReady then StageReplicaReady
      else if s = MainReady then StageMainReady
      else if s = MainShuttingDown then StageMainShuttingDown
      else if s = UpdateFinished then StageUpdateFinished
      else StageUpdateInitiated)"

definition ConstructCheckpointName :: "string \<Rightarrow> string" where
  "ConstructCheckpointName instanceName = StageConfigMapNamePrefix @ ''-'' @ instanceName"

definition BuildCheckpointConfigMap :: "Stage \<Rightarrow> string \<Rightarrow> string \<Rightarrow> ConfigMap" where
  "BuildCheckpointConfigMap s instanceName instanceNamespace =
     \<lparr>cm_meta = named_ObjectMeta (ConstructCheckpointName instanceName) instanceNamespace,
      cm_Data = fmap_of_list [(StageConfigMapKey, Stage_String s)]\<rparr>"

text \<open>The comparison and the subtraction are those of \<open>int64\<close>.\<close>

definition canChangeStageValue :: "Stage \<Rightarrow> Stage \<Rightarrow> go_error + bool" where
  "canChangeStageValue s desired =
     (if sint desired < sint s \<or> sint (desired - s) > 1
      then Inl (FmtError (''illegal stage transition: current stage '' @ [CHR 0x27] @ Stage_String s @
             [CHR 0x27] @ '', desired stage '' @ [CHR 0x27] @ Stage_String desired @ [CHR 0x27] @
             '', difference must be 0 or 1''))
      else Inr True)"

text \<open>On an error the value returned with it is -1.\<close>

definition GetStageStringValueFromConfigMap :: "ConfigMap \<Rightarrow> Stage \<times> go_error option" where
  "GetStageStringValueFromConfigMap configMap =
     (case fmlookup (cm_Data configMap) StageConfigMapKey of
        None \<Rightarrow> (-1, Some (FmtError (''checkpoint ConfigMap is missing '' @ StageConfigMapKey @ '' key'')))
      | Some stageStr \<Rightarrow> (NewStage stageStr, None))"

subsection \<open>The named stages\<close>

definition named_stages :: "Stage list" where
  "named_stages =
     [UpdateInitiated, ReplicaCreated, ReplicaStarting, ReplicaReady, MainShuttingDown, MainReady,
      UpdateFinished]"

lemma named_stage_cases:
  assumes "s \<in> set named_stages"
  obtains "s = UpdateInitiated" | "s = ReplicaCreated" | "s = ReplicaStarting" | "s = ReplicaReady"
    | "s = MainShuttingDown" | "s = MainReady" | "s = UpdateFinished"
  using assms by (auto simp: named_stages_def)

lemma stage_distinct [simp]:
  "UpdateInitiated \<noteq> ReplicaCreated" "UpdateInitiated \<noteq> ReplicaStarting" "UpdateInitiated \<noteq> ReplicaReady"
  "UpdateInitiated \<noteq> MainShuttingDown" "UpdateInitiated \<noteq> MainReady" "UpdateInitiated \<noteq> UpdateFinished"
  "ReplicaCreated \<noteq> UpdateInitiated" "ReplicaCreated \<noteq> ReplicaStarting" "ReplicaCreated \<noteq> ReplicaReady"
  "ReplicaCreated \<noteq> MainShuttingDown" "ReplicaCreated \<noteq> MainReady" "ReplicaCreated \<noteq> UpdateFinished"
  "ReplicaStarting \<noteq> UpdateInitiated" "ReplicaStarting \<noteq> ReplicaCreated" "ReplicaStarting \<noteq> ReplicaReady"
  "ReplicaStarting \<noteq> MainShuttingDown" "ReplicaStarting \<noteq> MainReady" "ReplicaStarting \<noteq> UpdateFinished"
  "ReplicaReady \<noteq> UpdateInitiated" "ReplicaReady \<noteq> ReplicaCreated" "ReplicaReady \<noteq> ReplicaStarting"
  "ReplicaReady \<noteq> MainShuttingDown" "ReplicaReady \<noteq> MainReady" "ReplicaReady \<noteq> UpdateFinished"
  "MainShuttingDown \<noteq> UpdateInitiated" "MainShuttingDown \<noteq> ReplicaCreated" "MainShuttingDown \<noteq> ReplicaStarting"
  "MainShuttingDown \<noteq> ReplicaReady" "MainShuttingDown \<noteq> MainReady" "MainShuttingDown \<noteq> UpdateFinished"
  "MainReady \<noteq> UpdateInitiated" "MainReady \<noteq> ReplicaCreated" "MainReady \<noteq> ReplicaStarting"
  "MainReady \<noteq> ReplicaReady" "MainReady \<noteq> MainShuttingDown" "MainReady \<noteq> UpdateFinished"
  "UpdateFinished \<noteq> UpdateInitiated" "UpdateFinished \<noteq> ReplicaCreated" "UpdateFinished \<noteq> ReplicaStarting"
  "UpdateFinished \<noteq> ReplicaReady" "UpdateFinished \<noteq> MainShuttingDown" "UpdateFinished \<noteq> MainReady"
  by (simp_all add: stage_defs)

lemma NewStage_named: "NewStage str \<in> set named_stages"
  by (simp add: NewStage_def named_stages_def)

lemma NewStage_cases:
  obtains "NewStage str = UpdateInitiated" | "NewStage str = ReplicaCreated"
    | "NewStage str = ReplicaStarting" | "NewStage str = ReplicaReady"
    | "NewStage str = MainShuttingDown" | "NewStage str = MainReady" | "NewStage str = UpdateFinished"
  using NewStage_named [of str] by (rule named_stage_cases)

lemma Stage_String_named:
  "Stage_String UpdateInitiated = ''update-initiated''"
  "Stage_String ReplicaCreated = ''replica-created''"
  "Stage_String ReplicaStarting = ''replica-starting''"
  "Stage_String ReplicaReady = ''replica-ready''"
  "Stage_String MainShuttingDown = ''main-shutting-down''"
  "Stage_String MainReady = ''main-ready''"
  "Stage_String UpdateFinished = ''update-finished''"
  by (simp_all add: Stage_String_def stage_string_defs)

lemma NewStage_String:
  assumes "s \<in> set named_stages"
  shows "NewStage (Stage_String s) = s"
  using assms by (cases rule: named_stage_cases) (simp_all add: NewStage_def Stage_String_def stage_string_defs)

text \<open>The rank of a named stage is its value.\<close>

lemma sint_named_stage:
  assumes "s \<in> set named_stages"
  shows "sint s = uint s" "uint s \<le> 6"
  using assms by (auto simp: named_stages_def stage_defs)

lemma canChange_named_iff:
  assumes "s \<in> set named_stages" and "d \<in> set named_stages"
  shows "canChangeStageValue s d = Inr True \<longleftrightarrow> uint d = uint s \<or> uint d = uint s + 1"
  using assms by (auto simp: named_stages_def canChangeStageValue_def stage_defs)

lemma canChange_False: "canChangeStageValue s d \<noteq> Inr False"
  by (simp add: canChangeStageValue_def)

subsection \<open>The interface of the conversions\<close>

locale stage_codec =
  fixes stages :: "'s set" and encode :: "'s \<Rightarrow> 'e" and decode :: "'e \<Rightarrow> 's"
  assumes decode_encode: "s \<in> stages \<Longrightarrow> decode (encode s) = s"
begin

lemma encode_inj: "s \<in> stages \<Longrightarrow> t \<in> stages \<Longrightarrow> encode s = encode t \<Longrightarrow> s = t"
  by (metis decode_encode)

lemma encode_decode_on_image: "e \<in> encode ` stages \<Longrightarrow> encode (decode e) = e"
  by (auto simp: decode_encode)

end

text \<open>A decoder that gives a stage for every text, known or not.\<close>

locale total_stage_codec = stage_codec +
  assumes decode_in: "decode e \<in> stages"
begin

lemma decode_encode_decode: "decode (encode (decode e)) = decode e"
  by (simp add: decode_encode decode_in)

end

interpretation stage_text: total_stage_codec "set named_stages" Stage_String NewStage
  by unfold_locales (simp_all add: NewStage_String NewStage_named)

lemma GetStage_BuildCheckpoint [simp]:
  "GetStageStringValueFromConfigMap (BuildCheckpointConfigMap s name ns) = (NewStage (Stage_String s), None)"
  by (simp add: GetStageStringValueFromConfigMap_def BuildCheckpointConfigMap_def)

interpretation stage_config_map: stage_codec "set named_stages"
  "\<lambda>s. BuildCheckpointConfigMap s name ns" "\<lambda>cm. fst (GetStageStringValueFromConfigMap cm)"
  by unfold_locales (simp add: stage_text.decode_encode)

end
