(* ===== verification/Checkpoints.thy ===== *)
theory Checkpoints
  imports Stages
begin

section \<open>The checkpoint of an upgrade (internal/checkpoint/checkpoint.go, util.go)\<close>

text \<open>
  A zero-downtime upgrade keeps its stage in a ConfigMap of the cluster, so that the next
  reconciliation goes on where the last one stopped. A \<open>Checkpoint\<close> holds the stage in memory and
  the TeamCity resource it is for; the methods that change the stage through the receiver return
  the changed checkpoint. The client is an argument.
\<close>

record Checkpoint =
  ck_CurrentStage :: Stage
  ck_Instance :: TeamCity

definition zero_ConfigMap :: ConfigMap where
  "zero_ConfigMap = \<lparr>cm_meta = zero_ObjectMeta, cm_Data = fmempty\<rparr>"

subsection \<open>The methods\<close>

definition getInitialStageFromInstance :: "TeamCity \<Rightarrow> Stage" where
  "getInitialStageFromInstance teamcity =
     (if IsMultiNode teamcity then ReplicaReady else UpdateInitiated)"

definition NewCheckpoint :: "TeamCity \<Rightarrow> Checkpoint" where
  "NewCheckpoint instance =
     \<lparr>ck_CurrentStage = getInitialStageFromInstance instance, ck_Instance = instance\<rparr>"

definition getCheckpointConfigMapName :: "Checkpoint \<Rightarrow> string" where
  "getCheckpointConfigMapName c = StageConfigMapNamePrefix @ ''-'' @ om_Name (tc_meta (ck_Instance c))"

definition getNamespacedName :: "Checkpoint \<Rightarrow> NamespacedName" where
  "getNamespacedName c =
     \<lparr>nn_Namespace = om_Namespace (tc_meta (ck_Instance c)), nn_Name = getCheckpointConfigMapName c\<rparr>"

definition toConfigMapObject :: "Checkpoint \<Rightarrow> ConfigMap" where
  "toConfigMapObject c =
     \<lparr>cm_meta = named_ObjectMeta (ConstructCheckpointName (om_Name (tc_meta (ck_Instance c))))
                  (om_Namespace (tc_meta (ck_Instance c))),
      cm_Data = fmap_of_list [(StageConfigMapKey, Stage_String (ck_CurrentStage c))]\<rparr>"

text \<open>On an error the ConfigMap returned with it is the zero value.\<close>

definition Checkpoint_GetConfigMap :: "'w client \<Rightarrow> Checkpoint \<Rightarrow> ('w, ConfigMap \<times> go_error option) act"
  where
  "Checkpoint_GetConfigMap C c =
     do {
       r \<leftarrow> client_Get_ConfigMap C (getNamespacedName c);
       (case r of
          Inl err \<Rightarrow> result (zero_ConfigMap, Some err)
        | Inr configMap \<Rightarrow> result (configMap, None))
     }"

definition FetchCurrentStageFromCluster ::
  "'w client \<Rightarrow> Checkpoint \<Rightarrow> ('w, Stage \<times> go_error option) act" where
  "FetchCurrentStageFromCluster C c =
     do {
       (configMap, err) \<leftarrow> Checkpoint_GetConfigMap C c;
       (case err of
          Some e \<Rightarrow> result (NewStage '''', Some e)
        | None \<Rightarrow> result (GetStageStringValueFromConfigMap configMap))
     }"

definition Checkpoint_Create :: "'w client \<Rightarrow> Checkpoint \<Rightarrow> ('w, go_error option) act" where
  "Checkpoint_Create C c =
     do {
       r \<leftarrow> client_Create_ConfigMap C (toConfigMapObject c);
       (case r of Inl err \<Rightarrow> result (Some err) | Inr u \<Rightarrow> result None)
     }"

text \<open>An error of the update is not returned.\<close>

definition Checkpoint_Update :: "'w client \<Rightarrow> Checkpoint \<Rightarrow> ('w, go_error option) act" where
  "Checkpoint_Update C c =
     do {
       r \<leftarrow> client_Update_ConfigMap C (toConfigMapObject c);
       (case r of Inl err \<Rightarrow> result None | Inr u \<Rightarrow> result None)
     }"

definition Checkpoint_Delete :: "'w client \<Rightarrow> Checkpoint \<Rightarrow> ('w, go_error option) act" where
  "Checkpoint_Delete C c =
     do {
       (configMap, err) \<leftarrow> Checkpoint_GetConfigMap C c;
       (case err of
          Some e \<Rightarrow>
            if \<not> IsNotFound e then result (Some e)
            else do {
              r \<leftarrow> client_Delete C KindConfigMap (meta_key (cm_meta configMap)) None;
              (case r of Inl e' \<Rightarrow> result (Some e') | Inr u \<Rightarrow> result None)
            }
        | None \<Rightarrow>
            do {
              r \<leftarrow> client_Delete C KindConfigMap (meta_key (cm_meta configMap)) None;
              (case r of Inl e' \<Rightarrow> result (Some e') | Inr u \<Rightarrow> result None)
            })
     }"

definition DoCheckpointWithDesiredStage ::
  "'w client \<Rightarrow> Checkpoint \<Rightarrow> Stage \<Rightarrow> ('w, go_error option \<times> Checkpoint) act" where
  "DoCheckpointWithDesiredStage C c desiredStage =
     do {
       (currentStage, err) \<leftarrow> FetchCurrentStageFromCluster C c;
       (case err of
          Some e \<Rightarrow>
            if IsNotFound e
            then do {
              let c = c\<lparr>ck_CurrentStage := desiredStage\<rparr>;
              err \<leftarrow> Checkpoint_Create C c;
              (case err of Some e' \<Rightarrow> result (Some e', c) | None \<Rightarrow> result (None, c))
            }
            else result (Some e, c)
        | None \<Rightarrow>
            do {
              let c = c\<lparr>ck_CurrentStage := currentStage\<rparr>;
              (case canChangeStageValue (ck_CurrentStage c) desiredStage of
                 Inl e \<Rightarrow> result (Some e, c)
               | Inr canChangeStage \<Rightarrow>
                   if canChangeStage
                   then do {
                     let c = c\<lparr>ck_CurrentStage := desiredStage\<rparr>;
                     err \<leftarrow> Checkpoint_Update C c;
                     result (None, c)
                   }
                   else result (None, c))
            })
     }"

definition UpdateStageFromConfigMap ::
  "'w client \<Rightarrow> Checkpoint \<Rightarrow> ('w, go_error option \<times> Checkpoint) act" where
  "UpdateStageFromConfigMap C c =
     do {
       (stage, err) \<leftarrow> FetchCurrentStageFromCluster C c;
       (case err of
          Some e \<Rightarrow>
            if IsNotFound e
            then do {
              let initialStage = getInitialStageFromInstance (ck_Instance c);
              result (None, c\<lparr>ck_CurrentStage := initialStage\<rparr>)
            }
            else result (Some e, c)
        | None \<Rightarrow> result (None, c\<lparr>ck_CurrentStage := stage\<rparr>))
     }"

lemmas checkpoint_defs =
  Checkpoint_GetConfigMap_def FetchCurrentStageFromCluster_def Checkpoint_Create_def
  Checkpoint_Update_def Checkpoint_Delete_def DoCheckpointWithDesiredStage_def
  UpdateStageFromConfigMap_def

subsection \<open>Names\<close>

definition checkpoint_key :: "TeamCity \<Rightarrow> NamespacedName" where
  "checkpoint_key instance =
     \<lparr>nn_Namespace = tc_Namespace instance, nn_Name = ConstructCheckpointName (tc_Name instance)\<rparr>"

lemma getNamespacedName_eq [simp]: "getNamespacedName c = checkpoint_key (ck_Instance c)"
  by (simp add: getNamespacedName_def getCheckpointConfigMapName_def checkpoint_key_def
      ConstructCheckpointName_def)

lemma toConfigMapObject_eq:
  "toConfigMapObject c =
     BuildCheckpointConfigMap (ck_CurrentStage c) (tc_Name (ck_Instance c)) (tc_Namespace (ck_Instance c))"
  by (simp add: toConfigMapObject_def BuildCheckpointConfigMap_def)

lemma checkpoint_object_key:
  "meta_key (cm_meta (toConfigMapObject c)) = checkpoint_key (ck_Instance c)"
  by (simp add: toConfigMapObject_def checkpoint_key_def)

lemma ConstructCheckpointName_inject [simp]:
  "ConstructCheckpointName n = ConstructCheckpointName n' \<longleftrightarrow> n = n'"
  by (simp add: ConstructCheckpointName_def)

subsection \<open>What a checkpoint does to the cluster\<close>

text \<open>
  \<open>read_stage cm\<close> is the stage a stored ConfigMap stands for, \<open>None\<close> when it has no stage key.
\<close>

definition read_stage :: "ConfigMap \<Rightarrow> Stage option" where
  "read_stage cm = map_option NewStage (fmlookup (cm_Data cm) StageConfigMapKey)"

lemma GetStageStringValue_cases:
  "GetStageStringValueFromConfigMap cm =
     (case read_stage cm of
        None \<Rightarrow> (-1, Some (FmtError (''checkpoint ConfigMap is missing '' @ StageConfigMapKey @ '' key'')))
      | Some s \<Rightarrow> (s, None))"
  by (simp add: GetStageStringValueFromConfigMap_def read_stage_def split: option.split)

lemma read_stage_toConfigMapObject: "read_stage (toConfigMapObject c) = Some (NewStage (Stage_String (ck_CurrentStage c)))"
  by (simp add: read_stage_def toConfigMapObject_def)

lemma read_stage_named: "read_stage cm = Some s \<Longrightarrow> s \<in> set named_stages"
  by (auto simp: read_stage_def NewStage_named)

text \<open>The calls of a checkpoint, and its outcome, by the answer to its read.\<close>

definition checkpoint_calls ::
  "Checkpoint \<Rightarrow> Stage \<Rightarrow> go_error option \<times> Checkpoint \<Rightarrow> api_call list \<Rightarrow> bool" where
  "checkpoint_calls c d out cs \<longleftrightarrow>
     (let key = checkpoint_key (ck_Instance c);
          target = toConfigMapObject (c\<lparr>ck_CurrentStage := d\<rparr>) in
      (\<exists>e r. IsNotFound e \<and> cs = [GetConfigMap key (Inl e), CreateConfigMap target r] \<and>
         out = (case r of Inl e' \<Rightarrow> Some e' | Inr u \<Rightarrow> None, c\<lparr>ck_CurrentStage := d\<rparr>)) \<or>
      (\<exists>e. \<not> IsNotFound e \<and> cs = [GetConfigMap key (Inl e)] \<and> out = (Some e, c)) \<or>
      (\<exists>cm. read_stage cm = None \<and> cs = [GetConfigMap key (Inr cm)] \<and> fst out \<noteq> None) \<or>
      (\<exists>cm s e. read_stage cm = Some s \<and> canChangeStageValue s d = Inl e \<and>
         cs = [GetConfigMap key (Inr cm)] \<and> out = (Some e, c\<lparr>ck_CurrentStage := s\<rparr>)) \<or>
      (\<exists>cm s r. read_stage cm = Some s \<and> canChangeStageValue s d = Inr True \<and>
         cs = [GetConfigMap key (Inr cm), UpdateConfigMap target r] \<and>
         out = (None, c\<lparr>ck_CurrentStage := d\<rparr>)))"

lemma canChange_cases:
  obtains e where "canChangeStageValue s d = Inl e" | "canChangeStageValue s d = Inr True"
  by (cases "canChangeStageValue s d") (auto simp: canChangeStageValue_def split: if_splits)

lemma DoCheckpoint_runs: "runs (DoCheckpointWithDesiredStage C c d) (checkpoint_calls c d)"
  unfolding checkpoint_defs
  apply (simp add: Let_def)
  apply (rule runs_rules)
  subgoal for a
    apply (cases a)
    subgoal for e
      by (auto simp: checkpoint_calls_def Let_def intro!: runs_rules)
    subgoal for cm
      apply (cases "read_stage cm")
      subgoal by (auto simp: checkpoint_calls_def Let_def GetStageStringValue_cases intro!: runs_rules)
      subgoal for s
        by (cases rule: canChange_cases [of s d])
          (auto simp: checkpoint_calls_def Let_def GetStageStringValue_cases intro!: runs_rules)
      done
    done
  done

end
