(* ===== verification/Recreate.thy ===== *)
theory Recreate
  imports Builders Checkpoints
begin

section \<open>Feedback to the user, and recreating a StatefulSet (internal/controller)\<close>

text \<open>
  The reconciler's helpers on the cluster (\<open>util.go\<close>), the status and events it writes
  (\<open>teamcity_feedback.go\<close>), and what it does before it applies a StatefulSet whose immutable
  fields have to change (\<open>statefulset_recreate.go\<close>). A method of the reconciler takes it as its
  first argument; logging is left out. A function that returns a value and an error returns a pair
  where its caller may use the value beside the error, and a \<open>res\<close> where it does not.
\<close>

subsection \<open>ctrl.Result and constants\<close>

record Result =
  Requeue :: bool
  RequeueAfter :: int \<comment> \<open>a \<open>time.Duration\<close>, in nanoseconds\<close>

definition zero_Result :: Result where
  "zero_Result = \<lparr>Requeue = False, RequeueAfter = 0\<rparr>"

definition TEAMCITY_CRD_OBJECT_SUCCESS_STATE :: string where
  "TEAMCITY_CRD_OBJECT_SUCCESS_STATE = ''Success''"

definition TEAMCITY_CRD_OBJECT_ERROR_STATE :: string where
  "TEAMCITY_CRD_OBJECT_ERROR_STATE = ''Error''"

definition TEAMCITY_CRD_OBJECT_UPDATING_STATE :: string where
  "TEAMCITY_CRD_OBJECT_UPDATING_STATE = ''Updating''"

definition statefulSetRecreateRequeueInterval :: int where
  "statefulSetRecreateRequeueInterval = 2 * 1000000000"

definition eventReasonStatefulSetRecreateBlocked :: string where
  "eventReasonStatefulSetRecreateBlocked = ''StatefulSetRecreateBlocked''"

definition eventReasonStatefulSetRecreating :: string where
  "eventReasonStatefulSetRecreating = ''StatefulSetRecreating''"

definition DeletePropagationForeground :: string where
  "DeletePropagationForeground = ''Foreground''"

lemmas state_defs =
  TEAMCITY_CRD_OBJECT_SUCCESS_STATE_def TEAMCITY_CRD_OBJECT_ERROR_STATE_def
  TEAMCITY_CRD_OBJECT_UPDATING_STATE_def

subsection \<open>Reading the cluster (util.go)\<close>

definition getTeamCityObjectE ::
  "'w TeamcityReconciler \<Rightarrow> NamespacedName \<Rightarrow> ('w, go_error + TeamCity) act" where
  "getTeamCityObjectE R namespacedName = client_Get_TeamCity (r_Client R) namespacedName"

definition updateTeamCityObjectStatusE ::
  "'w TeamcityReconciler \<Rightarrow> NamespacedName \<Rightarrow> string \<Rightarrow> string \<Rightarrow> ('w, go_error option) act" where
  "updateTeamCityObjectStatusE R namespacedName state status =
     do {
       r \<leftarrow> getTeamCityObjectE R namespacedName;
       (case r of
          Inl err \<Rightarrow> result (Some err)
        | Inr teamcity \<Rightarrow>
            let teamcityStatus = \<lparr>ts_State = state, ts_Message = status\<rparr> in
            if tc_Status teamcity \<noteq> teamcityStatus
            then do {
              let teamcity = teamcity\<lparr>tc_Status := teamcityStatus\<rparr>;
              err \<leftarrow> client_Status_Update_TeamCity (r_Client R) teamcity;
              (case err of Inl e \<Rightarrow> result (Some e) | Inr u \<Rightarrow> result None)
            }
            else result None)
     }"

definition getStatefulSetByName ::
  "'w TeamcityReconciler \<Rightarrow> NamespacedName \<Rightarrow> ('w, go_error + StatefulSet) act" where
  "getStatefulSetByName R namespacedName = client_Get_StatefulSet (r_Client R) namespacedName"

definition isNewestGeneration ::
  "'w TeamcityReconciler \<Rightarrow> NamespacedName \<Rightarrow> ('w, bool \<times> go_error option) act" where
  "isNewestGeneration R namespacedName =
     do {
       r \<leftarrow> getStatefulSetByName R namespacedName;
       (case r of
          Inl err \<Rightarrow> result (False, Some err)
        | Inr statefulSet \<Rightarrow>
            if om_Generation (sts_meta statefulSet) \<noteq> st_ObservedGeneration (sts_Status statefulSet)
            then result (False, None)
            else result (True, None))
     }"

definition isNodeUpdateFinished ::
  "'w TeamcityReconciler \<Rightarrow> NamespacedName \<Rightarrow> ('w, bool \<times> go_error option) act" where
  "isNodeUpdateFinished R namespacedName =
     do {
       r \<leftarrow> getStatefulSetByName R namespacedName;
       (case r of
          Inl err \<Rightarrow> result (False, Some err)
        | Inr statefulSet \<Rightarrow>
            if st_CurrentRevision (sts_Status statefulSet) = st_UpdateRevision (sts_Status statefulSet) \<and>
               st_ReadyReplicas (sts_Status statefulSet) = 1
            then result (True, None)
            else result (False, None))
     }"

text \<open>The loop over the nodes stops at the first StatefulSet that is missing, unreadable or changed.\<close>

fun nodesUpdateChangeStatefulSetSpec ::
  "'w TeamcityReconciler \<Rightarrow> TeamCity \<Rightarrow> Node list \<Rightarrow> ('w, bool \<times> go_error option) act" where
  "nodesUpdateChangeStatefulSetSpec R instance [] = result (False, None)"
| "nodesUpdateChangeStatefulSetSpec R instance (node # nodes) =
     do {
       r \<leftarrow> client_Get_StatefulSet (r_Client R)
              (GetNamespacedNameFromNamespace node (om_Namespace (tc_meta instance)));
       (case r of
          Inl err \<Rightarrow>
            if IsNotFound err then result (False, None) else result (False, Some err)
        | Inr nodeStatefulSet \<Rightarrow>
            if ChangesRequireNodeStatefulSetRestart (r_Lib R) instance node nodeStatefulSet
            then result (True, None)
            else nodesUpdateChangeStatefulSetSpec R instance nodes)
     }"

definition doesNodesUpdateChangeStatefulSetSpec ::
  "'w TeamcityReconciler \<Rightarrow> TeamCity \<Rightarrow> ('w, bool \<times> go_error option) act" where
  "doesNodesUpdateChangeStatefulSetSpec R instance =
     nodesUpdateChangeStatefulSetSpec R instance (GetAllNodes instance)"

definition ongoingZeroDowntimeUpgrade :: "'w TeamcityReconciler \<Rightarrow> TeamCity \<Rightarrow> ('w, bool) act" where
  "ongoingZeroDowntimeUpgrade R instance =
     do {
       let initialCheckpoint = NewCheckpoint instance;
       (stage, err) \<leftarrow> FetchCurrentStageFromCluster (r_Client R) initialCheckpoint;
       (case err of Some e \<Rightarrow> result False | None \<Rightarrow> result True)
     }"

subsection \<open>Feedback (teamcity_feedback.go)\<close>

definition reportRecreateBlocked ::
  "'w TeamcityReconciler \<Rightarrow> TeamCity \<Rightarrow> StatefulSetRecreateBlockedError \<Rightarrow> ('w, unit) act" where
  "reportRecreateBlocked R instance blocked =
     do {
       let message = UserMessage blocked;
       err \<leftarrow> updateTeamCityObjectStatusE R
         \<lparr>nn_Namespace = om_Namespace (tc_meta instance), nn_Name = om_Name (tc_meta instance)\<rparr>
         TEAMCITY_CRD_OBJECT_ERROR_STATE message;
       recordEvent R instance EventTypeWarning eventReasonStatefulSetRecreateBlocked message
     }"

definition reportRecreateInProgress ::
  "'w TeamcityReconciler \<Rightarrow> TeamCity \<Rightarrow> string \<Rightarrow> ImmutableStatefulSetFieldChange list \<Rightarrow> ('w, unit) act"
  where
  "reportRecreateInProgress R instance statefulSetName changes =
     do {
       let message = ''Recreating StatefulSet '' @ strconv_Quote statefulSetName @
         '' because immutable fields changed ('' @ FormatImmutableStatefulSetFieldChanges changes @ '')'';
       err \<leftarrow> updateTeamCityObjectStatusE R
         \<lparr>nn_Namespace = om_Namespace (tc_meta instance), nn_Name = om_Name (tc_meta instance)\<rparr>
         TEAMCITY_CRD_OBJECT_UPDATING_STATE message;
       recordEvent R instance EventTypeNormal eventReasonStatefulSetRecreating message
     }"

subsection \<open>Recreating (statefulset_recreate.go)\<close>

fun isStatefulSetBuilder :: "ResourceBuilder \<Rightarrow> bool" where
  "isStatefulSetBuilder (StatefulSetBuilder t) = True"
| "isStatefulSetBuilder (SecondaryStatefulSetBuilder t) = True"
| "isStatefulSetBuilder builder = False"

text \<open>\<open>Ok None\<close> is the answer \<open>Node{}, false, nil\<close>, \<open>Ok (Some node)\<close> is \<open>node, true, nil\<close>.\<close>

fun nodeForStatefulSetObject :: "TeamCity \<Rightarrow> ResourceBuilder \<Rightarrow> k8s_object \<Rightarrow> Node option res" where
  "nodeForStatefulSetObject instance (StatefulSetBuilder t) object =
     (if GetName object \<noteq> node_Name (sp_MainNode (tc_Spec instance)) then Ok None
      else Ok (Some (sp_MainNode (tc_Spec instance))))"
| "nodeForStatefulSetObject instance (SecondaryStatefulSetBuilder t) object =
     (case find (\<lambda>node. node_Name node = GetName object) (sp_SecondaryNodes (tc_Spec instance)) of
        Some node \<Rightarrow> Ok (Some node)
      | None \<Rightarrow> Err (FmtError (''secondary node '' @ strconv_Quote (GetName object) @
                     '' not found in TeamCity spec'')))"
| "nodeForStatefulSetObject instance builder object = Ok None"

fun statefulSetRoleForBuilder :: "ResourceBuilder \<Rightarrow> string" where
  "statefulSetRoleForBuilder (StatefulSetBuilder t) = ''main''"
| "statefulSetRoleForBuilder (SecondaryStatefulSetBuilder t) = ''secondary''"
| "statefulSetRoleForBuilder builder = ''''"

text \<open>
  The second read of the StatefulSet is the init statement of an \<open>if\<close>, whose error shadows the
  \<open>err\<close> of the function: the test after that \<open>if\<close> reads the outer one, which is nil by then, and
  \<open>errors.IsNotFound(nil)\<close> is false. Both returns that follow return no error.
\<close>

definition outer_err_nil :: "go_error option" where
  "outer_err_nil = None"

definition reconcileStatefulSetBeforeCreateOrUpdate ::
  "'w TeamcityReconciler \<Rightarrow> TeamCity \<Rightarrow> ResourceBuilder \<Rightarrow> k8s_object \<Rightarrow> ('w, Result res) act" where
  "reconcileStatefulSetBeforeCreateOrUpdate R instance builder object =
     (if \<not> isStatefulSetBuilder builder then result (Ok zero_Result)
      else
        (case nodeForStatefulSetObject instance builder object of
           Panic p \<Rightarrow> result (Panic p)
         | Err err \<Rightarrow> result (Err err)
         | Ok None \<Rightarrow> result (Err (FmtError (''unable to resolve node for StatefulSet '' @
                        strconv_Quote (GetName object))))
         | Ok (Some node) \<Rightarrow>
             do {
               let role = statefulSetRoleForBuilder builder;
               let labels = GetStatefulSetLabels (om_Name (tc_meta instance)) (node_Name node) role
                              (om_Labels (tc_meta instance));
               let desired = BuildDesiredStatefulSet (r_Lib R) instance node labels;
               let namespacedName =
                 \<lparr>nn_Namespace = om_Namespace (tc_meta instance), nn_Name = GetName object\<rparr>;
               r \<leftarrow> client_Get_StatefulSet (r_Client R) namespacedName;
               (case r of
                  Inl err \<Rightarrow> if IsNotFound err then result (Ok zero_Result) else result (Err err)
                | Inr existing \<Rightarrow>
                    let changes = GetImmutableStatefulSetFieldChanges existing desired in
                    if length changes = 0 then result (Ok zero_Result)
                    else if \<not> AllowsStatefulSetRecreate instance
                    then result (Err (RecreateBlocked (newStatefulSetRecreateBlockedError
                           (om_Name (sts_meta existing)) (node_Name node) changes)))
                    else do {
                      reportRecreateInProgress R instance (om_Name (sts_meta existing)) changes;
                      d \<leftarrow> client_Delete (r_Client R) KindStatefulSet (meta_key (sts_meta existing))
                             (Some DeletePropagationForeground);
                      (case d of
                         Inl err \<Rightarrow>
                           if \<not> IsNotFound err then result (Err err) else result (Ok zero_Result)
                       | Inr u \<Rightarrow>
                           do {
                             again \<leftarrow> client_Get_StatefulSet (r_Client R) namespacedName;
                             (case again of
                                Inr existing \<Rightarrow>
                                  result (Ok \<lparr>Requeue = True,
                                              RequeueAfter = statefulSetRecreateRequeueInterval\<rparr>)
                              | Inl shadowed \<Rightarrow>
                                  (case outer_err_nil of
                                     None \<Rightarrow> result (Ok zero_Result)
                                   | Some err \<Rightarrow>
                                       if \<not> IsNotFound err then result (Err err)
                                       else result (Ok zero_Result)))
                           })
                    })
             }))"

definition statefulSetRecreateBlockedFromAPIError ::
  "'w TeamcityReconciler \<Rightarrow> TeamCity \<Rightarrow> ResourceBuilder \<Rightarrow> k8s_object \<Rightarrow> go_error \<Rightarrow>
     ('w, StatefulSetRecreateBlockedError option) act" where
  "statefulSetRecreateBlockedFromAPIError R instance builder object apiErr =
     (if \<not> isStatefulSetBuilder builder \<or> \<not> isStatefulSetImmutableFieldUpdateError apiErr
      then result None
      else
        (case nodeForStatefulSetObject instance builder object of
           Ok (Some node) \<Rightarrow>
             do {
               let role = statefulSetRoleForBuilder builder;
               let labels = GetStatefulSetLabels (om_Name (tc_meta instance)) (node_Name node) role
                              (om_Labels (tc_meta instance));
               let desired = BuildDesiredStatefulSet (r_Lib R) instance node labels;
               r \<leftarrow> client_Get_StatefulSet (r_Client R)
                 \<lparr>nn_Namespace = om_Namespace (tc_meta instance), nn_Name = GetName object\<rparr>;
               (case r of
                  Inl err \<Rightarrow> result None
                | Inr existing \<Rightarrow>
                    let changes = GetImmutableStatefulSetFieldChanges existing desired;
                        changes =
                          (if length changes = 0
                           then [\<lparr>fc_Field = ''spec (immutable StatefulSet field)'',
                                  fc_Current = ''(cluster value)'',
                                  fc_Desired = ''(requested value)''\<rparr>]
                           else changes)
                    in result (Some (newStatefulSetRecreateBlockedError
                         (om_Name (sts_meta existing)) (node_Name node) changes)))
             }
         | other \<Rightarrow> result None))"

end
