(* ===== verification/Upgrade_Stages.thy ===== *)
theory Upgrade_Stages
  imports Recreate
begin

section \<open>The steps of a zero-downtime upgrade (internal/controller/checkpoint_stages.go)\<close>

text \<open>
  One handler per stage. A handler acts on the cluster, advances the checkpoint when its condition
  holds, and says whether the reconciliation is to stop here and be queued again (\<open>True\<close>) or to go
  on and apply the builders (\<open>False\<close>). The checkpoint is a pointer in Go; nobody reads it after a
  handler has returned, so the handlers do not return it.
\<close>

subsection \<open>The handlers\<close>

text \<open>\<open>if err != nil { return false, err }; return r, nil\<close>.\<close>

definition on_success :: "'a \<Rightarrow> go_error option \<Rightarrow> 'a res" where
  "on_success a err = (case err of Some e \<Rightarrow> Err e | None \<Rightarrow> Ok a)"

definition HandleUpdateInitiated :: "'w client \<Rightarrow> Checkpoint \<Rightarrow> ('w, bool res) act" where
  "HandleUpdateInitiated C checkpoint =
     do {
       (err, checkpoint) \<leftarrow> DoCheckpointWithDesiredStage C checkpoint ReplicaCreated;
       result (on_success True err)
     }"

text \<open>The closure given to \<open>CreateOrUpdate\<close>: it fills in the replica, through the pointer the object is.\<close>

definition updateReplica :: "k8s_lib \<Rightarrow> TeamCity \<Rightarrow> StatefulSet \<Rightarrow> mutation" where
  "updateReplica L instance mainStatefulSet object =
     (case object of
        StatefulSetObject roStatefulSet \<Rightarrow>
          (case UpdateROStatefulSet L instance mainStatefulSet roStatefulSet of
             (err, roStatefulSet, mainStatefulSet) \<Rightarrow> (err, StatefulSetObject roStatefulSet))
      | other \<Rightarrow> (Panic conversion_panic, object))"

text \<open>The error of \<open>CreateOrUpdate\<close> is overwritten before anyone looks at it; a panic is not.\<close>

definition HandleReplicaCreated ::
  "'w TeamcityReconciler \<Rightarrow> Checkpoint \<Rightarrow> ('w, bool res) act" where
  "HandleReplicaCreated R checkpoint =
     do {
       let instance = ck_Instance checkpoint;
       let mainNodeNamespacedName =
         GetNamespacedNameFromNamespace (sp_MainNode (tc_Spec instance)) (om_Namespace (tc_meta instance));
       r \<leftarrow> client_Get_StatefulSet (r_Client R) mainNodeNamespacedName;
       (case r of
          Inl err \<Rightarrow> result (Err err)
        | Inr mainStatefulSet \<Rightarrow>
            do {
              let roStatefulSet = BuildROStatefulSet instance;
              (err, object) \<leftarrow> applyWithRetry (r_Client R) (StatefulSetObject roStatefulSet)
                (updateReplica (r_Lib R) instance mainStatefulSet);
              (case err of
                 Panic p \<Rightarrow> result (Panic p)
               | ignored \<Rightarrow>
                   do {
                     (err, checkpoint) \<leftarrow> DoCheckpointWithDesiredStage (r_Client R) checkpoint ReplicaStarting;
                     result (on_success True err)
                   })
            })
     }"

definition HandleReplicaStarting ::
  "'w TeamcityReconciler \<Rightarrow> Checkpoint \<Rightarrow> ('w, bool res) act" where
  "HandleReplicaStarting R checkpoint =
     do {
       let instance = ck_Instance checkpoint;
       let roStatefulSetName = GetROStatefulSetNamespacedName instance;
       r \<leftarrow> client_Get_StatefulSet (r_Client R) roStatefulSetName;
       (case r of
          Inl err \<Rightarrow> result (Err err)
        | Inr roStatefulSet \<Rightarrow>
            if st_AvailableReplicas (sts_Status roStatefulSet) > 0
            then do {
              (err, checkpoint) \<leftarrow> DoCheckpointWithDesiredStage (r_Client R) checkpoint ReplicaReady;
              result (on_success True err)
            }
            else result (Ok True))
     }"

definition HandleReplicaReady :: "'w client \<Rightarrow> Checkpoint \<Rightarrow> ('w, bool res) act" where
  "HandleReplicaReady C checkpoint =
     do {
       (err, checkpoint) \<leftarrow> DoCheckpointWithDesiredStage C checkpoint MainShuttingDown;
       result (on_success False err)
     }"

definition HandleMainShuttingDown ::
  "'w TeamcityReconciler \<Rightarrow> Checkpoint \<Rightarrow> ('w, bool res) act" where
  "HandleMainShuttingDown R checkpoint =
     do {
       let instance = ck_Instance checkpoint;
       let mainStatefulSetNamespacedName =
         GetNamespacedNameFromNamespace (sp_MainNode (tc_Spec instance)) (om_Namespace (tc_meta instance));
       (mainNodeUpdateFinished, err) \<leftarrow> isNodeUpdateFinished R mainStatefulSetNamespacedName;
       (case err of
          Some e \<Rightarrow> result (Err e)
        | None \<Rightarrow>
            do {
              (isMainNodeStatefulSetNewestGeneration, err) \<leftarrow> isNewestGeneration R mainStatefulSetNamespacedName;
              (case err of
                 Some e \<Rightarrow> result (Err e)
               | None \<Rightarrow>
                   if mainNodeUpdateFinished \<and> isMainNodeStatefulSetNewestGeneration
                   then do {
                     (err, checkpoint) \<leftarrow> DoCheckpointWithDesiredStage (r_Client R) checkpoint MainReady;
                     result (on_success True err)
                   }
                   else result (Ok True))
            })
     }"

text \<open>The end of \<open>HandleMainReady\<close>, after the replica is gone.\<close>

definition finishUpdate :: "'w client \<Rightarrow> Checkpoint \<Rightarrow> ('w, bool res) act" where
  "finishUpdate C checkpoint =
     do {
       (err, checkpoint) \<leftarrow> DoCheckpointWithDesiredStage C checkpoint UpdateFinished;
       result (on_success True err)
     }"

definition HandleMainReady :: "'w TeamcityReconciler \<Rightarrow> Checkpoint \<Rightarrow> ('w, bool res) act" where
  "HandleMainReady R checkpoint =
     do {
       let instance = ck_Instance checkpoint;
       let roStatefulSetName = GetROStatefulSetNamespacedName instance;
       r \<leftarrow> client_Get_StatefulSet (r_Client R) roStatefulSetName;
       (case r of
          Inl err \<Rightarrow>
            if \<not> IsNotFound err then result (Ok False)
            else finishUpdate (r_Client R) checkpoint
        | Inr roStatefulSet \<Rightarrow>
            do {
              d \<leftarrow> client_Delete (r_Client R) KindStatefulSet (meta_key (sts_meta roStatefulSet)) None;
              (case d of
                 Inl err \<Rightarrow>
                   if \<not> IsNotFound err then result (Err err)
                   else finishUpdate (r_Client R) checkpoint
               | Inr u \<Rightarrow> finishUpdate (r_Client R) checkpoint)
            })
     }"

definition HandleUpdateFinished :: "'w client \<Rightarrow> Checkpoint \<Rightarrow> ('w, bool res) act" where
  "HandleUpdateFinished C checkpoint =
     do {
       err \<leftarrow> Checkpoint_Delete C checkpoint;
       result (on_success False err)
     }"

subsection \<open>The dispatcher\<close>

definition doActionBasedOnCheckpointOrRequeue ::
  "'w TeamcityReconciler \<Rightarrow> Checkpoint \<Rightarrow> ('w, bool res) act" where
  "doActionBasedOnCheckpointOrRequeue R checkpoint =
     (let stage = ck_CurrentStage checkpoint in
      if stage = UpdateInitiated then HandleUpdateInitiated (r_Client R) checkpoint
      else if stage = ReplicaCreated then HandleReplicaCreated R checkpoint
      else if stage = ReplicaStarting then HandleReplicaStarting R checkpoint
      else if stage = ReplicaReady then HandleReplicaReady (r_Client R) checkpoint
      else if stage = MainShuttingDown then HandleMainShuttingDown R checkpoint
      else if stage = MainReady then HandleMainReady R checkpoint
      else if stage = UpdateFinished then HandleUpdateFinished (r_Client R) checkpoint
      else result (Panic ''unhandled default case''))"

lemmas handler_defs =
  HandleUpdateInitiated_def HandleReplicaCreated_def HandleReplicaStarting_def HandleReplicaReady_def
  HandleMainShuttingDown_def HandleMainReady_def finishUpdate_def HandleUpdateFinished_def

end
