(* ===== verification/Controller.thy ===== *)
theory Controller
  imports Upgrade_Stages
begin

section \<open>The reconciler (internal/controller/teamcity_controller.go)\<close>

text \<open>
  One reconciliation, from the request to the result handed to the controller. An error return
  always comes with the zero \<open>ctrl.Result\<close>, so the outcome is a \<open>Result res\<close>. The TeamCity
  resource is read once; the builders share it and none of them changes it.
\<close>

subsection \<open>Constants\<close>

definition teamcityFinalizer :: string where
  "teamcityFinalizer = ''teamcity.jetbrains.com/finalizer''"

definition reconciliationRequeueInterval :: int where
  "reconciliationRequeueInterval = 3000000000"

definition requeue_Result :: Result where
  "requeue_Result = \<lparr>Requeue = True, RequeueAfter = reconciliationRequeueInterval\<rparr>"

subsection \<open>Deletion\<close>

definition finalizeTeamCity :: "'w TeamcityReconciler \<Rightarrow> TeamCity \<Rightarrow> ('w, go_error option) act" where
  "finalizeTeamCity R teamcity =
     do {
       isOngoingUpdate \<leftarrow> ongoingZeroDowntimeUpgrade R teamcity;
       (if isOngoingUpdate
        then do {
          let currentCheckpoint = NewCheckpoint teamcity;
          err \<leftarrow> Checkpoint_Delete (r_Client R) currentCheckpoint;
          (case err of Some e \<Rightarrow> result (Some e) | None \<Rightarrow> result None)
        }
        else result None)
     }"

subsection \<open>Applying and deleting objects\<close>

text \<open>The loop over the built objects; \<open>Requeue\<close> from the recreate step ends it early.\<close>

fun createOrUpdateObjects ::
  "'w TeamcityReconciler \<Rightarrow> ResourceBuilder \<Rightarrow> TeamCity \<Rightarrow> k8s_object list \<Rightarrow> ('w, Result res) act" where
  "createOrUpdateObjects R builder instance [] = result (Ok zero_Result)"
| "createOrUpdateObjects R builder instance (object # objects) =
     do {
       before \<leftarrow> reconcileStatefulSetBeforeCreateOrUpdate R instance builder object;
       (case before of
          Err err \<Rightarrow> result (Err err)
        | Panic p \<Rightarrow> result (Panic p)
        | Ok res \<Rightarrow>
            if Requeue res \<or> RequeueAfter res > 0 then result (Ok res)
            else do {
              (err, object') \<leftarrow> applyWithRetry (r_Client R) object (Update (r_Lib R) builder);
              (case err of
                 Panic p \<Rightarrow> result (Panic p)
               | Err e \<Rightarrow>
                   do {
                     blocked \<leftarrow> statefulSetRecreateBlockedFromAPIError R instance builder object' e;
                     (case blocked of
                        Some b \<Rightarrow> result (Err (RecreateBlocked b))
                      | None \<Rightarrow> result (Err e))
                   }
               | Ok u \<Rightarrow> createOrUpdateObjects R builder instance objects)
            })
     }"

definition reconcileCreateOrUpdate ::
  "'w TeamcityReconciler \<Rightarrow> ResourceBuilder \<Rightarrow> TeamCity \<Rightarrow> NamespacedName \<Rightarrow> ('w, Result res) act" where
  "reconcileCreateOrUpdate R builder instance namespacedName =
     (case BuildObjectList builder of
        Inl err \<Rightarrow> result (Err err)
      | Inr objectList \<Rightarrow> createOrUpdateObjects R builder instance objectList)"

fun deleteObjects :: "'w TeamcityReconciler \<Rightarrow> k8s_object list \<Rightarrow> ('w, Result res) act" where
  "deleteObjects R [] = result (Ok zero_Result)"
| "deleteObjects R (object # objects) =
     do {
       r \<leftarrow> client_Delete (r_Client R) (object_kind object) (object_key object) None;
       (case r of
          Inl err \<Rightarrow> result (Err err)
        | Inr u \<Rightarrow> deleteObjects R objects)
     }"

definition reconcileDelete ::
  "'w TeamcityReconciler \<Rightarrow> ResourceBuilder \<Rightarrow> ('w, Result res) act" where
  "reconcileDelete R builder =
     do {
       obsoleteObjects \<leftarrow> GetObsoleteObjects (r_Client R) builder;
       (case obsoleteObjects of
          Inl err \<Rightarrow> result (Err err)
        | Inr objects \<Rightarrow> deleteObjects R objects)
     }"

subsection \<open>Preconditions\<close>

definition validatePreconditions ::
  "'w TeamcityReconciler \<Rightarrow> ResourceBuilder \<Rightarrow> TeamCity \<Rightarrow> ('w, bool) act" where
  "validatePreconditions R builder instance =
     (case builder of
        SecondaryStatefulSetBuilder t \<Rightarrow>
          if IsMultiNode instance
          then do {
            let mainNodeNamespacedName =
              \<lparr>nn_Namespace = om_Namespace (tc_meta instance),
               nn_Name = node_Name (sp_MainNode (tc_Spec instance))\<rparr>;
            (newestGeneration, err) \<leftarrow> isNewestGeneration R mainNodeNamespacedName;
            (updated, err') \<leftarrow> isNodeUpdateFinished R mainNodeNamespacedName;
            ongoingUpdate \<leftarrow> ongoingZeroDowntimeUpgrade R instance;
            result (newestGeneration \<and> updated \<and> \<not> ongoingUpdate)
          }
          else result True
      | other \<Rightarrow> result True)"

subsection \<open>The upgrade\<close>

definition performZeroDowntimeUpgradeOrRequeue ::
  "'w TeamcityReconciler \<Rightarrow> TeamCity \<Rightarrow> bool \<Rightarrow> ('w, bool res) act" where
  "performZeroDowntimeUpgradeOrRequeue R teamcity ongoingUpdate =
     do {
       (statefulSetsWillBeRestarted, err) \<leftarrow> doesNodesUpdateChangeStatefulSetSpec R teamcity;
       (case err of
          Some e \<Rightarrow> result (Ok False)
        | None \<Rightarrow>
            if statefulSetsWillBeRestarted \<or> ongoingUpdate
            then do {
              let currentCheckpoint = NewCheckpoint teamcity;
              (err, currentCheckpoint) \<leftarrow> UpdateStageFromConfigMap (r_Client R) currentCheckpoint;
              (case err of
                 Some e \<Rightarrow>
                   if \<not> IsNotFound e then result (Err e)
                   else doActionBasedOnCheckpointOrRequeue R currentCheckpoint
               | None \<Rightarrow> doActionBasedOnCheckpointOrRequeue R currentCheckpoint)
            }
            else result (Ok False))
     }"

subsection \<open>One reconciliation\<close>

text \<open>The loop over the builders; \<open>None\<close> when it runs to its end.\<close>

fun reconcileBuilders ::
  "'w TeamcityReconciler \<Rightarrow> TeamCity \<Rightarrow> NamespacedName \<Rightarrow> ResourceBuilder list \<Rightarrow>
     ('w, Result res option) act" where
  "reconcileBuilders R teamcity req [] = result None"
| "reconcileBuilders R teamcity req (builder # builders) =
     do {
       deleted \<leftarrow> reconcileDelete R builder;
       (case deleted of
          Err err \<Rightarrow> result (Some (Err err))
        | Panic p \<Rightarrow> result (Some (Panic p))
        | Ok ignored \<Rightarrow>
            do {
              preconditionSuccess \<leftarrow> validatePreconditions R builder teamcity;
              (if \<not> preconditionSuccess then result (Some (Ok requeue_Result))
               else do {
                 applied \<leftarrow> reconcileCreateOrUpdate R builder teamcity req;
                 (case applied of
                    Err err \<Rightarrow>
                      (case as_recreateBlocked err of
                         Some recreateBlocked \<Rightarrow>
                           do {
                             reportRecreateBlocked R teamcity recreateBlocked;
                             result (Some (Ok zero_Result))
                           }
                       | None \<Rightarrow> result (Some (Err err)))
                  | Panic p \<Rightarrow> result (Some (Panic p))
                  | Ok ignored \<Rightarrow> reconcileBuilders R teamcity req builders)
               })
            })
     }"

text \<open>What follows the zero-downtime step.\<close>

definition reconcileResources ::
  "'w TeamcityReconciler \<Rightarrow> TeamCity \<Rightarrow> NamespacedName \<Rightarrow> ('w, Result res) act" where
  "reconcileResources R teamcity req =
     do {
       ended \<leftarrow> reconcileBuilders R teamcity req (ResourceBuilders teamcity);
       (case ended of
          Some outcome \<Rightarrow> result outcome
        | None \<Rightarrow>
            do {
              ignored \<leftarrow> updateTeamCityObjectStatusE R req TEAMCITY_CRD_OBJECT_SUCCESS_STATE
                           ''Successfully reconciled TeamCity'';
              ongoing \<leftarrow> ongoingZeroDowntimeUpgrade R teamcity;
              (if ongoing then result (Ok requeue_Result) else result (Ok zero_Result))
            })
     }"

definition Reconcile :: "'w TeamcityReconciler \<Rightarrow> NamespacedName \<Rightarrow> ('w, Result res) act" where
  "Reconcile R req =
     do {
       r \<leftarrow> getTeamCityObjectE R req;
       (case r of
          Inl err \<Rightarrow> if IsNotFound err then result (Ok zero_Result) else result (Err err)
        | Inr teamcity \<Rightarrow>
            if om_DeletionTimestamp (tc_meta teamcity) \<noteq> None
            then do {
              err \<leftarrow> finalizeTeamCity R teamcity;
              (case err of
                 Some e \<Rightarrow> result (Err e)
               | None \<Rightarrow>
                   do {
                     let teamcity = teamcity\<lparr>tc_meta := (tc_meta teamcity)
                       \<lparr>om_Finalizers :=
                          RemoveFinalizer (r_Lib R) (om_Finalizers (tc_meta teamcity)) teamcityFinalizer\<rparr>\<rparr>;
                     err \<leftarrow> client_Update_TeamCity (r_Client R) teamcity;
                     (case err of Inl e \<Rightarrow> result (Err e) | Inr u \<Rightarrow> result (Ok zero_Result))
                   })
            }
            else do {
              isOngoingUpdate \<leftarrow> ongoingZeroDowntimeUpgrade R teamcity;
              (if UsesZeroDownTimeUpgradePolicy teamcity \<or> isOngoingUpdate
               then do {
                 requeue \<leftarrow> performZeroDowntimeUpgradeOrRequeue R teamcity isOngoingUpdate;
                 (case requeue of
                    Err err \<Rightarrow> result (Err err)
                  | Panic p \<Rightarrow> result (Panic p)
                  | Ok requeue \<Rightarrow>
                      if requeue then result (Ok requeue_Result)
                      else reconcileResources R teamcity req)
               }
               else reconcileResources R teamcity req)
            })
     }"

end
