(* ===== verification/Footprint.thy ===== *)
theory Footprint
  imports Controller
begin

section \<open>Which calls each function makes\<close>

text \<open>
  One rule per function of the operator: the calls it can make, as premises of a condition \<open>I\<close> that
  is to hold of every call. Any statement about all calls of a run follows from these rules.
\<close>

lemma emits_checkpoint_reads [emits_rules]:
  "(\<And>n r. I (GetConfigMap n r)) \<Longrightarrow> emits I (FetchCurrentStageFromCluster C c)"
  "(\<And>n r. I (GetConfigMap n r)) \<Longrightarrow> emits I (UpdateStageFromConfigMap C c)"
  "(\<And>n r. I (GetConfigMap n r)) \<Longrightarrow> emits I (ongoingZeroDowntimeUpgrade R t)"
  unfolding ongoingZeroDowntimeUpgrade_def checkpoint_defs by (auto simp: Let_def intro!: emits_rules)

lemma emits_checkpoint_writes [emits_rules]:
  "(\<And>n r. I (GetConfigMap n r)) \<Longrightarrow> (\<And>m r. I (CreateConfigMap m r)) \<Longrightarrow> (\<And>m r. I (UpdateConfigMap m r)) \<Longrightarrow>
     emits I (DoCheckpointWithDesiredStage C c s)"
  "(\<And>n r. I (GetConfigMap n r)) \<Longrightarrow> (\<And>n r. I (DeleteObject KindConfigMap n None r)) \<Longrightarrow>
     emits I (Checkpoint_Delete C c)"
  "(\<And>n r. I (GetConfigMap n r)) \<Longrightarrow> (\<And>n r. I (DeleteObject KindConfigMap n None r)) \<Longrightarrow>
     emits I (finalizeTeamCity R t)"
  unfolding finalizeTeamCity_def checkpoint_defs
  by (auto simp: Let_def intro!: emits_rules emits_checkpoint_reads [unfolded checkpoint_defs])

lemma emits_statefulset_reads [emits_rules]:
  "(\<And>n r. I (GetStatefulSet n r)) \<Longrightarrow> emits I (isNewestGeneration R n)"
  "(\<And>n r. I (GetStatefulSet n r)) \<Longrightarrow> emits I (isNodeUpdateFinished R n)"
  unfolding isNewestGeneration_def isNodeUpdateFinished_def getStatefulSetByName_def
  by (auto intro!: emits_rules)

lemma emits_nodes [emits_rules]:
  "(\<And>n r. I (GetStatefulSet n r)) \<Longrightarrow> emits I (nodesUpdateChangeStatefulSetSpec R t nodes)"
  by (induction nodes) (auto intro!: emits_rules)

lemma emits_doesNodes [emits_rules]:
  "(\<And>n r. I (GetStatefulSet n r)) \<Longrightarrow> emits I (doesNodesUpdateChangeStatefulSetSpec R t)"
  by (simp add: doesNodesUpdateChangeStatefulSetSpec_def emits_nodes)

lemma emits_status [emits_rules]:
  "(\<And>n r. I (GetTeamCity n r)) \<Longrightarrow> (\<And>t r. I (UpdateTeamCityStatus t r)) \<Longrightarrow>
     emits I (updateTeamCityObjectStatusE R n st msg)"
  "(\<And>n r. I (GetTeamCity n r)) \<Longrightarrow> emits I (getTeamCityObjectE R n)"
  unfolding updateTeamCityObjectStatusE_def getTeamCityObjectE_def
  by (auto simp: Let_def intro!: emits_rules)

lemma emits_report [emits_rules]:
  "(\<And>n r. I (GetTeamCity n r)) \<Longrightarrow> (\<And>t r. I (UpdateTeamCityStatus t r)) \<Longrightarrow>
     (\<And>t e r msg. I (RecordEvent t e r msg)) \<Longrightarrow> emits I (reportRecreateBlocked R t b)"
  "(\<And>n r. I (GetTeamCity n r)) \<Longrightarrow> (\<And>t r. I (UpdateTeamCityStatus t r)) \<Longrightarrow>
     (\<And>t e r msg. I (RecordEvent t e r msg)) \<Longrightarrow> emits I (reportRecreateInProgress R t name changes)"
  unfolding reportRecreateBlocked_def reportRecreateInProgress_def Let_def by (intro emits_rules; simp)+

text \<open>Before it applies a StatefulSet: the foreground deletion needs the annotation.\<close>

lemma emits_before [emits_rules]:
  assumes "\<And>n r. I (GetStatefulSet n r)" and "\<And>n r. I (GetTeamCity n r)"
    and "\<And>t r. I (UpdateTeamCityStatus t r)" and "\<And>t e r msg. I (RecordEvent t e r msg)"
    and "\<And>n r. AllowsStatefulSetRecreate t \<Longrightarrow> I (DeleteObject KindStatefulSet n (Some DeletePropagationForeground) r)"
  shows "emits I (reconcileStatefulSetBeforeCreateOrUpdate R t b obj)"
  unfolding reconcileStatefulSetBeforeCreateOrUpdate_def Let_def
  by (intro emits_rules) (simp_all add: assms)

lemma emits_blocked [emits_rules]:
  "(\<And>n r. I (GetStatefulSet n r)) \<Longrightarrow> emits I (statefulSetRecreateBlockedFromAPIError R t b obj e)"
  unfolding statefulSetRecreateBlockedFromAPIError_def Let_def by (intro emits_rules; simp)

lemma emits_createOrUpdateObjects [emits_rules]:
  assumes "\<And>n r. I (GetStatefulSet n r)" and "\<And>n r. I (GetTeamCity n r)"
    and "\<And>t r. I (UpdateTeamCityStatus t r)" and "\<And>t e r msg. I (RecordEvent t e r msg)"
    and "\<And>n r. AllowsStatefulSetRecreate t \<Longrightarrow> I (DeleteObject KindStatefulSet n (Some DeletePropagationForeground) r)"
    and "\<And>obj err obj'. obj \<in> set objects \<Longrightarrow> I (CreateOrUpdateObject obj err obj')"
  shows "emits I (createOrUpdateObjects R b t objects)"
  using assms(6)
  by (induction objects) (auto simp: assms(1-5) intro!: emits_rules)

lemma emits_reconcileCreateOrUpdate [emits_rules]:
  assumes "\<And>n r. I (GetStatefulSet n r)" and "\<And>n r. I (GetTeamCity n r)"
    and "\<And>t r. I (UpdateTeamCityStatus t r)" and "\<And>t e r msg. I (RecordEvent t e r msg)"
    and "\<And>n r. AllowsStatefulSetRecreate t \<Longrightarrow> I (DeleteObject KindStatefulSet n (Some DeletePropagationForeground) r)"
    and "\<And>objects obj err obj'. BuildObjectList b = Inr objects \<Longrightarrow> obj \<in> set objects \<Longrightarrow> I (CreateOrUpdateObject obj err obj')"
  shows "emits I (reconcileCreateOrUpdate R b t req)"
  unfolding reconcileCreateOrUpdate_def by (intro emits_rules) (simp_all add: assms)

lemmas obsolete_defs =
  PersistentVolumeClaim_GetObsoleteObjects_def ServiceAccount_GetObsoleteObjects_def
  Service_GetObsoleteObjects_def Ingress_GetObsoleteObjects_def
  StatefulSet_GetObsoleteObjects_def SecondaryStatefulSet_GetObsoleteObjects_def

lemma emits_GetObsoleteObjects [emits_rules]:
  "(\<And>k ns labels r. I (ListObjects k ns labels r)) \<Longrightarrow> emits I (GetObsoleteObjects C b)"
  by (cases b) (auto simp: obsolete_defs Let_def intro!: emits_rules)

lemma emits_deleteObjects:
  "(\<And>obj r. obj \<in> set objects \<Longrightarrow> I (DeleteObject (object_kind obj) (object_key obj) None r)) \<Longrightarrow>
     emits I (deleteObjects R objects)"
  by (induction objects) (auto intro!: emits_rules)

lemma emits_reconcileDelete [emits_rules]:
  "(\<And>k ns labels r. I (ListObjects k ns labels r)) \<Longrightarrow> (\<And>k n r. I (DeleteObject k n None r)) \<Longrightarrow>
     emits I (reconcileDelete R b)"
  unfolding reconcileDelete_def by (intro emits_rules emits_deleteObjects; simp)

lemma emits_validatePreconditions [emits_rules]:
  "(\<And>n r. I (GetStatefulSet n r)) \<Longrightarrow> (\<And>n r. I (GetConfigMap n r)) \<Longrightarrow>
     emits I (validatePreconditions R b t)"
  unfolding validatePreconditions_def by (cases b) (auto simp: Let_def intro!: emits_rules)

text \<open>The handlers of an upgrade.\<close>

lemma emits_handlers [emits_rules]:
  assumes "\<And>n r. I (GetConfigMap n r)" and "\<And>m r. I (CreateConfigMap m r)" and "\<And>m r. I (UpdateConfigMap m r)"
    and "\<And>n r. I (GetStatefulSet n r)" and "\<And>n r. I (DeleteObject KindStatefulSet n None r)"
    and "\<And>n r. I (DeleteObject KindConfigMap n None r)"
  shows "emits I (HandleUpdateInitiated C c)" "emits I (HandleReplicaStarting R c)"
    "emits I (HandleReplicaReady C c)" "emits I (HandleMainShuttingDown R c)" "emits I (finishUpdate C c)"
    "emits I (HandleMainReady R c)" "emits I (HandleUpdateFinished C c)"
  unfolding handler_defs Let_def by (intro emits_rules; simp add: assms)+

lemma emits_HandleReplicaCreated [emits_rules]:
  assumes "\<And>n r. I (GetConfigMap n r)" and "\<And>m r. I (CreateConfigMap m r)" and "\<And>m r. I (UpdateConfigMap m r)"
    and "\<And>n r. I (GetStatefulSet n r)"
    and "\<And>err obj'. I (CreateOrUpdateObject (StatefulSetObject (BuildROStatefulSet (ck_Instance c))) err obj')"
  shows "emits I (HandleReplicaCreated R c)"
  unfolding HandleReplicaCreated_def Let_def by (intro emits_rules) (simp_all add: assms)

lemma emits_doAction [emits_rules]:
  assumes "\<And>n r. I (GetConfigMap n r)" and "\<And>m r. I (CreateConfigMap m r)" and "\<And>m r. I (UpdateConfigMap m r)"
    and "\<And>n r. I (GetStatefulSet n r)" and "\<And>n r. I (DeleteObject KindStatefulSet n None r)"
    and "\<And>n r. I (DeleteObject KindConfigMap n None r)"
    and "\<And>err obj'. I (CreateOrUpdateObject (StatefulSetObject (BuildROStatefulSet (ck_Instance c))) err obj')"
  shows "emits I (doActionBasedOnCheckpointOrRequeue R c)"
  unfolding doActionBasedOnCheckpointOrRequeue_def Let_def by (intro emits_rules) (simp_all add: assms)

text \<open>The checkpoint in memory stays the one of its resource, at a named stage.\<close>

lemma initial_named: "getInitialStageFromInstance t \<in> set named_stages"
  by (simp add: getInitialStageFromInstance_def named_stages_def)

lemma GetStageString_named:
  "GetStageStringValueFromConfigMap cm = (s, None) \<Longrightarrow> s \<in> set named_stages"
  by (auto simp: GetStageStringValue_cases read_stage_named split: option.splits)

lemma UpdateStage_keeps:
  assumes "\<And>n r. I (GetConfigMap n r)"
  shows "runs (UpdateStageFromConfigMap C (NewCheckpoint t)) (\<lambda>out cs.
     ck_Instance (snd out) = t \<and> ck_CurrentStage (snd out) \<in> set named_stages \<and> list_all I cs)"
  unfolding UpdateStageFromConfigMap_def FetchCurrentStageFromCluster_def Checkpoint_GetConfigMap_def
  by (simp add: Let_def, rule runs_calls)
    (auto simp: NewCheckpoint_def initial_named GetStageString_named assms intro!: runs_cases runs_return)

lemma emits_perform [emits_rules]:
  assumes "\<And>n r. I (GetConfigMap n r)" and "\<And>m r. I (CreateConfigMap m r)" and "\<And>m r. I (UpdateConfigMap m r)"
    and "\<And>n r. I (GetStatefulSet n r)" and "\<And>n r. I (DeleteObject KindStatefulSet n None r)"
    and "\<And>n r. I (DeleteObject KindConfigMap n None r)"
    and "\<And>err obj'. I (CreateOrUpdateObject (StatefulSetObject (BuildROStatefulSet t)) err obj')"
  shows "emits I (performZeroDowntimeUpgradeOrRequeue R t ongoing)"
proof -
  have action: "emits I (UpdateStageFromConfigMap C (NewCheckpoint t) \<bind> (\<lambda>(err, c). case err of
           None \<Rightarrow> doActionBasedOnCheckpointOrRequeue R c
         | Some e \<Rightarrow>
             if \<not> IsNotFound e then result (Err e) else doActionBasedOnCheckpointOrRequeue R c))"
    for C
    unfolding emits_def
  proof (rule runs_bind [OF UpdateStage_keeps [of I]], simp add: assms, clarify)
    fix err :: "go_error option" and c :: Checkpoint and cs
    assume "list_all I cs" and "t = ck_Instance (snd (err, c))"
    then have "emits I (case err of
           None \<Rightarrow> doActionBasedOnCheckpointOrRequeue R c
         | Some e \<Rightarrow> if \<not> IsNotFound e then result (Err e) else doActionBasedOnCheckpointOrRequeue R c)"
      using assms by (intro emits_rules) simp_all
    with \<open>list_all I cs\<close> show "runs (case err of
           None \<Rightarrow> doActionBasedOnCheckpointOrRequeue R c
         | Some e \<Rightarrow> if \<not> IsNotFound e then result (Err e) else doActionBasedOnCheckpointOrRequeue R c)
        (\<lambda>a ds. list_all I (cs @ ds))"
      unfolding emits_def by (elim runs_mono) simp
  qed
  show ?thesis
    unfolding performZeroDowntimeUpgradeOrRequeue_def Let_def
    by (rule emits_bind, rule emits_rules, rule assms, intro emits_prod emits_option emits_if action emits_return)
qed

text \<open>The loop over the builders, and what surrounds it.\<close>

lemma emits_reconcileBuilders [emits_rules]:
  assumes "\<And>n r. I (GetStatefulSet n r)" and "\<And>n r. I (GetConfigMap n r)" and "\<And>n r. I (GetTeamCity n r)"
    and "\<And>t r. I (UpdateTeamCityStatus t r)" and "\<And>t e r msg. I (RecordEvent t e r msg)"
    and "\<And>b. b \<in> set bs \<Longrightarrow> emits I (reconcileDelete R b)"
    and "\<And>n r. AllowsStatefulSetRecreate t \<Longrightarrow> I (DeleteObject KindStatefulSet n (Some DeletePropagationForeground) r)"
    and "\<And>b objects obj err obj'. b \<in> set bs \<Longrightarrow> BuildObjectList b = Inr objects \<Longrightarrow> obj \<in> set objects \<Longrightarrow>
      I (CreateOrUpdateObject obj err obj')"
  shows "emits I (reconcileBuilders R t req bs)"
  using assms(6,8)
proof (induction bs)
  case Nil
  show ?case by (simp add: emits_return)
next
  case (Cons b bs)
  have "emits I (reconcileBuilders R t req bs)" by (rule Cons.IH) (rule Cons.prems, simp_all)+
  then show ?case
    unfolding reconcileBuilders.simps
    by (intro Cons.prems(1) [OF list.set_intros(1)] emits_rules)
      (auto simp: assms(1-5,7) intro: Cons.prems(2) [OF list.set_intros(1)])
qed

lemma emits_reconcileResources [emits_rules]:
  assumes "\<And>n r. I (GetStatefulSet n r)" and "\<And>n r. I (GetConfigMap n r)" and "\<And>n r. I (GetTeamCity n r)"
    and "\<And>t r. I (UpdateTeamCityStatus t r)" and "\<And>t e r msg. I (RecordEvent t e r msg)"
    and "\<And>b. b \<in> set (ResourceBuilders t) \<Longrightarrow> emits I (reconcileDelete R b)"
    and "\<And>n r. AllowsStatefulSetRecreate t \<Longrightarrow> I (DeleteObject KindStatefulSet n (Some DeletePropagationForeground) r)"
    and "\<And>b objects obj err obj'. b \<in> set (ResourceBuilders t) \<Longrightarrow> BuildObjectList b = Inr objects \<Longrightarrow>
      obj \<in> set objects \<Longrightarrow> I (CreateOrUpdateObject obj err obj')"
  shows "emits I (reconcileResources R t req)"
  unfolding reconcileResources_def by (intro emits_reconcileBuilders emits_rules assms; assumption?)

end
