(* ===== verification/Upgrade_Machine.thy ===== *)
theory Upgrade_Machine
  imports Footprint
begin

section \<open>The upgrade as a state machine\<close>

text \<open>
  The abstract specification of a zero-downtime upgrade: the phase its checkpoint is in, and the
  steps a reconciliation may take. The state is read off the ConfigMaps of the cluster. The
  handlers refine the machine for every run in which the API server answers consistently with
  some store of ConfigMaps that only the operator changes meanwhile; the runs of the model carry
  the calls and their answers, so this is a condition on the history of a run.
\<close>

subsection \<open>Phases\<close>

datatype phase = Initiated | Created | Starting | Ready | ShuttingDown | MainUp | Finished

primrec phase_rank :: "phase \<Rightarrow> nat" where
  "phase_rank Initiated = 0"
| "phase_rank Created = 1"
| "phase_rank Starting = 2"
| "phase_rank Ready = 3"
| "phase_rank ShuttingDown = 4"
| "phase_rank MainUp = 5"
| "phase_rank Finished = 6"

lemma phase_rank_inject [simp]: "phase_rank p = phase_rank q \<longleftrightarrow> p = q"
  by (cases p; cases q) simp_all

lemma phase_rank_le [simp]: "phase_rank p \<le> 6"
  by (cases p) simp_all

instantiation phase :: linorder
begin

definition less_eq_phase :: "phase \<Rightarrow> phase \<Rightarrow> bool" where
  "less_eq_phase p q \<longleftrightarrow> phase_rank p \<le> phase_rank q"

definition less_phase :: "phase \<Rightarrow> phase \<Rightarrow> bool" where
  "less_phase p q \<longleftrightarrow> phase_rank p < phase_rank q"

instance
  by standard (auto simp: less_eq_phase_def less_phase_def)

end

primrec stage_of :: "phase \<Rightarrow> Stage" where
  "stage_of Initiated = UpdateInitiated"
| "stage_of Created = ReplicaCreated"
| "stage_of Starting = ReplicaStarting"
| "stage_of Ready = ReplicaReady"
| "stage_of ShuttingDown = MainShuttingDown"
| "stage_of MainUp = MainReady"
| "stage_of Finished = UpdateFinished"

definition phase_of :: "Stage \<Rightarrow> phase" where
  "phase_of s =
     (if s = ReplicaCreated then Created
      else if s = ReplicaStarting then Starting
      else if s = ReplicaReady then Ready
      else if s = MainShuttingDown then ShuttingDown
      else if s = MainReady then MainUp
      else if s = UpdateFinished then Finished
      else Initiated)"

lemma phase_of_stage_of [simp]: "phase_of (stage_of p) = p"
  by (cases p) (simp_all add: phase_of_def)

lemma stage_of_named: "stage_of p \<in> set named_stages"
  by (cases p) (simp_all add: named_stages_def)

lemma stage_of_phase_of: "s \<in> set named_stages \<Longrightarrow> stage_of (phase_of s) = s"
  by (erule named_stage_cases) (simp_all add: phase_of_def)

lemma stage_of_inject [simp]: "stage_of p = stage_of q \<longleftrightarrow> p = q"
  by (metis phase_of_stage_of)

lemma NewStage_String_stage_of [simp]: "NewStage (Stage_String (stage_of p)) = stage_of p"
  by (rule NewStage_String [OF stage_of_named])

lemma uint_stage_of: "uint (stage_of p) = int (phase_rank p)"
  by (cases p) (simp_all add: stage_defs)

lemma canChange_phases:
  "canChangeStageValue (stage_of p) (stage_of q) = Inr True \<longleftrightarrow>
     phase_rank q = phase_rank p \<or> phase_rank q = Suc (phase_rank p)"
  by (subst canChange_named_iff [OF stage_of_named stage_of_named]) (simp add: uint_stage_of, linarith)

text \<open>The phases as codes of stages: a refinement of the text codec.\<close>

interpretation phase_codec: total_stage_codec UNIV "\<lambda>p. Stage_String (stage_of p)"
  "\<lambda>str. phase_of (NewStage str)"
  by unfold_locales simp_all

fun next_phase :: "phase \<Rightarrow> phase" where
  "next_phase Initiated = Created"
| "next_phase Created = Starting"
| "next_phase Starting = Ready"
| "next_phase Ready = ShuttingDown"
| "next_phase ShuttingDown = MainUp"
| "next_phase MainUp = Finished"
| "next_phase Finished = Finished"

lemma next_phase_rank: "p \<noteq> Finished \<Longrightarrow> phase_rank (next_phase p) = Suc (phase_rank p)"
  by (cases p) simp_all

lemma next_phase_iff: "phase_rank q = Suc (phase_rank p) \<longleftrightarrow> p \<noteq> Finished \<and> q = next_phase p"
  by (cases p; cases q) simp_all

subsection \<open>The machine\<close>

text \<open>\<open>Unreadable\<close> is a checkpoint ConfigMap that has no stage key.\<close>

datatype upgrade = NoUpgrade | At phase | Unreadable

text \<open>
  \<open>upgrade_step multi deleting\<close>: \<open>multi\<close> when the resource has secondary nodes, which then serve
  while the main node restarts, so that no replica is needed; \<open>deleting\<close> when the resource is marked
  for deletion.
\<close>

inductive upgrade_step :: "bool \<Rightarrow> bool \<Rightarrow> upgrade \<Rightarrow> upgrade \<Rightarrow> bool" for multi deleting where
  stay: "upgrade_step multi deleting u u"
| start_single: "\<not> multi \<Longrightarrow> \<not> deleting \<Longrightarrow> upgrade_step multi deleting NoUpgrade (At Created)"
| start_multi: "multi \<Longrightarrow> \<not> deleting \<Longrightarrow> upgrade_step multi deleting NoUpgrade (At ShuttingDown)"
| advance: "p \<noteq> Finished \<Longrightarrow> \<not> deleting \<Longrightarrow> upgrade_step multi deleting (At p) (At (next_phase p))"
| finish: "\<not> deleting \<Longrightarrow> upgrade_step multi deleting (At Finished) NoUpgrade"
| abandon: "deleting \<Longrightarrow> upgrade_step multi deleting (At p) NoUpgrade"

inductive_simps upgrade_step_from_none: "upgrade_step multi deleting NoUpgrade v"
inductive_simps upgrade_step_from_phase: "upgrade_step multi deleting (At p) v"
inductive_simps upgrade_step_from_unreadable: "upgrade_step multi deleting Unreadable v"

inductive reachable :: "bool \<Rightarrow> upgrade \<Rightarrow> bool" for multi where
  initial: "reachable multi NoUpgrade"
| step: "reachable multi u \<Longrightarrow> upgrade_step multi deleting u v \<Longrightarrow> reachable multi v"

text \<open>What is reachable from no upgrade: the replica's phases only when there are no secondary nodes.\<close>

definition expected :: "bool \<Rightarrow> upgrade \<Rightarrow> bool" where
  "expected multi u =
     (case u of
        NoUpgrade \<Rightarrow> True
      | At p \<Rightarrow> (if multi then ShuttingDown \<le> p else Created \<le> p)
      | Unreadable \<Rightarrow> False)"

lemma expected_step: "expected multi u \<Longrightarrow> upgrade_step multi deleting u v \<Longrightarrow> expected multi v"
  by (cases u)
    (auto simp: expected_def less_eq_phase_def next_phase_rank upgrade_step_from_none
      upgrade_step_from_phase upgrade_step_from_unreadable)

lemma reachable_expected: "reachable multi u \<Longrightarrow> expected multi u"
  by (induction rule: reachable.induct) (simp_all add: expected_def [of _ NoUpgrade] expected_step)

subsection \<open>Consistent answers\<close>

type_synonym store = "NamespacedName \<Rightarrow> ConfigMap option"

fun store_after :: "api_call \<Rightarrow> store \<Rightarrow> store" where
  "store_after (CreateConfigMap m (Inr u)) \<sigma> = \<sigma>(meta_key (cm_meta m) := Some m)"
| "store_after (UpdateConfigMap m (Inr u)) \<sigma> = \<sigma>(meta_key (cm_meta m) := Some m)"
| "store_after (DeleteObject KindConfigMap n policy (Inr u)) \<sigma> = \<sigma>(n := None)"
| "store_after c \<sigma> = \<sigma>"

text \<open>
  A read answers what is stored, or an error that is not \<open>NotFound\<close> unless nothing is stored; a
  write that fails changes nothing; only what exists is updated or deleted. A list holds objects of
  the kind it was asked for, which the types of the Go client see to.
\<close>

fun answer_agrees :: "store \<Rightarrow> api_call \<Rightarrow> bool" where
  "answer_agrees \<sigma> (GetConfigMap n (Inr m)) = (\<sigma> n = Some m)"
| "answer_agrees \<sigma> (GetConfigMap n (Inl e)) = (IsNotFound e \<longrightarrow> \<sigma> n = None)"
| "answer_agrees \<sigma> (CreateConfigMap m (Inr u)) = (\<sigma> (meta_key (cm_meta m)) = None)"
| "answer_agrees \<sigma> (UpdateConfigMap m (Inr u)) = (\<sigma> (meta_key (cm_meta m)) \<noteq> None)"
| "answer_agrees \<sigma> (DeleteObject KindConfigMap n policy (Inr u)) = (\<sigma> n \<noteq> None)"
| "answer_agrees \<sigma> (ListObjects k ns labels (Inr items)) = (\<forall>obj \<in> set items. object_kind obj = k)"
| "answer_agrees \<sigma> c = True"

definition replay :: "store \<Rightarrow> api_call list \<Rightarrow> store" where
  "replay \<sigma> cs = fold store_after cs \<sigma>"

fun consistent :: "store \<Rightarrow> api_call list \<Rightarrow> bool" where
  "consistent \<sigma> [] = True"
| "consistent \<sigma> (c # cs) = (answer_agrees \<sigma> c \<and> consistent (store_after c \<sigma>) cs)"

lemma replay_simps [simp]:
  "replay \<sigma> [] = \<sigma>" "replay \<sigma> (c # cs) = replay (store_after c \<sigma>) cs"
  "replay \<sigma> (cs @ ds) = replay (replay \<sigma> cs) ds"
  by (simp_all add: replay_def)

lemma consistent_append [simp]: "consistent \<sigma> (cs @ ds) \<longleftrightarrow> consistent \<sigma> cs \<and> consistent (replay \<sigma> cs) ds"
  by (induction cs arbitrary: \<sigma>) auto

text \<open>The upgrade a store holds for a resource.\<close>

definition upgrade_of :: "store \<Rightarrow> TeamCity \<Rightarrow> upgrade" where
  "upgrade_of \<sigma> t =
     (case \<sigma> (checkpoint_key t) of
        None \<Rightarrow> NoUpgrade
      | Some cm \<Rightarrow> (case read_stage cm of None \<Rightarrow> Unreadable | Some s \<Rightarrow> At (phase_of s)))"

subsection \<open>Reasoning about the store\<close>

text \<open>
  \<open>refines m T\<close>: whenever \<open>m\<close> runs with consistent answers from \<open>\<sigma>\<close>, returning \<open>a\<close> and leaving
  the store \<open>\<sigma>'\<close>, then \<open>T \<sigma> a \<sigma>'\<close>.
\<close>

definition refines :: "('w, 'a) act \<Rightarrow> (store \<Rightarrow> 'a \<Rightarrow> store \<Rightarrow> bool) \<Rightarrow> bool" where
  "refines m T \<longleftrightarrow> runs m (\<lambda>a cs. \<forall>\<sigma>. consistent \<sigma> cs \<longrightarrow> T \<sigma> a (replay \<sigma> cs))"

named_theorems refines_rules "how the steps of the operator change the store"

lemma refines_return [refines_rules]: "(\<And>\<sigma>. T \<sigma> a \<sigma>) \<Longrightarrow> refines (result a) T"
  by (simp add: refines_def runs_return)

lemma refines_bind:
  assumes "refines m T" and "\<And>a. refines (f a) (\<lambda>\<sigma> b \<sigma>'. \<forall>\<sigma>0. T \<sigma>0 a \<sigma> \<longrightarrow> S \<sigma>0 b \<sigma>')"
  shows "refines (m \<bind> f) S"
  unfolding refines_def
  by (rule runs_bind [OF assms(1) [unfolded refines_def]], rule runs_mono [OF assms(2) [unfolded refines_def]])
    auto

lemma refines_mono: "refines m T \<Longrightarrow> (\<And>\<sigma> a \<sigma>'. T \<sigma> a \<sigma>' \<Longrightarrow> S \<sigma> a \<sigma>') \<Longrightarrow> refines m S"
  unfolding refines_def by (erule runs_mono) blast

text \<open>A call that is not a write of a ConfigMap.\<close>

fun leaves_config_maps :: "api_call \<Rightarrow> bool" where
  "leaves_config_maps (CreateConfigMap m r) = False"
| "leaves_config_maps (UpdateConfigMap m r) = False"
| "leaves_config_maps (DeleteObject k n p r) = (k \<noteq> KindConfigMap)"
| "leaves_config_maps c = True"

lemma store_after_leaves: "leaves_config_maps c \<Longrightarrow> store_after c \<sigma> = \<sigma>"
  by (cases "(c, \<sigma>)" rule: store_after.cases) auto

lemma replay_leaves: "list_all leaves_config_maps cs \<Longrightarrow> replay \<sigma> cs = \<sigma>"
  by (induction cs) (simp_all add: store_after_leaves)

lemma refines_leaves: "emits leaves_config_maps m \<Longrightarrow> refines m (\<lambda>\<sigma> a \<sigma>'. \<sigma>' = \<sigma>)"
  unfolding emits_def refines_def by (erule runs_mono) (simp add: replay_leaves)

lemma refines_leaves_bind:
  assumes "emits leaves_config_maps m" and "\<And>a. refines (f a) S"
  shows "refines (m \<bind> f) S"
  by (rule refines_bind [OF refines_leaves [OF assms(1)]], rule refines_mono [OF assms(2)]) simp

lemma refines_cases [refines_rules]:
  "(\<And>e. x = Inl e \<Longrightarrow> refines (f1 e) S) \<Longrightarrow> (\<And>a. x = Inr a \<Longrightarrow> refines (g1 a) S) \<Longrightarrow>
     refines (case x of Inl e \<Rightarrow> f1 e | Inr a \<Rightarrow> g1 a) S"
  "(y = None \<Longrightarrow> refines f2 S) \<Longrightarrow> (\<And>b. y = Some b \<Longrightarrow> refines (g2 b) S) \<Longrightarrow>
     refines (case y of None \<Rightarrow> f2 | Some b \<Rightarrow> g2 b) S"
  "(\<And>c d. z = (c, d) \<Longrightarrow> refines (f3 c d) S) \<Longrightarrow> refines (case z of (c, d) \<Rightarrow> f3 c d) S"
  "(\<And>a. u = Ok a \<Longrightarrow> refines (f4 a) S) \<Longrightarrow> (\<And>e. u = Err e \<Longrightarrow> refines (g4 e) S) \<Longrightarrow>
     (\<And>p. u = Panic p \<Longrightarrow> refines (h4 p) S) \<Longrightarrow>
     refines (case u of Ok a \<Rightarrow> f4 a | Err e \<Rightarrow> g4 e | Panic p \<Rightarrow> h4 p) S"
  "(t \<Longrightarrow> refines m S) \<Longrightarrow> (\<not> t \<Longrightarrow> refines n S) \<Longrightarrow> refines (if t then m else n) S"
  by (simp_all split: sum.split option.split prod.split res.split)

end
