(* ===== verification/Upgrade_Refinement.thy ===== *)
theory Upgrade_Refinement
  imports Upgrade_Machine
begin

section \<open>The reconciler refines the upgrade machine\<close>

text \<open>
  What each function of the checkpoint and of the controller does to the store of ConfigMaps, from
  the single call up to \<open>Reconcile\<close>.
\<close>

subsection \<open>Functions that write no ConfigMap\<close>

lemma emits_util:
  "emits leaves_config_maps (updateTeamCityObjectStatusE R n st msg)"
  "emits leaves_config_maps (isNewestGeneration R n)"
  "emits leaves_config_maps (isNodeUpdateFinished R n)"
  "emits leaves_config_maps (ongoingZeroDowntimeUpgrade R t)"
  "emits leaves_config_maps (nodesUpdateChangeStatefulSetSpec R t nodes)"
  "emits leaves_config_maps (reportRecreateBlocked R t b)"
  "emits leaves_config_maps (createOrUpdateObjects R bd t objects)"
  "emits leaves_config_maps (validatePreconditions R bd t)"
  by (intro emits_rules; simp)+

subsection \<open>The checkpoint\<close>

lemma refines_GetConfigMap:
  "refines (client_Get_ConfigMap C n) (\<lambda>\<sigma> r \<sigma>'. \<sigma>' = \<sigma> \<and>
     (case r of Inr cm \<Rightarrow> \<sigma> n = Some cm | Inl e \<Rightarrow> (IsNotFound e \<longrightarrow> \<sigma> n = None)))"
  unfolding refines_def client_defs by (rule runs_api) (auto split: sum.split)

lemma refines_CreateConfigMap:
  "refines (client_Create_ConfigMap C m) (\<lambda>\<sigma> r \<sigma>'. case r of
     Inl e \<Rightarrow> \<sigma>' = \<sigma>
   | Inr u \<Rightarrow> \<sigma> (meta_key (cm_meta m)) = None \<and> \<sigma>' = \<sigma>(meta_key (cm_meta m) := Some m))"
  unfolding refines_def client_defs by (rule runs_api) (auto split: sum.split)

lemma refines_UpdateConfigMap:
  "refines (client_Update_ConfigMap C m) (\<lambda>\<sigma> r \<sigma>'. case r of
     Inl e \<Rightarrow> \<sigma>' = \<sigma>
   | Inr u \<Rightarrow> \<sigma>' = \<sigma>(meta_key (cm_meta m) := Some m))"
  unfolding refines_def client_defs by (rule runs_api) (auto split: sum.split)

lemma refines_DeleteConfigMap:
  "refines (client_Delete C KindConfigMap n p) (\<lambda>\<sigma> r \<sigma>'. case r of
     Inl e \<Rightarrow> \<sigma>' = \<sigma> | Inr u \<Rightarrow> \<sigma> n \<noteq> None \<and> \<sigma>' = \<sigma>(n := None))"
  unfolding refines_def client_defs by (rule runs_api) (auto split: sum.split)

lemma upgrade_of_simps:
  "\<sigma> (checkpoint_key t) = None \<Longrightarrow> upgrade_of \<sigma> t = NoUpgrade"
  "\<sigma> (checkpoint_key t) = Some cm \<Longrightarrow>
     upgrade_of \<sigma> t = (case read_stage cm of None \<Rightarrow> Unreadable | Some s \<Rightarrow> At (phase_of s))"
  by (simp_all add: upgrade_of_def)

lemma upgrade_of_written:
  "upgrade_of (\<sigma>(checkpoint_key t := Some (toConfigMapObject \<lparr>ck_CurrentStage = stage_of q, ck_Instance = t'\<rparr>))) t = At q"
  by (simp add: upgrade_of_def read_stage_toConfigMapObject)

text \<open>What a read of the stage tells of the store.\<close>

definition fetched :: "TeamCity \<Rightarrow> store \<Rightarrow> Stage \<times> go_error option \<Rightarrow> store \<Rightarrow> bool" where
  "fetched t \<sigma> out \<sigma>' \<longleftrightarrow> \<sigma>' = \<sigma> \<and>
     (case out of
        (s, None) \<Rightarrow> (\<exists>p. upgrade_of \<sigma> t = At p \<and> s = stage_of p)
      | (s, Some e) \<Rightarrow> (IsNotFound e \<longrightarrow> upgrade_of \<sigma> t = NoUpgrade))"

lemma refines_fetch: "refines (FetchCurrentStageFromCluster C c) (fetched (ck_Instance c))"
  unfolding FetchCurrentStageFromCluster_def Checkpoint_GetConfigMap_def
  by (simp, rule refines_bind [OF refines_GetConfigMap])
    (auto intro!: refines_rules simp: fetched_def upgrade_of_simps GetStageStringValue_cases
      stage_of_phase_of [OF read_stage_named] split: option.split)

text \<open>
  What moving the checkpoint to \<open>q\<close> may do: nothing, or begin there, or advance there; and no other
  ConfigMap is touched.
\<close>

definition moves :: "TeamCity \<Rightarrow> phase \<Rightarrow> store \<Rightarrow> store \<Rightarrow> bool" where
  "moves t q \<sigma> \<sigma>' \<longleftrightarrow>
     (\<forall>n. n \<noteq> checkpoint_key t \<longrightarrow> \<sigma>' n = \<sigma> n) \<and>
     (upgrade_of \<sigma>' t = upgrade_of \<sigma> t \<or>
      upgrade_of \<sigma> t = NoUpgrade \<and> upgrade_of \<sigma>' t = At q \<or>
      (\<exists>p. upgrade_of \<sigma> t = At p \<and> p \<noteq> Finished \<and> next_phase p = q \<and> upgrade_of \<sigma>' t = At q))"

lemma moves_refl [simp]: "moves t q \<sigma> \<sigma>"
  by (simp add: moves_def)

lemma moves_create:
  "\<sigma> (checkpoint_key t) = None \<Longrightarrow>
     moves t q \<sigma> (\<sigma>(checkpoint_key t := Some (toConfigMapObject \<lparr>ck_CurrentStage = stage_of q, ck_Instance = t'\<rparr>)))"
  by (simp add: moves_def upgrade_of_written upgrade_of_simps)

lemma moves_update:
  assumes "upgrade_of \<sigma> t = At p" and "canChangeStageValue (stage_of p) (stage_of q) = Inr True"
  shows "moves t q \<sigma> (\<sigma>(checkpoint_key t := Some (toConfigMapObject \<lparr>ck_CurrentStage = stage_of q, ck_Instance = t'\<rparr>)))"
  using assms by (auto simp: moves_def upgrade_of_written canChange_phases next_phase_iff)

lemma with_stage: "c\<lparr>ck_CurrentStage := s\<rparr> = \<lparr>ck_CurrentStage = s, ck_Instance = ck_Instance c\<rparr>"
  by (cases c) simp

lemma upgrade_of_read:
  "\<sigma> (checkpoint_key t) = Some cm \<Longrightarrow> read_stage cm = Some s \<Longrightarrow> upgrade_of \<sigma> t = At (phase_of s)"
  by (simp add: upgrade_of_def)

lemma moves_calls:
  assumes "checkpoint_calls c (stage_of q) out cs" and "consistent \<sigma> cs"
  shows "moves (ck_Instance c) q \<sigma> (replay \<sigma> cs)"
  using assms(1) unfolding checkpoint_calls_def Let_def with_stage
proof (elim disjE exE conjE)
  fix e r
  assume "IsNotFound e" and cs: "cs = [GetConfigMap (checkpoint_key (ck_Instance c)) (Inl e),
     CreateConfigMap (toConfigMapObject \<lparr>ck_CurrentStage = stage_of q, ck_Instance = ck_Instance c\<rparr>) r]"
  with assms(2) show ?thesis by (cases r) (auto simp: checkpoint_object_key moves_create)
next
  fix cm s r
  let ?key = "checkpoint_key (ck_Instance c)"
  assume s: "read_stage cm = Some s" "canChangeStageValue s (stage_of q) = Inr True"
    and cs: "cs = [GetConfigMap ?key (Inr cm),
      UpdateConfigMap (toConfigMapObject \<lparr>ck_CurrentStage = stage_of q, ck_Instance = ck_Instance c\<rparr>) r]"
  from cs assms(2) s(1) have "upgrade_of \<sigma> (ck_Instance c) = At (phase_of s)"
    by (auto intro: upgrade_of_read)
  moreover from s have "canChangeStageValue (stage_of (phase_of s)) (stage_of q) = Inr True"
    by (simp add: stage_of_phase_of [OF read_stage_named])
  ultimately show ?thesis using cs assms(2)
    by (cases r) (auto simp: checkpoint_object_key moves_update)
qed simp_all

lemma refines_DoCheckpoint:
  "refines (DoCheckpointWithDesiredStage C c (stage_of q)) (\<lambda>\<sigma> out \<sigma>'. moves (ck_Instance c) q \<sigma> \<sigma>')"
  unfolding refines_def by (rule runs_mono [OF DoCheckpoint_runs]) (blast intro: moves_calls)

subsection \<open>The handlers\<close>

lemmas refines_DoCheckpoints =
  refines_DoCheckpoint [of _ _ Created, simplified] refines_DoCheckpoint [of _ _ Starting, simplified]
  refines_DoCheckpoint [of _ _ Ready, simplified] refines_DoCheckpoint [of _ _ ShuttingDown, simplified]
  refines_DoCheckpoint [of _ _ MainUp, simplified] refines_DoCheckpoint [of _ _ Finished, simplified]

lemma refines_then:
  assumes "refines m (\<lambda>\<sigma> a \<sigma>'. P \<sigma> \<sigma>')" and "\<And>a. emits leaves_config_maps (f a)"
  shows "refines (m \<bind> f) (\<lambda>\<sigma> b \<sigma>'. P \<sigma> \<sigma>')"
  by (rule refines_bind [OF assms(1)], rule refines_mono [OF refines_leaves [OF assms(2)]]) simp

lemma refines_moves_result: "refines (result a) (\<lambda>\<sigma> b \<sigma>'. moves t q \<sigma> \<sigma>')"
  by (rule refines_return) simp

lemmas handler_rules =
  refines_then [OF refines_DoCheckpoints(1)] refines_then [OF refines_DoCheckpoints(2)]
  refines_then [OF refines_DoCheckpoints(3)] refines_then [OF refines_DoCheckpoints(4)]
  refines_then [OF refines_DoCheckpoints(5)] refines_then [OF refines_DoCheckpoints(6)]
  refines_moves_result refines_leaves_bind

lemma refines_handlers:
  "refines (HandleUpdateInitiated C c) (\<lambda>\<sigma> out \<sigma>'. moves (ck_Instance c) Created \<sigma> \<sigma>')"
  "refines (HandleReplicaCreated R c) (\<lambda>\<sigma> out \<sigma>'. moves (ck_Instance c) Starting \<sigma> \<sigma>')"
  "refines (HandleReplicaStarting R c) (\<lambda>\<sigma> out \<sigma>'. moves (ck_Instance c) Ready \<sigma> \<sigma>')"
  "refines (HandleReplicaReady C c) (\<lambda>\<sigma> out \<sigma>'. moves (ck_Instance c) ShuttingDown \<sigma> \<sigma>')"
  "refines (HandleMainShuttingDown R c) (\<lambda>\<sigma> out \<sigma>'. moves (ck_Instance c) MainUp \<sigma> \<sigma>')"
  "refines (HandleMainReady R c) (\<lambda>\<sigma> out \<sigma>'. moves (ck_Instance c) Finished \<sigma> \<sigma>')"
  unfolding handler_defs
  by (auto simp: Let_def intro!: handler_rules refines_rules emits_rules split: prod.split)

text \<open>Deleting the checkpoint, when there is one.\<close>

lemma refines_Delete:
  "refines (Checkpoint_Delete C c) (\<lambda>\<sigma> out \<sigma>'. \<sigma> (checkpoint_key (ck_Instance c)) \<noteq> None \<longrightarrow>
     (\<forall>cm. \<sigma> (checkpoint_key (ck_Instance c)) = Some cm \<longrightarrow> meta_key (cm_meta cm) = checkpoint_key (ck_Instance c)) \<longrightarrow>
     (\<forall>n. n \<noteq> checkpoint_key (ck_Instance c) \<longrightarrow> \<sigma>' n = \<sigma> n) \<and>
     (case out of None \<Rightarrow> \<sigma>' (checkpoint_key (ck_Instance c)) = None | Some e \<Rightarrow> \<sigma>' = \<sigma>))"
  unfolding Checkpoint_Delete_def Checkpoint_GetConfigMap_def refines_def
  by (simp add: Let_def, rule runs_rules) (auto intro!: runs_rules simp: runs_return)

definition keyed :: "store \<Rightarrow> bool" where
  "keyed \<sigma> \<longleftrightarrow> (\<forall>n cm. \<sigma> n = Some cm \<longrightarrow> meta_key (cm_meta cm) = n)"

lemma keyed_after: "keyed \<sigma> \<Longrightarrow> keyed (store_after c \<sigma>)"
  by (cases "(c, \<sigma>)" rule: store_after.cases) (auto simp: keyed_def)

lemma keyed_replay: "keyed \<sigma> \<Longrightarrow> keyed (replay \<sigma> cs)"
  by (induction cs arbitrary: \<sigma>) (simp_all add: keyed_after)

text \<open>The stage in memory is the stage of the cluster, or the initial one when there is none.\<close>

definition in_step :: "Checkpoint \<Rightarrow> store \<Rightarrow> bool" where
  "in_step c \<sigma> \<longleftrightarrow>
     (\<exists>p. upgrade_of \<sigma> (ck_Instance c) = At p \<and> ck_CurrentStage c = stage_of p) \<or>
     upgrade_of \<sigma> (ck_Instance c) = NoUpgrade \<and> ck_CurrentStage c = getInitialStageFromInstance (ck_Instance c)"

text \<open>A step of the machine that touches no other ConfigMap.\<close>

definition upgrades :: "bool \<Rightarrow> TeamCity \<Rightarrow> store \<Rightarrow> store \<Rightarrow> bool" where
  "upgrades deleting t \<sigma> \<sigma>' \<longleftrightarrow>
     (\<forall>n. n \<noteq> checkpoint_key t \<longrightarrow> \<sigma>' n = \<sigma> n) \<and>
     upgrade_step (IsMultiNode t) deleting (upgrade_of \<sigma> t) (upgrade_of \<sigma>' t)"

lemma upgrades_refl [simp]: "upgrades deleting t \<sigma> \<sigma>"
  by (simp add: upgrades_def upgrade_step.stay)

lemma upgrade_step_advance:
  "p \<noteq> Finished \<Longrightarrow> next_phase p = q \<Longrightarrow> upgrade_step multi False (At p) (At q)"
  by (auto intro: upgrade_step.advance)

lemma moves_upgrades:
  assumes "moves t q \<sigma> \<sigma>'" and "in_step c \<sigma>" and "ck_Instance c = t"
    and "ck_CurrentStage c = stage_of p" and "p \<noteq> Finished" and "next_phase p = q"
  shows "upgrades False t \<sigma> \<sigma>'"
proof -
  have "upgrade_step (IsMultiNode t) False NoUpgrade (At q)" if "upgrade_of \<sigma> t = NoUpgrade"
  proof -
    from that assms(2-4) have "stage_of p = getInitialStageFromInstance t" by (auto simp: in_step_def)
    with assms(6) show ?thesis
      by (cases p) (auto simp: getInitialStageFromInstance_def upgrade_step_from_none split: if_splits)
  qed
  then show ?thesis using assms(1)
    by (auto simp: moves_def upgrades_def intro: upgrade_step.stay upgrade_step_advance)
qed

lemma UpdateFinished_not_initial: "UpdateFinished \<noteq> getInitialStageFromInstance t"
  by (simp add: getInitialStageFromInstance_def)

lemma refines_UpdateFinished:
  assumes "ck_CurrentStage c = UpdateFinished"
  shows "refines (HandleUpdateFinished C c)
    (\<lambda>\<sigma> out \<sigma>'. keyed \<sigma> \<longrightarrow> in_step c \<sigma> \<longrightarrow> upgrades False (ck_Instance c) \<sigma> \<sigma>')"
proof -
  let ?key = "checkpoint_key (ck_Instance c)"
  have held: "\<sigma> ?key \<noteq> None \<and> upgrade_of \<sigma> (ck_Instance c) = At Finished" if "in_step c \<sigma>" for \<sigma>
  proof -
    from that assms obtain p where p: "upgrade_of \<sigma> (ck_Instance c) = At p" "stage_of p = UpdateFinished"
      unfolding in_step_def by (metis UpdateFinished_not_initial)
    then have "p = Finished" by (cases p) simp_all
    with p(1) show ?thesis by (simp add: upgrade_of_def split: option.splits)
  qed
  show ?thesis
    unfolding HandleUpdateFinished_def
    apply (rule refines_bind [OF refines_Delete], rule refines_return)
    apply (auto simp: upgrades_def keyed_def upgrade_of_simps(1) dest!: held split: option.splits
        intro: upgrade_step.intros)
    done
qed

lemma refines_doAction:
  "refines (doActionBasedOnCheckpointOrRequeue R c)
     (\<lambda>\<sigma> out \<sigma>'. keyed \<sigma> \<longrightarrow> in_step c \<sigma> \<longrightarrow> upgrades False (ck_Instance c) \<sigma> \<sigma>')"
proof -
  have handler: "refines m (\<lambda>\<sigma> out \<sigma>'. keyed \<sigma> \<longrightarrow> in_step c \<sigma> \<longrightarrow> upgrades False (ck_Instance c) \<sigma> \<sigma>')"
    if "refines m (\<lambda>\<sigma> out \<sigma>'. moves (ck_Instance c) q \<sigma> \<sigma>')" "ck_CurrentStage c = stage_of p"
      "p \<noteq> Finished" "next_phase p = q" for m :: "('a, bool res) act" and p q
    using that by (elim refines_mono) (blast intro: moves_upgrades)
  show ?thesis
    unfolding doActionBasedOnCheckpointOrRequeue_def Let_def
  proof (intro refines_rules)
    assume "ck_CurrentStage c = UpdateInitiated"
    with handler [OF refines_handlers(1), of Initiated] show
      "refines (HandleUpdateInitiated (r_Client R) c) (\<lambda>\<sigma> out \<sigma>'. keyed \<sigma> \<longrightarrow> in_step c \<sigma> \<longrightarrow> upgrades False (ck_Instance c) \<sigma> \<sigma>')"
      by simp
  next
    assume "ck_CurrentStage c = ReplicaCreated"
    with handler [OF refines_handlers(2), of Created] show
      "refines (HandleReplicaCreated R c) (\<lambda>\<sigma> out \<sigma>'. keyed \<sigma> \<longrightarrow> in_step c \<sigma> \<longrightarrow> upgrades False (ck_Instance c) \<sigma> \<sigma>')"
      by simp
  next
    assume "ck_CurrentStage c = ReplicaStarting"
    with handler [OF refines_handlers(3), of Starting] show
      "refines (HandleReplicaStarting R c) (\<lambda>\<sigma> out \<sigma>'. keyed \<sigma> \<longrightarrow> in_step c \<sigma> \<longrightarrow> upgrades False (ck_Instance c) \<sigma> \<sigma>')"
      by simp
  next
    assume "ck_CurrentStage c = ReplicaReady"
    with handler [OF refines_handlers(4), of Ready] show
      "refines (HandleReplicaReady (r_Client R) c) (\<lambda>\<sigma> out \<sigma>'. keyed \<sigma> \<longrightarrow> in_step c \<sigma> \<longrightarrow> upgrades False (ck_Instance c) \<sigma> \<sigma>')"
      by simp
  next
    assume "ck_CurrentStage c = MainShuttingDown"
    with handler [OF refines_handlers(5), of ShuttingDown] show
      "refines (HandleMainShuttingDown R c) (\<lambda>\<sigma> out \<sigma>'. keyed \<sigma> \<longrightarrow> in_step c \<sigma> \<longrightarrow> upgrades False (ck_Instance c) \<sigma> \<sigma>')"
      by simp
  next
    assume "ck_CurrentStage c = MainReady"
    with handler [OF refines_handlers(6), of MainUp] show
      "refines (HandleMainReady R c) (\<lambda>\<sigma> out \<sigma>'. keyed \<sigma> \<longrightarrow> in_step c \<sigma> \<longrightarrow> upgrades False (ck_Instance c) \<sigma> \<sigma>')"
      by simp
  next
    assume "ck_CurrentStage c = UpdateFinished"
    then show "refines (HandleUpdateFinished (r_Client R) c)
      (\<lambda>\<sigma> out \<sigma>'. keyed \<sigma> \<longrightarrow> in_step c \<sigma> \<longrightarrow> upgrades False (ck_Instance c) \<sigma> \<sigma>')"
      by (rule refines_UpdateFinished)
  qed simp
qed

subsection \<open>The reconciler\<close>

lemma refines_UpdateStage:
  "refines (UpdateStageFromConfigMap C c) (\<lambda>\<sigma> out \<sigma>'. \<sigma>' = \<sigma> \<and> ck_Instance (snd out) = ck_Instance c \<and>
     (case fst out of None \<Rightarrow> in_step (snd out) \<sigma> | Some e \<Rightarrow> \<not> IsNotFound e))"
  unfolding UpdateStageFromConfigMap_def
  by (rule refines_bind [OF refines_fetch])
    (auto intro!: refines_rules simp: fetched_def in_step_def Let_def split: option.split)

lemma refines_perform:
  "refines (performZeroDowntimeUpgradeOrRequeue R t ongoing)
     (\<lambda>\<sigma> out \<sigma>'. keyed \<sigma> \<longrightarrow> upgrades False t \<sigma> \<sigma>')"
proof -
  have act: "refines (doActionBasedOnCheckpointOrRequeue R c)
     (\<lambda>\<sigma> out \<sigma>'. \<forall>\<sigma>0. \<sigma> = \<sigma>0 \<and> ck_Instance c = t \<and> in_step c \<sigma>0 \<longrightarrow> keyed \<sigma>0 \<longrightarrow> upgrades False t \<sigma>0 \<sigma>')" for c
    by (rule refines_mono [OF refines_doAction]) auto
  have inner: "refines
      (UpdateStageFromConfigMap C (NewCheckpoint t) \<bind> (\<lambda>(err, currentCheckpoint). case err of
           None \<Rightarrow> doActionBasedOnCheckpointOrRequeue R currentCheckpoint
         | Some e \<Rightarrow>
             if \<not> IsNotFound e then result (Err e)
             else doActionBasedOnCheckpointOrRequeue R currentCheckpoint))
      (\<lambda>\<sigma> out \<sigma>'. keyed \<sigma> \<longrightarrow> upgrades False t \<sigma> \<sigma>')" for C
    by (rule refines_bind [OF refines_UpdateStage])
      (auto intro!: refines_rules refines_mono [OF act] simp: NewCheckpoint_def)
  show ?thesis
    unfolding performZeroDowntimeUpgradeOrRequeue_def doesNodesUpdateChangeStatefulSetSpec_def Let_def
    by (rule refines_leaves_bind [OF emits_util(5)], intro refines_cases inner)
      (auto intro: refines_return)
qed

lemma deletes_leave:
  "refines (deleteObjects R objects) (\<lambda>\<sigma> r \<sigma>'. (\<forall>obj \<in> set objects. object_kind obj \<noteq> KindConfigMap) \<longrightarrow> \<sigma>' = \<sigma>)"
proof (cases "\<forall>obj \<in> set objects. object_kind obj \<noteq> KindConfigMap")
  case True
  then have "emits leaves_config_maps (deleteObjects R objects)"
    by (induction objects) (auto intro!: emits_rules)
  then show ?thesis by (rule refines_mono [OF refines_leaves]) simp
next
  case False
  have "emits (\<lambda>c. True) (deleteObjects R objects)"
    by (induction objects) (auto intro!: emits_rules)
  with False show ?thesis
    unfolding refines_def emits_def by (elim runs_mono) blast
qed

lemma refines_List:
  "refines (client_List C k ns labels) (\<lambda>\<sigma> r \<sigma>'. \<sigma>' = \<sigma> \<and>
     (case r of Inl e \<Rightarrow> True | Inr items \<Rightarrow> \<forall>obj \<in> set items. object_kind obj = k))"
  unfolding refines_def client_defs by (rule runs_api) (auto split: sum.split)

lemma refines_GetObsoleteObjects:
  "refines (GetObsoleteObjects C b) (\<lambda>\<sigma> r \<sigma>'. \<sigma>' = \<sigma> \<and>
     (case r of Inl e \<Rightarrow> True | Inr items \<Rightarrow> \<forall>obj \<in> set items. object_kind obj \<noteq> KindConfigMap))"
  by (cases b)
    (auto simp: obsolete_defs Let_def intro!: refines_bind [OF refines_List] refines_rules)

lemma refines_reconcileDelete: "refines (reconcileDelete R b) (\<lambda>\<sigma> r \<sigma>'. \<sigma>' = \<sigma>)"
  unfolding reconcileDelete_def
  by (rule refines_bind [OF refines_GetObsoleteObjects])
    (auto split: sum.split intro!: refines_return refines_mono [OF deletes_leave])

lemma refines_same_bind:
  assumes "refines m (\<lambda>\<sigma> a \<sigma>'. \<sigma>' = \<sigma>)" and "\<And>a. refines (f a) (\<lambda>\<sigma> b \<sigma>'. \<sigma>' = \<sigma>)"
  shows "refines (m \<bind> f) (\<lambda>\<sigma> b \<sigma>'. \<sigma>' = \<sigma>)"
  by (rule refines_bind [OF assms(1)], rule refines_mono [OF assms(2)]) simp

lemmas refines_same =
  refines_leaves [OF emits_util(8)] refines_leaves [OF emits_util(7)]
  refines_leaves [OF emits_util(6)] refines_leaves [OF emits_util(1)]
  refines_leaves [OF emits_util(4)] refines_reconcileDelete

lemma refines_reconcileBuilders: "refines (reconcileBuilders R t req bs) (\<lambda>\<sigma> r \<sigma>'. \<sigma>' = \<sigma>)"
  by (induction bs)
    (auto simp: reconcileCreateOrUpdate_def intro!: refines_rules refines_same_bind refines_same)

lemma refines_reconcileResources: "refines (reconcileResources R t req) (\<lambda>\<sigma> r \<sigma>'. \<sigma>' = \<sigma>)"
  unfolding reconcileResources_def
  by (auto intro!: refines_rules refines_same_bind refines_reconcileBuilders refines_same)

lemma refines_ongoing:
  "refines (ongoingZeroDowntimeUpgrade R t) (\<lambda>\<sigma> a \<sigma>'. \<sigma>' = \<sigma> \<and> (a \<longrightarrow> (\<exists>p. upgrade_of \<sigma> t = At p)))"
  unfolding ongoingZeroDowntimeUpgrade_def Let_def
  by (rule refines_bind [OF refines_fetch])
    (auto intro!: refines_rules simp: fetched_def NewCheckpoint_def)

lemma upgrade_of_At: "upgrade_of \<sigma> t = At p \<Longrightarrow> \<exists>cm. \<sigma> (checkpoint_key t) = Some cm"
  by (auto simp: upgrade_of_def split: option.splits)

lemma refines_finalize:
  "refines (finalizeTeamCity R t) (\<lambda>\<sigma> a \<sigma>'. keyed \<sigma> \<longrightarrow> upgrades True t \<sigma> \<sigma>')"
proof -
  have delete: "refines (Checkpoint_Delete C (NewCheckpoint t))
      (\<lambda>\<sigma> a \<sigma>'. keyed \<sigma> \<longrightarrow> (\<exists>p. upgrade_of \<sigma> t = At p) \<longrightarrow> upgrades True t \<sigma> \<sigma>')" for C
    apply (rule refines_mono [OF refines_Delete], intro impI, elim exE, frule upgrade_of_At)
    apply (auto simp: NewCheckpoint_def keyed_def upgrades_def upgrade_of_simps(1)
        intro: upgrade_step.intros split: option.splits)
    done
  show ?thesis
    unfolding finalizeTeamCity_def Let_def
    by (rule refines_bind [OF refines_ongoing])
      (auto intro!: refines_rules refines_bind [OF delete])
qed

lemma refines_after_upgrade:
  assumes "\<And>\<sigma> a \<sigma>'. T \<sigma> a \<sigma>' \<Longrightarrow> keyed \<sigma> \<longrightarrow> upgrades d t \<sigma> \<sigma>'" and "refines m T"
    and "\<And>a. refines (f a) (\<lambda>\<sigma> b \<sigma>'. \<sigma>' = \<sigma>)"
  shows "refines (m \<bind> f) (\<lambda>\<sigma> b \<sigma>'. keyed \<sigma> \<longrightarrow> upgrades d t \<sigma> \<sigma>')"
  by (rule refines_bind [OF assms(2)], rule refines_mono [OF assms(3)]) (use assms(1) in auto)

lemma refines_deleting:
  "refines
     (finalizeTeamCity R t \<bind> (\<lambda>err. case err of
        Some e \<Rightarrow> result (Err e)
      | None \<Rightarrow>
          client_Update_TeamCity (r_Client R) t' \<bind> (\<lambda>err.
            case err of Inl e \<Rightarrow> result (Err e) | Inr u \<Rightarrow> result (Ok zero_Result))))
     (\<lambda>\<sigma> out \<sigma>'. keyed \<sigma> \<longrightarrow> upgrades True t \<sigma> \<sigma>')"
  by (rule refines_after_upgrade [OF _ refines_finalize])
    (auto intro!: refines_rules refines_leaves emits_rules)

lemma Reconcile_refines:
  "runs (Reconcile R req) (\<lambda>out cs. \<exists>r rest. cs = GetTeamCity req r # rest \<and>
     (\<forall>\<sigma>. consistent \<sigma> cs \<longrightarrow> keyed \<sigma> \<longrightarrow>
        (case r of
           Inl e \<Rightarrow> replay \<sigma> cs = \<sigma>
         | Inr t \<Rightarrow> upgrades (om_DeletionTimestamp (tc_meta t) \<noteq> None) t \<sigma> (replay \<sigma> cs))))"
proof -
  have upgraded: "refines m (\<lambda>\<sigma> out \<sigma>'. keyed \<sigma> \<longrightarrow> upgrades d t \<sigma> \<sigma>') \<Longrightarrow>
      runs m (\<lambda>out ds. \<forall>\<sigma>. consistent \<sigma> ds \<longrightarrow> keyed \<sigma> \<longrightarrow> upgrades d t \<sigma> (replay \<sigma> ds))"
    for d t and m :: "('a, Result res) act"
    unfolding refines_def by (elim runs_mono) blast
  have resources: "refines (reconcileResources R t req) (\<lambda>\<sigma> out \<sigma>'. keyed \<sigma> \<longrightarrow> upgrades False t \<sigma> \<sigma>')" for t
    by (rule refines_mono [OF refines_reconcileResources]) simp
  show ?thesis
    unfolding Reconcile_def getTeamCityObjectE_def
    apply (rule runs_rules)
    subgoal for a
      apply (cases a)
      subgoal by (auto intro: runs_return)
      subgoal for t
        apply (simp only: sum.case ex_simps list.inject simp_thms)
        apply simp
        apply (intro conjI impI)
        subgoal by (rule upgraded, rule refines_deleting)
        subgoal
          apply (rule upgraded)
          apply (rule refines_leaves_bind [OF emits_util(4)])
          apply (intro refines_cases(5) resources)
          apply (rule refines_after_upgrade [OF _ refines_perform], simp)
          apply (intro refines_rules refines_reconcileResources; simp)
          done
        done
      done
    done
qed

end
