(* ===== verification/Upgrade_Progress.thy ===== *)
theory Upgrade_Progress
  imports Upgrade_Refinement
begin

section \<open>An upgrade in a cooperative cluster comes to its end\<close>

text \<open>
  When the API server accepts what the operator writes, and the replica and the main node come up,
  every reconciliation takes the upgrade one phase further, so that at most seven of them end it.
  What is asked of the cluster is a condition on each call and its answer.
\<close>

subsection \<open>Cooperative answers\<close>

text \<open>The StatefulSet runs its newest revision, as the handlers test it.\<close>

definition settled :: "StatefulSet \<Rightarrow> bool" where
  "settled s \<longleftrightarrow>
     om_Generation (sts_meta s) = st_ObservedGeneration (sts_Status s) \<and>
     st_CurrentRevision (sts_Status s) = st_UpdateRevision (sts_Status s) \<and>
     st_ReadyReplicas (sts_Status s) = 1"

definition main_key :: "TeamCity \<Rightarrow> NamespacedName" where
  "main_key t = GetNamespacedNameFromNamespace (tc_MainNode t) (tc_Namespace t)"

lemma replica_is_not_main [simp]: "GetROStatefulSetNamespacedName t \<noteq> main_key t"
  by (simp add: GetROStatefulSetNamespacedName_def main_key_def GetNamespacedNameFromNamespace_def
      RoNodePostfix_def)

text \<open>
  \<open>cooperates t p call\<close>: the answer of the call lets an upgrade of \<open>t\<close> in phase \<open>p\<close> go on. Reads
  succeed (a missing StatefulSet matters in the three phases that need one), the replica is
  available when it is waited for, the main node is settled when it is waited for, and writes of
  the checkpoint succeed. An error of \<open>CreateOrUpdate\<close> is no obstacle; a panic is.
\<close>

fun cooperates :: "TeamCity \<Rightarrow> phase \<Rightarrow> api_call \<Rightarrow> bool" where
  "cooperates t p (GetStatefulSet n (Inl e)) = (IsNotFound e \<and> p \<notin> {Created, Starting, ShuttingDown})"
| "cooperates t p (GetStatefulSet n (Inr s)) =
     ((p = Starting \<and> n = GetROStatefulSetNamespacedName t \<longrightarrow> st_AvailableReplicas (sts_Status s) > 0) \<and>
      (p = ShuttingDown \<and> n = main_key t \<longrightarrow> settled s))"
| "cooperates t p (GetConfigMap n (Inl e)) = IsNotFound e"
| "cooperates t p (CreateConfigMap m (Inl e)) = False"
| "cooperates t p (UpdateConfigMap m (Inl e)) = False"
| "cooperates t p (DeleteObject k n policy (Inl e)) = (k \<noteq> KindConfigMap \<and> IsNotFound e)"
| "cooperates t p (CreateOrUpdateObject obj (Panic msg) obj') = False"
| "cooperates t p c = True"

subsection \<open>Reasoning about cooperative runs\<close>

definition progress :: "(api_call \<Rightarrow> bool) \<Rightarrow> ('w, 'a) act \<Rightarrow> (store \<Rightarrow> 'a \<Rightarrow> store \<Rightarrow> bool) \<Rightarrow> bool" where
  "progress G m T \<longleftrightarrow>
     runs m (\<lambda>a cs. \<forall>\<sigma>. consistent \<sigma> cs \<longrightarrow> list_all G cs \<longrightarrow> T \<sigma> a (replay \<sigma> cs))"

named_theorems progress_rules "how a cooperative run goes on"

lemma progress_refines: "refines m T \<Longrightarrow> progress G m T"
  unfolding progress_def refines_def by (erule runs_mono) blast

lemma progress_return [progress_rules]: "(\<And>\<sigma>. T \<sigma> a \<sigma>) \<Longrightarrow> progress G (result a) T"
  by (simp add: progress_def runs_return)

lemma progress_bind:
  assumes "progress G m T" and "\<And>a. progress G (f a) (\<lambda>\<sigma> b \<sigma>'. \<forall>\<sigma>0. T \<sigma>0 a \<sigma> \<longrightarrow> S \<sigma>0 b \<sigma>')"
  shows "progress G (m \<bind> f) S"
  unfolding progress_def
  by (rule runs_bind [OF assms(1) [unfolded progress_def]],
      rule runs_mono [OF assms(2) [unfolded progress_def]]) auto

lemma progress_mono: "progress G m T \<Longrightarrow> (\<And>\<sigma> a \<sigma>'. T \<sigma> a \<sigma>' \<Longrightarrow> S \<sigma> a \<sigma>') \<Longrightarrow> progress G m S"
  unfolding progress_def by (erule runs_mono) blast

lemma progress_api:
  "progress G (api f entry) (\<lambda>\<sigma> a \<sigma>'. \<sigma>' = store_after (entry a) \<sigma> \<and> answer_agrees \<sigma> (entry a) \<and> G (entry a))"
  unfolding progress_def by (rule runs_api) simp

lemma progress_cases [progress_rules]:
  "(\<And>e. x = Inl e \<Longrightarrow> progress G (f1 e) S) \<Longrightarrow> (\<And>a. x = Inr a \<Longrightarrow> progress G (g1 a) S) \<Longrightarrow>
     progress G (case x of Inl e \<Rightarrow> f1 e | Inr a \<Rightarrow> g1 a) S"
  "(y = None \<Longrightarrow> progress G f2 S) \<Longrightarrow> (\<And>b. y = Some b \<Longrightarrow> progress G (g2 b) S) \<Longrightarrow>
     progress G (case y of None \<Rightarrow> f2 | Some b \<Rightarrow> g2 b) S"
  "(\<And>c d. z = (c, d) \<Longrightarrow> progress G (f3 c d) S) \<Longrightarrow> progress G (case z of (c, d) \<Rightarrow> f3 c d) S"
  "(\<And>a. u = Ok a \<Longrightarrow> progress G (f4 a) S) \<Longrightarrow> (\<And>e. u = Err e \<Longrightarrow> progress G (g4 e) S) \<Longrightarrow>
     (\<And>p. u = Panic p \<Longrightarrow> progress G (h4 p) S) \<Longrightarrow>
     progress G (case u of Ok a \<Rightarrow> f4 a | Err e \<Rightarrow> g4 e | Panic p \<Rightarrow> h4 p) S"
  "(t \<Longrightarrow> progress G m S) \<Longrightarrow> (\<not> t \<Longrightarrow> progress G n S) \<Longrightarrow> progress G (if t then m else n) S"
  by (simp_all split: sum.split option.split prod.split res.split)

text \<open>A read of a StatefulSet, in the form the handlers use it.\<close>

lemma progress_Get_StatefulSet:
  "progress G (client_Get_StatefulSet C n) (\<lambda>\<sigma> r \<sigma>'. \<sigma>' = \<sigma> \<and> G (GetStatefulSet n r))"
  unfolding client_defs by (rule progress_mono [OF progress_api]) simp

lemma progress_Get_ConfigMap:
  "progress G (client_Get_ConfigMap C n) (\<lambda>\<sigma> r \<sigma>'. \<sigma>' = \<sigma> \<and> G (GetConfigMap n r) \<and>
     (case r of Inr cm \<Rightarrow> \<sigma> n = Some cm | Inl e \<Rightarrow> IsNotFound e \<longrightarrow> \<sigma> n = None))"
  unfolding client_defs by (rule progress_mono [OF progress_api]) (auto split: sum.splits)

lemma progress_apply:
  "progress G (applyWithRetry C obj f) (\<lambda>\<sigma> r \<sigma>'. \<sigma>' = \<sigma> \<and> G (CreateOrUpdateObject obj (fst r) (snd r)))"
  unfolding client_defs by (rule progress_mono [OF progress_api]) (auto split: prod.splits)

lemma progress_Delete_StatefulSet:
  "progress G (client_Delete C KindStatefulSet n p) (\<lambda>\<sigma> r \<sigma>'. \<sigma>' = \<sigma> \<and> G (DeleteObject KindStatefulSet n p r))"
  unfolding client_defs by (rule progress_mono [OF progress_api]) simp

subsection \<open>The checkpoint moves\<close>

definition ahead_of :: "TeamCity \<Rightarrow> phase \<Rightarrow> store \<Rightarrow> bool" where
  "ahead_of t q \<sigma> \<longleftrightarrow>
     upgrade_of \<sigma> t = NoUpgrade \<or> (\<exists>p. upgrade_of \<sigma> t = At p \<and> p \<noteq> Finished \<and> next_phase p = q)"

lemma checkpoint_advances:
  assumes "checkpoint_calls c (stage_of q) out cs" and "consistent \<sigma> cs"
    and "list_all (cooperates t p) cs" and "ahead_of (ck_Instance c) q \<sigma>"
  shows "upgrade_of (replay \<sigma> cs) (ck_Instance c) = At q \<and> fst out = None"
  using assms(1) unfolding checkpoint_calls_def Let_def with_stage
proof (elim disjE exE conjE)
  fix e r
  assume "IsNotFound e" "out = (case r of Inl e' \<Rightarrow> Some e' | Inr u \<Rightarrow> None, \<lparr>ck_CurrentStage = stage_of q, ck_Instance = ck_Instance c\<rparr>)"
    and cs: "cs = [GetConfigMap (checkpoint_key (ck_Instance c)) (Inl e),
     CreateConfigMap (toConfigMapObject \<lparr>ck_CurrentStage = stage_of q, ck_Instance = ck_Instance c\<rparr>) r]"
  with assms(2,3) show ?thesis by (cases r) (auto simp: checkpoint_object_key upgrade_of_written)
next
  fix cm s r
  assume "out = (None, \<lparr>ck_CurrentStage = stage_of q, ck_Instance = ck_Instance c\<rparr>)"
    "cs = [GetConfigMap (checkpoint_key (ck_Instance c)) (Inr cm),
      UpdateConfigMap (toConfigMapObject \<lparr>ck_CurrentStage = stage_of q, ck_Instance = ck_Instance c\<rparr>) r]"
  with assms(2,3) show ?thesis
    by (cases r) (auto simp: checkpoint_object_key upgrade_of_written)
next
  fix cm s e
  assume s: "read_stage cm = Some s" "canChangeStageValue s (stage_of q) = Inl e"
    and cs: "cs = [GetConfigMap (checkpoint_key (ck_Instance c)) (Inr cm)]"
  from s(1) cs assms(2) have "upgrade_of \<sigma> (ck_Instance c) = At (phase_of s)"
    by (auto intro: upgrade_of_read)
  with assms(4) have "phase_rank q = Suc (phase_rank (phase_of s))"
    by (auto simp: ahead_of_def next_phase_rank)
  then have "canChangeStageValue (stage_of (phase_of s)) (stage_of q) = Inr True"
    by (simp add: canChange_phases)
  with s show ?thesis by (simp add: stage_of_phase_of [OF read_stage_named])
next
  fix e
  assume "\<not> IsNotFound e" "cs = [GetConfigMap (checkpoint_key (ck_Instance c)) (Inl e)]"
  with assms(3) show ?thesis by simp
next
  fix cm
  assume "read_stage cm = None" "cs = [GetConfigMap (checkpoint_key (ck_Instance c)) (Inr cm)]"
  with assms(2,4) show ?thesis by (auto simp: ahead_of_def upgrade_of_def)
qed

lemma progress_DoCheckpoint:
  "progress (cooperates t p) (DoCheckpointWithDesiredStage C c (stage_of q))
     (\<lambda>\<sigma> out \<sigma>'. ahead_of (ck_Instance c) q \<sigma> \<longrightarrow> upgrade_of \<sigma>' (ck_Instance c) = At q \<and> fst out = None)"
  unfolding progress_def by (rule runs_mono [OF DoCheckpoint_runs]) (use checkpoint_advances in blast)

subsection \<open>The handlers advance\<close>

text \<open>\<open>reaches t p m\<close>: a cooperative run of \<open>m\<close> from phase \<open>p\<close>, or from no upgrade, ends in the next phase.\<close>

definition reaches :: "TeamCity \<Rightarrow> phase \<Rightarrow> ('w, bool res) act \<Rightarrow> bool" where
  "reaches t p m \<longleftrightarrow> progress (cooperates t p) m (\<lambda>\<sigma> out \<sigma>'.
     ahead_of t (next_phase p) \<sigma> \<longrightarrow> upgrade_of \<sigma>' t = At (next_phase p))"

lemma reaches_checkpoint:
  assumes "ck_Instance c = t" and "next_phase p = q"
  shows "reaches t p (DoCheckpointWithDesiredStage C c (stage_of q) \<bind> (\<lambda>(err, c'). result (on_success b err)))"
  unfolding reaches_def
  by (rule progress_bind [OF progress_DoCheckpoint]) (use assms in \<open>auto intro!: progress_rules\<close>)

lemmas reaches_checkpoints =
  reaches_checkpoint [where q = Created, simplified] reaches_checkpoint [where q = Starting, simplified]
  reaches_checkpoint [where q = Ready, simplified] reaches_checkpoint [where q = ShuttingDown, simplified]
  reaches_checkpoint [where q = MainUp, simplified] reaches_checkpoint [where q = Finished, simplified]

lemma reaches_bind:
  assumes "progress (cooperates t p) m (\<lambda>\<sigma> a \<sigma>'. \<sigma>' = \<sigma> \<and> P a)"
    and "\<And>a. P a \<Longrightarrow> reaches t p (f a)"
    and "\<And>a. progress (cooperates t p) (f a) (\<lambda>\<sigma> b \<sigma>'. True)"
  shows "reaches t p (m \<bind> f)"
  unfolding reaches_def
proof (rule progress_bind [OF assms(1)])
  fix a
  show "progress (cooperates t p) (f a) (\<lambda>\<sigma> b \<sigma>'. \<forall>\<sigma>0. \<sigma> = \<sigma>0 \<and> P a \<longrightarrow>
      ahead_of t (next_phase p) \<sigma>0 \<longrightarrow> upgrade_of \<sigma>' t = At (next_phase p))"
  proof (cases "P a")
    case True
    from assms(2) [OF this] show ?thesis unfolding reaches_def by (rule progress_mono) blast
  next
    case False
    with assms(3) [of a] show ?thesis by (auto elim: progress_mono)
  qed
qed

lemma progress_any: "emits (\<lambda>c. True) m \<Longrightarrow> progress G m (\<lambda>\<sigma> b \<sigma>'. True)"
  unfolding progress_def emits_def by (erule runs_mono) simp

lemmas any_rules = progress_any emits_rules

lemma reaches_UpdateInitiated: "reaches (ck_Instance c) Initiated (HandleUpdateInitiated C c)"
  unfolding HandleUpdateInitiated_def by (rule reaches_checkpoints) simp_all

lemma reaches_ReplicaReady: "reaches (ck_Instance c) Ready (HandleReplicaReady C c)"
  unfolding HandleReplicaReady_def by (rule reaches_checkpoints) simp_all

lemma reaches_ReplicaCreated: "reaches (ck_Instance c) Created (HandleReplicaCreated R c)"
proof -
  have apply_then: "reaches (ck_Instance c) Created
     (applyWithRetry C obj f \<bind> (\<lambda>(err, obj'). case err of Panic p \<Rightarrow> result (Panic p)
       | ignored \<Rightarrow> DoCheckpointWithDesiredStage C' c ReplicaStarting \<bind> (\<lambda>(err, c'). result (on_success True err))))"
    for C :: "'a client" and obj f C'
    by (rule reaches_bind [OF progress_apply])
      (auto split: prod.splits res.splits intro!: reaches_checkpoints any_rules)
  show ?thesis
    unfolding HandleReplicaCreated_def Let_def
    by (rule reaches_bind [OF progress_Get_StatefulSet])
      (auto split: sum.splits intro!: apply_then any_rules)
qed

lemma reaches_ReplicaStarting: "reaches (ck_Instance c) Starting (HandleReplicaStarting R c)"
  unfolding HandleReplicaStarting_def Let_def
  by (rule reaches_bind [OF progress_Get_StatefulSet])
    (auto split: sum.splits intro!: reaches_checkpoints any_rules)

lemma progress_isNodeUpdateFinished:
  "progress (cooperates t ShuttingDown) (isNodeUpdateFinished R (main_key t))
     (\<lambda>\<sigma> out \<sigma>'. \<sigma>' = \<sigma> \<and> out = (True, None))"
  unfolding isNodeUpdateFinished_def getStatefulSetByName_def
  by (rule progress_bind [OF progress_Get_StatefulSet])
    (auto split: sum.splits intro!: progress_rules simp: settled_def replica_is_not_main [symmetric])

lemma progress_isNewestGeneration:
  "progress (cooperates t ShuttingDown) (isNewestGeneration R (main_key t))
     (\<lambda>\<sigma> out \<sigma>'. \<sigma>' = \<sigma> \<and> out = (True, None))"
  unfolding isNewestGeneration_def getStatefulSetByName_def
  by (rule progress_bind [OF progress_Get_StatefulSet])
    (auto split: sum.splits intro!: progress_rules simp: settled_def)

lemma reaches_MainShuttingDown: "reaches (ck_Instance c) ShuttingDown (HandleMainShuttingDown R c)"
proof -
  have then_newest: "reaches (ck_Instance c) ShuttingDown
     (isNewestGeneration R (main_key (ck_Instance c)) \<bind> (\<lambda>(newest, err). case err of
          Some e \<Rightarrow> result (Err e)
        | None \<Rightarrow>
            if newest
            then DoCheckpointWithDesiredStage (r_Client R) c MainReady \<bind>
                   (\<lambda>(err, c). result (on_success True err))
            else result (Ok True)))"
    by (rule reaches_bind [OF progress_isNewestGeneration])
      (auto intro!: reaches_checkpoints any_rules)
  show ?thesis
    unfolding HandleMainShuttingDown_def Let_def main_key_def [symmetric]
    by (rule reaches_bind [OF progress_isNodeUpdateFinished])
      (auto intro!: then_newest any_rules)
qed

lemma reaches_finishUpdate: "reaches (ck_Instance c) MainUp (finishUpdate C c)"
  unfolding finishUpdate_def by (rule reaches_checkpoints) simp_all

lemma reaches_MainReady: "reaches (ck_Instance c) MainUp (HandleMainReady R c)"
proof -
  have delete_then: "reaches (ck_Instance c) MainUp
     (client_Delete (r_Client R) KindStatefulSet n None \<bind> (\<lambda>d. case d of
          Inl err \<Rightarrow> if \<not> IsNotFound err then result (Err err) else finishUpdate (r_Client R) c
        | Inr u \<Rightarrow> finishUpdate (r_Client R) c))" for n
    by (rule reaches_bind [OF progress_Delete_StatefulSet])
      (auto split: sum.splits intro!: reaches_finishUpdate any_rules)
  show ?thesis
    unfolding HandleMainReady_def Let_def
    by (rule reaches_bind [OF progress_Get_StatefulSet])
      (auto split: sum.splits intro!: delete_then reaches_finishUpdate any_rules)
qed

lemma progress_UpdateFinished:
  "progress (cooperates t Finished) (HandleUpdateFinished C c) (\<lambda>\<sigma> out \<sigma>'.
     keyed \<sigma> \<longrightarrow> upgrade_of \<sigma> (ck_Instance c) = At Finished \<longrightarrow> upgrade_of \<sigma>' (ck_Instance c) = NoUpgrade)"
proof -
  have delete: "progress (cooperates t Finished) (client_Delete C KindConfigMap n p)
      (\<lambda>\<sigma> r \<sigma>'. \<exists>u. r = Inr u \<and> \<sigma>' = \<sigma>(n := None))" for C :: "'a client" and n p
    unfolding client_defs by (rule progress_mono [OF progress_api]) (auto split: sum.splits elim!: cooperates.elims)
  show ?thesis
    unfolding HandleUpdateFinished_def Checkpoint_Delete_def Checkpoint_GetConfigMap_def
    apply simp
    apply (rule progress_bind [OF progress_Get_ConfigMap])
    apply (intro progress_rules)
     apply (auto simp: upgrade_of_simps(1) keyed_def dest: upgrade_of_At
        intro!: progress_rules progress_bind [OF delete])
    done
qed

text \<open>The upgrade a cooperative reconciliation leaves.\<close>

definition next_upgrade :: "phase \<Rightarrow> upgrade" where
  "next_upgrade p = (if p = Finished then NoUpgrade else At (next_phase p))"

lemma reaches_advances:
  "reaches t p m \<Longrightarrow> p \<noteq> Finished \<Longrightarrow> progress (cooperates t p) m
     (\<lambda>\<sigma> out \<sigma>'. keyed \<sigma> \<longrightarrow> upgrade_of \<sigma> t = At p \<longrightarrow> upgrade_of \<sigma>' t = next_upgrade p)"
  by (auto simp: reaches_def ahead_of_def next_upgrade_def elim!: progress_mono)

lemma progress_doAction:
  assumes "ck_CurrentStage c = stage_of p"
  shows "progress (cooperates (ck_Instance c) p) (doActionBasedOnCheckpointOrRequeue R c) (\<lambda>\<sigma> out \<sigma>'.
     keyed \<sigma> \<longrightarrow> upgrade_of \<sigma> (ck_Instance c) = At p \<longrightarrow> upgrade_of \<sigma>' (ck_Instance c) = next_upgrade p)"
  unfolding doActionBasedOnCheckpointOrRequeue_def Let_def assms
  using progress_UpdateFinished [of "ck_Instance c" "r_Client R" c]
  by (cases p)
    (auto intro!: reaches_advances reaches_UpdateInitiated reaches_ReplicaCreated reaches_ReplicaStarting
      reaches_ReplicaReady reaches_MainShuttingDown reaches_MainReady simp: next_upgrade_def [of Finished])

subsection \<open>The reconciliation advances\<close>

lemma cooperates_reads:
  "cooperates t p (GetStatefulSet n (Inl e)) \<Longrightarrow> IsNotFound e"
  "cooperates t p (GetConfigMap n (Inl e)) \<Longrightarrow> IsNotFound e"
  by simp_all

lemma progress_nodesUpdate:
  assumes G: "\<And>n e. G (GetStatefulSet n (Inl e)) \<Longrightarrow> IsNotFound e"
  shows "progress G (nodesUpdateChangeStatefulSetSpec R t nodes)
     (\<lambda>\<sigma> out \<sigma>'. \<sigma>' = \<sigma> \<and> snd out = None)"
proof (induction nodes)
  case Nil
  show ?case by (auto intro!: progress_rules)
next
  case (Cons node nodes)
  show ?case
    by (simp, rule progress_bind [OF progress_Get_StatefulSet])
      (auto intro!: progress_rules progress_mono [OF Cons.IH] dest: G)
qed

lemma progress_fetch:
  assumes G: "\<And>n e. G (GetConfigMap n (Inl e)) \<Longrightarrow> IsNotFound e"
  shows "progress G (FetchCurrentStageFromCluster C c) (\<lambda>\<sigma> out \<sigma>'.
     fetched (ck_Instance c) \<sigma> out \<sigma>' \<and>
     (upgrade_of \<sigma> (ck_Instance c) = At q \<longrightarrow> out = (stage_of q, None)))"
  unfolding FetchCurrentStageFromCluster_def Checkpoint_GetConfigMap_def
  by (simp, rule progress_bind [OF progress_Get_ConfigMap])
    (auto intro!: progress_rules dest!: G simp: fetched_def upgrade_of_simps GetStageStringValue_cases
      stage_of_phase_of [OF read_stage_named] split: option.split)

lemma progress_UpdateStage:
  assumes G: "\<And>n e. G (GetConfigMap n (Inl e)) \<Longrightarrow> IsNotFound e"
  shows "progress G (UpdateStageFromConfigMap C c) (\<lambda>\<sigma> out \<sigma>'. \<sigma>' = \<sigma> \<and>
     (upgrade_of \<sigma> (ck_Instance c) = At q \<longrightarrow> out = (None, c\<lparr>ck_CurrentStage := stage_of q\<rparr>)))"
  unfolding UpdateStageFromConfigMap_def
  by (rule progress_bind [OF progress_fetch [OF G, where q = q]])
    (auto intro!: progress_rules simp: fetched_def Let_def split: option.split)

lemma progress_ongoing:
  assumes G: "\<And>n e. G (GetConfigMap n (Inl e)) \<Longrightarrow> IsNotFound e"
  shows "progress G (ongoingZeroDowntimeUpgrade R t) (\<lambda>\<sigma> out \<sigma>'. \<sigma>' = \<sigma> \<and>
     (upgrade_of \<sigma> t = At q \<longrightarrow> out))"
  unfolding ongoingZeroDowntimeUpgrade_def Let_def
  by (rule progress_bind [OF progress_fetch [OF G, where q = q]])
    (auto intro!: progress_rules simp: fetched_def NewCheckpoint_def)

lemma progress_trivial: "refines m T \<Longrightarrow> progress G m (\<lambda>\<sigma> b \<sigma>'. True)"
  by (rule progress_mono [OF progress_refines]) simp_all

lemma ck_Instance_New: "ck_Instance (NewCheckpoint t) = t"
  by (simp add: NewCheckpoint_def)

lemma progress_perform:
  "progress (cooperates t p) (performZeroDowntimeUpgradeOrRequeue R t True) (\<lambda>\<sigma> out \<sigma>'.
     keyed \<sigma> \<longrightarrow> upgrade_of \<sigma> t = At p \<longrightarrow> upgrade_of \<sigma>' t = next_upgrade p)"
proof -
  let ?c = "(NewCheckpoint t)\<lparr>ck_CurrentStage := stage_of p\<rparr>"
  have c: "ck_Instance ?c = t" "ck_CurrentStage ?c = stage_of p" by (simp_all add: NewCheckpoint_def)
  have act: "progress (cooperates t p)
      (case err of None \<Rightarrow> doActionBasedOnCheckpointOrRequeue R c
       | Some e \<Rightarrow> if \<not> IsNotFound e then result (Err e) else doActionBasedOnCheckpointOrRequeue R c)
      (\<lambda>\<sigma> out \<sigma>'. \<forall>\<sigma>0. \<sigma> = \<sigma>0 \<and> (upgrade_of \<sigma>0 t = At p \<longrightarrow> (err, c) = (None, ?c)) \<longrightarrow>
         keyed \<sigma>0 \<longrightarrow> upgrade_of \<sigma>0 t = At p \<longrightarrow> upgrade_of \<sigma>' t = next_upgrade p)" for err c
  proof (cases "(err, c) = (None, ?c)")
    case True
    with progress_doAction [OF c(2), of R] show ?thesis
      unfolding c(1) by (auto elim!: progress_mono)
  next
    case False
    have "progress (cooperates t p)
      (case err of None \<Rightarrow> doActionBasedOnCheckpointOrRequeue R c
       | Some e \<Rightarrow> if \<not> IsNotFound e then result (Err e) else doActionBasedOnCheckpointOrRequeue R c)
      (\<lambda>\<sigma> out \<sigma>'. True)"
      by (intro progress_rules progress_trivial [OF refines_doAction]) simp_all
    then show ?thesis by (rule progress_mono) (use False in auto)
  qed
  have inner: "progress (cooperates t p)
      (UpdateStageFromConfigMap C (NewCheckpoint t) \<bind> (\<lambda>(err, currentCheckpoint). case err of
           None \<Rightarrow> doActionBasedOnCheckpointOrRequeue R currentCheckpoint
         | Some e \<Rightarrow>
             if \<not> IsNotFound e then result (Err e)
             else doActionBasedOnCheckpointOrRequeue R currentCheckpoint))
      (\<lambda>\<sigma> out \<sigma>'. keyed \<sigma> \<longrightarrow> upgrade_of \<sigma> t = At p \<longrightarrow> upgrade_of \<sigma>' t = next_upgrade p)" for C
    by (rule progress_bind [OF progress_UpdateStage [OF cooperates_reads(2) [of t p], where q = p]])
      (auto intro!: progress_cases(3) progress_mono [OF act] simp: ck_Instance_New)
  show ?thesis
    unfolding performZeroDowntimeUpgradeOrRequeue_def doesNodesUpdateChangeStatefulSetSpec_def Let_def
    by (rule progress_bind [OF progress_nodesUpdate [OF cooperates_reads(1) [of t p]]])
      (auto intro!: progress_cases(2,3) progress_mono [OF inner] progress_return)
qed

lemma progress_not_deleting:
  "progress (cooperates t p)
     (ongoingZeroDowntimeUpgrade R t \<bind> (\<lambda>isOngoingUpdate.
        if UsesZeroDownTimeUpgradePolicy t \<or> isOngoingUpdate
        then performZeroDowntimeUpgradeOrRequeue R t isOngoingUpdate \<bind> (\<lambda>requeue. case requeue of
                 Err err \<Rightarrow> result (Err err)
               | Panic p \<Rightarrow> result (Panic p)
               | Ok requeue \<Rightarrow>
                   if requeue then result (Ok requeue_Result) else reconcileResources R t req)
        else reconcileResources R t req))
     (\<lambda>\<sigma> out \<sigma>'. keyed \<sigma> \<longrightarrow> upgrade_of \<sigma> t = At p \<longrightarrow> upgrade_of \<sigma>' t = next_upgrade p)"
proof -
  have rest: "progress (cooperates t p)
      (case requeue of
         Err err \<Rightarrow> result (Err err)
       | Panic p \<Rightarrow> result (Panic p)
       | Ok requeue \<Rightarrow> if requeue then result (Ok requeue_Result) else reconcileResources R t req)
      (\<lambda>\<sigma> out \<sigma>'. \<sigma>' = \<sigma>)" for requeue
    by (intro progress_rules progress_refines [OF refines_reconcileResources]) simp_all
  have perform: "progress (cooperates t p)
     (performZeroDowntimeUpgradeOrRequeue R t True \<bind> (\<lambda>requeue. case requeue of
         Err err \<Rightarrow> result (Err err)
       | Panic p \<Rightarrow> result (Panic p)
       | Ok requeue \<Rightarrow> if requeue then result (Ok requeue_Result) else reconcileResources R t req))
     (\<lambda>\<sigma> out \<sigma>'. keyed \<sigma> \<longrightarrow> upgrade_of \<sigma> t = At p \<longrightarrow> upgrade_of \<sigma>' t = next_upgrade p)"
    by (rule progress_bind [OF progress_perform], rule progress_mono [OF rest]) simp
  have any: "progress (cooperates t p)
     (if UsesZeroDownTimeUpgradePolicy t \<or> ongoing
      then performZeroDowntimeUpgradeOrRequeue R t ongoing \<bind> (\<lambda>requeue. case requeue of
               Err err \<Rightarrow> result (Err err)
             | Panic p \<Rightarrow> result (Panic p)
             | Ok requeue \<Rightarrow>
                 if requeue then result (Ok requeue_Result) else reconcileResources R t req)
      else reconcileResources R t req)
     (\<lambda>\<sigma> out \<sigma>'. True)" for ongoing
    by (intro progress_cases(5) progress_bind [OF progress_trivial [OF refines_perform]]
        progress_mono [OF rest] progress_trivial [OF refines_reconcileResources]) simp
  have ongoing: "progress (cooperates t p) (ongoingZeroDowntimeUpgrade R t)
      (\<lambda>\<sigma> out \<sigma>'. \<sigma>' = \<sigma> \<and> (upgrade_of \<sigma> t = At p \<longrightarrow> out))"
    by (rule progress_ongoing) simp
  show ?thesis
    apply (rule progress_bind [OF ongoing])
    subgoal for ongoing
      apply (cases ongoing)
      subgoal by (simp, rule progress_mono [OF perform]) simp
      subgoal
        by (rule progress_mono [OF any]) simp
      done
    done
qed

text \<open>
  One reconciliation of a resource that is not being deleted, in phase \<open>p\<close>, with cooperative answers.
\<close>

lemma Reconcile_progress:
  "runs (Reconcile R req) (\<lambda>out cs. \<forall>t rest \<sigma>. cs = GetTeamCity req (Inr t) # rest \<longrightarrow>
     om_DeletionTimestamp (tc_meta t) = None \<longrightarrow> consistent \<sigma> cs \<longrightarrow> keyed \<sigma> \<longrightarrow>
     upgrade_of \<sigma> t = At p \<longrightarrow> list_all (cooperates t p) cs \<longrightarrow>
     upgrade_of (replay \<sigma> cs) t = next_upgrade p)"
  unfolding Reconcile_def getTeamCityObjectE_def
  apply (rule runs_rules)
  subgoal for a
    apply (cases a)
    subgoal by (simp add: runs_return)
    subgoal for t
      apply (cases "om_DeletionTimestamp (tc_meta t)")
      subgoal
        by (simp add: Let_def, rule runs_mono [OF progress_not_deleting [of t p R req, unfolded progress_def]]) auto
      subgoal
        by (simp add: Let_def, rule runs_mono [OF refines_deleting [of R t, unfolded refines_def]]) auto
      done
    done
  done

subsection \<open>The upgrade ends\<close>

text \<open>
  \<open>n\<close> reconciliations of \<open>t\<close> in a row, each answered consistently and cooperatively. Between two of
  them the cluster may change in any way but for the ConfigMaps and the resource.
\<close>

inductive cooperative_runs ::
  "'w TeamcityReconciler \<Rightarrow> NamespacedName \<Rightarrow> TeamCity \<Rightarrow> store \<Rightarrow> nat \<Rightarrow> store \<Rightarrow> bool"
  for R req t where
  none: "cooperative_runs R req t \<sigma> 0 \<sigma>"
| more: "run_state (Reconcile R req) s = (out, s') \<Longrightarrow> history s' = history s @ cs \<Longrightarrow>
     cs = GetTeamCity req (Inr t) # rest \<Longrightarrow> consistent \<sigma> cs \<Longrightarrow>
     (\<And>p. upgrade_of \<sigma> t = At p \<Longrightarrow> list_all (cooperates t p) cs) \<Longrightarrow>
     cooperative_runs R req t (replay \<sigma> cs) n \<sigma>' \<Longrightarrow> cooperative_runs R req t \<sigma> (Suc n) \<sigma>'"

inductive_simps cooperative_runs_0: "cooperative_runs R req t \<sigma> 0 \<sigma>'"

lemma one_cooperative_run:
  assumes "run_state (Reconcile R req) s = (out, s')" and "history s' = history s @ cs"
    and "cs = GetTeamCity req (Inr t) # rest" and "om_DeletionTimestamp (tc_meta t) = None"
    and "consistent \<sigma> cs" and "keyed \<sigma>" and "upgrade_of \<sigma> t = At p" and "list_all (cooperates t p) cs"
  shows "upgrade_of (replay \<sigma> cs) t = next_upgrade p"
proof -
  from runsD [OF Reconcile_progress [where p = p] assms(1)] obtain ds where
    "history s' = history s @ ds"
    "\<forall>t rest \<sigma>. ds = GetTeamCity req (Inr t) # rest \<longrightarrow> om_DeletionTimestamp (tc_meta t) = None \<longrightarrow>
       consistent \<sigma> ds \<longrightarrow> keyed \<sigma> \<longrightarrow> upgrade_of \<sigma> t = At p \<longrightarrow> list_all (cooperates t p) ds \<longrightarrow>
       upgrade_of (replay \<sigma> ds) t = next_upgrade p"
    by blast
  with assms(2-) show ?thesis by simp
qed

lemma cooperative_runs_finish:
  assumes "om_DeletionTimestamp (tc_meta t) = None" and "keyed \<sigma>" and "upgrade_of \<sigma> t = At p"
    and "cooperative_runs R req t \<sigma> (7 - phase_rank p) \<sigma>'"
  shows "upgrade_of \<sigma>' t = NoUpgrade"
  using assms(2-)
proof (induction "6 - phase_rank p" arbitrary: p \<sigma>)
  case 0
  then have "p = Finished" by (cases p) simp_all
  with 0 have "cooperative_runs R req t \<sigma> (Suc 0) \<sigma>'" by simp
  then show ?case
  proof (cases rule: cooperative_runs.cases)
    case (more s out s' cs rest)
    with one_cooperative_run [OF more(1,2,3) assms(1) more(4) 0(2,3) more(5) [OF 0(3)]] \<open>p = Finished\<close>
    show ?thesis by (simp add: cooperative_runs_0 next_upgrade_def)
  qed
next
  case (Suc n)
  then have p: "p \<noteq> Finished" "7 - phase_rank p = Suc (7 - phase_rank (next_phase p))" "n = 6 - phase_rank (next_phase p)"
    by (cases p; simp)+
  from Suc.prems(3) have "cooperative_runs R req t \<sigma> (Suc (7 - phase_rank (next_phase p))) \<sigma>'"
    by (simp only: p(2))
  then show ?case
  proof (cases rule: cooperative_runs.cases)
    case (more s out s' cs rest)
    from one_cooperative_run [OF more(1,2,3) assms(1) more(4) Suc.prems(1,2) more(5) [OF Suc.prems(2)]] p(1)
    have "upgrade_of (replay \<sigma> cs) t = At (next_phase p)" by (simp add: next_upgrade_def)
    with Suc.hyps(1) [OF p(3) keyed_replay [OF Suc.prems(1)]] more(6) show ?thesis by simp
  qed
qed

end
