(* ===== verification/Builder_Contracts.thy ===== *)
theory Builder_Contracts
  imports Builders
begin

section \<open>What the builders promise\<close>

text \<open>
  The contract of the interface \<open>ResourceBuilder\<close>, as the reconciler relies on it, and its proof
  for each of the six builders. The lookups by name that four builders share have a contract of
  their own.
\<close>

subsection \<open>Lookup by name\<close>

locale name_lookup =
  fixes name_of :: "'a \<Rightarrow> string" and index_of :: "k8s_object \<Rightarrow> 'a list \<Rightarrow> int"
  assumes index_of_eq: "index_of obj xs = first_index (\<lambda>x. name_of x = GetName obj) xs"
begin

lemma absent_iff: "index_of obj xs = -1 \<longleftrightarrow> GetName obj \<notin> name_of ` set xs"
  by (simp add: index_of_eq image_iff) metis

lemma found:
  assumes "index_of obj xs \<noteq> -1"
  shows "xs ! nat (index_of obj xs) \<in> set xs" "name_of (xs ! nat (index_of obj xs)) = GetName obj"
proof -
  from assms have f: "first_index (\<lambda>x. name_of x = GetName obj) xs \<noteq> -1"
    unfolding index_of_eq .
  from first_index_found(2) [OF f] show "xs ! nat (index_of obj xs) \<in> set xs"
    unfolding index_of_eq by (rule nth_mem)
  from first_index_found(3) [OF f] show "name_of (xs ! nat (index_of obj xs)) = GetName obj"
    unfolding index_of_eq .
qed

lemma found_unique:
  assumes "distinct (map name_of xs)" and "x \<in> set xs" and "name_of x = GetName obj"
  shows "xs ! nat (index_of obj xs) = x"
proof -
  from assms(2,3) have "index_of obj xs \<noteq> -1" by (metis absent_iff imageI)
  from found [OF this] assms show ?thesis by (metis distinct_map inj_onD)
qed

end

interpretation pvc_lookup: name_lookup cc_Name getPVCIndex
  by unfold_locales (simp add: getPVCIndex_def)

interpretation service_lookup: name_lookup service_Name getServiceIndex
  by unfold_locales (simp add: getServiceIndex_def)

interpretation ingress_lookup: name_lookup ingress_Name getIngressIndex
  by unfold_locales (simp add: getIngressIndex_def)

interpretation node_lookup: name_lookup node_Name getNodeIndex
  by unfold_locales (simp add: getNodeIndex_def)

subsection \<open>The contract of a builder\<close>

text \<open>
  \<open>names\<close> are the names the resource asks for, \<open>obsolete\<close> says which listed objects are handed to
  the reconciler for deletion. \<open>L\<close> supplies \<open>SetControllerReference\<close>.
\<close>

locale resource_builder =
  fixes L :: k8s_lib and namespace :: string and names :: "string list" and the_kind :: kind
    and build :: "k8s_object list" and update :: mutation and obsolete :: "k8s_object \<Rightarrow> bool"
  assumes build_names: "map GetName build = names"
    and build_kind: "obj \<in> set build \<Longrightarrow> object_kind obj = the_kind"
    and build_namespace: "obj \<in> set build \<Longrightarrow> om_Namespace (object_meta obj) = namespace"
    and update_kind: "object_kind (snd (update obj)) = object_kind obj"
    and update_key: "controller_reference_only L \<Longrightarrow> object_key (snd (update obj)) = object_key obj"
    and update_no_panic:
      "object_kind obj = the_kind \<Longrightarrow> GetName obj \<in> set names \<Longrightarrow> fst (update obj) \<noteq> Panic p"
    and update_error:
      "object_kind obj = the_kind \<Longrightarrow> GetName obj \<in> set names \<Longrightarrow> fst (update obj) = Err e \<Longrightarrow>
         \<exists>e'. e = WrapError ''failed setting controller reference'' e'"
    and update_stable:
      "controller_reference_only L \<Longrightarrow> controller_reference_stable L \<Longrightarrow>
         update (snd (update obj)) = update obj"
    and obsolete_unwanted: "obsolete obj \<Longrightarrow> GetName obj \<notin> set names"
begin

text \<open>What the reconciler builds is never what it deletes.\<close>

lemma built_not_obsolete: "obj \<in> set build \<Longrightarrow> \<not> obsolete obj"
  using obsolete_unwanted build_names by force

text \<open>Filling in a built object, or a stored object of its key, fails only on the owner reference.\<close>

lemma update_built:
  assumes "obj \<in> set build" and "object_kind stored = object_kind obj" and "GetName stored = GetName obj"
  shows "fst (update stored) = Ok () \<or>
    (\<exists>e. fst (update stored) = Err (WrapError ''failed setting controller reference'' e))"
proof -
  from assms build_names have n: "GetName stored \<in> set names" by (metis image_eqI list.set_map)
  from assms build_kind have k: "object_kind stored = the_kind" by simp
  show ?thesis
    using update_no_panic [OF k n] update_error [OF k n] by (cases "fst (update stored)") auto
qed

text \<open>
  Applying twice is applying once: after an update that succeeded, the next one finds nothing to
  change.
\<close>

lemma update_converges:
  assumes "controller_reference_only L" "controller_reference_stable L"
    and "update obj = (Ok (), obj')"
  shows "update obj' = (Ok (), obj')"
  using update_stable [OF assms(1,2), of obj] assms(3) by simp

end

text \<open>A builder that hands over every listed object nobody asks for.\<close>

locale collecting_builder = resource_builder +
  assumes unwanted_obsolete: "GetName obj \<notin> set names \<Longrightarrow> obsolete obj"
begin

lemma obsolete_iff: "obsolete obj \<longleftrightarrow> GetName obj \<notin> set names"
  using obsolete_unwanted unwanted_obsolete by blast

end

subsection \<open>Filling in\<close>

lemma setOwner_result:
  "(case setOwner L t m of (err, m') \<Rightarrow> (err, f m')) = (fst (setOwner L t m), f (snd (setOwner L t m)))"
  by (simp split: prod.split)

lemma setOwner_outcome:
  "fst (setOwner L t m) \<noteq> Panic p"
  "fst (setOwner L t m) = Err e \<Longrightarrow> \<exists>e'. e = WrapError ''failed setting controller reference'' e'"
  by (auto simp: setOwner_def split: prod.splits option.splits)

text \<open>The metadata setter of a builder, then the owner: doing it again changes nothing.\<close>

lemma meta_already_set:
  assumes "controller_reference_only L"
  shows "(snd (setOwner L t (m\<lparr>om_Annotations := a, om_Labels := l\<rparr>)))
      \<lparr>om_Annotations := a, om_Labels := l\<rparr> = snd (setOwner L t (m\<lparr>om_Annotations := a, om_Labels := l\<rparr>))"
  using setOwner_meta [OF assms, of t "m\<lparr>om_Annotations := a, om_Labels := l\<rparr>"] by simp

lemma labels_already_set:
  assumes "controller_reference_only L"
  shows "(snd (setOwner L t (m\<lparr>om_Labels := l, om_Annotations := a\<rparr>)))
      \<lparr>om_Labels := l, om_Annotations := a\<rparr> = snd (setOwner L t (m\<lparr>om_Labels := l, om_Annotations := a\<rparr>))"
  using setOwner_meta [OF assms, of t "m\<lparr>om_Labels := l, om_Annotations := a\<rparr>"] by simp

lemma meta_then_owner_stable:
  assumes "controller_reference_only L" "controller_reference_stable L"
  shows "setOwner L t ((snd (setOwner L t (m\<lparr>om_Annotations := a, om_Labels := l\<rparr>)))
      \<lparr>om_Annotations := a, om_Labels := l\<rparr>) = setOwner L t (m\<lparr>om_Annotations := a, om_Labels := l\<rparr>)"
proof -
  let ?m = "m\<lparr>om_Annotations := a, om_Labels := l\<rparr>"
  from setOwner_meta [OF assms(1), of t ?m]
  have "(snd (setOwner L t ?m))\<lparr>om_Annotations := a, om_Labels := l\<rparr> = snd (setOwner L t ?m)"
    by simp
  then show ?thesis by (simp only: setOwner_stable [OF assms(2)])
qed

lemmas object_simps = object_key_def meta_key_def

lemma fillPersistentVolumeClaim_meta [simp]:
  "pvc_meta (fillPersistentVolumeClaim t d pvc) =
     (pvc_meta pvc)\<lparr>om_Annotations := cc_Annotations d, om_Labels := GetLabels (tc_Name t) (tc_Labels t)\<rparr>"
  by (simp add: fillPersistentVolumeClaim_def Let_def)

lemma fillPersistentVolumeClaim_spec:
  "pvc_Spec (fillPersistentVolumeClaim t d pvc) =
     (pvc_Spec pvc)\<lparr>
       pc_AccessModes := pc_AccessModes (cc_Spec d),
       pc_Selector := pc_Selector (cc_Spec d),
       pc_Requests := pc_Requests (cc_Spec d),
       pc_Resources_rest := pc_Resources_rest (cc_Spec d),
       pc_StorageClassName := (case pc_StorageClassName (pvc_Spec pvc) of
         None \<Rightarrow> pc_StorageClassName (cc_Spec d) | Some c \<Rightarrow> Some c),
       pc_VolumeMode := (case pc_VolumeMode (pvc_Spec pvc) of
         None \<Rightarrow> pc_VolumeMode (cc_Spec d) | Some c \<Rightarrow> Some c)\<rparr>"
  by (auto simp: fillPersistentVolumeClaim_def Let_def split: option.split)

lemma ConfigureStatefulSet_meta [simp]:
  "sts_meta (ConfigureStatefulSet t node s) = sts_meta s"
  "sts_meta (set_Containers cs s) = sts_meta s"
  by (simp_all add: ConfigureStatefulSet_def set_Containers_def Let_def)

lemma ConfigureStatefulSet_stable:
  "set_Containers cs (ConfigureStatefulSet t node
     ((set_Containers cs (ConfigureStatefulSet t node s))\<lparr>sts_meta := m\<rparr>)) =
   (set_Containers cs (ConfigureStatefulSet t node s))\<lparr>sts_meta := m\<rparr>"
  by (simp add: ConfigureStatefulSet_def set_Containers_def Let_def)

lemma updateNodeStatefulSet_eq:
  "updateNodeStatefulSet L t node s =
     (fst (setOwner L t (sts_meta s)),
      StatefulSetObject ((set_Containers [ConfigureContainer L t node zero_Container]
        (ConfigureStatefulSet t node s))\<lparr>sts_meta := snd (setOwner L t (sts_meta s))\<rparr>))"
  by (simp add: updateNodeStatefulSet_def Let_def setOwner_result)

lemma updateNodeStatefulSet_stable:
  assumes "controller_reference_stable L" and "snd (updateNodeStatefulSet L t node s) = StatefulSetObject s'"
  shows "updateNodeStatefulSet L t node s' = updateNodeStatefulSet L t node s"
  using assms by (auto simp: updateNodeStatefulSet_eq ConfigureStatefulSet_stable setOwner_stable)

subsection \<open>The six builders\<close>

lemma object_key_cong:
  "om_Name (object_meta a) = om_Name (object_meta b) \<Longrightarrow>
   om_Namespace (object_meta a) = om_Namespace (object_meta b) \<Longrightarrow> object_key a = object_key b"
  by (simp add: object_simps)

lemmas owner_facts = setOwner_result setOwner_outcome setOwner_meta

lemma fillPersistentVolumeClaim_again:
  assumes "controller_reference_only L"
  shows "fillPersistentVolumeClaim t d ((fillPersistentVolumeClaim t d pvc)
      \<lparr>pvc_meta := snd (setOwner L t (pvc_meta (fillPersistentVolumeClaim t d pvc)))\<rparr>) =
    (fillPersistentVolumeClaim t d pvc)
      \<lparr>pvc_meta := snd (setOwner L t (pvc_meta (fillPersistentVolumeClaim t d pvc)))\<rparr>"
  by (rule PersistentVolumeClaim.equality)
    (simp_all add: fillPersistentVolumeClaim_spec meta_already_set [OF assms] split: option.split)

lemma PersistentVolumeClaim_Update_stable:
  assumes "controller_reference_only L" "controller_reference_stable L"
  shows "PersistentVolumeClaim_Update L t (snd (PersistentVolumeClaim_Update L t obj)) =
    PersistentVolumeClaim_Update L t obj"
proof (cases "\<exists>pvc. obj = PersistentVolumeClaimObject pvc \<and> getPVCIndex obj (pvcList t) \<noteq> -1")
  case True
  then obtain pvc where obj: "obj = PersistentVolumeClaimObject pvc" "getPVCIndex obj (pvcList t) \<noteq> -1"
    by blast
  then have "getPVCIndex (snd (PersistentVolumeClaim_Update L t obj)) (pvcList t) = getPVCIndex obj (pvcList t)"
    using assms(1) by (simp add: PersistentVolumeClaim_Update_def Let_def owner_facts getPVCIndex_def)
  with obj show ?thesis
    by (simp add: PersistentVolumeClaim_Update_def Let_def setOwner_result
        fillPersistentVolumeClaim_again [OF assms(1)] setOwner_stable [OF assms(2)]
        del: fillPersistentVolumeClaim_meta)
next
  case False
  then show ?thesis
    by (auto simp: PersistentVolumeClaim_Update_def Let_def split: k8s_object.split)
qed

interpretation pvc_builder: collecting_builder L "tc_Namespace t"
  "map cc_Name (pvcList t)" KindPersistentVolumeClaim "PersistentVolumeClaim_BuildObjectList t"
  "PersistentVolumeClaim_Update L t" "\<lambda>obj. getPVCIndex obj (pvcList t) = -1"
proof unfold_locales
  show "map GetName (PersistentVolumeClaim_BuildObjectList t) = map cc_Name (pvcList t)"
    by (simp add: PersistentVolumeClaim_BuildObjectList_def pvcList_def)
  show "object_kind obj = KindPersistentVolumeClaim" "om_Namespace (object_meta obj) = tc_Namespace t"
    if "obj \<in> set (PersistentVolumeClaim_BuildObjectList t)" for obj
    using that by (auto simp: PersistentVolumeClaim_BuildObjectList_def)
  show "object_kind (snd (PersistentVolumeClaim_Update L t obj)) = object_kind obj" for obj
    by (simp add: PersistentVolumeClaim_Update_def Let_def setOwner_result split: k8s_object.split)
  show "object_key (snd (PersistentVolumeClaim_Update L t obj)) = object_key obj"
    if "controller_reference_only L" for obj
    using that by (simp add: PersistentVolumeClaim_Update_def Let_def owner_facts object_simps split: k8s_object.split)
  show "fst (PersistentVolumeClaim_Update L t obj) \<noteq> Panic p"
    if "object_kind obj = KindPersistentVolumeClaim" "GetName obj \<in> set (map cc_Name (pvcList t))" for obj p
    using that by (cases obj) (simp_all add: PersistentVolumeClaim_Update_def Let_def owner_facts)
  show "\<exists>e'. e = WrapError ''failed setting controller reference'' e'"
    if "object_kind obj = KindPersistentVolumeClaim" "GetName obj \<in> set (map cc_Name (pvcList t))"
      "fst (PersistentVolumeClaim_Update L t obj) = Err e" for obj e
  proof -
    from that(2) have "getPVCIndex obj (pvcList t) \<noteq> -1" by (simp add: pvc_lookup.absent_iff)
    with that(1,3) show ?thesis
      by (cases obj) (simp_all add: PersistentVolumeClaim_Update_def Let_def setOwner_result setOwner_outcome)
  qed
  show "PersistentVolumeClaim_Update L t (snd (PersistentVolumeClaim_Update L t obj)) = PersistentVolumeClaim_Update L t obj"
    if "controller_reference_only L" "controller_reference_stable L" for obj
    using PersistentVolumeClaim_Update_stable [OF that] .
qed (simp_all add: pvc_lookup.absent_iff)

lemma Service_Update_stable:
  assumes "controller_reference_only L" "controller_reference_stable L"
  shows "Service_Update L t (snd (Service_Update L t obj)) = Service_Update L t obj"
proof (cases "\<exists>x. obj = ServiceObj x \<and> getServiceIndex obj (sp_ServiceList (tc_Spec t)) \<noteq> -1")
  case True
  then obtain x where obj: "obj = ServiceObj x" "getServiceIndex obj (sp_ServiceList (tc_Spec t)) \<noteq> -1" by blast
  then have "getServiceIndex (snd (Service_Update L t obj)) (sp_ServiceList (tc_Spec t)) = getServiceIndex obj (sp_ServiceList (tc_Spec t))"
    using assms(1) by (simp add: Service_Update_def Let_def owner_facts getServiceIndex_def)
  with obj show ?thesis
    by (simp add: Service_Update_def Let_def setOwner_result labels_already_set [OF assms(1)] setOwner_stable [OF assms(2)])
next
  case False
  then show ?thesis
    by (auto simp: Service_Update_def Let_def split: k8s_object.split)
qed

interpretation service_builder: collecting_builder L "tc_Namespace t"
  "map service_Name (sp_ServiceList (tc_Spec t))" KindService "Service_BuildObjectList t"
  "Service_Update L t" "\<lambda>obj. getServiceIndex obj (sp_ServiceList (tc_Spec t)) = -1"
proof unfold_locales
  show "map GetName (Service_BuildObjectList t) = map service_Name (sp_ServiceList (tc_Spec t))"
    by (simp add: Service_BuildObjectList_def )
  show "object_kind obj = KindService" "om_Namespace (object_meta obj) = tc_Namespace t"
    if "obj \<in> set (Service_BuildObjectList t)" for obj
    using that by (auto simp: Service_BuildObjectList_def  split: if_splits)
  show "object_kind (snd (Service_Update L t obj)) = object_kind obj" for obj
    by (simp add: Service_Update_def Let_def owner_facts split: k8s_object.split)
  show "object_key (snd (Service_Update L t obj)) = object_key obj"
    if "controller_reference_only L" for obj
    using that by (simp add: Service_Update_def Let_def owner_facts object_simps split: k8s_object.split)
  show "fst (Service_Update L t obj) \<noteq> Panic p"
    if "object_kind obj = KindService" "GetName obj \<in> set (map service_Name (sp_ServiceList (tc_Spec t)))" for obj p
    using that by (cases obj) (simp_all add: Service_Update_def Let_def owner_facts)
  show "\<exists>e'. e = WrapError ''failed setting controller reference'' e'"
    if "object_kind obj = KindService" "GetName obj \<in> set (map service_Name (sp_ServiceList (tc_Spec t)))"
      "fst (Service_Update L t obj) = Err e" for obj e
  proof -
    from that(2) have "getServiceIndex obj (sp_ServiceList (tc_Spec t)) \<noteq> -1" by (simp add: service_lookup.absent_iff)
    with that(1,3) show ?thesis
      by (cases obj) (simp_all add: Service_Update_def Let_def setOwner_result setOwner_outcome)
  qed
  show "Service_Update L t (snd (Service_Update L t obj)) = Service_Update L t obj"
    if "controller_reference_only L" "controller_reference_stable L" for obj
    using Service_Update_stable [OF that] .
qed (simp_all add: service_lookup.absent_iff)

lemma Ingress_Update_stable:
  assumes "controller_reference_only L" "controller_reference_stable L"
  shows "Ingress_Update L t (snd (Ingress_Update L t obj)) = Ingress_Update L t obj"
proof (cases "\<exists>x. obj = IngressObj x \<and> getIngressIndex obj (sp_IngressList (tc_Spec t)) \<noteq> -1")
  case True
  then obtain x where obj: "obj = IngressObj x" "getIngressIndex obj (sp_IngressList (tc_Spec t)) \<noteq> -1" by blast
  then have "getIngressIndex (snd (Ingress_Update L t obj)) (sp_IngressList (tc_Spec t)) = getIngressIndex obj (sp_IngressList (tc_Spec t))"
    using assms(1) by (simp add: Ingress_Update_def Let_def owner_facts getIngressIndex_def)
  with obj show ?thesis
    by (simp add: Ingress_Update_def Let_def setOwner_result labels_already_set [OF assms(1)] setOwner_stable [OF assms(2)])
next
  case False
  then show ?thesis
    by (auto simp: Ingress_Update_def Let_def split: k8s_object.split)
qed

interpretation ingress_builder: collecting_builder L "tc_Namespace t"
  "map ingress_Name (sp_IngressList (tc_Spec t))" KindIngress "Ingress_BuildObjectList t"
  "Ingress_Update L t" "\<lambda>obj. getIngressIndex obj (sp_IngressList (tc_Spec t)) = -1"
proof unfold_locales
  show "map GetName (Ingress_BuildObjectList t) = map ingress_Name (sp_IngressList (tc_Spec t))"
    by (simp add: Ingress_BuildObjectList_def )
  show "object_kind obj = KindIngress" "om_Namespace (object_meta obj) = tc_Namespace t"
    if "obj \<in> set (Ingress_BuildObjectList t)" for obj
    using that by (auto simp: Ingress_BuildObjectList_def  split: if_splits)
  show "object_kind (snd (Ingress_Update L t obj)) = object_kind obj" for obj
    by (simp add: Ingress_Update_def Let_def owner_facts split: k8s_object.split)
  show "object_key (snd (Ingress_Update L t obj)) = object_key obj"
    if "controller_reference_only L" for obj
    using that by (simp add: Ingress_Update_def Let_def owner_facts object_simps split: k8s_object.split)
  show "fst (Ingress_Update L t obj) \<noteq> Panic p"
    if "object_kind obj = KindIngress" "GetName obj \<in> set (map ingress_Name (sp_IngressList (tc_Spec t)))" for obj p
    using that by (cases obj) (simp_all add: Ingress_Update_def Let_def owner_facts)
  show "\<exists>e'. e = WrapError ''failed setting controller reference'' e'"
    if "object_kind obj = KindIngress" "GetName obj \<in> set (map ingress_Name (sp_IngressList (tc_Spec t)))"
      "fst (Ingress_Update L t obj) = Err e" for obj e
  proof -
    from that(2) have "getIngressIndex obj (sp_IngressList (tc_Spec t)) \<noteq> -1" by (simp add: ingress_lookup.absent_iff)
    with that(1,3) show ?thesis
      by (cases obj) (simp_all add: Ingress_Update_def Let_def setOwner_result setOwner_outcome)
  qed
  show "Ingress_Update L t (snd (Ingress_Update L t obj)) = Ingress_Update L t obj"
    if "controller_reference_only L" "controller_reference_stable L" for obj
    using Ingress_Update_stable [OF that] .
qed (simp_all add: ingress_lookup.absent_iff)

lemma ServiceAccount_Update_stable:
  assumes "controller_reference_only L" "controller_reference_stable L"
  shows "ServiceAccount_Update L t (snd (ServiceAccount_Update L t obj)) = ServiceAccount_Update L t obj"
  by (cases obj) (simp_all add: ServiceAccount_Update_def Let_def setOwner_result
      meta_already_set [OF assms(1)] setOwner_stable [OF assms(2)])

interpretation account_builder: collecting_builder L "tc_Namespace t"
  "(if ServiceAccountProvided t then [account_Name (sp_ServiceAccount (tc_Spec t))] else [])" KindServiceAccount "ServiceAccount_BuildObjectList t"
  "ServiceAccount_Update L t" "\<lambda>obj. \<not> ServiceAccountProvided t \<or> GetName obj \<noteq> account_Name (sp_ServiceAccount (tc_Spec t))"
proof unfold_locales
  show "map GetName (ServiceAccount_BuildObjectList t) = (if ServiceAccountProvided t then [account_Name (sp_ServiceAccount (tc_Spec t))] else [])"
    by (simp add: ServiceAccount_BuildObjectList_def getEmptyServiceAccount_def)
  show "object_kind obj = KindServiceAccount" "om_Namespace (object_meta obj) = tc_Namespace t"
    if "obj \<in> set (ServiceAccount_BuildObjectList t)" for obj
    using that by (auto simp: ServiceAccount_BuildObjectList_def getEmptyServiceAccount_def split: if_splits)
  show "object_kind (snd (ServiceAccount_Update L t obj)) = object_kind obj" for obj
    by (simp add: ServiceAccount_Update_def Let_def owner_facts split: k8s_object.split)
  show "object_key (snd (ServiceAccount_Update L t obj)) = object_key obj"
    if "controller_reference_only L" for obj
    using that by (simp add: ServiceAccount_Update_def Let_def owner_facts object_simps split: k8s_object.split)
  show "fst (ServiceAccount_Update L t obj) \<noteq> Panic p"
    if "object_kind obj = KindServiceAccount" "GetName obj \<in> set ((if ServiceAccountProvided t then [account_Name (sp_ServiceAccount (tc_Spec t))] else []))" for obj p
    using that by (cases obj) (simp_all add: ServiceAccount_Update_def Let_def owner_facts)
  show "\<exists>e'. e = WrapError ''failed setting controller reference'' e'"
    if "object_kind obj = KindServiceAccount" "GetName obj \<in> set ((if ServiceAccountProvided t then [account_Name (sp_ServiceAccount (tc_Spec t))] else []))"
      "fst (ServiceAccount_Update L t obj) = Err e" for obj e
    using that by (cases obj) (simp_all add: ServiceAccount_Update_def Let_def setOwner_result setOwner_outcome updateNodeStatefulSet_eq)
  show "ServiceAccount_Update L t (snd (ServiceAccount_Update L t obj)) = ServiceAccount_Update L t obj"
    if "controller_reference_only L" "controller_reference_stable L" for obj
    using ServiceAccount_Update_stable [OF that] .
qed (auto split: if_splits)

lemma StatefulSet_Update_stable:
  assumes "controller_reference_only L" "controller_reference_stable L"
  shows "StatefulSet_Update L t (snd (StatefulSet_Update L t obj)) = StatefulSet_Update L t obj"
  using updateNodeStatefulSet_stable [OF assms(2)]
  by (cases obj) (simp_all add: StatefulSet_Update_def Let_def updateNodeStatefulSet_eq)

interpretation main_builder: resource_builder L "tc_Namespace t"
  "[node_Name (tc_MainNode t)]" KindStatefulSet "StatefulSet_BuildObjectList t"
  "StatefulSet_Update L t" "\<lambda>_. False"
proof unfold_locales
  show "map GetName (StatefulSet_BuildObjectList t) = [node_Name (tc_MainNode t)]"
    by (simp add: StatefulSet_BuildObjectList_def Let_def CreateEmptyStatefulSet_def)
  show "object_kind obj = KindStatefulSet" "om_Namespace (object_meta obj) = tc_Namespace t"
    if "obj \<in> set (StatefulSet_BuildObjectList t)" for obj
    using that by (auto simp: StatefulSet_BuildObjectList_def Let_def CreateEmptyStatefulSet_def split: if_splits)
  show "object_kind (snd (StatefulSet_Update L t obj)) = object_kind obj" for obj
    by (simp add: StatefulSet_Update_def Let_def owner_facts updateNodeStatefulSet_eq split: k8s_object.split)
  show "object_key (snd (StatefulSet_Update L t obj)) = object_key obj"
    if "controller_reference_only L" for obj
    using that by (simp add: StatefulSet_Update_def Let_def owner_facts updateNodeStatefulSet_eq object_simps split: k8s_object.split)
  show "fst (StatefulSet_Update L t obj) \<noteq> Panic p"
    if "object_kind obj = KindStatefulSet" "GetName obj \<in> set ([node_Name (tc_MainNode t)])" for obj p
    using that by (cases obj) (simp_all add: StatefulSet_Update_def Let_def owner_facts updateNodeStatefulSet_eq)
  show "\<exists>e'. e = WrapError ''failed setting controller reference'' e'"
    if "object_kind obj = KindStatefulSet" "GetName obj \<in> set ([node_Name (tc_MainNode t)])"
      "fst (StatefulSet_Update L t obj) = Err e" for obj e
    using that by (cases obj) (simp_all add: StatefulSet_Update_def Let_def setOwner_result setOwner_outcome updateNodeStatefulSet_eq)
  show "StatefulSet_Update L t (snd (StatefulSet_Update L t obj)) = StatefulSet_Update L t obj"
    if "controller_reference_only L" "controller_reference_stable L" for obj
    using StatefulSet_Update_stable [OF that] .
qed (auto split: if_splits)

lemma SecondaryStatefulSet_Update_stable:
  assumes "controller_reference_only L" "controller_reference_stable L"
  shows "SecondaryStatefulSet_Update L t (snd (SecondaryStatefulSet_Update L t obj)) = SecondaryStatefulSet_Update L t obj"
proof (cases "\<exists>x. obj = StatefulSetObject x \<and> getNodeIndex obj (tc_SecondaryNodes t) \<noteq> -1")
  case True
  then obtain x where obj: "obj = StatefulSetObject x" "getNodeIndex obj (tc_SecondaryNodes t) \<noteq> -1" by blast
  then have "getNodeIndex (snd (SecondaryStatefulSet_Update L t obj)) (tc_SecondaryNodes t) = getNodeIndex obj (tc_SecondaryNodes t)"
    using assms(1) by (simp add: SecondaryStatefulSet_Update_def Let_def owner_facts updateNodeStatefulSet_eq getNodeIndex_def)
  with obj show ?thesis
    by (simp add: SecondaryStatefulSet_Update_def Let_def updateNodeStatefulSet_eq ConfigureStatefulSet_stable setOwner_stable [OF assms(2)])
next
  case False
  then show ?thesis
    by (auto simp: SecondaryStatefulSet_Update_def Let_def split: k8s_object.split)
qed

interpretation secondary_builder: collecting_builder L "tc_Namespace t"
  "map node_Name (tc_SecondaryNodes t)" KindStatefulSet "SecondaryStatefulSet_BuildObjectList t"
  "SecondaryStatefulSet_Update L t" "\<lambda>obj. getNodeIndex obj (tc_SecondaryNodes t) = -1"
proof unfold_locales
  show "map GetName (SecondaryStatefulSet_BuildObjectList t) = map node_Name (tc_SecondaryNodes t)"
    by (simp add: SecondaryStatefulSet_BuildObjectList_def Let_def CreateEmptyStatefulSet_def)
  show "object_kind obj = KindStatefulSet" "om_Namespace (object_meta obj) = tc_Namespace t"
    if "obj \<in> set (SecondaryStatefulSet_BuildObjectList t)" for obj
    using that by (auto simp: SecondaryStatefulSet_BuildObjectList_def Let_def CreateEmptyStatefulSet_def split: if_splits)
  show "object_kind (snd (SecondaryStatefulSet_Update L t obj)) = object_kind obj" for obj
    by (simp add: SecondaryStatefulSet_Update_def Let_def owner_facts updateNodeStatefulSet_eq split: k8s_object.split)
  show "object_key (snd (SecondaryStatefulSet_Update L t obj)) = object_key obj"
    if "controller_reference_only L" for obj
    using that by (simp add: SecondaryStatefulSet_Update_def Let_def owner_facts updateNodeStatefulSet_eq object_simps split: k8s_object.split)
  show "fst (SecondaryStatefulSet_Update L t obj) \<noteq> Panic p"
    if "object_kind obj = KindStatefulSet" "GetName obj \<in> set (map node_Name (tc_SecondaryNodes t))" for obj p
    using that by (cases obj) (simp_all add: SecondaryStatefulSet_Update_def Let_def owner_facts updateNodeStatefulSet_eq)
  show "\<exists>e'. e = WrapError ''failed setting controller reference'' e'"
    if "object_kind obj = KindStatefulSet" "GetName obj \<in> set (map node_Name (tc_SecondaryNodes t))"
      "fst (SecondaryStatefulSet_Update L t obj) = Err e" for obj e
  proof -
    from that(2) have "getNodeIndex obj (tc_SecondaryNodes t) \<noteq> -1" by (simp add: node_lookup.absent_iff)
    with that(1,3) show ?thesis
      by (cases obj) (simp_all add: SecondaryStatefulSet_Update_def Let_def updateNodeStatefulSet_eq setOwner_result setOwner_outcome)
  qed
  show "SecondaryStatefulSet_Update L t (snd (SecondaryStatefulSet_Update L t obj)) = SecondaryStatefulSet_Update L t obj"
    if "controller_reference_only L" "controller_reference_stable L" for obj
    using SecondaryStatefulSet_Update_stable [OF that] .
qed (simp_all add: node_lookup.absent_iff)

subsection \<open>Every builder\<close>

lemma Update_id:
  "controller_reference_only L \<Longrightarrow> object_id (snd (Update L b obj)) = object_id obj"
  by (cases b) (simp_all add: object_id_def
      pvc_builder.update_kind pvc_builder.update_key account_builder.update_kind account_builder.update_key
      service_builder.update_kind service_builder.update_key ingress_builder.update_kind ingress_builder.update_key
      main_builder.update_kind main_builder.update_key secondary_builder.update_kind secondary_builder.update_key)

lemma Update_again:
  "controller_reference_only L \<Longrightarrow> controller_reference_stable L \<Longrightarrow> Update L b obj = (Ok (), obj') \<Longrightarrow>
     Update L b obj' = (Ok (), obj')"
  by (cases b) (simp_all add: pvc_builder.update_converges account_builder.update_converges
      service_builder.update_converges ingress_builder.update_converges
      main_builder.update_converges secondary_builder.update_converges)

end
