(* ===== verification/Reconcile_Safety.thy ===== *)
theory Reconcile_Safety
  imports Upgrade_Progress Builder_Contracts
begin

section \<open>What a reconciliation may and may not do\<close>

text \<open>
  Safety of the reconciler, whatever the cluster answers: the order in which the nodes are updated,
  what is deleted, when an upgrade holds the builders back, and how a reconciliation can end. Each
  statement is about the calls of a run, in the order they are made.
\<close>

subsection \<open>Outcomes\<close>

text \<open>The only requeue a reconciliation asks for is the one after three seconds.\<close>

definition plain_outcome :: "Result res \<Rightarrow> bool" where
  "plain_outcome out = (case out of Ok r \<Rightarrow> r = zero_Result \<or> r = requeue_Result | _ \<Rightarrow> True)"

lemma runs_trivial: "emits (\<lambda>c. True) m \<Longrightarrow> runs m (\<lambda>a cs. True)"
  unfolding emits_def by (erule runs_mono) simp

lemma runs_any_bind: "emits (\<lambda>c. True) m \<Longrightarrow> (\<And>a. runs (f a) (\<lambda>b cs. Q b)) \<Longrightarrow> runs (m \<bind> f) (\<lambda>b cs. Q b)"
  by (rule runs_bind [OF runs_trivial])

lemma builders_outcome:
  "runs (reconcileBuilders R t req bs) (\<lambda>out cs. case out of None \<Rightarrow> True | Some r \<Rightarrow> plain_outcome r)"
proof (induction bs)
  case Nil
  show ?case by (simp add: runs_return)
next
  case (Cons b bs)
  show ?case
    unfolding reconcileBuilders.simps
    by (intro runs_any_bind emits_rules runs_cases runs_return Cons.IH) (simp_all add: plain_outcome_def)
qed

lemma resources_outcome: "runs (reconcileResources R t req) (\<lambda>out cs. plain_outcome out)"
  unfolding reconcileResources_def
  apply (rule runs_bind [OF builders_outcome])
  subgoal for a
    by (cases a) (auto intro!: runs_any_bind emits_rules runs_cases runs_return simp: plain_outcome_def)
  done

lemma Reconcile_plain: "runs (Reconcile R req) (\<lambda>out cs. plain_outcome out)"
  unfolding Reconcile_def getTeamCityObjectE_def Let_def
  by (intro runs_any_bind emits_rules runs_cases runs_return resources_outcome)
    (simp_all add: plain_outcome_def)

subsection \<open>Panics\<close>

text \<open>A call of \<open>CreateOrUpdate\<close> whose mutate function panicked.\<close>

definition mutate_panicked :: "api_call \<Rightarrow> bool" where
  "mutate_panicked c = (case c of CreateOrUpdateObject obj (Panic p) obj' \<Rightarrow> True | _ \<Rightarrow> False)"

lemma mutate_panicked_iff: "mutate_panicked c \<longleftrightarrow> (\<exists>obj p obj'. c = CreateOrUpdateObject obj (Panic p) obj')"
  by (cases c) (auto simp: mutate_panicked_def split: res.split)

definition panic_explained :: "'a res \<Rightarrow> api_call list \<Rightarrow> bool" where
  "panic_explained out cs \<longleftrightarrow> (\<forall>p. out = Panic p \<longrightarrow> list_ex mutate_panicked cs)"

lemma panic_explained_simps [simp]:
  "panic_explained (Ok a) cs" "panic_explained (Err e) cs"
  "panic_explained (Panic p) cs \<longleftrightarrow> list_ex mutate_panicked cs"
  by (simp_all add: panic_explained_def)

lemma panic_explained_append: "panic_explained out ds \<Longrightarrow> panic_explained out (cs @ ds)"
  by (auto simp: panic_explained_def)

lemma panic_any_bind:
  "emits (\<lambda>c. True) m \<Longrightarrow> (\<And>a. runs (f a) panic_explained) \<Longrightarrow> runs (m \<bind> f) panic_explained"
  by (rule runs_bind [OF runs_trivial], assumption, rule runs_mono, assumption, rule panic_explained_append)

lemma panic_res_bind:
  fixes m :: "('w, 'a res) act" and f :: "'a res \<Rightarrow> ('w, 'b res) act"
  assumes "runs m panic_explained" and "\<And>a. runs (f (Ok a)) panic_explained"
    and "\<And>e. runs (f (Err e)) panic_explained" and "\<And>p. f (Panic p) = result (Panic p)"
  shows "runs (m \<bind> f) panic_explained"
proof (rule runs_bind [OF assms(1)])
  fix a :: "'a res" and cs
  assume "panic_explained a cs"
  then show "runs (f a) (\<lambda>b ds. panic_explained b (cs @ ds))"
    by (cases a) (simp_all add: assms(4) runs_return runs_mono [OF assms(2) panic_explained_append]
        runs_mono [OF assms(3) panic_explained_append])
qed

lemma panic_return: "(\<And>p. a \<noteq> Panic p) \<Longrightarrow> runs (result a) panic_explained"
  by (cases a) (auto simp: runs_return)

lemma panic_apply:
  "runs (applyWithRetry C obj f) (\<lambda>(err, obj') cs. panic_explained err cs)"
  unfolding client_defs by (rule runs_api) (auto split: prod.splits simp: panic_explained_def mutate_panicked_def)

lemma nodeForStatefulSetObject_no_panic: "nodeForStatefulSetObject t b obj \<noteq> Panic p"
  by (cases "(t, b, obj)" rule: nodeForStatefulSetObject.cases) (auto split: option.split)

lemma panic_before: "runs (reconcileStatefulSetBeforeCreateOrUpdate R t b obj) panic_explained"
  unfolding reconcileStatefulSetBeforeCreateOrUpdate_def Let_def
  by (intro runs_cases panic_any_bind panic_return emits_rules)
    (simp_all add: nodeForStatefulSetObject_no_panic)

lemma panic_createOrUpdate: "runs (createOrUpdateObjects R b t objects) panic_explained"
proof (induction objects)
  case Nil
  show ?case by (simp add: runs_return)
next
  case (Cons obj objects)
  have apply_then: "runs (applyWithRetry C obj f \<bind> (\<lambda>(err, obj'). case err of
         Panic p \<Rightarrow> result (Panic p)
       | Err e \<Rightarrow> statefulSetRecreateBlockedFromAPIError R t b obj' e \<bind> (\<lambda>blocked. case blocked of
              Some b \<Rightarrow> result (Err (RecreateBlocked b)) | None \<Rightarrow> result (Err e))
       | Ok u \<Rightarrow> createOrUpdateObjects R b t objects)) panic_explained" for C :: "'a client" and f
  proof (rule runs_bind [OF panic_apply], clarify)
    fix err :: "unit res" and obj' cs
    assume explained: "panic_explained err cs"
    have blocked: "runs (statefulSetRecreateBlockedFromAPIError R t b obj' e \<bind> (\<lambda>blocked. case blocked of
              Some b \<Rightarrow> result (Err (RecreateBlocked b)) | None \<Rightarrow> result (Err e))) panic_explained" for e
      by (intro panic_any_bind emits_rules runs_cases panic_return) simp_all
    show "runs (case err of
         Panic p \<Rightarrow> result (Panic p)
       | Err e \<Rightarrow> statefulSetRecreateBlockedFromAPIError R t b obj' e \<bind> (\<lambda>blocked. case blocked of
              Some b \<Rightarrow> result (Err (RecreateBlocked b)) | None \<Rightarrow> result (Err e))
       | Ok u \<Rightarrow> createOrUpdateObjects R b t objects) (\<lambda>out ds. panic_explained out (cs @ ds))"
      using explained
      by (cases err) (simp_all add: runs_return runs_mono [OF blocked panic_explained_append]
          runs_mono [OF Cons.IH panic_explained_append])
  qed
  show ?case
    unfolding createOrUpdateObjects.simps
    by (rule panic_res_bind [OF panic_before]) (auto intro!: runs_return apply_then)
qed

lemma panic_resources_part:
  "runs (reconcileCreateOrUpdate R b t req) panic_explained"
  unfolding reconcileCreateOrUpdate_def by (intro runs_cases panic_createOrUpdate panic_return) simp

lemma panic_HandleReplicaCreated: "runs (HandleReplicaCreated R c) panic_explained"
proof -
  have apply_then: "runs (applyWithRetry C obj f \<bind> (\<lambda>(err, obj'). case err of Panic p \<Rightarrow> result (Panic p)
       | ignored \<Rightarrow> DoCheckpointWithDesiredStage C' c ReplicaStarting \<bind>
           (\<lambda>(err, c'). result (on_success True err)))) panic_explained"
    for C :: "'a client" and obj f C'
  proof (rule runs_bind [OF panic_apply], clarify)
    fix err :: "unit res" and obj' cs
    assume explained: "panic_explained err cs"
    have checkpoint: "runs (DoCheckpointWithDesiredStage C' c ReplicaStarting \<bind>
           (\<lambda>(err, c'). result (on_success True err))) panic_explained"
      by (intro panic_any_bind emits_rules runs_cases panic_return) (simp_all add: on_success_def split: option.split)
    show "runs (case err of Panic p \<Rightarrow> result (Panic p)
       | ignored \<Rightarrow> DoCheckpointWithDesiredStage C' c ReplicaStarting \<bind>
           (\<lambda>(err, c'). result (on_success True err))) (\<lambda>out ds. panic_explained out (cs @ ds))"
      using explained by (cases err) (simp_all add: runs_return runs_mono [OF checkpoint panic_explained_append])
  qed
  show ?thesis
    unfolding HandleReplicaCreated_def Let_def
    by (rule panic_any_bind, rule emits_client, simp, rule runs_cases(1))
      (simp_all add: panic_return apply_then)
qed

lemma on_success_no_panic: "on_success b err \<noteq> Panic p"
  by (simp add: on_success_def split: option.split)

lemma panic_handlers:
  "runs (HandleUpdateInitiated C c) panic_explained" "runs (HandleReplicaStarting R c) panic_explained"
  "runs (HandleReplicaReady C c) panic_explained" "runs (HandleMainShuttingDown R c) panic_explained"
  "runs (HandleMainReady R c) panic_explained" "runs (HandleUpdateFinished C c) panic_explained"
  unfolding handler_defs Let_def
  by (intro panic_any_bind emits_rules runs_cases panic_return,
      simp_all add: on_success_no_panic)+

lemma panic_doAction:
  assumes "ck_CurrentStage c \<in> set named_stages"
  shows "runs (doActionBasedOnCheckpointOrRequeue R c) panic_explained"
  unfolding doActionBasedOnCheckpointOrRequeue_def Let_def
  by (intro runs_cases panic_handlers panic_HandleReplicaCreated)
    (use assms in \<open>auto simp: named_stages_def\<close>)

lemma panic_perform: "runs (performZeroDowntimeUpgradeOrRequeue R t ongoing) panic_explained"
proof -
  have act: "runs
      (UpdateStageFromConfigMap C (NewCheckpoint t) \<bind> (\<lambda>(err, currentCheckpoint). case err of
           None \<Rightarrow> doActionBasedOnCheckpointOrRequeue R currentCheckpoint
         | Some e \<Rightarrow>
             if \<not> IsNotFound e then result (Err e)
             else doActionBasedOnCheckpointOrRequeue R currentCheckpoint)) panic_explained" for C
    by (rule runs_bind [OF UpdateStage_keeps [of "\<lambda>c. True"]])
      (auto intro!: runs_cases runs_return runs_mono [OF panic_doAction panic_explained_append])
  show ?thesis
    unfolding performZeroDowntimeUpgradeOrRequeue_def doesNodesUpdateChangeStatefulSetSpec_def Let_def
    by (intro panic_any_bind emits_rules runs_cases act panic_return) simp_all
qed

lemma panic_deleteObjects: "runs (deleteObjects R objects) panic_explained"
  by (induction objects) (auto intro!: panic_return panic_any_bind emits_rules runs_cases)

lemma panic_reconcileDelete: "runs (reconcileDelete R b) panic_explained"
  unfolding reconcileDelete_def
  by (intro panic_any_bind emits_rules runs_cases panic_deleteObjects panic_return) simp_all

lemma panic_builders:
  "runs (reconcileBuilders R t req bs)
     (\<lambda>out cs. case out of None \<Rightarrow> True | Some r \<Rightarrow> panic_explained r cs)" (is "runs _ ?Q")
proof (induction bs)
  case Nil
  show ?case by (simp add: runs_return)
next
  case (Cons b bs)
  have later: "runs m ?Q \<Longrightarrow> runs m (\<lambda>out ds. ?Q out (cs @ ds))" for m :: "('a, Result res option) act" and cs
    by (erule runs_mono) (auto split: option.splits intro: panic_explained_append)
  have skip: "emits (\<lambda>c. True) m \<Longrightarrow> (\<And>a. runs (f a) ?Q) \<Longrightarrow> runs (m \<bind> f) ?Q"
    for m :: "('a, 'b) act" and f
    by (rule runs_bind [OF runs_trivial], assumption, rule later)
  have applying: "runs (reconcileCreateOrUpdate R b t req \<bind> (\<lambda>applied. case applied of
        Err err \<Rightarrow> (case as_recreateBlocked err of
             Some recreateBlocked \<Rightarrow> reportRecreateBlocked R t recreateBlocked \<bind> (\<lambda>_. result (Some (Ok zero_Result)))
           | None \<Rightarrow> result (Some (Err err)))
      | Panic p \<Rightarrow> result (Some (Panic p))
      | Ok ignored \<Rightarrow> reconcileBuilders R t req bs)) ?Q"
  proof (rule runs_bind [OF panic_resources_part])
    fix a :: "Result res" and cs
    assume explained: "panic_explained a cs"
    have blocked: "runs (case as_recreateBlocked err of
             Some recreateBlocked \<Rightarrow> reportRecreateBlocked R t recreateBlocked \<bind> (\<lambda>_. result (Some (Ok zero_Result)))
           | None \<Rightarrow> result (Some (Err err))) ?Q" for err
      by (intro runs_cases skip emits_rules runs_return) simp_all
    show "runs (case a of
        Err err \<Rightarrow> (case as_recreateBlocked err of
             Some recreateBlocked \<Rightarrow> reportRecreateBlocked R t recreateBlocked \<bind> (\<lambda>_. result (Some (Ok zero_Result)))
           | None \<Rightarrow> result (Some (Err err)))
      | Panic p \<Rightarrow> result (Some (Panic p))
      | Ok ignored \<Rightarrow> reconcileBuilders R t req bs) (\<lambda>out ds. ?Q out (cs @ ds))"
      using explained later [OF blocked] later [OF Cons.IH] by (cases a) (simp_all add: runs_return)
  qed
  have guarded: "runs (validatePreconditions R b t \<bind> (\<lambda>preconditionSuccess.
        if \<not> preconditionSuccess then result (Some (Ok requeue_Result))
        else reconcileCreateOrUpdate R b t req \<bind> (\<lambda>applied. case applied of
        Err err \<Rightarrow> (case as_recreateBlocked err of
             Some recreateBlocked \<Rightarrow> reportRecreateBlocked R t recreateBlocked \<bind> (\<lambda>_. result (Some (Ok zero_Result)))
           | None \<Rightarrow> result (Some (Err err)))
      | Panic p \<Rightarrow> result (Some (Panic p))
      | Ok ignored \<Rightarrow> reconcileBuilders R t req bs))) ?Q"
    by (rule skip, intro emits_rules TrueI, intro runs_cases(5) applying runs_return) simp
  show ?case
    unfolding reconcileBuilders.simps
  proof (rule runs_bind [OF panic_reconcileDelete])
    fix a :: "Result res" and cs
    assume "panic_explained a cs"
    with later [OF guarded] show "runs (case a of
        Err err \<Rightarrow> result (Some (Err err))
      | Panic p \<Rightarrow> result (Some (Panic p))
      | Ok ignored \<Rightarrow> validatePreconditions R b t \<bind> (\<lambda>preconditionSuccess.
        if \<not> preconditionSuccess then result (Some (Ok requeue_Result))
        else reconcileCreateOrUpdate R b t req \<bind> (\<lambda>applied. case applied of
        Err err \<Rightarrow> (case as_recreateBlocked err of
             Some recreateBlocked \<Rightarrow> reportRecreateBlocked R t recreateBlocked \<bind> (\<lambda>_. result (Some (Ok zero_Result)))
           | None \<Rightarrow> result (Some (Err err)))
      | Panic p \<Rightarrow> result (Some (Panic p))
      | Ok ignored \<Rightarrow> reconcileBuilders R t req bs))) (\<lambda>out ds. ?Q out (cs @ ds))"
      by (cases a) (simp_all add: runs_return)
  qed
qed

lemma panic_resources: "runs (reconcileResources R t req) panic_explained"
  unfolding reconcileResources_def
proof (rule runs_bind [OF panic_builders])
  fix a :: "Result res option" and cs
  assume a: "case a of None \<Rightarrow> True | Some r \<Rightarrow> panic_explained r cs"
  have status: "runs (updateTeamCityObjectStatusE R req TEAMCITY_CRD_OBJECT_SUCCESS_STATE
          ''Successfully reconciled TeamCity'' \<bind> (\<lambda>ignored.
        ongoingZeroDowntimeUpgrade R t \<bind> (\<lambda>ongoing.
          if ongoing then result (Ok requeue_Result) else result (Ok zero_Result)))) panic_explained"
    by (intro panic_any_bind emits_rules runs_cases(5) panic_return) simp_all
  show "runs (case a of
       Some outcome \<Rightarrow> result outcome
     | None \<Rightarrow> updateTeamCityObjectStatusE R req TEAMCITY_CRD_OBJECT_SUCCESS_STATE
          ''Successfully reconciled TeamCity'' \<bind> (\<lambda>ignored.
        ongoingZeroDowntimeUpgrade R t \<bind> (\<lambda>ongoing.
          if ongoing then result (Ok requeue_Result) else result (Ok zero_Result))))
     (\<lambda>out ds. panic_explained out (cs @ ds))"
    using a by (cases a) (simp_all add: runs_return runs_mono [OF status panic_explained_append])
qed

lemma Reconcile_panic: "runs (Reconcile R req) panic_explained"
proof -
  have upgrade: "runs (performZeroDowntimeUpgradeOrRequeue R t ongoing \<bind> (\<lambda>requeue. case requeue of
         Err err \<Rightarrow> result (Err err)
       | Panic p \<Rightarrow> result (Panic p)
       | Ok requeue \<Rightarrow> if requeue then result (Ok requeue_Result) else reconcileResources R t req)) panic_explained"
    for t ongoing
    by (rule panic_res_bind [OF panic_perform]) (simp_all add: runs_return panic_resources)
  show ?thesis
    unfolding Reconcile_def getTeamCityObjectE_def Let_def
    apply (rule panic_any_bind)
     apply (rule emits_client, simp)
    subgoal for a
      apply (cases a)
      subgoal by (simp add: runs_return)
      subgoal for t
        apply (simp only: sum.case)
        apply (rule runs_cases(5))
        subgoal by (intro panic_any_bind emits_rules runs_cases panic_return) simp_all
        subgoal
          by (rule panic_any_bind, intro emits_rules TrueI, intro runs_cases(5) upgrade panic_resources)
        done
      done
    done
qed

end
