(* ===== verification/Update_Order.thy ===== *)
theory Update_Order
  imports Reconcile_Safety
begin

section \<open>The order of the calls of a reconciliation\<close>

text \<open>
  The secondary nodes are updated after the main node, what is deleted was asked for, and an
  upgrade that is not ready holds every builder back. A condition on the calls of a run that holds
  of two runs in a row when it holds of each is established step by step.
\<close>

text \<open>What \<open>Reconcile\<close> does once it has read the resource.\<close>

definition reconcileRead :: "'w TeamcityReconciler \<Rightarrow> NamespacedName \<Rightarrow> TeamCity \<Rightarrow> ('w, Result res) act" where
  "reconcileRead R req teamcity =
     (if om_DeletionTimestamp (tc_meta teamcity) \<noteq> None
      then finalizeTeamCity R teamcity \<bind> (\<lambda>err. case err of
             Some e \<Rightarrow> result (Err e)
           | None \<Rightarrow>
               client_Update_TeamCity (r_Client R) (teamcity\<lparr>tc_meta := (tc_meta teamcity)
                 \<lparr>om_Finalizers :=
                    RemoveFinalizer (r_Lib R) (om_Finalizers (tc_meta teamcity)) teamcityFinalizer\<rparr>\<rparr>) \<bind>
               (\<lambda>err. case err of Inl e \<Rightarrow> result (Err e) | Inr u \<Rightarrow> result (Ok zero_Result)))
      else ongoingZeroDowntimeUpgrade R teamcity \<bind> (\<lambda>isOngoingUpdate.
             if UsesZeroDownTimeUpgradePolicy teamcity \<or> isOngoingUpdate
             then performZeroDowntimeUpgradeOrRequeue R teamcity isOngoingUpdate \<bind> (\<lambda>requeue. case requeue of
                      Err err \<Rightarrow> result (Err err)
                    | Panic p \<Rightarrow> result (Panic p)
                    | Ok requeue \<Rightarrow> if requeue then result (Ok requeue_Result) else reconcileResources R teamcity req)
             else reconcileResources R teamcity req))"

lemma Reconcile_read:
  "Reconcile R req = client_Get_TeamCity (r_Client R) req \<bind> (\<lambda>r. case r of
     Inl err \<Rightarrow> if IsNotFound err then result (Ok zero_Result) else result (Err err)
   | Inr teamcity \<Rightarrow> reconcileRead R req teamcity)"
  unfolding Reconcile_def getTeamCityObjectE_def reconcileRead_def Let_def by (rule refl)

lemma emits_reconcileRead [emits_rules]: "emits (\<lambda>c. True) (reconcileRead R req t)"
  unfolding reconcileRead_def by (intro emits_rules TrueI)

text \<open>So a statement about what follows the read is one about \<open>Reconcile\<close>.\<close>

lemma Reconcile_after_read:
  assumes "\<And>t. P t \<Longrightarrow> runs (reconcileRead R req t) (Q t)"
  shows "runs (Reconcile R req) (\<lambda>out cs. \<forall>t rest. cs = GetTeamCity req (Inr t) # rest \<longrightarrow> P t \<longrightarrow> Q t out rest)"
  unfolding Reconcile_read
proof (rule runs_calls)
  fix a
  show "runs (case a of Inl err \<Rightarrow> if IsNotFound err then result (Ok zero_Result) else result (Err err)
      | Inr teamcity \<Rightarrow> reconcileRead R req teamcity)
    (\<lambda>b ds. \<forall>t rest. GetTeamCity req a # ds = GetTeamCity req (Inr t) # rest \<longrightarrow> P t \<longrightarrow> Q t b rest)"
  proof (cases a)
    case (Inl e)
    then show ?thesis by (simp add: runs_return)
  next
    case (Inr t)
    show ?thesis
    proof (cases "P t")
      case True
      from runs_mono [OF assms [OF this]] show ?thesis unfolding Inr by auto
    next
      case False
      then show ?thesis unfolding Inr by (simp add: runs_trivial [OF emits_reconcileRead])
    qed
  qed
qed

locale call_order =
  fixes ok :: "api_call list \<Rightarrow> bool"
  assumes ok_nil: "ok []" and ok_append: "ok cs \<Longrightarrow> ok ds \<Longrightarrow> ok (cs @ ds)"
begin

lemma ok_return: "runs (result a) (\<lambda>b. ok)"
  by (simp add: runs_return ok_nil)

lemma ok_bind:
  assumes "runs m (\<lambda>b. ok)" and "\<And>a. runs (f a) (\<lambda>b. ok)"
  shows "runs (m \<bind> f) (\<lambda>b. ok)"
  by (rule runs_bind [OF assms(1)], rule runs_mono [OF assms(2)]) (rule ok_append)

lemma ok_later: "ok cs \<Longrightarrow> runs m (\<lambda>b. ok) \<Longrightarrow> runs m (\<lambda>b ds. ok (cs @ ds))"
  by (erule runs_mono) (rule ok_append)

lemma ok_emits:
  assumes "\<And>c. I c \<Longrightarrow> ok [c]" and "emits I m"
  shows "runs m (\<lambda>b. ok)"
proof (rule runs_mono [OF assms(2) [unfolded emits_def]])
  fix cs assume "list_all I cs"
  then show "ok cs"
  proof (induction cs)
    case Nil
    show ?case by (rule ok_nil)
  next
    case (Cons c cs)
    then have "ok [c]" "ok cs" by (auto intro: assms(1))
    then show ?case using ok_append [of "[c]" cs] by simp
  qed
qed

text \<open>The loop over the builders keeps the order when each builder does.\<close>

lemma ok_builders:
  assumes "\<And>b. b \<in> set bs \<Longrightarrow> runs (reconcileDelete R b) (\<lambda>a. ok)"
    and "\<And>b f. b \<in> set bs \<Longrightarrow> (\<And>a. runs (f a) (\<lambda>r. ok)) \<Longrightarrow>
      runs (validatePreconditions R b t \<bind> (\<lambda>success. if \<not> success then result (Some (Ok requeue_Result))
        else reconcileCreateOrUpdate R b t req \<bind> f)) (\<lambda>r. ok)"
    and "\<And>b. runs (reportRecreateBlocked R t b) (\<lambda>a. ok)"
  shows "runs (reconcileBuilders R t req bs) (\<lambda>a. ok)"
  using assms(1,2)
proof (induction bs)
  case Nil
  show ?case by (simp add: ok_return)
next
  case (Cons b bs)
  then have IH: "runs (reconcileBuilders R t req bs) (\<lambda>a. ok)" by simp
  from Cons.prems have b: "runs (reconcileDelete R b) (\<lambda>a. ok)"
    "\<And>f. (\<And>a. runs (f a) (\<lambda>r. ok)) \<Longrightarrow>
      runs (validatePreconditions R b t \<bind> (\<lambda>success. if \<not> success then result (Some (Ok requeue_Result))
        else reconcileCreateOrUpdate R b t req \<bind> f)) (\<lambda>r. ok)"
    by simp_all
  show ?case
    unfolding reconcileBuilders.simps
    by (rule ok_bind [OF b(1)], rule runs_cases(4), rule b(2))
      (auto intro!: runs_cases IH ok_return ok_bind assms(3))
qed

lemma ok_resources:
  assumes "runs (reconcileBuilders R t req (ResourceBuilders t)) (\<lambda>a. ok)"
    and "\<And>st msg. runs (updateTeamCityObjectStatusE R req st msg) (\<lambda>a. ok)"
    and "runs (ongoingZeroDowntimeUpgrade R t) (\<lambda>a. ok)"
  shows "runs (reconcileResources R t req) (\<lambda>a. ok)"
  unfolding reconcileResources_def
  by (intro ok_bind assms runs_cases ok_return)

text \<open>The calls that follow the read of the resource \<open>t\<close>.\<close>

lemma ok_Reconcile:
  assumes "runs (finalizeTeamCity R t) (\<lambda>a. ok)" and "\<And>t r. ok [UpdateTeamCity t r]"
    and "runs (ongoingZeroDowntimeUpgrade R t) (\<lambda>a. ok)"
    and "\<And>ongoing. runs (performZeroDowntimeUpgradeOrRequeue R t ongoing) (\<lambda>a. ok)"
    and "runs (reconcileResources R t req) (\<lambda>a. ok)"
  shows "runs (Reconcile R req) (\<lambda>a cs. \<forall>rest. cs = GetTeamCity req (Inr t) # rest \<longrightarrow> ok rest)"
proof -
  have update: "runs (client_Update_TeamCity C t) (\<lambda>a. ok)" for C :: "'a client" and t
    unfolding client_defs by (rule runs_api) (rule assms(2))
  have "runs (reconcileRead R req t) (\<lambda>a. ok)"
    unfolding reconcileRead_def
    by (intro ok_bind update runs_cases assms(1,3,4,5) ok_return)
  then have "runs (Reconcile R req) (\<lambda>out cs. \<forall>t' rest. cs = GetTeamCity req (Inr t') # rest \<longrightarrow>
      t' = t \<longrightarrow> ok rest)"
    by (intro Reconcile_after_read) simp
  then show ?thesis by (rule runs_mono) simp
qed

end

text \<open>A condition on each call alone.\<close>

interpretation each_call: call_order "list_all I"
  by unfold_locales simp_all

subsection \<open>Secondary nodes after the main node\<close>

definition applies_secondary :: "TeamCity \<Rightarrow> api_call \<Rightarrow> bool" where
  "applies_secondary t c =
     (case c of CreateOrUpdateObject obj err obj' \<Rightarrow> obj \<in> set (SecondaryStatefulSet_BuildObjectList t)
      | _ \<Rightarrow> False)"

text \<open>The main StatefulSet was read in its newest generation, and up to date and ready.\<close>

definition newest_read :: "TeamCity \<Rightarrow> api_call \<Rightarrow> bool" where
  "newest_read t c =
     (case c of
        GetStatefulSet n (Inr s) \<Rightarrow>
          n = main_key t \<and> om_Generation (sts_meta s) = st_ObservedGeneration (sts_Status s)
      | _ \<Rightarrow> False)"

definition updated_read :: "TeamCity \<Rightarrow> api_call \<Rightarrow> bool" where
  "updated_read t c =
     (case c of
        GetStatefulSet n (Inr s) \<Rightarrow>
          n = main_key t \<and> st_CurrentRevision (sts_Status s) = st_UpdateRevision (sts_Status s) \<and>
          st_ReadyReplicas (sts_Status s) = 1
      | _ \<Rightarrow> False)"

text \<open>
  The checkpoint was read, and no stage was found. A failed read counts as none, whatever the error,
  as it does in \<open>ongoingZeroDowntimeUpgrade\<close> (\<open>controller/util.go\<close>): what that means for an upgrade is
  derived only for reads that succeed or answer NotFound.
\<close>

definition no_upgrade_read :: "TeamCity \<Rightarrow> api_call \<Rightarrow> bool" where
  "no_upgrade_read t c =
     (case c of
        GetConfigMap n r \<Rightarrow>
          n = checkpoint_key t \<and> (case r of Inl e \<Rightarrow> True | Inr cm \<Rightarrow> read_stage cm = None)
      | _ \<Rightarrow> False)"

lemma read_iffs:
  "newest_read t c \<longleftrightarrow> (\<exists>s. c = GetStatefulSet (main_key t) (Inr s) \<and>
     om_Generation (sts_meta s) = st_ObservedGeneration (sts_Status s))"
  "updated_read t c \<longleftrightarrow> (\<exists>s. c = GetStatefulSet (main_key t) (Inr s) \<and>
     st_CurrentRevision (sts_Status s) = st_UpdateRevision (sts_Status s) \<and> st_ReadyReplicas (sts_Status s) = 1)"
  "no_upgrade_read t c \<longleftrightarrow> (\<exists>r. c = GetConfigMap (checkpoint_key t) r \<and>
     (case r of Inl e \<Rightarrow> True | Inr cm \<Rightarrow> read_stage cm = None))"
  by (cases c; auto simp: newest_read_def updated_read_def no_upgrade_read_def split: sum.split)+

definition main_is_up :: "TeamCity \<Rightarrow> api_call list \<Rightarrow> bool" where
  "main_is_up t cs \<longleftrightarrow>
     list_ex (newest_read t) cs \<and> list_ex (updated_read t) cs \<and> list_ex (no_upgrade_read t) cs"

definition secondaries_wait :: "TeamCity \<Rightarrow> api_call list \<Rightarrow> bool" where
  "secondaries_wait t cs \<longleftrightarrow>
     (\<forall>pre c post. cs = pre @ c # post \<longrightarrow> applies_secondary t c \<longrightarrow> main_is_up t pre)"

lemma secondaries_wait_append:
  assumes "secondaries_wait t cs" and "secondaries_wait t ds"
  shows "secondaries_wait t (cs @ ds)"
  unfolding secondaries_wait_def
proof (intro allI impI)
  fix pre c post
  assume split: "cs @ ds = pre @ c # post" and c: "applies_secondary t c"
  then consider us where "cs = pre @ c # us" | us where "pre = cs @ us" "ds = us @ c # post"
    by (auto simp: append_eq_append_conv2 append_eq_Cons_conv)
  then show "main_is_up t pre"
  proof cases
    case 1
    with assms(1) c show ?thesis by (auto simp: secondaries_wait_def)
  next
    case 2
    with assms(2) c have "main_is_up t us" by (auto simp: secondaries_wait_def)
    with 2 show ?thesis by (auto simp: main_is_up_def)
  qed
qed

interpretation secondary_order: call_order "secondaries_wait t"
  by unfold_locales (simp_all add: secondaries_wait_append secondaries_wait_def [of t "[]"])

lemma wait_none: "\<not> applies_secondary t c \<Longrightarrow> secondaries_wait t [c]"
  by (auto simp: secondaries_wait_def Cons_eq_append_conv)

lemma wait_after:
  assumes "main_is_up t cs" and "list_all (\<lambda>c. \<not> applies_secondary t c) cs"
  shows "secondaries_wait t (cs @ ds)"
  unfolding secondaries_wait_def
proof (intro allI impI)
  fix pre c post
  assume split: "cs @ ds = pre @ c # post" and c: "applies_secondary t c"
  then consider us where "cs = pre @ c # us" | us where "pre = cs @ us"
    by (auto simp: append_eq_append_conv2 append_eq_Cons_conv)
  then show "main_is_up t pre"
    using assms c by cases (auto simp: main_is_up_def)
qed

text \<open>Only \<open>createOrUpdateObjects\<close> and the replica's handler apply objects.\<close>

definition no_apply :: "api_call \<Rightarrow> bool" where
  "no_apply c = (case c of CreateOrUpdateObject obj err obj' \<Rightarrow> False | _ \<Rightarrow> True)"

lemma no_apply_simps [simp]:
  "no_apply (GetTeamCity n r1)" "no_apply (UpdateTeamCity t r2)" "no_apply (UpdateTeamCityStatus t r3)"
  "no_apply (GetStatefulSet n r4)" "no_apply (GetConfigMap n r5)" "no_apply (CreateConfigMap m r6)"
  "no_apply (UpdateConfigMap m r7)" "no_apply (ListObjects k ns l r8)" "no_apply (DeleteObject k n p r9)"
  "no_apply (RecordEvent t e reason msg)" "\<not> no_apply (CreateOrUpdateObject obj err obj')"
  by (simp_all add: no_apply_def)

lemma no_apply_not_secondary: "no_apply c \<Longrightarrow> \<not> applies_secondary t c"
  by (simp add: no_apply_def applies_secondary_def split: api_call.splits)

text \<open>Which objects are applied.\<close>

definition applied_in :: "(k8s_object \<Rightarrow> bool) \<Rightarrow> api_call \<Rightarrow> bool" where
  "applied_in P c = (case c of CreateOrUpdateObject obj err obj' \<Rightarrow> P obj | _ \<Rightarrow> True)"

lemma applied_in_apply [simp]: "applied_in P (CreateOrUpdateObject obj err obj') = P obj"
  by (simp add: applied_in_def)

lemma no_apply_applied_in: "no_apply c \<Longrightarrow> applied_in P c"
  by (simp add: no_apply_def applied_in_def split: api_call.splits)

lemma role_of_StatefulSet:
  "fmlookup (GetStatefulSetLabels n node role il) ''teamcity.jetbrains.com/role'' = Some role"
  by (rule node_labels.own_kept) (simp add: label_keys)

lemma CreateEmptyStatefulSet_labels [simp]: "om_Labels (sts_meta (CreateEmptyStatefulSet n ns labels)) = labels"
  by (simp add: CreateEmptyStatefulSet_def)

lemma secondary_role:
  "obj \<in> set (SecondaryStatefulSet_BuildObjectList t) \<Longrightarrow>
     fmlookup (om_Labels (object_meta obj)) ''teamcity.jetbrains.com/role'' = Some ''secondary''"
  by (auto simp: SecondaryStatefulSet_BuildObjectList_def Let_def role_of_StatefulSet)

lemma replica_not_secondary: "StatefulSetObject (BuildROStatefulSet t) \<notin> set (SecondaryStatefulSet_BuildObjectList t')"
proof
  assume "StatefulSetObject (BuildROStatefulSet t) \<in> set (SecondaryStatefulSet_BuildObjectList t')"
  from secondary_role [OF this] show False
    by (simp add: BuildROStatefulSet_def Let_def role_of_StatefulSet RoNodeRole_def)
qed

lemma not_StatefulSet_built:
  "obj \<in> set (PersistentVolumeClaim_BuildObjectList t) \<Longrightarrow> object_kind obj \<noteq> KindStatefulSet"
  "obj \<in> set (ServiceAccount_BuildObjectList t) \<Longrightarrow> object_kind obj \<noteq> KindStatefulSet"
  "obj \<in> set (Service_BuildObjectList t) \<Longrightarrow> object_kind obj \<noteq> KindStatefulSet"
  "obj \<in> set (Ingress_BuildObjectList t) \<Longrightarrow> object_kind obj \<noteq> KindStatefulSet"
  by (simp_all add: pvc_builder.build_kind account_builder.build_kind service_builder.build_kind
      ingress_builder.build_kind)

lemma other_builders_not_secondary:
  assumes "b \<in> set (ResourceBuilders t)" and "b \<noteq> SecondaryStatefulSetBuilder t"
    and "BuildObjectList b = Inr objects" and "obj \<in> set objects"
  shows "obj \<notin> set (SecondaryStatefulSet_BuildObjectList t)"
proof
  assume "obj \<in> set (SecondaryStatefulSet_BuildObjectList t)"
  then have "object_kind obj = KindStatefulSet" "fmlookup (om_Labels (object_meta obj)) ''teamcity.jetbrains.com/role'' = Some ''secondary''"
    by (rule secondary_builder.build_kind, rule secondary_role)
  with assms show False
    by (auto simp: ResourceBuilders_def StatefulSet_BuildObjectList_def Let_def role_of_StatefulSet
        dest: not_StatefulSet_built)
qed

lemma wait_no_apply: "emits no_apply m \<Longrightarrow> runs m (\<lambda>a. secondaries_wait t)"
  by (erule secondary_order.ok_emits [rotated]) (simp add: wait_none no_apply_not_secondary)

lemma create_waits:
  assumes "b \<in> set (ResourceBuilders t)" and "b \<noteq> SecondaryStatefulSetBuilder t"
  shows "runs (reconcileCreateOrUpdate R b t req) (\<lambda>a. secondaries_wait t)"
proof (cases "BuildObjectList b")
  case (Inl e)
  then show ?thesis by (simp add: reconcileCreateOrUpdate_def secondary_order.ok_return)
next
  case (Inr objects)
  have "emits (applied_in (\<lambda>obj. obj \<notin> set (SecondaryStatefulSet_BuildObjectList t)))
      (createOrUpdateObjects R b t objects)"
    by (intro emits_rules) (simp_all add: no_apply_applied_in other_builders_not_secondary [OF assms Inr])
  then show ?thesis
    unfolding reconcileCreateOrUpdate_def Inr sum.case
    by (rule secondary_order.ok_emits [rotated])
      (simp add: wait_none applied_in_def applies_secondary_def split: api_call.splits)
qed

lemma preconditions_read_main:
  "runs (validatePreconditions R (SecondaryStatefulSetBuilder t') t) (\<lambda>out cs.
     list_all no_apply cs \<and> (out \<longrightarrow> IsMultiNode t \<longrightarrow> main_is_up t cs))"
proof -
  have reads: "runs (isNewestGeneration R (main_key t)) (\<lambda>out cs. list_all no_apply cs \<and> (fst out \<longrightarrow> list_ex (newest_read t) cs))"
    "runs (isNodeUpdateFinished R (main_key t)) (\<lambda>out cs. list_all no_apply cs \<and> (fst out \<longrightarrow> list_ex (updated_read t) cs))"
    "runs (ongoingZeroDowntimeUpgrade R t) (\<lambda>out cs. list_all no_apply cs \<and> (\<not> out \<longrightarrow> list_ex (no_upgrade_read t) cs))"
    unfolding isNewestGeneration_def isNodeUpdateFinished_def getStatefulSetByName_def
      ongoingZeroDowntimeUpgrade_def FetchCurrentStageFromCluster_def Checkpoint_GetConfigMap_def
    by (simp_all, (rule runs_calls,
        auto intro!: runs_cases runs_return
          simp: newest_read_def updated_read_def no_upgrade_read_def NewCheckpoint_def GetStageStringValue_cases
          split: option.splits)+)
  have key: "\<lparr>nn_Namespace = tc_Namespace t, nn_Name = node_Name (tc_MainNode t)\<rparr> = main_key t"
    by (simp add: main_key_def GetNamespacedNameFromNamespace_def)
  have "runs (isNewestGeneration R (main_key t) \<bind> (\<lambda>(newestGeneration, err).
        isNodeUpdateFinished R (main_key t) \<bind> (\<lambda>(updated, err').
        ongoingZeroDowntimeUpgrade R t \<bind> (\<lambda>ongoingUpdate.
        result (newestGeneration \<and> updated \<and> \<not> ongoingUpdate)))))
      (\<lambda>out cs. list_all no_apply cs \<and> (out \<longrightarrow> main_is_up t cs))"
    by (rule runs_bind [OF reads(1)], clarify, rule runs_bind [OF reads(2)], clarify,
        rule runs_bind [OF reads(3)]) (auto intro!: runs_return simp: main_is_up_def)
  then show ?thesis
    unfolding validatePreconditions_def Let_def ResourceBuilder.case key
    by (intro runs_cases(5)) (auto intro: runs_return elim: runs_mono)
qed

lemma no_secondaries: "\<not> IsMultiNode t \<Longrightarrow> SecondaryStatefulSet_BuildObjectList t = []"
  by (simp add: IsMultiNode_iff SecondaryStatefulSet_BuildObjectList_def)

lemma runs_createOrUpdate_any:
  "runs (reconcileCreateOrUpdate R b t req) (\<lambda>a cs. True)"
  by (rule runs_trivial) (intro emits_rules TrueI)

lemma waits_for_main:
  assumes "b \<in> set (ResourceBuilders t)" and "\<And>a. runs (f a) (\<lambda>r. secondaries_wait t)"
  shows "runs (validatePreconditions R b t \<bind> (\<lambda>success. if \<not> success then result (Some (Ok requeue_Result))
        else reconcileCreateOrUpdate R b t req \<bind> f)) (\<lambda>r. secondaries_wait t)"
proof (cases "b = SecondaryStatefulSetBuilder t")
  case False
  show ?thesis
    by (intro secondary_order.ok_bind wait_no_apply [OF emits_validatePreconditions] no_apply_simps runs_cases(5) secondary_order.ok_return
        create_waits [OF assms(1) False] assms(2))
next
  case b: True
  show ?thesis
    unfolding b
  proof (rule runs_bind [OF preconditions_read_main])
    fix success cs
    assume pre: "list_all no_apply cs \<and> (success \<longrightarrow> IsMultiNode t \<longrightarrow> main_is_up t cs)"
    then have quiet: "list_all (\<lambda>c. \<not> applies_secondary t c) cs"
      by (auto simp: list_all_iff no_apply_not_secondary)
    then have cs: "secondaries_wait t cs"
      by (auto simp: secondaries_wait_def)
    have apply_none: "runs (reconcileCreateOrUpdate R (SecondaryStatefulSetBuilder t) t req) (\<lambda>a. secondaries_wait t)"
      if "\<not> IsMultiNode t"
      using no_secondaries [OF that] by (simp add: reconcileCreateOrUpdate_def secondary_order.ok_return)
    have any: "runs (reconcileCreateOrUpdate R (SecondaryStatefulSetBuilder t) t req \<bind> f) (\<lambda>a cs. True)"
      by (rule runs_bind [OF runs_createOrUpdate_any]) (rule runs_mono [OF assms(2)], simp)
    show "runs (if \<not> success then result (Some (Ok requeue_Result))
        else reconcileCreateOrUpdate R (SecondaryStatefulSetBuilder t) t req \<bind> f)
        (\<lambda>r ds. secondaries_wait t (cs @ ds))"
    proof (cases "IsMultiNode t")
      case True
      with pre quiet have "success \<Longrightarrow> secondaries_wait t (cs @ ds)" for ds by (simp add: wait_after)
      then show ?thesis using cs by (auto intro!: runs_cases(5) runs_return intro: runs_mono [OF any])
    next
      case False
      show ?thesis
        by (intro secondary_order.ok_later cs runs_cases(5) secondary_order.ok_return
            secondary_order.ok_bind apply_none False assms(2))
    qed
  qed
qed

lemma perform_waits: "runs (performZeroDowntimeUpgradeOrRequeue R t ongoing) (\<lambda>a. secondaries_wait t)"
proof (rule secondary_order.ok_emits [where I = "applied_in (\<lambda>obj. obj = StatefulSetObject (BuildROStatefulSet t))"])
  show "emits (applied_in (\<lambda>obj. obj = StatefulSetObject (BuildROStatefulSet t)))
      (performZeroDowntimeUpgradeOrRequeue R t ongoing)"
    by (intro emits_rules) (simp_all add: no_apply_applied_in)
qed (auto simp: applied_in_def applies_secondary_def replica_not_secondary intro!: wait_none split: api_call.splits)

lemma Reconcile_waits:
  "runs (Reconcile R req) (\<lambda>a cs. \<forall>rest. cs = GetTeamCity req (Inr t) # rest \<longrightarrow> secondaries_wait t rest)"
proof -
  have quiet: "runs (finalizeTeamCity R t) (\<lambda>a. secondaries_wait t)"
    "runs (ongoingZeroDowntimeUpgrade R t) (\<lambda>a. secondaries_wait t)"
    "runs (updateTeamCityObjectStatusE R req st msg) (\<lambda>a. secondaries_wait t)"
    "runs (reconcileDelete R b) (\<lambda>a. secondaries_wait t)"
    "runs (reportRecreateBlocked R t blocked) (\<lambda>a. secondaries_wait t)" for st msg b blocked
    by (rule wait_no_apply, intro emits_rules no_apply_simps)+
  show ?thesis
    by (intro secondary_order.ok_Reconcile secondary_order.ok_resources secondary_order.ok_builders
        waits_for_main perform_waits quiet) (auto intro: wait_none simp: applies_secondary_def)
qed

end
