(* ===== verification/Deletions.thy ===== *)
theory Deletions
  imports Update_Order
begin

section \<open>What a reconciliation deletes\<close>

subsection \<open>Recreating needs the annotation\<close>

text \<open>A deletion with a propagation policy is the first half of a recreate.\<close>

definition recreate_guard :: "TeamCity \<Rightarrow> api_call \<Rightarrow> bool" where
  "recreate_guard t c =
     (case c of
        DeleteObject k n (Some policy) r \<Rightarrow>
          AllowsStatefulSetRecreate t \<and> k = KindStatefulSet \<and> policy = DeletePropagationForeground
      | _ \<Rightarrow> True)"

lemma recreate_guard_simps [simp]:
  "recreate_guard t (GetTeamCity n r1)" "recreate_guard t (UpdateTeamCity t' r2)"
  "recreate_guard t (UpdateTeamCityStatus t' r3)" "recreate_guard t (GetStatefulSet n r4)"
  "recreate_guard t (GetConfigMap n r5)" "recreate_guard t (CreateConfigMap m r6)"
  "recreate_guard t (UpdateConfigMap m r7)" "recreate_guard t (ListObjects k ns l r8)"
  "recreate_guard t (RecordEvent t' e reason msg)" "recreate_guard t (CreateOrUpdateObject obj err obj')"
  "recreate_guard t (DeleteObject k n None r9)"
  "recreate_guard t (DeleteObject k n (Some policy) r9) \<longleftrightarrow>
     AllowsStatefulSetRecreate t \<and> k = KindStatefulSet \<and> policy = DeletePropagationForeground"
  by (simp_all add: recreate_guard_def)

lemma Reconcile_recreate_guard:
  "runs (Reconcile R req) (\<lambda>a cs. \<forall>rest. cs = GetTeamCity req (Inr t) # rest \<longrightarrow> list_all (recreate_guard t) rest)"
proof -
  have "emits (recreate_guard t) (finalizeTeamCity R t)" "emits (recreate_guard t) (ongoingZeroDowntimeUpgrade R t)"
    "emits (recreate_guard t) (performZeroDowntimeUpgradeOrRequeue R t ongoing)"
    "emits (recreate_guard t) (reconcileResources R t req)" for ongoing
    by (intro emits_rules; simp)+
  then show ?thesis unfolding emits_def by (intro each_call.ok_Reconcile) simp_all
qed

text \<open>
  The step before a StatefulSet is applied, by what it finds: what it calls first, and when it
  deletes at all.
\<close>

definition drift :: "'w TeamcityReconciler \<Rightarrow> TeamCity \<Rightarrow> ResourceBuilder \<Rightarrow> Node \<Rightarrow> StatefulSet \<Rightarrow>
    ImmutableStatefulSetFieldChange list" where
  "drift R t b node existing =
     GetImmutableStatefulSetFieldChanges existing
       (BuildDesiredStatefulSet (r_Lib R) t node
          (GetStatefulSetLabels (tc_Name t) (node_Name node) (statefulSetRoleForBuilder b) (tc_Labels t)))"

lemma drift_iff:
  "drift R t b node existing \<noteq> [] \<longleftrightarrow>
     ss_ServiceName (sts_Spec existing) \<noteq> ns_ServiceName (node_Spec node)"
  by (simp add: drift_def GetImmutableStatefulSetFieldChanges_def Let_def BuildDesiredStatefulSet_def
      set_Containers_def ConfigureStatefulSet_def CreateEmptyStatefulSet_def zero_StatefulSet_def
      zero_StatefulSetSpec_def)

lemma before_StatefulSet:
  assumes "isStatefulSetBuilder b" and "nodeForStatefulSetObject t b obj = Ok (Some node)"
  shows "runs (reconcileStatefulSetBeforeCreateOrUpdate R t b obj) (\<lambda>out cs.
    \<exists>r rest. cs = GetStatefulSet \<lparr>nn_Namespace = tc_Namespace t, nn_Name = GetName obj\<rparr> r # rest \<and>
      (case r of
         Inl e \<Rightarrow> rest = [] \<and> out = (if IsNotFound e then Ok zero_Result else Err e)
       | Inr existing \<Rightarrow>
           if ss_ServiceName (sts_Spec existing) = ns_ServiceName (node_Spec node)
           then rest = [] \<and> out = Ok zero_Result
           else if \<not> AllowsStatefulSetRecreate t
           then rest = [] \<and> out = Err (RecreateBlocked (newStatefulSetRecreateBlockedError
                  (om_Name (sts_meta existing)) (node_Name node) (drift R t b node existing)))
           else \<exists>d. DeleteObject KindStatefulSet (meta_key (sts_meta existing)) (Some DeletePropagationForeground) d
                  \<in> set rest))"
proof -
  let ?key = "\<lparr>nn_Namespace = tc_Namespace t, nn_Name = GetName obj\<rparr>"
  have recreate: "runs (reportRecreateInProgress R t name changes \<bind> (\<lambda>_.
       client_Delete (r_Client R) KindStatefulSet n (Some DeletePropagationForeground) \<bind> f))
      (\<lambda>out cs. \<exists>d. DeleteObject KindStatefulSet n (Some DeletePropagationForeground) d \<in> set cs)"
    if "\<And>d. emits (\<lambda>c. True) (f d)" for name changes n and f :: "go_error + unit \<Rightarrow> ('a, Result res) act"
    by (rule runs_bind [OF runs_trivial], intro emits_rules TrueI, rule runs_calls,
        rule runs_mono [OF runs_trivial [OF that]]) auto
  show ?thesis
    unfolding reconcileStatefulSetBeforeCreateOrUpdate_def Let_def
    using assms drift_iff [of R t b node]
    by (auto simp: drift_def intro!: runs_rules runs_mono [OF recreate] emits_rules)
qed

subsection \<open>Obsolete objects\<close>

text \<open>The objects a builder builds, for a builder that reports no error.\<close>

definition built :: "ResourceBuilder \<Rightarrow> k8s_object list" where
  "built b = (case BuildObjectList b of Inl e \<Rightarrow> [] | Inr objects \<Rightarrow> objects)"

lemma BuildObjectList_built: "BuildObjectList b = Inr (built b)"
  by (cases b) (simp_all add: built_def)

text \<open>Where a builder looks for obsolete objects: the kind, the namespace and the labels it lists.\<close>

fun obsolete_query :: "ResourceBuilder \<Rightarrow> (kind \<times> string \<times> smap) option" where
  "obsolete_query (PersistentVolumeClaimBuilder t) =
     Some (KindPersistentVolumeClaim, tc_Namespace t, GetLabels (tc_Name t) (tc_Labels t))"
| "obsolete_query (ServiceAccountBuilder t) =
     Some (KindServiceAccount, tc_Namespace t, GetLabels (tc_Name t) (tc_Labels t))"
| "obsolete_query (ServiceBuilder t) = Some (KindService, tc_Namespace t, GetLabels (tc_Name t) (tc_Labels t))"
| "obsolete_query (IngressBuilder t) = Some (KindIngress, tc_Namespace t, GetLabels (tc_Name t) (tc_Labels t))"
| "obsolete_query (StatefulSetBuilder t) = None"
| "obsolete_query (SecondaryStatefulSetBuilder t) =
     Some (KindStatefulSet, tc_Namespace t, GetStatefulSetCommonLabels (tc_Name t) ''secondary'' (tc_Labels t))"

lemma GetObsoleteObjects_none: "obsolete_query b = None \<Longrightarrow> GetObsoleteObjects C b = result (Inr [])"
  by (cases b) (simp_all add: obsolete_defs)

lemma GetObsoleteObjects_list:
  assumes "obsolete_query b = Some (k, ns, labels)"
  shows "GetObsoleteObjects C b = client_List C k ns labels \<bind> (\<lambda>r. case r of
      Inl e \<Rightarrow> result (Inl e)
    | Inr items \<Rightarrow> result (Inr (filter (\<lambda>obj. GetName obj \<notin> GetName ` set (built b)) items)))"
proof -
  have names: "GetName ` set objects = set names" if "map GetName objects = names" for objects names
    using that by (metis list.set_map)
  have contra: "(P \<longrightarrow> x \<noteq> y) = (x = y \<longrightarrow> \<not> P)" for P and x y :: string
    by blast
  show ?thesis
    using assms
    by (cases b)
      (auto simp: obsolete_defs Let_def built_def names [OF pvc_builder.build_names] names [OF account_builder.build_names]
        names [OF service_builder.build_names] names [OF ingress_builder.build_names]
        names [OF secondary_builder.build_names] pvc_builder.obsolete_iff account_builder.obsolete_iff
        service_builder.obsolete_iff ingress_builder.obsolete_iff secondary_builder.obsolete_iff
        contra cong: sum.case_cong)
qed

text \<open>Nothing, or the listed objects that have no name among those built.\<close>

lemma GetObsoleteObjects_unwanted:
  "runs (GetObsoleteObjects C b) (\<lambda>r cs. case r of
     Inl e \<Rightarrow> \<exists>k ns labels. cs = [ListObjects k ns labels (Inl e)]
   | Inr objects \<Rightarrow> cs = [] \<and> objects = [] \<or>
       (\<exists>k ns labels items. cs = [ListObjects k ns labels (Inr items)] \<and>
          objects = filter (\<lambda>obj. GetName obj \<notin> GetName ` set (built b)) items))"
proof (cases "obsolete_query b")
  case None
  then show ?thesis by (simp add: GetObsoleteObjects_none runs_return)
next
  case (Some q)
  then obtain k ns labels where q: "obsolete_query b = Some (k, ns, labels)" by (metis surj_pair)
  show ?thesis
    unfolding GetObsoleteObjects_list [OF q]
    by (rule runs_calls) (auto intro!: runs_cases runs_return)
qed

text \<open>
  Every deletion of the clean-up step names an object of the preceding list whose name the resource
  does not ask for.
\<close>

definition deletes_listed :: "ResourceBuilder \<Rightarrow> api_call list \<Rightarrow> bool" where
  "deletes_listed b cs \<longleftrightarrow>
     (\<forall>k n policy r. DeleteObject k n policy r \<in> set cs \<longrightarrow>
        policy = None \<and> nn_Name n \<notin> GetName ` set (built b) \<and>
        (\<exists>lk ns labels items obj. ListObjects lk ns labels (Inr items) \<in> set cs \<and> obj \<in> set items \<and>
           object_kind obj = k \<and> object_key obj = n))"

lemma deleteObjects_calls:
  "runs (deleteObjects R objects) (\<lambda>a cs. \<forall>c \<in> set cs. \<exists>obj r. obj \<in> set objects \<and>
     c = DeleteObject (object_kind obj) (object_key obj) None r)"
proof -
  have "emits (\<lambda>c. \<exists>obj r. obj \<in> set objects \<and> c = DeleteObject (object_kind obj) (object_key obj) None r)
      (deleteObjects R objects)"
    by (rule emits_deleteObjects) blast
  then show ?thesis unfolding emits_def list_all_iff .
qed

lemma reconcileDelete_listed: "runs (reconcileDelete R b) (\<lambda>a. deletes_listed b)"
  unfolding reconcileDelete_def
proof (rule runs_bind [OF GetObsoleteObjects_unwanted])
  fix r :: "go_error + k8s_object list" and cs
  assume r: "case r of
     Inl e \<Rightarrow> \<exists>k ns labels. cs = [ListObjects k ns labels (Inl e)]
   | Inr objects \<Rightarrow> cs = [] \<and> objects = [] \<or>
       (\<exists>k ns labels items. cs = [ListObjects k ns labels (Inr items)] \<and>
          objects = filter (\<lambda>obj. GetName obj \<notin> GetName ` set (built b)) items)"
  show "runs (case r of Inl err \<Rightarrow> result (Err err) | Inr objects \<Rightarrow> deleteObjects R objects)
      (\<lambda>a ds. deletes_listed b (cs @ ds))"
  proof (cases r)
    case (Inl e)
    with r show ?thesis by (auto simp: deletes_listed_def intro!: runs_return)
  next
    case (Inr objects)
    then have "runs (deleteObjects R objects) (\<lambda>a ds. deletes_listed b (cs @ ds))"
      using r by (intro runs_mono [OF deleteObjects_calls])
        (fastforce simp: deletes_listed_def object_key_def meta_key_def)
    with Inr show ?thesis by simp
  qed
qed

subsection \<open>Deleting the resource\<close>

definition without_finalizer :: "k8s_lib \<Rightarrow> TeamCity \<Rightarrow> TeamCity" where
  "without_finalizer L t =
     t\<lparr>tc_meta := (tc_meta t)\<lparr>om_Finalizers := RemoveFinalizer L (om_Finalizers (tc_meta t)) teamcityFinalizer\<rparr>\<rparr>"

text \<open>
  The calls \<open>cs\<close> of a reconciliation of a resource marked for deletion: reads of the checkpoint;
  deletions of the ConfigMap such a read has answered, or of one with an empty key when the read
  answered that there is none; and the update without the finalizer.
\<close>

definition empty_key :: NamespacedName where
  "empty_key = \<lparr>nn_Namespace = '''', nn_Name = ''''\<rparr>"

definition finalizing :: "k8s_lib \<Rightarrow> TeamCity \<Rightarrow> api_call list \<Rightarrow> api_call \<Rightarrow> bool" where
  "finalizing L t cs c =
     (case c of
        GetConfigMap n r \<Rightarrow> n = checkpoint_key t
      | DeleteObject k n policy r \<Rightarrow> k = KindConfigMap \<and> policy = None \<and>
          (\<exists>a. GetConfigMap (checkpoint_key t) a \<in> set cs \<and>
             (case a of Inr cm \<Rightarrow> n = meta_key (cm_meta cm) | Inl e \<Rightarrow> IsNotFound e \<and> n = empty_key))
      | UpdateTeamCity t' r \<Rightarrow> t' = without_finalizer L t
      | _ \<Rightarrow> False)"

lemma finalizing_simps [simp]:
  "finalizing L t cs (GetConfigMap n r) \<longleftrightarrow> n = checkpoint_key t"
  "finalizing L t cs (UpdateTeamCity t' r') \<longleftrightarrow> t' = without_finalizer L t"
  by (simp_all add: finalizing_def)

lemma finalizing_found:
  "GetConfigMap (checkpoint_key t) (Inr cm) \<in> set cs \<Longrightarrow>
     finalizing L t cs (DeleteObject KindConfigMap (meta_key (cm_meta cm)) None r)"
  by (auto simp: finalizing_def intro!: exI [of _ "Inr cm"])

lemma finalizing_missing:
  "GetConfigMap (checkpoint_key t) (Inl e) \<in> set cs \<Longrightarrow> IsNotFound e \<Longrightarrow>
     finalizing L t cs (DeleteObject KindConfigMap empty_key None r)"
  by (auto simp: finalizing_def intro!: exI [of _ "Inl e"])

lemma finalizing_more: "finalizing L t cs c \<Longrightarrow> set cs \<subseteq> set ds \<Longrightarrow> finalizing L t ds c"
  unfolding finalizing_def by (cases c) (auto 0 3 split: sum.splits)

definition finalizing_run :: "k8s_lib \<Rightarrow> TeamCity \<Rightarrow> api_call list \<Rightarrow> bool" where
  "finalizing_run L t cs \<longleftrightarrow> (\<forall>c \<in> set cs. finalizing L t cs c)"

interpretation finalizing_order: call_order "finalizing_run L t"
  by unfold_locales (auto simp: finalizing_run_def intro: finalizing_more)

lemma zero_ConfigMap_key: "meta_key (cm_meta zero_ConfigMap) = empty_key"
  by (simp add: zero_ConfigMap_def zero_ObjectMeta_def meta_key_def empty_key_def)

lemma Delete_finalizing: "runs (Checkpoint_Delete C (NewCheckpoint t)) (\<lambda>err. finalizing_run L t)"
  unfolding Checkpoint_Delete_def Checkpoint_GetConfigMap_def
  by (simp, rule runs_rules)
    (auto simp: finalizing_run_def NewCheckpoint_def zero_ConfigMap_key
      intro!: runs_rules finalizing_found finalizing_missing split: sum.split)

lemma finalize_calls: "runs (finalizeTeamCity R t) (\<lambda>err. finalizing_run L t)"
proof -
  have "runs (ongoingZeroDowntimeUpgrade R t) (\<lambda>a. finalizing_run L t)"
    unfolding ongoingZeroDowntimeUpgrade_def FetchCurrentStageFromCluster_def Checkpoint_GetConfigMap_def
    by (simp add: Let_def GetStageStringValue_cases)
      (auto simp: finalizing_run_def NewCheckpoint_def split: option.splits intro!: runs_rules)
  then show ?thesis
    unfolding finalizeTeamCity_def Let_def
    by (intro finalizing_order.ok_bind finalizing_order.ok_return Delete_finalizing runs_cases)
qed

lemma reconcileRead_finalizing:
  assumes "om_DeletionTimestamp (tc_meta t) \<noteq> None"
  shows "runs (reconcileRead R req t) (\<lambda>out cs. finalizing_run (r_Lib R) t cs \<and>
     (\<forall>r. out = Ok r \<longrightarrow> r = zero_Result \<and>
        (\<exists>pre. cs = pre @ [UpdateTeamCity (without_finalizer (r_Lib R) t) (Inr ())])))"
proof -
  let ?update = "client_Update_TeamCity (r_Client R) (without_finalizer (r_Lib R) t) \<bind> (\<lambda>err.
          case err of Inl e \<Rightarrow> result (Err e) | Inr u \<Rightarrow> result (Ok zero_Result))"
  let ?Q = "\<lambda>cs out ds. finalizing_run (r_Lib R) t (cs @ ds) \<and> (\<forall>r. out = Ok r \<longrightarrow> r = zero_Result \<and>
        (\<exists>pre. cs @ ds = pre @ [UpdateTeamCity (without_finalizer (r_Lib R) t) (Inr ())]))"
  have one: "finalizing_run (r_Lib R) t [UpdateTeamCity (without_finalizer (r_Lib R) t) u]" for u
    by (simp add: finalizing_run_def)
  have update: "runs ?update (?Q cs)" if "finalizing_run (r_Lib R) t cs" for cs
    by (rule runs_calls) (auto intro!: runs_rules finalizing_order.ok_append that one)
  have tail: "runs (case err of Some e \<Rightarrow> result (Err e) | None \<Rightarrow> ?update) (?Q cs)"
    if "finalizing_run (r_Lib R) t cs" for cs err
    using update [OF that] that by (cases err) (auto intro: runs_return)
  show ?thesis
    unfolding reconcileRead_def without_finalizer_def [symmetric]
    using assms by (simp, intro runs_bind [OF finalize_calls] tail)
qed

lemma Reconcile_finalizing:
  "runs (Reconcile R req) (\<lambda>out cs. \<forall>t rest. cs = GetTeamCity req (Inr t) # rest \<longrightarrow>
     om_DeletionTimestamp (tc_meta t) \<noteq> None \<longrightarrow> finalizing_run (r_Lib R) t rest \<and>
     (\<forall>r. out = Ok r \<longrightarrow> r = zero_Result \<and>
        (\<exists>pre. rest = pre @ [UpdateTeamCity (without_finalizer (r_Lib R) t) (Inr ())])))"
  using Reconcile_after_read [where P = "\<lambda>t. om_DeletionTimestamp (tc_meta t) \<noteq> None",
      OF reconcileRead_finalizing] .

end
