(* ===== verification/Upgrade_Gate.thy ===== *)
theory Upgrade_Gate
  imports Deletions
begin

section \<open>When an upgrade holds the builders back\<close>

text \<open>
  While a replica is not ready, or the main node is restarting, a reconciliation does only what the
  handler of the phase does: no builder lists, deletes or applies anything. This needs that the
  checkpoint and the StatefulSets could be read, because the operator goes on without the upgrade
  when they cannot.
\<close>

fun readable :: "api_call \<Rightarrow> bool" where
  "readable (GetStatefulSet n (Inl e)) = IsNotFound e"
| "readable (GetConfigMap n (Inl e)) = IsNotFound e"
| "readable c = True"

definition holds_back :: "phase \<Rightarrow> bool" where
  "holds_back p \<longleftrightarrow> p \<noteq> Ready \<and> p \<noteq> Finished"

text \<open>A call a builder does not make: no list, and no application but that of the replica.\<close>

definition held_back :: "TeamCity \<Rightarrow> api_call \<Rightarrow> bool" where
  "held_back t c =
     (case c of
        ListObjects k ns labels r \<Rightarrow> False
      | CreateOrUpdateObject obj err obj' \<Rightarrow> obj = StatefulSetObject (BuildROStatefulSet t)
      | _ \<Rightarrow> True)"

lemma held_back_simps [simp]:
  "held_back t (GetTeamCity n r1)" "held_back t (UpdateTeamCity t' r2)"
  "held_back t (UpdateTeamCityStatus t' r3)" "held_back t (GetStatefulSet n r4)"
  "held_back t (GetConfigMap n r5)" "held_back t (CreateConfigMap m r6)"
  "held_back t (UpdateConfigMap m r7)" "\<not> held_back t (ListObjects k ns l r8)"
  "held_back t (DeleteObject k n p r9)" "held_back t (RecordEvent t' e reason msg)"
  "held_back t (CreateOrUpdateObject obj err obj') \<longleftrightarrow> obj = StatefulSetObject (BuildROStatefulSet t)"
  by (simp_all add: held_back_def)

subsection \<open>The handlers ask to be queued again\<close>

lemma on_success_True: "on_success True err \<noteq> Ok False"
  by (simp add: on_success_def split: option.split)

lemma checkpoint_requeues:
  "runs (DoCheckpointWithDesiredStage C c s \<bind> (\<lambda>(err, c'). result (on_success True err))) (\<lambda>out cs. out \<noteq> Ok False)"
  by (rule runs_any_bind, intro emits_rules TrueI) (auto intro!: runs_rules simp: on_success_True)

lemma requeues_UpdateInitiated: "runs (HandleUpdateInitiated C c) (\<lambda>out cs. out \<noteq> Ok False)"
  unfolding HandleUpdateInitiated_def by (rule checkpoint_requeues)

lemma requeues_finishUpdate: "runs (finishUpdate C c) (\<lambda>out cs. out \<noteq> Ok False)"
  unfolding finishUpdate_def by (rule checkpoint_requeues)

lemma requeues_ReplicaStarting: "runs (HandleReplicaStarting R c) (\<lambda>out cs. out \<noteq> Ok False)"
  unfolding HandleReplicaStarting_def Let_def
  by (rule runs_any_bind, intro emits_rules TrueI, intro runs_cases checkpoint_requeues runs_return) simp_all

lemma requeues_ReplicaCreated: "runs (HandleReplicaCreated R c) (\<lambda>out cs. out \<noteq> Ok False)"
  unfolding HandleReplicaCreated_def Let_def
  by (rule runs_any_bind, intro emits_rules TrueI, rule runs_cases(1), simp add: runs_return,
      rule runs_any_bind, intro emits_rules TrueI, intro runs_cases checkpoint_requeues runs_return) simp_all

lemma requeues_MainShuttingDown: "runs (HandleMainShuttingDown R c) (\<lambda>out cs. out \<noteq> Ok False)"
  unfolding HandleMainShuttingDown_def Let_def
  apply (rule runs_any_bind, intro emits_rules TrueI)
  apply (rule runs_cases(3), rule runs_cases(2))
   apply (rule runs_any_bind, intro emits_rules TrueI)
   apply (intro runs_cases checkpoint_requeues runs_return; simp)
  apply (simp add: runs_return)
  done

lemma requeues_MainReady: "runs (HandleMainReady R c) (\<lambda>out cs. list_all readable cs \<longrightarrow> out \<noteq> Ok False)"
proof -
  have delete: "runs (client_Delete (r_Client R) KindStatefulSet n None \<bind> (\<lambda>d. case d of
           Inl err \<Rightarrow> if \<not> IsNotFound err then result (Err err) else finishUpdate (r_Client R) c
         | Inr u \<Rightarrow> finishUpdate (r_Client R) c)) (\<lambda>out cs. out \<noteq> Ok False)" for n
    by (rule runs_any_bind, intro emits_rules TrueI, intro runs_cases requeues_finishUpdate runs_return) simp_all
  show ?thesis
    unfolding HandleMainReady_def Let_def
    apply (rule runs_calls)
    subgoal for r
      by (cases r)
        (auto intro!: runs_return runs_mono [OF delete] runs_mono [OF requeues_finishUpdate])
    done
qed

lemma requeues_doAction:
  assumes "ck_CurrentStage c = stage_of p" and "holds_back p"
  shows "runs (doActionBasedOnCheckpointOrRequeue R c) (\<lambda>out cs. list_all readable cs \<longrightarrow> out \<noteq> Ok False)"
  using assms
  unfolding doActionBasedOnCheckpointOrRequeue_def Let_def
  by (cases p) (auto simp: holds_back_def intro: requeues_MainReady runs_mono [OF requeues_UpdateInitiated]
      runs_mono [OF requeues_ReplicaCreated] runs_mono [OF requeues_ReplicaStarting]
      runs_mono [OF requeues_MainShuttingDown])

subsection \<open>The reconciliation does not reach the builders\<close>

lemma readable_reads:
  "readable (GetStatefulSet n (Inl e)) \<Longrightarrow> IsNotFound e" "readable (GetConfigMap n (Inl e)) \<Longrightarrow> IsNotFound e"
  by simp_all

lemma perform_requeues:
  assumes "holds_back p"
  shows "progress readable (performZeroDowntimeUpgradeOrRequeue R t True)
    (\<lambda>\<sigma> out \<sigma>'. upgrade_of \<sigma> t = At p \<longrightarrow> out \<noteq> Ok False)"
proof -
  let ?c = "(NewCheckpoint t)\<lparr>ck_CurrentStage := stage_of p\<rparr>"
  let ?branch = "\<lambda>err c. case err of None \<Rightarrow> doActionBasedOnCheckpointOrRequeue R c
       | Some e \<Rightarrow> if \<not> IsNotFound e then result (Err e) else doActionBasedOnCheckpointOrRequeue R c"
  have any: "progress readable (?branch err c) (\<lambda>\<sigma> out \<sigma>'. True)" for err c
    by (intro progress_any emits_rules TrueI)
  have act: "progress readable (?branch err c) (\<lambda>\<sigma> out \<sigma>'. \<forall>\<sigma>0.
      \<sigma> = \<sigma>0 \<and> (upgrade_of \<sigma>0 t = At p \<longrightarrow> (err, c) = (None, ?c)) \<longrightarrow>
      upgrade_of \<sigma>0 t = At p \<longrightarrow> out \<noteq> Ok False)" for err c
  proof (cases "(err, c) = (None, ?c)")
    case True
    have "runs (doActionBasedOnCheckpointOrRequeue R ?c) (\<lambda>out cs. list_all readable cs \<longrightarrow> out \<noteq> Ok False)"
      by (rule requeues_doAction [OF _ assms]) simp
    with True show ?thesis unfolding progress_def by (auto elim!: runs_mono)
  next
    case False
    then show ?thesis by (intro progress_mono [OF any]) auto
  qed
  have stage: "progress readable (UpdateStageFromConfigMap C (NewCheckpoint t)) (\<lambda>\<sigma> out \<sigma>'. \<sigma>' = \<sigma> \<and>
      (upgrade_of \<sigma> (ck_Instance (NewCheckpoint t)) = At p \<longrightarrow> out = (None, ?c)))" for C
    by (rule progress_UpdateStage) (rule readable_reads)
  have inner: "progress readable
      (UpdateStageFromConfigMap C (NewCheckpoint t) \<bind> (\<lambda>(err, currentCheckpoint). ?branch err currentCheckpoint))
      (\<lambda>\<sigma> out \<sigma>'. upgrade_of \<sigma> t = At p \<longrightarrow> out \<noteq> Ok False)" for C
    by (rule progress_bind [OF stage])
      (auto intro!: progress_cases(3) progress_mono [OF act] simp: ck_Instance_New)
  have nodes: "progress readable (nodesUpdateChangeStatefulSetSpec R t ns) (\<lambda>\<sigma> out \<sigma>'. \<sigma>' = \<sigma> \<and> snd out = None)" for ns
    by (rule progress_nodesUpdate) (rule readable_reads)
  show ?thesis
    unfolding performZeroDowntimeUpgradeOrRequeue_def doesNodesUpdateChangeStatefulSetSpec_def Let_def
    by (rule progress_bind [OF nodes])
      (auto intro!: progress_cases(2,3) progress_mono [OF inner] progress_return)
qed

lemma runs_with_calls:
  assumes "progress G m T" and "emits I m"
  shows "runs m (\<lambda>a cs. list_all I cs \<and> (\<forall>\<sigma>. consistent \<sigma> cs \<longrightarrow> list_all G cs \<longrightarrow> T \<sigma> a (replay \<sigma> cs)))"
  using runs_conj [OF assms(2) [unfolded emits_def] assms(1) [unfolded progress_def]] .

lemma reconcileRead_held_back:
  assumes "holds_back p"
  shows "runs (reconcileRead R req t) (\<lambda>out cs. \<forall>\<sigma>. consistent \<sigma> cs \<longrightarrow> list_all readable cs \<longrightarrow>
    upgrade_of \<sigma> t = At p \<longrightarrow> list_all (held_back t) cs)"
proof -
  have deleting: "runs (reconcileRead R req t) (\<lambda>out cs. list_all (held_back t) cs)"
    if "om_DeletionTimestamp (tc_meta t) \<noteq> None"
    using that unfolding reconcileRead_def emits_def [symmetric] by (simp, intro emits_rules; simp)
  have ongoing: "progress readable (ongoingZeroDowntimeUpgrade R t)
      (\<lambda>\<sigma> out \<sigma>'. \<sigma>' = \<sigma> \<and> (upgrade_of \<sigma> t = At p \<longrightarrow> out))"
    by (rule progress_ongoing) (rule readable_reads)
  have "emits (held_back t) (ongoingZeroDowntimeUpgrade R t)"
    "emits (held_back t) (performZeroDowntimeUpgradeOrRequeue R t True)"
    by (intro emits_rules; simp)+
  note steps = runs_with_calls [OF ongoing this(1)] runs_with_calls [OF perform_requeues [OF assms] this(2)]
  let ?rest = "\<lambda>requeue. case requeue of
         Err err \<Rightarrow> result (Err err)
       | Panic p \<Rightarrow> result (Panic p)
       | Ok requeue \<Rightarrow> if requeue then result (Ok requeue_Result) else reconcileResources R t req"
  have rest: "runs (?rest requeue) (\<lambda>out ds. requeue \<noteq> Ok False \<longrightarrow> ds = [])" for requeue
  proof (cases requeue)
    case (Ok r)
    have "emits (\<lambda>c. True) (reconcileResources R t req)" by (intro emits_rules TrueI)
    then show ?thesis unfolding Ok by (cases r) (auto intro: runs_return runs_mono [OF runs_trivial])
  qed (simp_all add: runs_return)
  have upgrading: "runs (performZeroDowntimeUpgradeOrRequeue R t True \<bind> ?rest)
      (\<lambda>out cs. \<forall>\<sigma>. consistent \<sigma> cs \<longrightarrow> list_all readable cs \<longrightarrow> upgrade_of \<sigma> t = At p \<longrightarrow> list_all (held_back t) cs)"
    by (rule runs_bind [OF steps(2)], rule runs_mono [OF rest]) auto
  let ?after = "\<lambda>isOngoingUpdate. if UsesZeroDownTimeUpgradePolicy t \<or> isOngoingUpdate
     then performZeroDowntimeUpgradeOrRequeue R t isOngoingUpdate \<bind> ?rest else reconcileResources R t req"
  have after_any: "runs (?after isOngoing) (\<lambda>out cs. True)" for isOngoing
    by (rule runs_trivial) (intro emits_rules TrueI)
  show ?thesis
  proof (cases "om_DeletionTimestamp (tc_meta t) \<noteq> None")
    case True
    then show ?thesis by (rule runs_mono [OF deleting]) simp
  next
    case False
    have "runs (ongoingZeroDowntimeUpgrade R t \<bind> ?after) (\<lambda>out cs. \<forall>\<sigma>. consistent \<sigma> cs \<longrightarrow>
        list_all readable cs \<longrightarrow> upgrade_of \<sigma> t = At p \<longrightarrow> list_all (held_back t) cs)"
    proof (rule runs_bind [OF steps(1)])
      fix isOngoing :: bool and cs
      assume pre: "list_all (held_back t) cs \<and> (\<forall>\<sigma>. consistent \<sigma> cs \<longrightarrow> list_all readable cs \<longrightarrow>
        replay \<sigma> cs = \<sigma> \<and> (upgrade_of \<sigma> t = At p \<longrightarrow> isOngoing))"
      show "runs (?after isOngoing) (\<lambda>out ds. \<forall>\<sigma>. consistent \<sigma> (cs @ ds) \<longrightarrow> list_all readable (cs @ ds) \<longrightarrow>
          upgrade_of \<sigma> t = At p \<longrightarrow> list_all (held_back t) (cs @ ds))"
      proof (cases isOngoing)
        case True
        then have "?after isOngoing = performZeroDowntimeUpgradeOrRequeue R t True \<bind> ?rest" by simp
        then show ?thesis using pre by (simp only:, intro runs_mono [OF upgrading]) auto
      next
        case False
        then show ?thesis using pre by (intro runs_mono [OF after_any]) auto
      qed
    qed
    with False show ?thesis unfolding reconcileRead_def by simp
  qed
qed

text \<open>While the upgrade is in a phase that holds the builders back, no builder makes a call.\<close>

lemma Reconcile_held_back:
  assumes "holds_back p"
  shows "runs (Reconcile R req) (\<lambda>out cs. \<forall>t rest. cs = GetTeamCity req (Inr t) # rest \<longrightarrow>
    (\<forall>\<sigma>. consistent \<sigma> rest \<longrightarrow> list_all readable rest \<longrightarrow> upgrade_of \<sigma> t = At p \<longrightarrow> list_all (held_back t) rest))"
  using Reconcile_after_read [of "\<lambda>t. True", OF reconcileRead_held_back [OF assms]] by simp

end
