(* ===== verification/Node_Facts.thy ===== *)
theory Node_Facts
  imports Builder_Contracts
begin

section \<open>What the StatefulSet of a node looks like\<close>

text \<open>
  Lemmas on \<open>statefulset_utils.go\<close>, \<open>util.go\<close> and \<open>update_with_ro_utils.go\<close>: the heap size, the
  environment, the fields of the desired StatefulSet, and the update replica.
\<close>

subsection \<open>The heap size\<close>

text \<open>The float the code truncates, for a percentage up to 100 and a memory request up to \<open>2 ^ 53\<close>.\<close>

lemma xmx_float:
  assumes "0 \<le> p" "p \<le> 100" "0 \<le> m" "m \<le> 2 ^ 53"
  defines "r \<equiv> float64 (float64 (of_int p) / 100)"
  shows "0 \<le> float64 (r * float64 (of_int m))" "float64 (r * float64 (of_int m)) \<le> of_int m"
    "\<bar>float64 (r * float64 (of_int m)) - of_int p / 100 * of_int m\<bar> \<le> 2"
proof -
  let ?x = "of_int p / 100 :: rat" and ?m = "of_int m :: rat"
  have p: "float64 (of_int p) = of_int p" using assms(1,2) by (intro float64_of_int) auto
  have m: "float64 ?m = ?m" using assms(3,4) by (rule float64_of_int)
  have one: "representable 1" using representable_of_int [of 1] by simp
  have x: "0 \<le> ?x" "?x \<le> 1" using assms(1,2) by simp_all
  have r: "0 \<le> r" "r \<le> 1" "\<bar>r - ?x\<bar> \<le> 1 / 2 ^ 53"
    using float64_nonneg [OF x(1)] float64_le [OF x one] float64_error [of ?x] x
    by (auto simp: r_def p)
  have m': "0 \<le> ?m" "?m \<le> 2 ^ 53" using assms(3,4) by (simp_all flip: of_int_power)
  have rep: "representable ?m" using assms(3,4) by (intro representable_of_int) simp
  have q: "0 \<le> r * ?m" "r * ?m \<le> ?m" using r m' mult_right_mono [of r 1 ?m] by simp_all
  show "0 \<le> float64 (r * float64 ?m)" "float64 (r * float64 ?m) \<le> ?m"
    unfolding m using float64_nonneg [OF q(1)] float64_le [OF q rep] by auto
  have "\<bar>float64 (r * ?m) - r * ?m\<bar> \<le> r * ?m / 2 ^ 53" using float64_error [of "r * ?m"] q(1) by simp
  also have "\<dots> \<le> 1" using q(2) m'(2) by simp
  finally have e1: "\<bar>float64 (r * ?m) - r * ?m\<bar> \<le> 1" .
  have "\<bar>r * ?m - ?x * ?m\<bar> = \<bar>r - ?x\<bar> * ?m"
    using abs_mult [of "r - ?x" ?m] m'(1) by (simp add: left_diff_distrib)
  also have "\<dots> \<le> 1 / 2 ^ 53 * 2 ^ 53" using r(3) m' by (intro mult_mono) auto
  finally have e2: "\<bar>r * ?m - ?x * ?m\<bar> \<le> 1" by simp
  show "\<bar>float64 (r * float64 ?m) - ?x * ?m\<bar> \<le> 2" unfolding m using e1 e2 by linarith
qed

lemma xmx_truncated:
  assumes "0 \<le> p" "p \<le> 100" "0 \<le> m" "m \<le> 2 ^ 53"
  shows "xmx_bytes p m = \<lfloor>float64 (float64 (float64 (of_int p) / 100) * float64 (of_int m))\<rfloor>"
    "0 \<le> xmx_bytes p m" "xmx_bytes p m \<le> m"
proof -
  let ?q = "float64 (float64 (float64 (of_int p) / 100) * float64 (of_int m))"
  note q = xmx_float(1,2) [OF assms]
  from q have f: "0 \<le> \<lfloor>?q\<rfloor>" "\<lfloor>?q\<rfloor> \<le> m" by (simp_all add: floor_le_iff)
  with q assms(4) show "xmx_bytes p m = \<lfloor>?q\<rfloor>"
    by (simp add: xmx_bytes_def Let_def int64_of_float64_def truncate_rat_def)
  with f show "0 \<le> xmx_bytes p m" "xmx_bytes p m \<le> m" by simp_all
qed

lemma xmx_close:
  assumes "0 \<le> p" "p \<le> 100" "0 \<le> m" "m \<le> 2 ^ 53"
  shows "\<bar>100 * xmx_bytes p m - p * m\<bar> < 300"
proof -
  let ?q = "float64 (float64 (float64 (of_int p) / 100) * float64 (of_int m))"
  have "of_int \<lfloor>?q\<rfloor> \<le> ?q" "?q < of_int \<lfloor>?q\<rfloor> + 1" by linarith+
  with xmx_float(3) [OF assms] have "\<bar>of_int \<lfloor>?q\<rfloor> - of_int p / 100 * of_int m\<bar> < (3 :: rat)"
    by linarith
  then have "\<bar>of_int (100 * \<lfloor>?q\<rfloor> - p * m)\<bar> < (300 :: rat)"
    by (simp add: abs_less_iff field_simps)
  then have "\<bar>of_int (100 * \<lfloor>?q\<rfloor> - p * m)\<bar> < (of_int 300 :: rat)" by simp
  then have "\<bar>100 * \<lfloor>?q\<rfloor> - p * m\<bar> < 300" by (simp only: of_int_abs [symmetric] of_int_less_iff)
  then show ?thesis by (simp only: xmx_truncated(1) [OF assms])
qed

text \<open>
  A percentage of 100 times \<open>k\<close> gives \<open>k\<close> times the request, exactly: from 200 on, which the webhook admits as
  any other positive percentage, the heap no longer fits into the request.
\<close>

lemma xmx_multiple:
  assumes "0 \<le> k" "k \<le> 2 ^ 46" and "0 \<le> m" "m \<le> 2 ^ 53" and "k * m \<le> 2 ^ 53"
  shows "xmx_bytes (100 * k) m = k * m"
proof -
  have "float64 (of_int (100 * k) / 100) = of_int k" using float64_of_int [of k] assms(1,2) by simp
  then have ratio: "float64 (float64 (of_int (100 * k)) / 100) = of_int k"
    using float64_of_int [of "100 * k"] assms(1,2) by simp
  have bytes: "float64 (of_int k * float64 (of_int m)) = of_int (k * m)"
    using float64_of_int [OF assms(3,4)] float64_of_int [of "k * m"] assms by simp
  have "0 \<le> k * m" using assms by simp
  then show ?thesis using assms(5)
    unfolding xmx_bytes_def Let_def ratio bytes
    by (simp add: int64_of_float64_def truncate_rat_def not_less del: of_int_mult)
qed

subsection \<open>Startup properties and environment\<close>

lemma fold_append: "fold (\<lambda>k res. res @ f k) ks acc = acc @ concat (map f ks)"
  by (induction ks arbitrary: acc) simp_all

lemma SortKeys_eq: "SortKeysAlphabeticallyInMap L m = sort (range_keys L m)"
  by (simp add: SortKeysAlphabeticallyInMap_def sort_Strings_def fold_append Let_def)

text \<open>Sorting undoes whatever order the keys were visited in.\<close>

lemma sorted_keys: "visits_all_keys L \<Longrightarrow> SortKeysAlphabeticallyInMap L m = sorted_list_of_fset (fmdom m)"
  unfolding SortKeys_eq visits_all_keys_def sorted_list_of_fset.rep_eq
  by (metis sorted_list_of_set_sort_remdups distinct_remdups_id)

lemma server_options:
  "visits_all_keys L \<Longrightarrow> ConvertStartUpPropertiesToServerOptions L m =
     concat (map (\<lambda>k. '' -D'' @ k @ ''='' @ map_get m k) (sorted_list_of_fset (fmdom m)))"
  by (simp add: ConvertStartUpPropertiesToServerOptions_def sorted_keys fold_append Let_def)

definition operator_env_names :: "string list" where
  "operator_env_names =
     [''POD_NAME'', ''POD_NAMESPACE'', ''TEAMCITY_DATA_PATH'', ''TEAMCITY_LOGS_PATH'',
      ''TEAMCITY_SERVER_MEM_OPTS'', ''TEAMCITY_SERVER_OPTS'']"

definition database_env_names :: "string list" where
  "database_env_names = [''TEAMCITY_DB_USER'', ''TEAMCITY_DB_PASSWORD'', ''TEAMCITY_DB_URL'']"

lemma env_names:
  "map ev_Name (BuildEnvVariablesFromGlobalAndNodeSpecificSettings L t node) =
     operator_env_names @ map ev_Name (ns_Env (node_Spec node)) @
     (if DatabaseSecretProvided t then database_env_names else [])"
  by (simp add: BuildEnvVariablesFromGlobalAndNodeSpecificSettings_def Let_def operator_env_names_def
      database_env_names_def DefaultEnvironmentVariableBuilder_def DatabaseEnvVarBuilder_def
      PodNameEnvVariableBuilder_def PodNamespaceEnvVariableBuilder_def DataDirPathEnvVar_def
      LogDirPathEnvVar_def ServerMemOptsEnvVar_def ServerOptsEnvVar_def)

subsection \<open>The desired StatefulSet\<close>

lemma volumes_eq:
  "BuildVolumesFromPersistentVolumeClaims cs = map createVolumeFromCustomPersistentVolumeClaim cs"
  "BuildVolumeMountsFromPersistentVolumeClaims cs = map createVolumeMountFromCustomPersistentVolumeClaim cs"
  by (induction cs) simp_all

lemma configured_spec:
  fixes s :: StatefulSet and t :: TeamCity and node :: Node and cs :: "Container list"
  defines "s' \<equiv> set_Containers cs (ConfigureStatefulSet t node s)"
  shows "ss_Selector (sts_Spec s') = ss_Selector (sts_Spec s)" "ss_Replicas (sts_Spec s') = Some 1"
    "ss_ServiceName (sts_Spec s') =
       (if ns_ServiceName (node_Spec node) = '''' then ss_ServiceName (sts_Spec s) else ns_ServiceName (node_Spec node))"
    "pt_Labels (ss_Template (sts_Spec s')) = pt_Labels (ss_Template (sts_Spec s))"
    "pt_Annotations (ss_Template (sts_Spec s')) = node_Annotations node"
    "ps_Containers (pt_Spec (ss_Template (sts_Spec s'))) = cs"
    "ps_Volumes (pt_Spec (ss_Template (sts_Spec s'))) =
       map createVolumeFromCustomPersistentVolumeClaim (GetAllCustomPersistentVolumeClaim t)"
    "ss_rest (sts_Spec s') = ss_rest (sts_Spec s)" "sts_Status s' = sts_Status s"
  by (simp_all add: s'_def set_Containers_def ConfigureStatefulSet_def Let_def volumes_eq)

lemma no_field_changes:
  "GetImmutableStatefulSetFieldChanges a b = [] \<longleftrightarrow> ss_ServiceName (sts_Spec a) = ss_ServiceName (sts_Spec b)"
  by (simp add: GetImmutableStatefulSetFieldChanges_def)

lemma desired_service_name:
  "ss_ServiceName (sts_Spec (BuildDesiredStatefulSet L t node labels)) = ns_ServiceName (node_Spec node)"
  by (simp add: BuildDesiredStatefulSet_def Let_def configured_spec CreateEmptyStatefulSet_def
      zero_StatefulSetSpec_def)

subsection \<open>The update replica\<close>

lemma BuildRoNode_simps [simp]:
  "node_Name (BuildRoNode t n) = n" "ns_Env (node_Spec (BuildRoNode t n)) = []"
  by (simp_all add: BuildRoNode_def zero_NodeSpec_def)

definition replica_env :: "k8s_lib \<Rightarrow> TeamCity \<Rightarrow> EnvVar list" where
  "replica_env L t =
     BuildEnvVariablesFromGlobalAndNodeSpecificSettings L t
       (BuildRoNode t (nn_Name (GetROStatefulSetNamespacedName t)))"

definition replica_labels :: "TeamCity \<Rightarrow> smap" where
  "replica_labels t =
     GetStatefulSetLabels (tc_Name t) (nn_Name (GetROStatefulSetNamespacedName t)) RoNodeRole (tc_Labels t)"

text \<open>The replica as the main StatefulSet makes it, before the owner reference.\<close>

definition replica_spec :: "k8s_lib \<Rightarrow> TeamCity \<Rightarrow> StatefulSet \<Rightarrow> StatefulSetSpec \<Rightarrow> StatefulSetSpec" where
  "replica_spec L t main spec =
     spec\<lparr>ss_Selector := Some (replica_labels t),
          ss_Template := (ss_Template spec)\<lparr>
            pt_Labels := replica_labels t,
            pt_Spec := pt_Spec (ss_Template (sts_Spec (set_first_Env (replica_env L t) main)))\<rparr>\<rparr>"

lemma UpdateROStatefulSet_panics:
  "fst (UpdateROStatefulSet L t main ro) = Panic p \<Longrightarrow> ps_Containers (pt_Spec (ss_Template (sts_Spec main))) = []"
  by (auto simp: UpdateROStatefulSet_def Let_def setOwner_outcome split: if_splits prod.splits)
    (metis fst_conv setOwner_outcome(1))

lemma UpdateROStatefulSet_replica:
  assumes "ps_Containers (pt_Spec (ss_Template (sts_Spec main))) \<noteq> []"
  shows "UpdateROStatefulSet L t main ro =
    (fst (setOwner L t (sts_meta ro)),
     ro\<lparr>sts_Spec := replica_spec L t main (sts_Spec ro), sts_meta := snd (setOwner L t (sts_meta ro))\<rparr>,
     set_first_Env (replica_env L t) main)"
proof -
  obtain c cs where "ps_Containers (pt_Spec (ss_Template (sts_Spec main))) = c # cs"
    using assms by (cases "ps_Containers (pt_Spec (ss_Template (sts_Spec main)))") auto
  then show ?thesis
    by (simp add: UpdateROStatefulSet_def Let_def set_first_Env_def set_Containers_def replica_spec_def
        replica_env_def replica_labels_def split: prod.split)
qed

lemma set_first_Env_twice [simp]: "set_first_Env env (set_first_Env env' s) = set_first_Env env s"
  by (simp add: set_first_Env_def set_Containers_def Let_def split: list.split)

lemma set_first_Env_nonempty [simp]:
  "ps_Containers (pt_Spec (ss_Template (sts_Spec (set_first_Env env s)))) = [] \<longleftrightarrow>
     ps_Containers (pt_Spec (ss_Template (sts_Spec s))) = []"
  by (simp add: set_first_Env_def set_Containers_def Let_def split: list.split)

text \<open>The main StatefulSet the replica's update has written into gives the same replica again.\<close>

lemma replica_again:
  assumes "ps_Containers (pt_Spec (ss_Template (sts_Spec main))) \<noteq> []"
  shows "UpdateROStatefulSet L t (snd (snd (UpdateROStatefulSet L t main ro0))) ro = UpdateROStatefulSet L t main ro"
  using assms by (simp add: UpdateROStatefulSet_replica replica_spec_def)

end
