(* ===== verification/Sample_Runs.thy ===== *)
theory Sample_Runs
  imports Samples Upgrade_Gate Deletions Node_Facts
begin

section \<open>Running the operator on the sample cluster\<close>

text \<open>
  What evaluates a run of the reconciler on the sample cluster: the conversions of the named stages
  as rewrite rules, and the definitions a run unfolds.
\<close>

lemma NewStage_String_simps [simp]:
  "NewStage (Stage_String UpdateInitiated) = UpdateInitiated"
  "NewStage (Stage_String ReplicaCreated) = ReplicaCreated"
  "NewStage (Stage_String ReplicaStarting) = ReplicaStarting"
  "NewStage (Stage_String ReplicaReady) = ReplicaReady"
  "NewStage (Stage_String MainShuttingDown) = MainShuttingDown"
  "NewStage (Stage_String MainReady) = MainReady"
  "NewStage (Stage_String UpdateFinished) = UpdateFinished"
  by (simp_all add: NewStage_String named_stages_def)

lemma read_stage_Build [simp]:
  "read_stage (BuildCheckpointConfigMap s name ns) = Some (NewStage (Stage_String s))"
  by (simp add: read_stage_def BuildCheckpointConfigMap_def)

lemma meta_key_Build [simp]:
  "meta_key (cm_meta (BuildCheckpointConfigMap s name ns)) =
     \<lparr>nn_Namespace = ns, nn_Name = ConstructCheckpointName name\<rparr>"
  by (simp add: BuildCheckpointConfigMap_def)

lemma canChange_simps [simp]:
  "canChangeStageValue UpdateInitiated ReplicaCreated = Inr True"
  "canChangeStageValue ReplicaCreated ReplicaStarting = Inr True"
  "canChangeStageValue ReplicaStarting ReplicaReady = Inr True"
  "canChangeStageValue ReplicaReady MainShuttingDown = Inr True"
  "canChangeStageValue MainShuttingDown MainReady = Inr True"
  "canChangeStageValue MainReady UpdateFinished = Inr True"
  by (simp_all add: canChangeStageValue_def stage_defs)

lemmas checkpoint_run_defs =
  checkpoint_defs GetStageStringValue_cases toConfigMapObject_eq NewCheckpoint_def Let_def

lemmas reconcile_run_defs =
  Reconcile_def getTeamCityObjectE_def ongoingZeroDowntimeUpgrade_def performZeroDowntimeUpgradeOrRequeue_def
  doesNodesUpdateChangeStatefulSetSpec_def GetAllNodes_def doActionBasedOnCheckpointOrRequeue_def
  on_success_def sample_not_found_def checkpoint_run_defs

subsection \<open>The store the sample cluster holds\<close>

definition sample_map :: "phase \<Rightarrow> ConfigMap" where
  "sample_map p = BuildCheckpointConfigMap (stage_of p) ''tc'' ''ns''"

definition sample_key :: NamespacedName where
  "sample_key = \<lparr>nn_Namespace = ''ns'', nn_Name = ConstructCheckpointName ''tc''\<rparr>"

definition sample_store :: "phase option \<Rightarrow> store" where
  "sample_store p = (\<lambda>n. if n = sample_key then map_option sample_map p else None)"

definition sample_sys :: "phase option \<Rightarrow> ConfigMap option sys" where
  "sample_sys p = \<lparr>world = map_option sample_map p, history = []\<rparr>"

lemma sample_sys_simps [simp]:
  "world (sample_sys p) = map_option sample_map p" "history (sample_sys p) = []"
  by (simp_all add: sample_sys_def)

lemma checkpoint_key_sample [simp]: "checkpoint_key (sample_tc a d s) = sample_key"
  by (simp add: checkpoint_key_def sample_key_def)

lemma read_stage_sample_map [simp]: "read_stage (sample_map p) = Some (stage_of p)"
  by (simp add: sample_map_def)

lemma meta_key_sample_map [simp]: "meta_key (cm_meta (sample_map p)) = sample_key"
  by (simp add: sample_map_def sample_key_def)

lemma sample_store_simps [simp]:
  "sample_store p sample_key = map_option sample_map p" "keyed (sample_store p)"
  "(sample_store p)(sample_key := Some (sample_map q)) = sample_store (Some q)"
  "(sample_store p)(sample_key := None) = sample_store None"
  by (auto simp: sample_store_def keyed_def)

lemma upgrade_of_sample [simp]:
  "upgrade_of (sample_store p) (sample_tc a d s) = (case p of None \<Rightarrow> NoUpgrade | Some q \<Rightarrow> At q)"
  by (simp add: upgrade_of_def split: option.split)

text \<open>The ConfigMap a checkpoint of the sample resource writes.\<close>

lemma Build_sample_map [simp]:
  "BuildCheckpointConfigMap UpdateInitiated ''tc'' ''ns'' = sample_map Initiated"
  "BuildCheckpointConfigMap ReplicaCreated ''tc'' ''ns'' = sample_map Created"
  "BuildCheckpointConfigMap ReplicaStarting ''tc'' ''ns'' = sample_map Starting"
  "BuildCheckpointConfigMap ReplicaReady ''tc'' ''ns'' = sample_map Ready"
  "BuildCheckpointConfigMap MainShuttingDown ''tc'' ''ns'' = sample_map ShuttingDown"
  "BuildCheckpointConfigMap MainReady ''tc'' ''ns'' = sample_map MainUp"
  "BuildCheckpointConfigMap UpdateFinished ''tc'' ''ns'' = sample_map Finished"
  by (simp_all add: sample_map_def)

subsection \<open>StatefulSets\<close>

definition sample_StatefulSet :: StatefulSet where
  "sample_StatefulSet =
     CreateEmptyStatefulSet ''main'' ''ns'' (GetStatefulSetLabels ''tc'' ''main'' ''main'' fmempty)"

definition sample_main :: StatefulSet where
  "sample_main = set_Containers [zero_Container\<lparr>ct_Image := ''teamcity''\<rparr>] sample_StatefulSet"

subsection \<open>Runs of the reconciler\<close>

definition sample_request :: NamespacedName where
  "sample_request = \<lparr>nn_Namespace = ''ns'', nn_Name = ''tc''\<rparr>"

text \<open>In the first phase, with no StatefulSet to be found: the checkpoint advances.\<close>

definition sample_initiated :: "ConfigMap option TeamcityReconciler" where
  "sample_initiated =
     sample_reconciler (sample_tc fmempty False []) (\<lambda>n. Inl sample_not_found) (Inl sample_error)"

definition sample_main_key :: NamespacedName where
  "sample_main_key = \<lparr>nn_Namespace = ''ns'', nn_Name = ''main''\<rparr>"

lemma main_node_key_sample [simp]:
  "GetNamespacedNameFromNamespace (sample_node ''main'') ''ns'' = sample_main_key"
  by (simp add: GetNamespacedNameFromNamespace_def sample_main_key_def)

lemma run_initiated:
  "run_state (Reconcile sample_initiated sample_request) (sample_sys (Some Initiated)) =
     (Ok requeue_Result,
      \<lparr>world = Some (sample_map Created),
       history =
         [GetTeamCity sample_request (Inr (sample_tc fmempty False [])),
          GetConfigMap sample_key (Inr (sample_map Initiated)),
          GetStatefulSet sample_main_key (Inl sample_not_found),
          GetConfigMap sample_key (Inr (sample_map Initiated)),
          GetConfigMap sample_key (Inr (sample_map Initiated)),
          UpdateConfigMap (sample_map Created) (Inr ())]\<rparr>)"
  by (simp add: sample_initiated_def reconcile_run_defs HandleUpdateInitiated_def sample_sys_def)

text \<open>
  With the zero-downtime policy and a main StatefulSet that would be restarted, an upgrade starts.
\<close>

definition zero_downtime :: smap where
  "zero_downtime = fmap_of_list [(''teamcity.jetbrains.com/update-policy'', ''zero-downtime'')]"

definition sample_starting :: "ConfigMap option TeamcityReconciler" where
  "sample_starting = sample_reconciler (sample_tc zero_downtime False []) (\<lambda>n. Inr sample_StatefulSet) (Inl sample_error)"

lemma sample_restart:
  "ChangesRequireNodeStatefulSetRestart sample_lib (sample_tc a d s) (sample_node ''main'') sample_StatefulSet"
proof -
  let ?spec = "sts_Spec (set_Containers [ConfigureContainer sample_lib (sample_tc a d s) (sample_node ''main'') zero_Container]
    (ConfigureStatefulSet (sample_tc a d s) (sample_node ''main'') zero_StatefulSet))"
  have "ps_Containers (pt_Spec (ss_Template ?spec)) \<noteq> []"
    "ps_Containers (pt_Spec (ss_Template (sts_Spec sample_StatefulSet))) = []"
    by (simp_all add: set_Containers_def Let_def sample_StatefulSet_def CreateEmptyStatefulSet_def)
  then have "?spec \<noteq> sts_Spec sample_StatefulSet" by auto
  then show ?thesis by (simp add: ChangesRequireNodeStatefulSetRestart_def Let_def)
qed

lemma run_starting:
  "run_state (Reconcile sample_starting sample_request) (sample_sys None) =
     (Ok requeue_Result,
      \<lparr>world = Some (sample_map Created),
       history =
         [GetTeamCity sample_request (Inr (sample_tc zero_downtime False [])),
          GetConfigMap sample_key (Inl sample_not_found),
          GetStatefulSet sample_main_key (Inr sample_StatefulSet),
          GetConfigMap sample_key (Inl sample_not_found),
          GetConfigMap sample_key (Inl sample_not_found),
          CreateConfigMap (sample_map Created) (Inr ())]\<rparr>)"
proof -
  have "UsesZeroDownTimeUpgradePolicy (sample_tc zero_downtime False [])"
    by (simp add: UsesZeroDownTimeUpgradePolicy_def zero_downtime_def map_get_def fmlookup_of_list
        UpdatePolicyAnnotationKey_def ZeroDownTimeAnnotation_def)
  then show ?thesis
    by (simp add: sample_starting_def reconcile_run_defs HandleUpdateInitiated_def sample_sys_def sample_restart
        getInitialStageFromInstance_def IsMultiNode_iff)
qed

text \<open>The last two phases: the replica is gone, the checkpoint is deleted, and the lists fail.\<close>

lemma run_main_up:
  "run_state (Reconcile sample_initiated sample_request) (sample_sys (Some MainUp)) =
     (Ok requeue_Result,
      \<lparr>world = Some (sample_map Finished),
       history =
         [GetTeamCity sample_request (Inr (sample_tc fmempty False [])),
          GetConfigMap sample_key (Inr (sample_map MainUp)),
          GetStatefulSet sample_main_key (Inl sample_not_found),
          GetConfigMap sample_key (Inr (sample_map MainUp)),
          GetStatefulSet (GetROStatefulSetNamespacedName (sample_tc fmempty False [])) (Inl sample_not_found),
          GetConfigMap sample_key (Inr (sample_map MainUp)),
          UpdateConfigMap (sample_map Finished) (Inr ())]\<rparr>)"
  by (simp add: sample_initiated_def reconcile_run_defs HandleMainReady_def finishUpdate_def sample_sys_def)

lemma run_finished:
  "run_state (Reconcile sample_initiated sample_request) (sample_sys (Some Finished)) =
     (Err sample_error,
      \<lparr>world = None,
       history =
         [GetTeamCity sample_request (Inr (sample_tc fmempty False [])),
          GetConfigMap sample_key (Inr (sample_map Finished)),
          GetStatefulSet sample_main_key (Inl sample_not_found),
          GetConfigMap sample_key (Inr (sample_map Finished)),
          GetConfigMap sample_key (Inr (sample_map Finished)),
          DeleteObject KindConfigMap sample_key None (Inr ()),
          ListObjects KindPersistentVolumeClaim ''ns'' (GetLabels ''tc'' fmempty) (Inl sample_error)]\<rparr>)"
  by (simp add: sample_initiated_def reconcile_run_defs HandleUpdateFinished_def sample_sys_def
      reconcileResources_def ResourceBuilders_def reconcileDelete_def PersistentVolumeClaim_GetObsoleteObjects_def)

text \<open>The resource is marked for deletion during an upgrade.\<close>

definition sample_deleted :: "ConfigMap option TeamcityReconciler" where
  "sample_deleted = sample_reconciler (sample_tc fmempty True []) (\<lambda>n. Inl sample_not_found) (Inl sample_error)"

lemma run_deleted:
  "run_state (Reconcile sample_deleted sample_request) (sample_sys (Some Starting)) =
     (Ok zero_Result,
      \<lparr>world = None,
       history =
         [GetTeamCity sample_request (Inr (sample_tc fmempty True [])),
          GetConfigMap sample_key (Inr (sample_map Starting)),
          GetConfigMap sample_key (Inr (sample_map Starting)),
          DeleteObject KindConfigMap sample_key None (Inr ()),
          UpdateTeamCity (without_finalizer sample_lib (sample_tc fmempty True [])) (Inr ())]\<rparr>)"
  by (simp add: sample_deleted_def reconcile_run_defs finalizeTeamCity_def without_finalizer_def sample_sys_def)

text \<open>The main StatefulSet has no container when the replica is made.\<close>

definition sample_broken :: "ConfigMap option TeamcityReconciler" where
  "sample_broken = sample_reconciler (sample_tc fmempty False []) (\<lambda>n. Inr sample_StatefulSet) (Inl sample_error)"


lemma updateReplica_panics:
  "fst (updateReplica sample_lib (sample_tc fmempty False []) sample_StatefulSet
     (StatefulSetObject (BuildROStatefulSet (sample_tc fmempty False [])))) = Panic ''index out of range [0] with length 0''"
  by (simp add: updateReplica_def UpdateROStatefulSet_def Let_def sample_StatefulSet_def CreateEmptyStatefulSet_def)

lemma run_broken:
  "\<exists>w cs. run_state (Reconcile sample_broken sample_request) (sample_sys (Some Created)) =
     (Panic ''index out of range [0] with length 0'', \<lparr>world = w, history = cs\<rparr>)"
  using updateReplica_panics
  by (simp add: sample_broken_def reconcile_run_defs HandleReplicaCreated_def sample_sys_def sample_restart
      split_beta)

text \<open>
  A StatefulSet with another service name, and the annotation that allows recreating it: it is deleted
  before anything is applied to it.
\<close>

definition allow_recreate :: smap where
  "allow_recreate = fmap_of_list [(''teamcity.jetbrains.com/allow-sts-recreate'', ''true'')]"

definition sample_drifted :: StatefulSet where
  "sample_drifted = sample_StatefulSet\<lparr>sts_Spec := (sts_Spec sample_StatefulSet)\<lparr>ss_ServiceName := ''old''\<rparr>\<rparr>"


lemma sample_Update_ok:
  "fst (PersistentVolumeClaim_Update sample_lib (sample_tc a d s) (PersistentVolumeClaimObject
     \<lparr>pvc_meta = named_ObjectMeta ''data-dir'' ns, pvc_Spec = spec\<rparr>)) = Ok ()"
  "fst (StatefulSet_Update sample_lib (sample_tc a d s) (StatefulSetObject main)) = Ok ()"
  "fst (SecondaryStatefulSet_Update sample_lib (sample_tc a d [sample_node ''b''])
     (StatefulSetObject (CreateEmptyStatefulSet ''b'' ns labels))) = Ok ()"
proof -
  have owner: "fst (setOwner sample_lib t m) = Ok ()" for t m
    by (simp add: setOwner_def sample_owner_def)
  have "getPVCIndex (PersistentVolumeClaimObject \<lparr>pvc_meta = named_ObjectMeta ''data-dir'' ns, pvc_Spec = spec\<rparr>)
      (pvcList (sample_tc a d s)) = 0"
    by (simp add: getPVCIndex_def first_index_def pvcList_def sample_tc_def sample_spec_def sample_claim_def)
  then show "fst (PersistentVolumeClaim_Update sample_lib (sample_tc a d s) (PersistentVolumeClaimObject
     \<lparr>pvc_meta = named_ObjectMeta ''data-dir'' ns, pvc_Spec = spec\<rparr>)) = Ok ()"
    by (simp add: PersistentVolumeClaim_Update_def Let_def owner split_beta)
  show "fst (StatefulSet_Update sample_lib (sample_tc a d s) (StatefulSetObject main)) = Ok ()"
    by (simp add: StatefulSet_Update_def Let_def updateNodeStatefulSet_eq owner)
  show "fst (SecondaryStatefulSet_Update sample_lib (sample_tc a d [sample_node ''b''])
     (StatefulSetObject (CreateEmptyStatefulSet ''b'' ns labels))) = Ok ()"
    by (simp add: SecondaryStatefulSet_Update_def Let_def getNodeIndex_def first_index_def updateNodeStatefulSet_eq owner
        CreateEmptyStatefulSet_def)
qed

lemma sample_built:
  "PersistentVolumeClaim_BuildObjectList (sample_tc a d s) = [PersistentVolumeClaimObject
     \<lparr>pvc_meta = named_ObjectMeta ''data-dir'' ''ns'', pvc_Spec = zero_PersistentVolumeClaimSpec\<rparr>]"
  "ServiceAccount_BuildObjectList (sample_tc a d s) = []"
  "Service_BuildObjectList (sample_tc a d s) = []"
  "Ingress_BuildObjectList (sample_tc a d s) = []"
  "StatefulSet_BuildObjectList (sample_tc a d s) = [StatefulSetObject sample_StatefulSet]"
  "SecondaryStatefulSet_BuildObjectList (sample_tc a d []) = []"
  "SecondaryStatefulSet_BuildObjectList (sample_tc a d [sample_node ''b'']) =
     [StatefulSetObject (CreateEmptyStatefulSet ''b'' ''ns'' (GetStatefulSetLabels ''tc'' ''b'' ''secondary'' fmempty))]"
  by (simp_all add: PersistentVolumeClaim_BuildObjectList_def ServiceAccount_BuildObjectList_def ServiceAccountProvided_def
      Service_BuildObjectList_def Ingress_BuildObjectList_def StatefulSet_BuildObjectList_def
      SecondaryStatefulSet_BuildObjectList_def Let_def sample_StatefulSet_def)
    (simp_all add: sample_tc_def sample_spec_def sample_claim_def)

lemmas builder_run_defs =
  reconcile_run_defs reconcileResources_def ResourceBuilders_def reconcileDelete_def obsolete_defs
  validatePreconditions_def reconcileCreateOrUpdate_def sample_built sample_Update_ok
  reconcileStatefulSetBeforeCreateOrUpdate_def isNewestGeneration_def isNodeUpdateFinished_def
  getStatefulSetByName_def split_beta updateTeamCityObjectStatusE_def no_field_changes desired_service_name

definition sample_recreating :: "ConfigMap option TeamcityReconciler" where
  "sample_recreating = sample_reconciler (sample_tc allow_recreate False []) (\<lambda>n. Inr sample_drifted) (Inr [])"

lemma sample_recreate_annotations:
  "AllowsStatefulSetRecreate (sample_tc allow_recreate d s)"
  "\<not> UsesZeroDownTimeUpgradePolicy (sample_tc allow_recreate d s)"
  "\<not> UsesZeroDownTimeUpgradePolicy (sample_tc fmempty d s)"
  by (simp_all add: UsesZeroDownTimeUpgradePolicy_def AllowsStatefulSetRecreate_def allow_recreate_def map_get_def
      fmlookup_of_list UpdatePolicyAnnotationKey_def AllowStsRecreateAnnotationKey_def
      AllowStsRecreateAnnotationValue_def ZeroDownTimeAnnotation_def)

definition recreate_message :: "string \<Rightarrow> ImmutableStatefulSetFieldChange list \<Rightarrow> string" where
  "recreate_message name changes =
     ''Recreating StatefulSet '' @ strconv_Quote name @
     '' because immutable fields changed ('' @ FormatImmutableStatefulSetFieldChanges changes @ '')''"

lemma run_report_recreate:
  "run_state (reportRecreateInProgress (sample_reconciler (sample_tc a d s) sts listed) (sample_tc a d s) name changes) sys =
     ((), sys\<lparr>history := history sys @
        [GetTeamCity sample_request (Inr (sample_tc a d s)),
         UpdateTeamCityStatus ((sample_tc a d s)\<lparr>tc_Status :=
           \<lparr>ts_State = ''Updating'', ts_Message = recreate_message name changes\<rparr>\<rparr>) (Inr ())]\<rparr>)"
proof -
  have "tc_Status (sample_tc a d s) = \<lparr>ts_State = '''', ts_Message = ''''\<rparr>" by (simp add: sample_tc_def)
  then show ?thesis
    unfolding reportRecreateInProgress_def recreate_message_def [symmetric] Let_def
    by (simp add: updateTeamCityObjectStatusE_def getTeamCityObjectE_def recordEvent_def
        sample_request_def TEAMCITY_CRD_OBJECT_UPDATING_STATE_def Let_def)
qed

lemma sample_StatefulSet_simps [simp]:
  "om_Name (sts_meta sample_StatefulSet) = ''main''" "om_Generation (sts_meta sample_StatefulSet) = 0"
  "ss_ServiceName (sts_Spec sample_StatefulSet) = ''''" "sts_Status sample_StatefulSet = zero_StatefulSetStatus"
  "meta_key (sts_meta sample_StatefulSet) = sample_main_key"
  "sts_meta sample_drifted = sts_meta sample_StatefulSet" "ss_ServiceName (sts_Spec sample_drifted) = ''old''"
  "sts_Status sample_drifted = zero_StatefulSetStatus"
  by (simp_all add: sample_drifted_def sample_StatefulSet_def CreateEmptyStatefulSet_def sample_main_key_def
      meta_key_def zero_StatefulSet_def zero_StatefulSetSpec_def zero_ObjectMeta_def named_ObjectMeta_def)

lemma zero_Result_simps [simp]: "\<not> Requeue zero_Result" "RequeueAfter zero_Result = 0"
  by (simp_all add: zero_Result_def)

lemma sample_status: "tc_Status (sample_tc a d s) = \<lparr>ts_State = '''', ts_Message = ''''\<rparr>"
  by (simp add: sample_tc_def)

lemma run_recreating:
  "\<exists>out s' rest. run_state (Reconcile sample_recreating sample_request) (sample_sys None) = (out, s') \<and>
     history s' = GetTeamCity sample_request (Inr (sample_tc allow_recreate False [])) # rest \<and>
     DeleteObject KindStatefulSet sample_main_key (Some DeletePropagationForeground) (Inr ()) \<in> set rest"
  by (simp add: sample_recreating_def builder_run_defs sample_recreate_annotations sample_sys_def run_report_recreate
        sample_status TEAMCITY_CRD_OBJECT_SUCCESS_STATE_def zero_NodeSpec_def zero_StatefulSetStatus_def)


text \<open>Two nodes and a settled main StatefulSet: the secondary node's StatefulSet is applied.\<close>

definition sample_settled :: StatefulSet where
  "sample_settled = sample_StatefulSet\<lparr>sts_Status := zero_StatefulSetStatus\<lparr>st_ReadyReplicas := 1\<rparr>\<rparr>"

definition sample_two_nodes :: TeamCity where
  "sample_two_nodes = sample_tc fmempty False [sample_node ''b'']"

definition sample_secondary :: k8s_object where
  "sample_secondary =
     StatefulSetObject (CreateEmptyStatefulSet ''b'' ''ns'' (GetStatefulSetLabels ''tc'' ''b'' ''secondary'' fmempty))"

definition sample_multi :: "ConfigMap option TeamcityReconciler" where
  "sample_multi = sample_reconciler sample_two_nodes (\<lambda>n. Inr sample_settled) (Inr [])"

lemma sample_settled_simps [simp]:
  "sts_meta sample_settled = sts_meta sample_StatefulSet" "ss_ServiceName (sts_Spec sample_settled) = ''''"
  "sts_Status sample_settled = zero_StatefulSetStatus\<lparr>st_ReadyReplicas := 1\<rparr>"
  by (simp_all add: sample_settled_def)

lemma CreateEmptyStatefulSet_name: "om_Name (sts_meta (CreateEmptyStatefulSet n ns labels)) = n"
  by (simp add: CreateEmptyStatefulSet_def)

lemma run_multi:
  "\<exists>s' pre err obj' post. run_state (Reconcile sample_multi sample_request) (sample_sys None) = (Ok zero_Result, s') \<and>
     history s' = GetTeamCity sample_request (Inr sample_two_nodes) # pre @ CreateOrUpdateObject sample_secondary err obj' # post"
proof -
  have "\<exists>s' err obj' rest. run_state (Reconcile sample_multi sample_request) (sample_sys None) = (Ok zero_Result, s') \<and>
     history s' = GetTeamCity sample_request (Inr sample_two_nodes) # rest \<and>
     CreateOrUpdateObject sample_secondary err obj' \<in> set rest"
    by (simp add: sample_multi_def sample_two_nodes_def sample_secondary_def builder_run_defs
        sample_recreate_annotations sample_sys_def sample_status TEAMCITY_CRD_OBJECT_SUCCESS_STATE_def
        zero_NodeSpec_def zero_StatefulSetStatus_def IsMultiNode_iff CreateEmptyStatefulSet_name)
      blast
  then show ?thesis by (metis split_list)
qed

end
