(* ===== verification/Checkpoint_Properties.thy ===== *)
theory Checkpoint_Properties
  imports Sample_Runs
begin

section \<open>Properties of stages and checkpoints\<close>

text \<open>
  The properties of \<open>internal/checkpoint\<close>: the conversions of a stage, the transitions
  \<open>canChangeStageValue\<close> allows, and what storing and deleting a checkpoint does to the cluster.
\<close>

subsection \<open>Stages\<close>

text \<open>
  (C24) Writing a stage as text and reading it back gives the stage again exactly for the seven named
  stages; any other value comes back as a named one. Storing what was read from any text in the
  ConfigMap of a checkpoint and reading it again changes nothing and is no error.
\<close>

theorem stage_round_trip:
  "(NewStage (Stage_String s) = s \<longleftrightarrow> s \<in> set named_stages) \<and>
   GetStageStringValueFromConfigMap (BuildCheckpointConfigMap (NewStage str) name ns) = (NewStage str, None)"
  by (metis GetStage_BuildCheckpoint NewStage_String NewStage_named)

lemma sint_difference:
  "sint (d - s) = sint d - sint s \<or> sint (d - s) = sint d - sint s - 2 ^ 64 \<or> sint (d - s) = sint d - sint s + 2 ^ 64"
  for s d :: Stage
proof -
  have r: "- (2 ^ 63) \<le> sint s" "sint s < 2 ^ 63" "- (2 ^ 63) \<le> sint d" "sint d < 2 ^ 63"
    "- (2 ^ 63) \<le> sint (d - s)" "sint (d - s) < 2 ^ 63"
    using sint_ge [of s] sint_lt [of s] sint_ge [of d] sint_lt [of d] sint_ge [of "d - s"] sint_lt [of "d - s"]
    by simp_all
  have w: "(of_int (sint d - sint s) :: Stage) = of_int (sint (d - s))" by simp
  then have "take_bit 64 (sint d - sint s) = take_bit 64 (sint (d - s))"
    by (simp only: word_of_int_eq_iff) simp
  then have "(sint d - sint s) mod 2 ^ 64 = sint (d - s) mod 2 ^ 64"
    by (simp only: take_bit_eq_mod)
  then obtain k where k: "sint d - sint s = sint (d - s) + 2 ^ 64 * k"
    by (metis mod_eqE mult.commute)
  with r have "-2 < k" "k < 2" by simp_all
  then have "k = -1 \<or> k = 0 \<or> k = 1" by auto
  with k show ?thesis by auto
qed

text \<open>
  (C22) On 64-bit integers, a transition is allowed exactly when the desired stage is not below the
  current one and either at most one above it, or so far above it that the subtraction wraps around
  to a negative number. Between named stages only the first is possible.
\<close>

theorem canChange_int64:
  "canChangeStageValue s d = Inr True \<longleftrightarrow>
     sint s \<le> sint d \<and> (sint d - sint s \<le> 1 \<or> 2 ^ 63 \<le> sint d - sint s)"
proof -
  have r: "- (2 ^ 63) \<le> sint s" "sint s < 2 ^ 63" "- (2 ^ 63) \<le> sint d" "sint d < 2 ^ 63"
    "- (2 ^ 63) \<le> sint (d - s)" "sint (d - s) < 2 ^ 63"
    using sint_ge [of s] sint_lt [of s] sint_ge [of d] sint_lt [of d] sint_ge [of "d - s"] sint_lt [of "d - s"]
    by simp_all
  with sint_difference [of d s] show ?thesis
    by (auto simp: canChangeStageValue_def)
qed

text \<open>
  Between named stages a transition is allowed exactly when it keeps the stage or goes to the
  next one; the phases never go back and none is skipped.
\<close>

lemma canChange_stage_of:
  "canChangeStageValue (stage_of p) (stage_of q) = Inr True \<longleftrightarrow> q = p \<or> p \<noteq> Finished \<and> q = next_phase p"
  unfolding canChange_phases next_phase_iff by auto

subsection \<open>The checkpoint in the cluster\<close>

text \<open>
  (C23) Moving the checkpoint to a stage makes one read and at most one write, by the answer to the
  read: none there creates it; a transition that is not allowed is an error and writes nothing; a
  ConfigMap without the stage key is an error and writes nothing; an allowed transition updates it,
  and then no error is returned even when the update failed.
\<close>

theorem DoCheckpoint_calls:
  "runs (DoCheckpointWithDesiredStage C c d) (\<lambda>out cs.
     let key = checkpoint_key (ck_Instance c);
         target = BuildCheckpointConfigMap d (tc_Name (ck_Instance c)) (tc_Namespace (ck_Instance c)) in
     \<exists>r. hd cs = GetConfigMap key r \<and>
       (case r of
          Inl e \<Rightarrow>
            if IsNotFound e
            then \<exists>w. tl cs = [CreateConfigMap target w] \<and> fst out = (case w of Inl e' \<Rightarrow> Some e' | Inr u \<Rightarrow> None)
            else tl cs = [] \<and> fst out = Some e
        | Inr cm \<Rightarrow>
            (case read_stage cm of
               None \<Rightarrow> tl cs = [] \<and> fst out \<noteq> None
             | Some s \<Rightarrow>
                 if canChangeStageValue s d = Inr True
                 then \<exists>w. tl cs = [UpdateConfigMap target w] \<and> fst out = None
                 else tl cs = [] \<and> fst out \<noteq> None)))"
  by (rule runs_mono [OF DoCheckpoint_runs])
    (auto simp: checkpoint_calls_def Let_def toConfigMapObject_eq)

text \<open>
  (C8) Whatever the API server answers, if consistently with a store of ConfigMaps only the operator
  changes, moving the checkpoint of a resource to a phase leaves the ConfigMaps of all other names
  alone, and the upgrade unchanged, or begun in that phase, or advanced by one phase to it.
\<close>

theorem DoCheckpoint_refines:
  assumes "run_state (DoCheckpointWithDesiredStage C c (stage_of q)) s = (out, s')"
    and "history s' = history s @ cs" and "consistent \<sigma> cs"
  shows "(\<forall>n. n = checkpoint_key (ck_Instance c) \<or> replay \<sigma> cs n = \<sigma> n) \<and>
    (upgrade_of (replay \<sigma> cs) (ck_Instance c) = upgrade_of \<sigma> (ck_Instance c) \<or>
     upgrade_of (replay \<sigma> cs) (ck_Instance c) = At q \<and>
       (upgrade_of \<sigma> (ck_Instance c) = NoUpgrade \<or>
        (\<exists>p. upgrade_of \<sigma> (ck_Instance c) = At p \<and> p \<noteq> Finished \<and> next_phase p = q)))"
  using runs_history [OF refines_DoCheckpoint [unfolded refines_def] assms(1,2)] assms(3)
  by (auto simp: moves_def)

definition sample_checkpoint :: Checkpoint where
  "sample_checkpoint = NewCheckpoint (sample_tc fmempty False [])"

lemma run_checkpoint:
  "run_state (DoCheckpointWithDesiredStage (r_Client sample_initiated) sample_checkpoint ReplicaCreated)
      (sample_sys (Some Initiated)) =
    ((None, sample_checkpoint\<lparr>ck_CurrentStage := ReplicaCreated\<rparr>),
     \<lparr>world = Some (sample_map Created),
      history = [GetConfigMap sample_key (Inr (sample_map Initiated)), UpdateConfigMap (sample_map Created) (Inr ())]\<rparr>)"
  by (simp add: sample_initiated_def sample_checkpoint_def checkpoint_run_defs sample_sys_def)

theorem DoCheckpoint_refines_witness:
  "upgrade_of (sample_store (Some Created)) (sample_tc fmempty False []) = At Created \<and>
   (\<forall>n. n = sample_key \<or> sample_store (Some Created) n = sample_store (Some Initiated) n)"
  using DoCheckpoint_refines [where q = Created and \<sigma> = "sample_store (Some Initiated)", simplified,
      OF run_checkpoint]
  by (simp add: sample_checkpoint_def NewCheckpoint_def)

text \<open>
  (C25) Deleting the checkpoint reads it first. When the read fails with anything but NotFound nothing
  is deleted and that error is returned; when it is found, the object read is deleted; when it is not
  found, the code goes on to delete an object with an empty name and namespace.
\<close>

theorem Delete_calls:
  "runs (Checkpoint_Delete C c) (\<lambda>out cs. \<exists>r. hd cs = GetConfigMap (checkpoint_key (ck_Instance c)) r \<and>
     (case r of
        Inl e \<Rightarrow>
          if IsNotFound e
          then \<exists>d. tl cs = [DeleteObject KindConfigMap \<lparr>nn_Namespace = '''', nn_Name = ''''\<rparr> None d] \<and>
                 out = (case d of Inl e' \<Rightarrow> Some e' | Inr u \<Rightarrow> None)
          else tl cs = [] \<and> out = Some e
      | Inr cm \<Rightarrow> \<exists>d. tl cs = [DeleteObject KindConfigMap (meta_key (cm_meta cm)) None d] \<and>
                 out = (case d of Inl e' \<Rightarrow> Some e' | Inr u \<Rightarrow> None)))"
  unfolding Checkpoint_Delete_def Checkpoint_GetConfigMap_def
  by (simp, rule runs_rules)
    (auto simp: zero_ConfigMap_def zero_ObjectMeta_def meta_key_def split: sum.split intro!: runs_rules)

end
