(* ===== verification/Applications.thy ===== *)
theory Applications
  imports Deletions
begin

section \<open>What a reconciliation applies\<close>

text \<open>
  The objects handed to \<open>CreateOrUpdate\<close>: by one builder, in order and up to the first failure; and by
  a whole reconciliation, only objects the operator builds for this resource.
\<close>

subsection \<open>One builder\<close>

definition application :: "api_call \<Rightarrow> (k8s_object \<times> unit res) list" where
  "application c = (case c of CreateOrUpdateObject obj err obj' \<Rightarrow> [(obj, err)] | _ \<Rightarrow> [])"

definition applications :: "api_call list \<Rightarrow> (k8s_object \<times> unit res) list" where
  "applications cs = concat (map application cs)"

lemma applications_simps [simp]:
  "applications [] = []" "applications (c # cs) = application c @ applications cs"
  "applications (cs @ ds) = applications cs @ applications ds"
  by (simp_all add: applications_def)

lemma application_simps [simp]:
  "application (CreateOrUpdateObject obj err obj') = [(obj, err)]"
  "application (GetStatefulSet n r) = []"
  by (simp_all add: application_def)

lemma no_applications: "list_all no_apply cs \<Longrightarrow> applications cs = []"
  by (induction cs) (auto simp: no_apply_def application_def split: api_call.splits)

lemma emits_no_applications: "emits no_apply m \<Longrightarrow> runs m (\<lambda>a cs. applications cs = [])"
  unfolding emits_def by (erule runs_mono) (rule no_applications)

definition applied_ok :: "k8s_object list \<Rightarrow> (k8s_object \<times> unit res) list" where
  "applied_ok objects = map (\<lambda>obj. (obj, Ok ())) objects"

lemma applied_ok_simps [simp]:
  "applied_ok [] = []" "applied_ok (obj # objects) = (obj, Ok ()) # applied_ok objects"
  by (simp_all add: applied_ok_def)

text \<open>
  By the outcome of the loop over the built objects: all were applied; or the loop was left early to
  wait for a deletion; or it stopped at some object, before it or on its failure.
\<close>

definition recreate_Result :: Result where
  "recreate_Result = \<lparr>Requeue = True, RequeueAfter = statefulSetRecreateRequeueInterval\<rparr>"

definition applies_in_order :: "k8s_object list \<Rightarrow> Result res \<Rightarrow> (k8s_object \<times> unit res) list \<Rightarrow> bool" where
  "applies_in_order objects out as \<longleftrightarrow>
     (if out = Ok zero_Result then as = applied_ok objects
      else \<exists>pre obj post. objects = pre @ obj # post \<and>
        (case out of
           Ok r \<Rightarrow> r = recreate_Result \<and> as = applied_ok pre
         | _ \<Rightarrow> as = applied_ok pre \<or> (\<exists>err. err \<noteq> Ok () \<and> as = applied_ok pre @ [(obj, err)])))"

lemma recreate_Result_simps [simp]:
  "recreate_Result \<noteq> zero_Result" "Requeue recreate_Result" "\<not> Requeue zero_Result" "RequeueAfter zero_Result = 0"
  by (simp_all add: recreate_Result_def zero_Result_def)

lemma applies_in_order_first:
  "applies_in_order (obj # objects) (Ok recreate_Result) []"
  "applies_in_order (obj # objects) (Err e) []" "applies_in_order (obj # objects) (Panic p) []"
  "err \<noteq> Ok () \<Longrightarrow> applies_in_order (obj # objects) (Err e) [(obj, err)]"
  "err \<noteq> Ok () \<Longrightarrow> applies_in_order (obj # objects) (Panic p) [(obj, err)]"
  by (auto simp: applies_in_order_def intro!: exI [of _ "[]"])

lemma applies_in_order_next:
  assumes "applies_in_order objects out as"
  shows "applies_in_order (obj # objects) out ((obj, Ok ()) # as)"
proof (cases "out = Ok zero_Result")
  case True
  with assms show ?thesis by (simp add: applies_in_order_def)
next
  case False
  with assms obtain pre x post where "objects = pre @ x # post"
    "case out of Ok r \<Rightarrow> r = recreate_Result \<and> as = applied_ok pre
     | _ \<Rightarrow> as = applied_ok pre \<or> (\<exists>err. err \<noteq> Ok () \<and> as = applied_ok pre @ [(x, err)])"
    by (auto simp: applies_in_order_def)
  with False show ?thesis
    unfolding applies_in_order_def
    by (simp, intro exI [of _ "obj # pre"] exI [of _ x] exI [of _ post]) (auto split: res.splits)
qed

lemma before_result:
  "runs (reconcileStatefulSetBeforeCreateOrUpdate R t b obj) (\<lambda>out cs. applications cs = [] \<and>
     (case out of Ok r \<Rightarrow> r = zero_Result \<or> r = recreate_Result | _ \<Rightarrow> True))"
proof (rule runs_conj)
  show "runs (reconcileStatefulSetBeforeCreateOrUpdate R t b obj) (\<lambda>out cs. applications cs = [])"
    by (rule emits_no_applications, intro emits_rules no_apply_simps)
  show "runs (reconcileStatefulSetBeforeCreateOrUpdate R t b obj)
      (\<lambda>out cs. case out of Ok r \<Rightarrow> r = zero_Result \<or> r = recreate_Result | _ \<Rightarrow> True)"
    unfolding reconcileStatefulSetBeforeCreateOrUpdate_def Let_def
    by (intro runs_rules runs_any_bind emits_rules TrueI) (auto simp: recreate_Result_def)
qed

lemma createOrUpdate_in_order:
  "runs (createOrUpdateObjects R b t objects) (\<lambda>out cs. applies_in_order objects out (applications cs))"
proof (induction objects)
  case Nil
  show ?case by (simp add: applies_in_order_def runs_return)
next
  case (Cons obj objects)
  have blocked: "runs (statefulSetRecreateBlockedFromAPIError R t b obj' e \<bind> (\<lambda>blocked.
        case blocked of Some b \<Rightarrow> result (Err (RecreateBlocked b)) | None \<Rightarrow> result (Err e)))
      (\<lambda>out cs. applies_in_order (obj # objects) out ((obj, Err e) # applications cs))" for obj' e
    by (rule runs_bind [OF emits_no_applications], intro emits_rules no_apply_simps)
      (auto intro!: runs_rules applies_in_order_first)
  have later: "runs (createOrUpdateObjects R b t objects)
      (\<lambda>out cs. applies_in_order (obj # objects) out ((obj, Ok ()) # applications cs))"
    by (rule runs_mono [OF Cons.IH]) (rule applies_in_order_next)
  have applied: "runs (applyWithRetry (r_Client R) obj (Update (r_Lib R) b) \<bind> (\<lambda>(err, object').
        case err of Panic p \<Rightarrow> result (Panic p)
        | Err e \<Rightarrow> statefulSetRecreateBlockedFromAPIError R t b object' e \<bind> (\<lambda>blocked.
            case blocked of Some b \<Rightarrow> result (Err (RecreateBlocked b)) | None \<Rightarrow> result (Err e))
        | Ok u \<Rightarrow> createOrUpdateObjects R b t objects))
      (\<lambda>out cs. applies_in_order (obj # objects) out (applications cs))"
    by (rule runs_calls, simp, intro runs_rules)
      (simp_all add: applies_in_order_first runs_return blocked later)
  show ?case
    unfolding createOrUpdateObjects.simps
    by (rule runs_bind [OF before_result], simp, intro runs_rules)
      (auto simp: applies_in_order_first runs_return applied blocked later)
qed

subsection \<open>A whole reconciliation\<close>

definition own_application :: "TeamCity \<Rightarrow> api_call \<Rightarrow> bool" where
  "own_application t = applied_in (\<lambda>obj. om_Namespace (object_meta obj) = tc_Namespace t \<and>
     ((\<exists>b \<in> set (ResourceBuilders t). obj \<in> set (built b)) \<or> obj = StatefulSetObject (BuildROStatefulSet t)))"

lemma own_application_no_apply: "no_apply c \<Longrightarrow> own_application t c"
  unfolding own_application_def by (rule no_apply_applied_in)

lemma replica_meta: "om_Namespace (sts_meta (BuildROStatefulSet t)) = tc_Namespace t"
  by (simp add: BuildROStatefulSet_def Let_def)

lemma built_namespace:
  "b \<in> set (ResourceBuilders t) \<Longrightarrow> obj \<in> set (built b) \<Longrightarrow> om_Namespace (object_meta obj) = tc_Namespace t"
  by (auto simp: ResourceBuilders_def built_def pvc_builder.build_namespace account_builder.build_namespace
      service_builder.build_namespace ingress_builder.build_namespace main_builder.build_namespace
      secondary_builder.build_namespace)

lemma Reconcile_own_applications:
  "runs (Reconcile R req) (\<lambda>a cs. \<forall>rest. cs = GetTeamCity req (Inr t) # rest \<longrightarrow> list_all (own_application t) rest)"
proof -
  have quiet: "emits (own_application t) (finalizeTeamCity R t)" "emits (own_application t) (ongoingZeroDowntimeUpgrade R t)"
    by (intro emits_rules own_application_no_apply no_apply_simps)+
  have replica: "own_application t (CreateOrUpdateObject (StatefulSetObject (BuildROStatefulSet t)) err obj')" for err obj'
    by (simp add: own_application_def replica_meta)
  have built: "own_application t (CreateOrUpdateObject obj err obj')"
    if "b \<in> set (ResourceBuilders t)" "BuildObjectList b = Inr objects" "obj \<in> set objects" for b objects obj err obj'
  proof -
    from that have "obj \<in> set (built b)" by (simp add: BuildObjectList_built)
    with that(1) built_namespace show ?thesis unfolding own_application_def by auto
  qed
  have loud: "emits (own_application t) (performZeroDowntimeUpgradeOrRequeue R t ongoing)"
    "emits (own_application t) (reconcileResources R t req)" for ongoing
    by (intro emits_rules; (rule replica | (rule built; assumption) | (rule own_application_no_apply, simp)))+
  show ?thesis
    using quiet loud unfolding emits_def
    by (intro each_call.ok_Reconcile) (simp_all add: own_application_no_apply)
qed

end
