(* ===== verification/Resource_Properties.thy ===== *)
theory Resource_Properties
  imports Node_Facts Sample_Runs Applications
begin

section \<open>Properties of the owned resources\<close>

text \<open>
  The properties of the builders of \<open>internal/resource\<close> and of the StatefulSets they make: filling
  in converges and cannot fail on what was built, what is obsolete, which fields an update touches,
  the environment and heap size of a node, and the update replica.
\<close>

subsection \<open>Builders\<close>

text \<open>
  (C26) Applying converges: an object that a builder has filled in without an error is a fixed point of
  the same builder, for every builder and every object, when setting the controller reference
  changes the owner references only and setting it again changes nothing.
\<close>

theorem Update_converges:
  assumes "controller_reference_only L" and "controller_reference_stable L"
    and "Update L b obj = (Ok (), obj')"
  shows "Update L b obj' = (Ok (), obj')"
  using assms by (rule Update_again)

definition sample_stored_claim :: PersistentVolumeClaim where
  "sample_stored_claim =
     \<lparr>pvc_meta = named_ObjectMeta ''data-dir'' ''ns'',
      pvc_Spec = zero_PersistentVolumeClaimSpec\<lparr>pc_VolumeName := ''pv-1'', pc_StorageClassName := Some ''fast''\<rparr>\<rparr>"

lemma sample_claim_update:
  "fst (PersistentVolumeClaim_Update sample_lib (sample_tc a d s) (PersistentVolumeClaimObject sample_stored_claim)) = Ok ()"
proof -
  have "getPVCIndex (PersistentVolumeClaimObject sample_stored_claim) (pvcList (sample_tc a d s)) = 0"
    by (simp add: getPVCIndex_def first_index_def pvcList_def sample_stored_claim_def sample_tc_def
        sample_spec_def sample_claim_def)
  then show ?thesis
    by (simp add: PersistentVolumeClaim_Update_def Let_def setOwner_def sample_owner_def split: prod.split)
qed

theorem Update_converges_witness:
  "\<exists>obj'. Update sample_lib (PersistentVolumeClaimBuilder (sample_tc fmempty False []))
       (PersistentVolumeClaimObject sample_stored_claim) = (Ok (), obj') \<and>
     Update sample_lib (PersistentVolumeClaimBuilder (sample_tc fmempty False [])) obj' = (Ok (), obj')"
proof -
  obtain obj' where "Update sample_lib (PersistentVolumeClaimBuilder (sample_tc fmempty False []))
       (PersistentVolumeClaimObject sample_stored_claim) = (Ok (), obj')"
    using sample_claim_update by (metis Update.simps(1) prod.collapse)
  with Update_converges [OF sample_lib_documented(2,3) this] show ?thesis by blast
qed

text \<open>
  (C27) Filling in an object of the kind and name of one the builder built never panics: it succeeds,
  or fails because the controller reference could not be set. The kind of the object is kept.
\<close>

theorem Update_built:
  assumes "obj \<in> set (built b)" and "object_kind stored = object_kind obj" and "GetName stored = GetName obj"
  shows "(fst (Update L b stored) = Ok () \<or>
      (\<exists>e. fst (Update L b stored) = Err (WrapError ''failed setting controller reference'' e))) \<and>
    object_kind (snd (Update L b stored)) = object_kind obj"
  using assms
  by (cases b) (simp_all add: built_def pvc_builder.update_built account_builder.update_built
      service_builder.update_built ingress_builder.update_built main_builder.update_built
      secondary_builder.update_built pvc_builder.update_kind account_builder.update_kind
      service_builder.update_kind ingress_builder.update_kind main_builder.update_kind secondary_builder.update_kind)

theorem Update_built_witness:
  "object_kind (snd (Update sample_lib (PersistentVolumeClaimBuilder (sample_tc fmempty False []))
     (PersistentVolumeClaimObject sample_stored_claim))) = KindPersistentVolumeClaim"
proof -
  let ?obj = "PersistentVolumeClaimObject
    \<lparr>pvc_meta = named_ObjectMeta ''data-dir'' ''ns'', pvc_Spec = zero_PersistentVolumeClaimSpec\<rparr>"
  have "?obj \<in> set (built (PersistentVolumeClaimBuilder (sample_tc fmempty False [])))"
    by (simp add: built_def PersistentVolumeClaim_BuildObjectList_def sample_tc_def sample_spec_def sample_claim_def)
  from Update_built [OF this, of "PersistentVolumeClaimObject sample_stored_claim" sample_lib] show ?thesis
    by (simp add: sample_stored_claim_def)
qed

text \<open>
  (C16) The objects a builder declares obsolete are the listed ones, in the resource's namespace and
  with its labels, whose name is not among the names of the objects the builder builds; a failed
  list is an error, and the builder of the main node never looks for any.
\<close>

theorem GetObsoleteObjects_result:
  "runs (GetObsoleteObjects C b) (\<lambda>r cs.
     case obsolete_query b of
       None \<Rightarrow> cs = [] \<and> r = Inr []
     | Some (k, namespace, labels) \<Rightarrow>
         \<exists>a. cs = [ListObjects k namespace labels a] \<and>
           r = (case a of
                  Inl e \<Rightarrow> Inl e
                | Inr items \<Rightarrow> Inr (filter (\<lambda>obj. GetName obj \<notin> GetName ` set (built b)) items)))"
proof (cases "obsolete_query b")
  case None
  then show ?thesis by (simp add: GetObsoleteObjects_none runs_return)
next
  case (Some q)
  then obtain k namespace labels where q: "obsolete_query b = Some (k, namespace, labels)" by (metis surj_pair)
  show ?thesis
    unfolding GetObsoleteObjects_list [OF q] q
    by (simp, rule runs_calls) (auto intro!: runs_cases runs_return)
qed

text \<open>
  (C28) Filling in a volume claim keeps what Kubernetes does not let change on a bound claim: the name
  of its volume always, its storage class and its volume mode when they are set. Access modes,
  selector and resources become those of the claim of that name in the resource.
\<close>

theorem claim_update_keeps_binding:
  assumes "PersistentVolumeClaim_Update L t (PersistentVolumeClaimObject pvc) = (Ok (), PersistentVolumeClaimObject pvc')"
  shows "\<exists>d \<in> set (GetAllCustomPersistentVolumeClaim t). cc_Name d = om_Name (pvc_meta pvc) \<and>
    pvc_Spec pvc' = (pvc_Spec pvc)\<lparr>
      pc_AccessModes := pc_AccessModes (cc_Spec d),
      pc_Selector := pc_Selector (cc_Spec d),
      pc_Requests := pc_Requests (cc_Spec d),
      pc_Resources_rest := pc_Resources_rest (cc_Spec d),
      pc_StorageClassName := (case pc_StorageClassName (pvc_Spec pvc) of
        None \<Rightarrow> pc_StorageClassName (cc_Spec d) | Some c \<Rightarrow> Some c),
      pc_VolumeMode := (case pc_VolumeMode (pvc_Spec pvc) of
        None \<Rightarrow> pc_VolumeMode (cc_Spec d) | Some c \<Rightarrow> Some c)\<rparr>"
proof -
  let ?obj = "PersistentVolumeClaimObject pvc"
  from assms have idx: "getPVCIndex ?obj (pvcList t) \<noteq> -1"
    by (auto simp: PersistentVolumeClaim_Update_def Let_def)
  let ?d = "pvcList t ! nat (getPVCIndex ?obj (pvcList t))"
  from pvc_lookup.found [OF idx] have "?d \<in> set (GetAllCustomPersistentVolumeClaim t)"
    "cc_Name ?d = om_Name (pvc_meta pvc)"
    by (simp_all add: pvcList_def GetAllCustomPersistentVolumeClaim_def)
  moreover from assms idx have "pvc_Spec pvc' = pvc_Spec (fillPersistentVolumeClaim t ?d pvc)"
    by (auto simp: PersistentVolumeClaim_Update_def Let_def setOwner_result)
  ultimately show ?thesis using fillPersistentVolumeClaim_spec by metis
qed

theorem claim_update_keeps_binding_witness:
  "\<exists>pvc'. PersistentVolumeClaim_Update sample_lib (sample_tc fmempty False [])
       (PersistentVolumeClaimObject sample_stored_claim) = (Ok (), PersistentVolumeClaimObject pvc') \<and>
     pc_VolumeName (pvc_Spec pvc') = ''pv-1'' \<and> pc_StorageClassName (pvc_Spec pvc') = Some ''fast''"
proof -
  let ?u = "PersistentVolumeClaim_Update sample_lib (sample_tc fmempty False []) (PersistentVolumeClaimObject sample_stored_claim)"
  have "object_kind (snd ?u) = KindPersistentVolumeClaim" by (simp add: pvc_builder.update_kind)
  then obtain pvc' where "snd ?u = PersistentVolumeClaimObject pvc'" by (cases "snd ?u") simp_all
  with sample_claim_update have u: "?u = (Ok (), PersistentVolumeClaimObject pvc')" by (metis prod.collapse)
  from claim_update_keeps_binding [OF this] have
    "pc_VolumeName (pvc_Spec pvc') = ''pv-1'' \<and> pc_StorageClassName (pvc_Spec pvc') = Some ''fast''"
    by (auto simp: sample_stored_claim_def)
  with u show ?thesis by blast
qed

subsection \<open>The StatefulSet of a node\<close>

text \<open>
  Filling in the StatefulSet of a node, new or stored, leaves its selector, its pod labels and
  its status alone, sets one replica, sets the service name only when the node names one, and leaves
  exactly one container, the operator's, with the volumes of all claims of the resource.
\<close>

lemma node_StatefulSet_shape:
  "\<exists>s'. snd (updateNodeStatefulSet L t node s) = StatefulSetObject s' \<and>
     ss_Selector (sts_Spec s') = ss_Selector (sts_Spec s) \<and>
     pt_Labels (ss_Template (sts_Spec s')) = pt_Labels (ss_Template (sts_Spec s)) \<and>
     sts_Status s' = sts_Status s \<and>
     ss_Replicas (sts_Spec s') = Some 1 \<and>
     ss_ServiceName (sts_Spec s') =
       (if ns_ServiceName (node_Spec node) = '''' then ss_ServiceName (sts_Spec s)
        else ns_ServiceName (node_Spec node)) \<and>
     pt_Annotations (ss_Template (sts_Spec s')) = node_Annotations node \<and>
     ps_Containers (pt_Spec (ss_Template (sts_Spec s'))) = [ConfigureContainer L t node zero_Container] \<and>
     map vol_Name (ps_Volumes (pt_Spec (ss_Template (sts_Spec s')))) = map cc_Name (GetAllCustomPersistentVolumeClaim t)"
  by (simp add: updateNodeStatefulSet_eq configured_spec comp_def createVolumeFromCustomPersistentVolumeClaim_def)

text \<open>
  (C30) The drift that makes the operator recreate a StatefulSet is exactly a service name that is not
  the node's. When there is none, filling in the stored StatefulSet changes neither its service name
  nor its selector, the fields Kubernetes refuses to update.
\<close>

theorem no_drift_in_place:
  assumes "GetImmutableStatefulSetFieldChanges existing (BuildDesiredStatefulSet L t node labels) = []"
    and "snd (updateNodeStatefulSet L t node existing) = StatefulSetObject updated"
  shows "ss_ServiceName (sts_Spec existing) = ns_ServiceName (node_Spec node) \<and>
    ss_ServiceName (sts_Spec updated) = ss_ServiceName (sts_Spec existing) \<and>
    ss_Selector (sts_Spec updated) = ss_Selector (sts_Spec existing) \<and>
    \<not> ImmutableStatefulSetSpecChanged updated (BuildDesiredStatefulSet L t node labels)"
  using assms
  by (auto simp: no_field_changes desired_service_name updateNodeStatefulSet_eq configured_spec
      ImmutableStatefulSetSpecChanged_def)

theorem no_drift_in_place_witness:
  "\<exists>updated. snd (updateNodeStatefulSet sample_lib (sample_tc fmempty False []) (sample_node ''main'') sample_StatefulSet) =
       StatefulSetObject updated \<and> ss_ServiceName (sts_Spec updated) = ''''"
proof -
  let ?update = "updateNodeStatefulSet sample_lib (sample_tc fmempty False []) (sample_node ''main'') sample_StatefulSet"
  have "GetImmutableStatefulSetFieldChanges sample_StatefulSet
      (BuildDesiredStatefulSet sample_lib (sample_tc fmempty False []) (sample_node ''main'') fmempty) = []"
    by (simp add: no_field_changes desired_service_name sample_StatefulSet_def CreateEmptyStatefulSet_def
        zero_StatefulSetSpec_def zero_NodeSpec_def)
  moreover obtain updated where u: "snd ?update = StatefulSetObject updated"
    by (simp add: updateNodeStatefulSet_eq)
  ultimately have "ss_ServiceName (sts_Spec updated) = ss_ServiceName (sts_Spec sample_StatefulSet)"
    using no_drift_in_place by blast
  with u show ?thesis by (simp add: sample_StatefulSet_def CreateEmptyStatefulSet_def zero_StatefulSetSpec_def)
qed

text \<open>
  (C29) Every StatefulSet the operator creates for a node selects its own pods: filling in what the
  builders of the main and secondary nodes build leaves the selector equal to the pod labels and to
  the labels of the StatefulSet itself.
\<close>

theorem StatefulSets_select_their_pods:
  assumes "b \<in> {StatefulSetBuilder t, SecondaryStatefulSetBuilder t}" and "obj \<in> set (built b)"
    and "controller_reference_only L"
  shows "\<exists>s. snd (Update L b obj) = StatefulSetObject s \<and>
    ss_Selector (sts_Spec s) = Some (pt_Labels (ss_Template (sts_Spec s))) \<and>
    pt_Labels (ss_Template (sts_Spec s)) = om_Labels (sts_meta s)"
proof -
  have fill: "\<exists>s. snd (updateNodeStatefulSet L t node (CreateEmptyStatefulSet n ns labels)) = StatefulSetObject s \<and>
      ss_Selector (sts_Spec s) = Some (pt_Labels (ss_Template (sts_Spec s))) \<and>
      pt_Labels (ss_Template (sts_Spec s)) = om_Labels (sts_meta s)" for node n ns labels
    using setOwner_meta [OF assms(3)]
    by (simp add: updateNodeStatefulSet_eq configured_spec CreateEmptyStatefulSet_def)
  show ?thesis
  proof (cases "b = StatefulSetBuilder t")
    case True
    with assms(2) show ?thesis
      using fill by (auto simp: built_def StatefulSet_BuildObjectList_def StatefulSet_Update_def Let_def)
  next
    case False
    with assms(1) have b: "b = SecondaryStatefulSetBuilder t" by simp
    with assms(2) have obj: "obj \<in> set (SecondaryStatefulSet_BuildObjectList t)" by (simp add: built_def)
    then have "GetName obj \<in> set (map GetName (SecondaryStatefulSet_BuildObjectList t))" by simp
    then have "getNodeIndex obj (tc_SecondaryNodes t) \<noteq> -1"
      by (simp only: secondary_builder.build_names node_lookup.absent_iff) simp
    moreover from obj obtain n ns labels where "obj = StatefulSetObject (CreateEmptyStatefulSet n ns labels)"
      by (auto simp: SecondaryStatefulSet_BuildObjectList_def Let_def)
    ultimately show ?thesis using b fill by (simp add: SecondaryStatefulSet_Update_def Let_def)
  qed
qed

theorem StatefulSets_select_their_pods_witness:
  "\<exists>s. snd (Update sample_lib (SecondaryStatefulSetBuilder (sample_tc fmempty False [sample_node ''b'']))
       (StatefulSetObject (CreateEmptyStatefulSet ''b'' ''ns'' (GetStatefulSetLabels ''tc'' ''b'' ''secondary'' fmempty)))) =
       StatefulSetObject s \<and>
     ss_Selector (sts_Spec s) = Some (pt_Labels (ss_Template (sts_Spec s)))"
proof -
  let ?t = "sample_tc fmempty False [sample_node ''b'']"
  have "StatefulSetObject (CreateEmptyStatefulSet ''b'' ''ns'' (GetStatefulSetLabels ''tc'' ''b'' ''secondary'' fmempty))
      \<in> set (built (SecondaryStatefulSetBuilder ?t))"
    by (simp add: built_def SecondaryStatefulSet_BuildObjectList_def sample_tc_def sample_spec_def sample_node_def
        named_ObjectMeta_def zero_ObjectMeta_def)
  from StatefulSets_select_their_pods [OF _ this sample_lib_documented(2), of ?t] show ?thesis by auto
qed


subsection \<open>The heap size and the environment\<close>

text \<open>
  (C31) The heap size given to the JVM is within the memory request and within three bytes of the exact
  percentage of it, for a percentage of at most 100 and a request of at most 2 to the 53 bytes,
  although the code computes it in floating point and truncates.
\<close>

theorem heap_within_request:
  assumes "0 \<le> p" and "p \<le> 100" and "0 \<le> m" and "m \<le> 2 ^ 53"
  shows "0 \<le> xmx_bytes p m \<and> xmx_bytes p m \<le> m \<and> \<bar>100 * xmx_bytes p m - p * m\<bar> < 300"
  using xmx_truncated(2,3) [OF assms] xmx_close [OF assms] by blast

theorem heap_within_request_witness:
  "0 \<le> xmx_bytes 95 (4 * 1024 ^ 3) \<and> xmx_bytes 95 (4 * 1024 ^ 3) \<le> 4 * 1024 ^ 3 \<and>
   \<bar>100 * xmx_bytes 95 (4 * 1024 ^ 3) - 95 * (4 * 1024 ^ 3)\<bar> < 300"
  by (rule heap_within_request) simp_all

text \<open>
  (C32) The startup properties are rendered in the increasing order of their keys: whatever the orders
  in which Go visits the map on two occasions, both render the same text, so a reconciliation never
  restarts a node for it.
\<close>

theorem server_options_any_order:
  assumes "visits_all_keys L" and "visits_all_keys L'"
  shows "ConvertStartUpPropertiesToServerOptions L m = ConvertStartUpPropertiesToServerOptions L' m \<and>
    SortKeysAlphabeticallyInMap L m = sorted_list_of_fset (fmdom m) \<and>
    ConvertStartUpPropertiesToServerOptions L m =
      concat (map (\<lambda>k. '' -D'' @ k @ ''='' @ map_get m k) (sorted_list_of_fset (fmdom m)))"
  by (simp add: server_options [OF assms(1)] server_options [OF assms(2)] sorted_keys [OF assms(1)])

text \<open>A run that visits the keys in increasing order, where the sample library visits them backwards.\<close>

definition sample_lib_forwards :: k8s_lib where
  "sample_lib_forwards = sample_lib\<lparr>range_keys := \<lambda>m. sorted_list_of_fset (fmdom m)\<rparr>"

theorem server_options_any_order_witness:
  "range_keys sample_lib (fmap_of_list [(''b'', ''2''), (''a'', ''1'')]) = [''b'', ''a''] \<and>
   range_keys sample_lib_forwards (fmap_of_list [(''b'', ''2''), (''a'', ''1'')]) = [''a'', ''b''] \<and>
   ConvertStartUpPropertiesToServerOptions sample_lib (fmap_of_list [(''b'', ''2''), (''a'', ''1'')]) =
     ConvertStartUpPropertiesToServerOptions sample_lib_forwards (fmap_of_list [(''b'', ''2''), (''a'', ''1'')])"
proof -
  have "visits_all_keys sample_lib_forwards"
    by (simp add: visits_all_keys_def sample_lib_forwards_def sorted_list_of_fset.rep_eq)
  from server_options_any_order [OF sample_lib_documented(4) this] show ?thesis
    by (simp add: sample_lib_forwards_def sorted_list_of_fset.rep_eq)
qed

text \<open>
  The environment of a node names the pod, the paths and the server options first, then the
  variables of the node's own spec in their order, then those of the database when a secret is
  given; nothing the user lists is dropped or reordered.
\<close>

lemma environment_names:
  "map ev_Name (BuildEnvVariablesFromGlobalAndNodeSpecificSettings L t node) =
     [''POD_NAME'', ''POD_NAMESPACE'', ''TEAMCITY_DATA_PATH'', ''TEAMCITY_LOGS_PATH'',
      ''TEAMCITY_SERVER_MEM_OPTS'', ''TEAMCITY_SERVER_OPTS''] @
     map ev_Name (ns_Env (node_Spec node)) @
     (if DatabaseSecretProvided t then [''TEAMCITY_DB_USER'', ''TEAMCITY_DB_PASSWORD'', ''TEAMCITY_DB_URL''] else [])"
  using env_names [of L t node] by (simp add: operator_env_names_def database_env_names_def)

subsection \<open>The update replica\<close>

text \<open>
  Filling in the update replica panics exactly when the main StatefulSet has no container.
\<close>

lemma replica_panics_iff:
  "(\<exists>p. fst (UpdateROStatefulSet L t main ro) = Panic p) \<longleftrightarrow>
     ps_Containers (pt_Spec (ss_Template (sts_Spec main))) = []"
proof
  assume "ps_Containers (pt_Spec (ss_Template (sts_Spec main))) = []"
  then show "\<exists>p. fst (UpdateROStatefulSet L t main ro) = Panic p" by (simp add: UpdateROStatefulSet_def Let_def)
qed (use UpdateROStatefulSet_panics in blast)

text \<open>
  (C33) The update replica runs the pod of the main StatefulSet with its own labels, which select it,
  and its own environment in the first container: it has none of the variables the main node's spec
  adds. The code writes that environment into the main StatefulSet it was given too, as both share
  the slice of containers, so a second attempt of the same closure yields the same replica.
\<close>

theorem replica_of_main:
  assumes "ps_Containers (pt_Spec (ss_Template (sts_Spec main))) = c # cs"
    and "UpdateROStatefulSet L t main ro = (out, replica, main')"
  shows "ps_Containers (pt_Spec (ss_Template (sts_Spec replica))) = c\<lparr>ct_Env := replica_env L t\<rparr> # cs \<and>
    ss_Selector (sts_Spec replica) = Some (replica_labels t) \<and>
    pt_Labels (ss_Template (sts_Spec replica)) = replica_labels t \<and>
    ps_Volumes (pt_Spec (ss_Template (sts_Spec replica))) = ps_Volumes (pt_Spec (ss_Template (sts_Spec main))) \<and>
    map ev_Name (replica_env L t) = operator_env_names @
      (if DatabaseSecretProvided t then database_env_names else []) \<and>
    UpdateROStatefulSet L t main' ro = (out, replica, main')"
proof -
  have nonempty: "ps_Containers (pt_Spec (ss_Template (sts_Spec main))) \<noteq> []" using assms(1) by simp
  have replica: "sts_Spec replica = replica_spec L t main (sts_Spec ro)" "main' = set_first_Env (replica_env L t) main"
    using assms(2) by (auto simp: UpdateROStatefulSet_replica [OF nonempty])
  have "UpdateROStatefulSet L t main' ro = UpdateROStatefulSet L t main ro"
    using replica_again [OF nonempty, of L t ro ro] assms(2) by simp
  with replica assms show ?thesis
    by (simp add: replica_spec_def set_first_Env_def set_Containers_def Let_def replica_env_def env_names)
qed

theorem replica_of_main_witness:
  "ps_Containers (pt_Spec (ss_Template (sts_Spec (fst (snd
       (UpdateROStatefulSet sample_lib (sample_tc fmempty False []) sample_main
          (BuildROStatefulSet (sample_tc fmempty False [])))))))) =
     [zero_Container\<lparr>ct_Image := ''teamcity'', ct_Env := replica_env sample_lib (sample_tc fmempty False [])\<rparr>]"
proof -
  let ?t = "sample_tc fmempty False []"
  have "ps_Containers (pt_Spec (ss_Template (sts_Spec sample_main))) = [zero_Container\<lparr>ct_Image := ''teamcity''\<rparr>]"
    by (simp add: sample_main_def set_Containers_def Let_def)
  moreover obtain out replica main' where
    eq: "UpdateROStatefulSet sample_lib ?t sample_main (BuildROStatefulSet ?t) = (out, replica, main')"
    by (metis prod_cases3)
  ultimately have "ps_Containers (pt_Spec (ss_Template (sts_Spec replica))) =
      [zero_Container\<lparr>ct_Image := ''teamcity''\<rparr>\<lparr>ct_Env := replica_env sample_lib ?t\<rparr>]"
    by (rule replica_of_main [THEN conjunct1])
  with eq show ?thesis by simp
qed

subsection \<open>Recreating\<close>

text \<open>
  (C34) An error of the API server is reported as a blocked recreate only for a StatefulSet builder and
  only when its text says that a forbidden field was updated; the report then lists at least one
  change, and its message tells the user the annotation that allows recreating.
\<close>

theorem blocked_report:
  "runs (statefulSetRecreateBlockedFromAPIError R t b obj err) (\<lambda>out cs.
     case out of
       None \<Rightarrow> True
     | Some blocked \<Rightarrow>
         isStatefulSetBuilder b \<and> isStatefulSetImmutableFieldUpdateError err \<and> rb_Changes blocked \<noteq> [] \<and>
         strings_Contains (error_Error (RecreateBlocked blocked))
           (''teamcity.jetbrains.com/allow-sts-recreate=''  @ strconv_Quote ''true''))"
proof -
  define needle where "needle = ''teamcity.jetbrains.com/allow-sts-recreate=''  @ strconv_Quote ''true''"
  have msg: "strings_Contains (UserMessage blocked) needle" for blocked
    using UserMessage_names_annotation [of blocked]
    by (simp add: needle_def AllowStsRecreateAnnotationKey_def AllowStsRecreateAnnotationValue_def)
  show ?thesis
    unfolding statefulSetRecreateBlockedFromAPIError_def Let_def needle_def [symmetric]
    by (auto simp: msg newStatefulSetRecreateBlockedError_def intro!: runs_rules)
qed

end
