(* ===== verification/Call_Bounds.thy ===== *)
theory Call_Bounds
  imports Deletions
begin

section \<open>How much a reconciliation does\<close>

text \<open>
  Every loop of the operator runs over a list: of nodes, of objects to apply, of builders, or of the
  objects the API server listed. So a reconciliation ends after a number of calls that the resource
  and the answers to the lists bound.
\<close>

subsection \<open>Counting calls\<close>

text \<open>How many objects a call listed.\<close>

definition listed_by :: "api_call \<Rightarrow> nat" where
  "listed_by c = (case c of ListObjects k ns labels (Inr items) \<Rightarrow> length items | _ \<Rightarrow> 0)"

definition listed_count :: "api_call list \<Rightarrow> nat" where
  "listed_count cs = sum_list (map listed_by cs)"

lemma listed_count_simps [simp]:
  "listed_count [] = 0" "listed_count (c # cs) = listed_by c + listed_count cs" "listed_count (cs @ ds) = listed_count cs + listed_count ds"
  by (simp_all add: listed_count_def)

text \<open>\<open>bounded k m\<close>: \<open>m\<close> makes at most \<open>k\<close> calls, and one more for every object it listed.\<close>

definition bounded :: "nat \<Rightarrow> ('w, 'a) act \<Rightarrow> bool" where
  "bounded k m \<longleftrightarrow> runs m (\<lambda>a cs. length cs \<le> k + listed_count cs)"

named_theorems bounded_rules "how the number of calls is bounded"

lemma bounded_return [bounded_rules]: "bounded k (result a)"
  by (simp add: bounded_def runs_return)

lemma bounded_mono: "bounded j m \<Longrightarrow> j \<le> k \<Longrightarrow> bounded k m"
  unfolding bounded_def by (erule runs_mono) simp

lemma bounded_bind:
  assumes "bounded j m" and "j \<le> k" and "\<And>a. bounded (k - j) (f a)"
  shows "bounded k (m \<bind> f)"
  unfolding bounded_def
  by (rule runs_bind [OF assms(1) [unfolded bounded_def]], rule runs_mono [OF assms(3) [unfolded bounded_def]])
    (use assms(2) in simp)

lemma bounded_cases [bounded_rules]:
  "(\<And>e. x = Inl e \<Longrightarrow> bounded k (f1 e)) \<Longrightarrow> (\<And>a. x = Inr a \<Longrightarrow> bounded k (g1 a)) \<Longrightarrow>
     bounded k (case x of Inl e \<Rightarrow> f1 e | Inr a \<Rightarrow> g1 a)"
  "(y = None \<Longrightarrow> bounded k f2) \<Longrightarrow> (\<And>b. y = Some b \<Longrightarrow> bounded k (g2 b)) \<Longrightarrow>
     bounded k (case y of None \<Rightarrow> f2 | Some b \<Rightarrow> g2 b)"
  "(\<And>c d. z = (c, d) \<Longrightarrow> bounded k (f3 c d)) \<Longrightarrow> bounded k (case z of (c, d) \<Rightarrow> f3 c d)"
  "(\<And>a. u = Ok a \<Longrightarrow> bounded k (f4 a)) \<Longrightarrow> (\<And>e. u = Err e \<Longrightarrow> bounded k (g4 e)) \<Longrightarrow>
     (\<And>p. u = Panic p \<Longrightarrow> bounded k (h4 p)) \<Longrightarrow>
     bounded k (case u of Ok a \<Rightarrow> f4 a | Err e \<Rightarrow> g4 e | Panic p \<Rightarrow> h4 p)"
  "(t \<Longrightarrow> bounded k m) \<Longrightarrow> (\<not> t \<Longrightarrow> bounded k n) \<Longrightarrow> bounded k (if t then m else n)"
  by (simp_all split: sum.split option.split prod.split res.split)

lemma bounded_client:
  "bounded 1 (client_Get_TeamCity C n)" "bounded 1 (client_Update_TeamCity C t)"
  "bounded 1 (client_Status_Update_TeamCity C t)" "bounded 1 (client_Get_StatefulSet C n)"
  "bounded 1 (client_Get_ConfigMap C n)" "bounded 1 (client_Create_ConfigMap C m)"
  "bounded 1 (client_Update_ConfigMap C m)" "bounded 1 (client_Delete C k n p)"
  "bounded 1 (applyWithRetry C ob f)" "bounded 1 (recordEvent R t e r msg)"
  unfolding bounded_def client_defs recordEvent_def
  by (auto intro!: runs_api runs_return split: option.split)

text \<open>A function bounds a sequence it begins, and one it ends.\<close>

lemmas bounded_client_steps [bounded_rules] = bounded_client [THEN bounded_bind] bounded_client [THEN bounded_mono]

subsection \<open>The functions of the operator\<close>

lemma bounded_reads:
  "bounded 1 (Checkpoint_GetConfigMap C c)" "bounded 1 (getStatefulSetByName R n)"
  "bounded 1 (getTeamCityObjectE R n)"
  "bounded 1 (Checkpoint_Create C c)" "bounded 1 (Checkpoint_Update C c)"
  unfolding Checkpoint_GetConfigMap_def getStatefulSetByName_def getTeamCityObjectE_def
    Checkpoint_Create_def Checkpoint_Update_def Let_def
  by (intro bounded_rules; simp)+

lemmas bounded_reads_steps [bounded_rules] = bounded_reads [THEN bounded_bind] bounded_reads [THEN bounded_mono]

lemma bounded_fetch: "bounded 1 (FetchCurrentStageFromCluster C c)"
  unfolding FetchCurrentStageFromCluster_def by (intro bounded_rules; simp)

lemmas bounded_fetch_steps [bounded_rules] = bounded_fetch [THEN bounded_bind] bounded_fetch [THEN bounded_mono]

lemma bounded_checkpoint:
  "bounded 1 (UpdateStageFromConfigMap C c)" "bounded 1 (ongoingZeroDowntimeUpgrade R t)"
  "bounded 2 (DoCheckpointWithDesiredStage C c s)" "bounded 2 (Checkpoint_Delete C c)"
  "bounded 1 (isNewestGeneration R n)" "bounded 1 (isNodeUpdateFinished R n)"
  "bounded 2 (updateTeamCityObjectStatusE R n st msg)"
  "bounded 1 (statefulSetRecreateBlockedFromAPIError R t b obj e)"
  unfolding UpdateStageFromConfigMap_def ongoingZeroDowntimeUpgrade_def DoCheckpointWithDesiredStage_def
    Checkpoint_Delete_def isNewestGeneration_def isNodeUpdateFinished_def updateTeamCityObjectStatusE_def
    statefulSetRecreateBlockedFromAPIError_def Let_def
  by (intro bounded_rules; simp)+

lemmas bounded_checkpoint_steps [bounded_rules] =
  bounded_checkpoint [THEN bounded_bind] bounded_checkpoint [THEN bounded_mono]

lemma bounded_reports:
  "bounded 3 (finalizeTeamCity R t)" "bounded 3 (reportRecreateBlocked R t b)"
  "bounded 3 (reportRecreateInProgress R t name changes)" "bounded 2 (finishUpdate C c)"
  "bounded 4 (HandleReplicaCreated R c)"
  unfolding finalizeTeamCity_def reportRecreateBlocked_def reportRecreateInProgress_def finishUpdate_def
    HandleReplicaCreated_def Let_def
  by (intro bounded_rules; simp)+

lemmas bounded_reports_steps [bounded_rules] =
  bounded_reports [THEN bounded_bind] bounded_reports [THEN bounded_mono]

lemma bounded_steps:
  "bounded 6 (reconcileStatefulSetBeforeCreateOrUpdate R t b obj)"
  "bounded 4 (doActionBasedOnCheckpointOrRequeue R c)" "bounded 3 (validatePreconditions R b t)"
  subgoal unfolding reconcileStatefulSetBeforeCreateOrUpdate_def Let_def by (intro bounded_rules; simp)
  subgoal
    unfolding doActionBasedOnCheckpointOrRequeue_def HandleUpdateInitiated_def HandleReplicaStarting_def
      HandleReplicaReady_def HandleMainShuttingDown_def HandleMainReady_def HandleUpdateFinished_def Let_def
    by (intro bounded_rules; simp)
  subgoal unfolding validatePreconditions_def Let_def by (cases b; simp only: ResourceBuilder.case; intro bounded_rules; simp)
  done

lemmas bounded_steps_steps [bounded_rules] = bounded_steps [THEN bounded_bind] bounded_steps [THEN bounded_mono]

subsection \<open>The loops\<close>

lemma bounded_nodes: "bounded (length nodes) (nodesUpdateChangeStatefulSetSpec R t nodes)"
proof (induction nodes)
  case (Cons node nodes)
  show ?case
    unfolding nodesUpdateChangeStatefulSetSpec.simps
    by (intro bounded_rules bounded_mono [OF Cons.IH]; simp)
qed (simp add: bounded_return)

lemma bounded_deleteObjects: "bounded (length objects) (deleteObjects R objects)"
proof (induction objects)
  case (Cons obj objects)
  show ?case unfolding deleteObjects.simps by (intro bounded_rules bounded_mono [OF Cons.IH]; simp)
qed (simp add: bounded_return)

lemma bounded_createOrUpdateObjects: "bounded (8 * length objects) (createOrUpdateObjects R b t objects)"
proof (induction objects)
  case (Cons obj objects)
  show ?case
    unfolding createOrUpdateObjects.simps
    by (intro bounded_rules bounded_mono [OF Cons.IH]; simp)
qed (simp add: bounded_return)

text \<open>A builder deletes no more than it listed.\<close>

lemma GetObsoleteObjects_counts:
  "runs (GetObsoleteObjects C b) (\<lambda>r cs. length cs \<le> 1 \<and>
     (case r of Inl e \<Rightarrow> True | Inr objects \<Rightarrow> length objects \<le> listed_count cs))"
  by (cases b) (auto simp: obsolete_defs listed_by_def Let_def intro!: runs_rules)

lemma bounded_reconcileDelete: "bounded 1 (reconcileDelete R b)"
  unfolding reconcileDelete_def bounded_def
proof (rule runs_bind [OF GetObsoleteObjects_counts])
  fix r :: "go_error + k8s_object list" and cs
  assume r: "length cs \<le> 1 \<and> (case r of Inl e \<Rightarrow> True | Inr objects \<Rightarrow> length objects \<le> listed_count cs)"
  then show "runs (case r of Inl err \<Rightarrow> result (Err err) | Inr objects \<Rightarrow> deleteObjects R objects)
      (\<lambda>a ds. length (cs @ ds) \<le> 1 + listed_count (cs @ ds))"
    by (cases r) (auto intro!: runs_return runs_mono [OF bounded_deleteObjects [unfolded bounded_def]])
qed

lemma bounded_perform:
  "bounded (6 + length (tc_SecondaryNodes t)) (performZeroDowntimeUpgradeOrRequeue R t ongoing)"
proof -
  have "bounded (1 + length (tc_SecondaryNodes t)) (doesNodesUpdateChangeStatefulSetSpec R t)"
    using bounded_nodes [of "GetAllNodes t" R t]
    by (simp add: doesNodesUpdateChangeStatefulSetSpec_def GetAllNodes_def)
  note steps = this [THEN bounded_bind]
  show ?thesis
    unfolding performZeroDowntimeUpgradeOrRequeue_def Let_def by (intro bounded_rules steps; simp)
qed

text \<open>The objects the resource asks for, of all builders.\<close>

definition wanted :: "ResourceBuilder list \<Rightarrow> nat" where
  "wanted bs = sum_list (map (\<lambda>b. length (built b)) bs)"

lemma wanted_simps [simp]: "wanted [] = 0" "wanted (b # bs) = length (built b) + wanted bs"
  by (simp_all add: wanted_def)

lemma bounded_reconcileBuilders:
  "bounded (7 * length bs + 8 * wanted bs) (reconcileBuilders R t req bs)"
proof (induction bs)
  case (Cons b bs)
  have "bounded (8 * length (built b)) (reconcileCreateOrUpdate R b t req)"
    by (simp add: reconcileCreateOrUpdate_def BuildObjectList_built bounded_createOrUpdateObjects)
  note steps = this [THEN bounded_bind] bounded_reconcileDelete [THEN bounded_bind]
  show ?case
    unfolding reconcileBuilders.simps
    by (intro bounded_rules steps bounded_mono [OF Cons.IH]; simp)
qed (simp add: bounded_return)

lemma bounded_reconcileResources:
  "bounded (45 + 8 * wanted (ResourceBuilders t)) (reconcileResources R t req)"
proof -
  have "length (ResourceBuilders t) = 6" by (simp add: ResourceBuilders_def)
  with bounded_reconcileBuilders [of "ResourceBuilders t" R t req] have
    "bounded (42 + 8 * wanted (ResourceBuilders t)) (reconcileBuilders R t req (ResourceBuilders t))"
    by simp
  note steps = this [THEN bounded_bind]
  show ?thesis unfolding reconcileResources_def by (intro bounded_rules steps; simp)
qed

lemma bounded_reconcileRead:
  "bounded (52 + length (tc_SecondaryNodes t) + 8 * wanted (ResourceBuilders t)) (reconcileRead R req t)"
proof -
  note steps = bounded_perform [THEN bounded_bind] bounded_reconcileResources [THEN bounded_mono]
  show ?thesis unfolding reconcileRead_def by (intro bounded_rules steps; simp)
qed

text \<open>How many objects the resource asks for.\<close>

lemma wanted_ResourceBuilders:
  "wanted (ResourceBuilders t) = 2 + length (sp_PersistentVolumeClaims (tc_Spec t)) +
     (if ServiceAccountProvided t then 1 else 0) + length (sp_ServiceList (tc_Spec t)) +
     length (sp_IngressList (tc_Spec t)) + length (tc_SecondaryNodes t)"
  by (simp add: ResourceBuilders_def built_def PersistentVolumeClaim_BuildObjectList_def
      ServiceAccount_BuildObjectList_def Service_BuildObjectList_def Ingress_BuildObjectList_def
      StatefulSet_BuildObjectList_def SecondaryStatefulSet_BuildObjectList_def Let_def)

end
