(* ===== verification/Object_Store.thy ===== *)
theory Object_Store
  imports Update_Order
begin

section \<open>The objects of the cluster through the calls of a run\<close>

text \<open>
  The objects a cluster holds are followed through the calls of a run, as the ConfigMaps are for the
  upgrade, and a condition on them is carried from call to call by a logic of pre- and postconditions.
\<close>

subsection \<open>The objects of the cluster\<close>

type_synonym objects = "object_id \<Rightarrow> k8s_object option"

text \<open>
  A deletion that succeeded removes the object (one that is only marked for deletion counts as
  removed), and an application that succeeded leaves the object as the client returns it: the API
  server answers a write with what it has stored.
\<close>

fun objects_after :: "api_call \<Rightarrow> objects \<Rightarrow> objects" where
  "objects_after (DeleteObject k n policy (Inr u)) V = V((k, n) := None)"
| "objects_after (CreateOrUpdateObject obj (Ok u) obj') V = V(object_id obj := Some obj')"
| "objects_after c V = V"

text \<open>
  A list holds objects of the kind, the namespace and the labels asked for, as they are stored, and
  none that is stored is missing; objects marked for deletion may be in it too.
\<close>

fun list_agrees :: "objects \<Rightarrow> api_call \<Rightarrow> bool" where
  "list_agrees V (ListObjects k ns labels (Inr items)) \<longleftrightarrow>
     (\<forall>obj \<in> set items. object_kind obj = k \<and> om_Namespace (object_meta obj) = ns \<and>
        labels \<subseteq>\<^sub>f om_Labels (object_meta obj) \<and> V (object_id obj) \<in> {None, Some obj}) \<and>
     (\<forall>n st. V (k, n) = Some st \<and> nn_Namespace n = ns \<and> labels \<subseteq>\<^sub>f om_Labels (object_meta st) \<longrightarrow>
        n \<in> object_key ` set items)"
| "list_agrees V c \<longleftrightarrow> True"

definition replay_objects :: "objects \<Rightarrow> api_call list \<Rightarrow> objects" where
  "replay_objects V cs = fold objects_after cs V"

fun objects_consistent :: "objects \<Rightarrow> api_call list \<Rightarrow> bool" where
  "objects_consistent V [] = True"
| "objects_consistent V (c # cs) = (list_agrees V c \<and> objects_consistent (objects_after c V) cs)"

lemma replay_objects_simps [simp]:
  "replay_objects V [] = V" "replay_objects V (c # cs) = replay_objects (objects_after c V) cs"
  "replay_objects V (cs @ ds) = replay_objects (replay_objects V cs) ds"
  by (simp_all add: replay_objects_def)

lemma objects_consistent_append [simp]:
  "objects_consistent V (cs @ ds) \<longleftrightarrow> objects_consistent V cs \<and> objects_consistent (replay_objects V cs) ds"
  by (induction cs arbitrary: V) auto

text \<open>
  What the API server stores of an object it is sent is a relation between the two, a parameter of
  what follows: it may default fields, assign a cluster IP or a volume name and count the versions.
\<close>

type_synonym stored_as = "k8s_object \<Rightarrow> k8s_object \<Rightarrow> bool"

text \<open>
  \<open>CreateOrUpdate\<close>, retried on conflicts, sends what the given function makes of an object of the same
  kind and key: the stored one, or the given one when there is none. The object it leaves is what the
  server stored of it (or the object itself, when the function has changed nothing and nothing is
  sent, so that the relation of a server holds between such an object and itself).
\<close>

definition documented_apply :: "stored_as \<Rightarrow> 'w client \<Rightarrow> bool" where
  "documented_apply S C \<longleftrightarrow>
     (\<forall>obj mutate s obj' s'. run_state (applyWithRetry C obj mutate) s = ((Ok (), obj'), s') \<longrightarrow>
        (\<exists>base filled. object_id base = object_id obj \<and> mutate base = (Ok (), filled) \<and> S filled obj'))"

subsection \<open>Pre- and postconditions on the objects\<close>

text \<open>
  \<open>leads I P m Q\<close>: a run of \<open>m\<close> from objects that satisfy \<open>P\<close>, with consistent lists and calls that
  satisfy \<open>I\<close>, returns a value and leaves objects that satisfy \<open>Q\<close>.
\<close>

definition leads :: "(api_call \<Rightarrow> bool) \<Rightarrow> (objects \<Rightarrow> bool) \<Rightarrow> ('w, 'a) act \<Rightarrow> ('a \<Rightarrow> objects \<Rightarrow> bool) \<Rightarrow> bool" where
  "leads I P m Q \<longleftrightarrow>
     runs m (\<lambda>a cs. \<forall>V. objects_consistent V cs \<and> list_all I cs \<and> P V \<longrightarrow> Q a (replay_objects V cs))"

named_theorems leads_rules "how the steps of the operator change the objects"

lemma leads_return [leads_rules]: "(\<And>V. P V \<Longrightarrow> Q a V) \<Longrightarrow> leads I P (result a) Q"
  by (simp add: leads_def runs_return)

lemma leads_bind:
  assumes "leads I P m R" and "\<And>a. leads I (R a) (f a) Q"
  shows "leads I P (m \<bind> f) Q"
  unfolding leads_def
  by (rule runs_bind [OF assms(1) [unfolded leads_def]], rule runs_mono [OF assms(2) [unfolded leads_def]])
    auto

lemma leads_mono: "leads I P m Q \<Longrightarrow> (\<And>a V. Q a V \<Longrightarrow> S a V) \<Longrightarrow> leads I P m S"
  unfolding leads_def by (erule runs_mono) blast

lemma leads_pre: "leads I P' m Q \<Longrightarrow> (\<And>V. P V \<Longrightarrow> P' V) \<Longrightarrow> leads I P m Q"
  unfolding leads_def by (erule runs_mono) blast

text \<open>A precondition that does not depend on the objects is a hypothesis.\<close>

lemma leads_given: "(S \<Longrightarrow> leads I P m Q) \<Longrightarrow> emits (\<lambda>c. True) m \<Longrightarrow> leads I (\<lambda>V. S \<and> P V) m Q"
  unfolding leads_def by (cases S) (auto dest: runs_trivial elim: runs_mono)

lemma leads_value:
  assumes "leads I P m Q" and "runs m (\<lambda>a cs. S a)"
  shows "leads I P m (\<lambda>a V. S a \<and> Q a V)"
  using runs_conj [OF assms(1) [unfolded leads_def] assms(2)]
  unfolding leads_def by (elim runs_mono) blast

lemma leads_cases [leads_rules]:
  "(\<And>e. x = Inl e \<Longrightarrow> leads I P (f1 e) Q) \<Longrightarrow> (\<And>a. x = Inr a \<Longrightarrow> leads I P (g1 a) Q) \<Longrightarrow>
     leads I P (case x of Inl e \<Rightarrow> f1 e | Inr a \<Rightarrow> g1 a) Q"
  "(y = None \<Longrightarrow> leads I P f2 Q) \<Longrightarrow> (\<And>b. y = Some b \<Longrightarrow> leads I P (g2 b) Q) \<Longrightarrow>
     leads I P (case y of None \<Rightarrow> f2 | Some b \<Rightarrow> g2 b) Q"
  "(\<And>c d. z = (c, d) \<Longrightarrow> leads I P (f3 c d) Q) \<Longrightarrow> leads I P (case z of (c, d) \<Rightarrow> f3 c d) Q"
  "(\<And>a. u = Ok a \<Longrightarrow> leads I P (f4 a) Q) \<Longrightarrow> (\<And>e. u = Err e \<Longrightarrow> leads I P (g4 e) Q) \<Longrightarrow>
     (\<And>p. u = Panic p \<Longrightarrow> leads I P (h4 p) Q) \<Longrightarrow>
     leads I P (case u of Ok a \<Rightarrow> f4 a | Err e \<Rightarrow> g4 e | Panic p \<Rightarrow> h4 p) Q"
  "(t \<Longrightarrow> leads I P m Q) \<Longrightarrow> (\<not> t \<Longrightarrow> leads I P n Q) \<Longrightarrow> leads I P (if t then m else n) Q"
  by (simp_all split: sum.split option.split prod.split res.split)

text \<open>Calls that neither delete nor apply.\<close>

fun keeps_objects :: "api_call \<Rightarrow> bool" where
  "keeps_objects (DeleteObject k n policy r) = False"
| "keeps_objects (CreateOrUpdateObject obj err obj') = False"
| "keeps_objects c = True"

lemma replay_keeps: "list_all keeps_objects cs \<Longrightarrow> replay_objects V cs = V"
proof (induction cs)
  case (Cons c cs)
  then have "objects_after c V = V" by (cases "(c, V)" rule: objects_after.cases) auto
  with Cons show ?case by simp
qed simp

lemma leads_quiet: "emits keeps_objects m \<Longrightarrow> leads I P m (\<lambda>a. P)"
  unfolding emits_def leads_def by (erule runs_mono) (simp add: replay_keeps)

lemma leads_quiet_bind: "emits keeps_objects m \<Longrightarrow> (\<And>a. leads I P (f a) Q) \<Longrightarrow> leads I P (m \<bind> f) Q"
  by (rule leads_bind [OF leads_quiet])

lemma leads_any: "emits (\<lambda>c. True) m \<Longrightarrow> leads I P m (\<lambda>a V. True)"
  unfolding leads_def by (simp add: runs_trivial)

end
