(* ===== verification/Requeueing.thy ===== *)
theory Requeueing
  imports Upgrade_Gate
begin

section \<open>An upgrade is not forgotten\<close>

text \<open>
  No change of a checkpoint wakes the reconciler, so an upgrade goes on only because every
  reconciliation that leaves it unfinished asks to be queued again. What the last call of a
  reconciliation was decides whether it may say that nothing is left to do.
\<close>

subsection \<open>The last call\<close>

text \<open>A call of the report that a StatefulSet must not be recreated, by which the user has to act.\<close>

definition reports_blocked :: "TeamCity \<Rightarrow> api_call \<Rightarrow> bool" where
  "reports_blocked t c =
     (case c of
        GetTeamCity n r \<Rightarrow> n = \<lparr>nn_Namespace = tc_Namespace t, nn_Name = tc_Name t\<rparr>
      | UpdateTeamCityStatus t' r \<Rightarrow> ts_State (tc_Status t') = TEAMCITY_CRD_OBJECT_ERROR_STATE
      | RecordEvent t' e reason msg \<Rightarrow> t' = t \<and> reason = eventReasonStatefulSetRecreateBlocked
      | _ \<Rightarrow> False)"

text \<open>A run that reports nothing left to do ended in a read of no upgrade, or in such a report.\<close>

definition settled :: "TeamCity \<Rightarrow> Result res \<Rightarrow> api_call list \<Rightarrow> bool" where
  "settled t out cs \<longleftrightarrow>
     (out = Ok zero_Result \<longrightarrow> (\<exists>pre c. cs = pre @ [c] \<and> (no_upgrade_read t c \<or> reports_blocked t c)))"

lemma settled_append: "settled t out ds \<Longrightarrow> settled t out (cs @ ds)"
  unfolding settled_def by (metis append_assoc)

lemma settled_other: "out \<noteq> Ok zero_Result \<Longrightarrow> settled t out cs"
  by (simp add: settled_def)

lemma requeue_not_zero [simp]: "requeue_Result \<noteq> zero_Result"
  by (simp add: requeue_Result_def zero_Result_def)

lemma settled_any_bind:
  "emits (\<lambda>c. True) m \<Longrightarrow> (\<And>a. runs (f a) (settled t)) \<Longrightarrow> runs (m \<bind> f) (settled t)"
  by (rule runs_bind [OF runs_trivial], assumption, rule runs_mono, assumption, rule settled_append)

subsection \<open>The reconciliation\<close>

lemma report_ends:
  "runs (reportRecreateBlocked R t blocked) (\<lambda>u cs. \<exists>pre c. cs = pre @ [c] \<and> reports_blocked t c)"
proof -
  have status: "runs (updateTeamCityObjectStatusE R \<lparr>nn_Namespace = tc_Namespace t, nn_Name = tc_Name t\<rparr>
      TEAMCITY_CRD_OBJECT_ERROR_STATE msg) (\<lambda>u cs. \<exists>pre c. cs = pre @ [c] \<and> reports_blocked t c)" for msg
    unfolding updateTeamCityObjectStatusE_def getTeamCityObjectE_def Let_def
    by (rule runs_calls) (auto intro!: runs_rules simp: reports_blocked_def)
  have event: "runs (recordEvent R t e eventReasonStatefulSetRecreateBlocked msg)
      (\<lambda>u cs. cs = [] \<or> (\<exists>c. cs = [c] \<and> reports_blocked t c))" for e msg
    unfolding recordEvent_def by (auto intro!: runs_rules runs_api simp: reports_blocked_def split: option.split)
  show ?thesis
    unfolding reportRecreateBlocked_def Let_def
    by (rule runs_bind [OF status], rule runs_mono [OF event]) auto
qed

lemma ongoing_read:
  "runs (ongoingZeroDowntimeUpgrade R t) (\<lambda>out cs. \<not> out \<longrightarrow> (\<exists>pre c. cs = pre @ [c] \<and> no_upgrade_read t c))"
  unfolding ongoingZeroDowntimeUpgrade_def FetchCurrentStageFromCluster_def Checkpoint_GetConfigMap_def
  by (simp, rule runs_calls)
    (auto intro!: runs_cases runs_return simp: no_upgrade_read_def NewCheckpoint_def GetStageStringValue_cases
      split: option.splits)

lemma builders_reported:
  "runs (reconcileBuilders R t req bs)
     (\<lambda>out cs. out = Some (Ok zero_Result) \<longrightarrow> (\<exists>pre c. cs = pre @ [c] \<and> reports_blocked t c))"
proof (induction bs)
  case Nil
  show ?case by (simp add: runs_return)
next
  case (Cons b bs)
  let ?S = "\<lambda>out cs. out = Some (Ok zero_Result) \<longrightarrow> (\<exists>pre c. cs = pre @ [c] \<and> reports_blocked t c)"
  have later: "?S out ds \<Longrightarrow> ?S out (cs @ ds)" for out cs ds
    by (metis append_assoc)
  have any_bind: "runs (m \<bind> f) ?S" if "emits (\<lambda>c. True) m" "\<And>a. runs (f a) ?S" for m :: "('a, 'b) act" and f
    by (rule runs_bind [OF runs_trivial [OF that(1)]], rule runs_mono [OF that(2)]) (rule later)
  have blocked: "runs (reportRecreateBlocked R t blocked \<bind> (\<lambda>u. result (Some (Ok zero_Result)))) ?S" for blocked
    by (rule runs_bind [OF report_ends]) (simp add: runs_return)
  show ?case
    unfolding reconcileBuilders.simps
    by (intro any_bind emits_rules runs_cases blocked Cons.IH) (auto intro!: runs_return)
qed

lemma builders_settled:
  "runs (reconcileBuilders R t req bs) (\<lambda>out cs. case out of None \<Rightarrow> True | Some r \<Rightarrow> settled t r cs)"
  by (rule runs_mono [OF builders_reported]) (auto simp: settled_def split: option.split)

lemma resources_settled: "runs (reconcileResources R t req) (settled t)"
proof -
  have final: "runs (ongoingZeroDowntimeUpgrade R t \<bind>
      (\<lambda>ongoing. if ongoing then result (Ok requeue_Result) else result (Ok zero_Result))) (settled t)"
    by (rule runs_bind [OF ongoing_read]) (auto intro!: runs_cases runs_return simp: settled_def)
  have status: "runs (updateTeamCityObjectStatusE R req st msg \<bind> (\<lambda>ignored. ongoingZeroDowntimeUpgrade R t \<bind>
      (\<lambda>ongoing. if ongoing then result (Ok requeue_Result) else result (Ok zero_Result)))) (settled t)" for st msg
    by (rule settled_any_bind [OF _ final]) (intro emits_rules TrueI)
  show ?thesis
    unfolding reconcileResources_def
    apply (rule runs_bind [OF builders_settled])
    subgoal for out cs
      by (cases out) (auto intro!: runs_return runs_mono [OF status] intro: settled_append)
    done
qed

lemma reconcileRead_settled:
  assumes "om_DeletionTimestamp (tc_meta t) = None"
  shows "runs (reconcileRead R req t) (settled t)"
  using assms unfolding reconcileRead_def
  by (simp, intro settled_any_bind runs_cases emits_rules TrueI resources_settled runs_return)
    (simp_all add: settled_other)

text \<open>With consistent answers and no failed reads, a read of no upgrade says that there is none.\<close>

lemma no_upgrade_read_none:
  assumes "consistent \<sigma> (pre @ [c])" and "list_all readable (pre @ [c])" and "no_upgrade_read t c"
  shows "upgrade_of (replay \<sigma> (pre @ [c])) t \<noteq> At p"
proof -
  from assms(3) obtain r where c: "c = GetConfigMap (checkpoint_key t) r"
    "case r of Inl e \<Rightarrow> True | Inr cm \<Rightarrow> read_stage cm = None"
    by (auto simp: read_iffs)
  with assms(1,2) show ?thesis
    by (cases r) (auto simp: upgrade_of_def)
qed

text \<open>The same for a read somewhere in a run.\<close>

lemma no_upgrade_read_split:
  assumes "list_ex (no_upgrade_read t) cs"
  shows "\<exists>before r after. cs = before @ GetConfigMap (checkpoint_key t) r # after \<and>
       (\<forall>cm. r = Inr cm \<longrightarrow> read_stage cm = None) \<and>
       (\<forall>\<sigma>. consistent \<sigma> (before @ [GetConfigMap (checkpoint_key t) r]) \<longrightarrow> (\<forall>e. r = Inl e \<longrightarrow> IsNotFound e) \<longrightarrow>
          (\<forall>p. upgrade_of (replay \<sigma> before) t \<noteq> At p))"
proof -
  from assms obtain c where c: "c \<in> set cs" "no_upgrade_read t c" by (auto simp: list_ex_iff)
  from c(2) obtain r where "c = GetConfigMap (checkpoint_key t) r"
    "case r of Inl e \<Rightarrow> True | Inr cm \<Rightarrow> read_stage cm = None"
    unfolding read_iffs by blast
  with c(1) have r: "GetConfigMap (checkpoint_key t) r \<in> set cs" "\<forall>cm. r = Inr cm \<longrightarrow> read_stage cm = None"
    by (auto split: sum.splits)
  from r(1) obtain before after where cs: "cs = before @ GetConfigMap (checkpoint_key t) r # after"
    by (auto dest: split_list)
  from r(2) have "upgrade_of (replay \<sigma> before) t \<noteq> At p"
    if "consistent \<sigma> (before @ [GetConfigMap (checkpoint_key t) r])" "\<forall>e. r = Inl e \<longrightarrow> IsNotFound e" for \<sigma> p
    using that by (cases r) (auto simp: upgrade_of_def)
  with cs r(2) show ?thesis by blast
qed

lemma Reconcile_settled:
  "runs (Reconcile R req) (\<lambda>out cs. \<forall>t rest. cs = GetTeamCity req (Inr t) # rest \<longrightarrow>
     om_DeletionTimestamp (tc_meta t) = None \<longrightarrow> settled t out rest)"
  by (rule Reconcile_after_read [OF reconcileRead_settled])

end
