(* ===== verification/Desired_State.thy ===== *)
theory Desired_State
  imports Object_Store Requeueing Resource_Properties
begin

section \<open>What a reconciliation leaves in the cluster\<close>

text \<open>
  The purpose of the reconciler: when it is content, the cluster holds what the resource asks for and
  nothing else of its own. The condition is carried through the loops over the builders and over the
  objects; what it needs of the objects, and the case in which a run destroys what it has just
  made, are stated beside it.
\<close>

subsection \<open>What is desired\<close>

text \<open>The selector of the clean-up of secondary nodes; the main StatefulSet must not match it.\<close>

definition secondaries_of :: "TeamCity \<Rightarrow> smap" where
  "secondaries_of t = GetStatefulSetCommonLabels (tc_Name t) ''secondary'' (tc_Labels t)"

text \<open>
  A built object is stored, as the API server makes it of an object with the name of the built one
  that the builder filled in, and that filling in again leaves as it is.
\<close>

definition placed :: "stored_as \<Rightarrow> k8s_lib \<Rightarrow> ResourceBuilder \<Rightarrow> objects \<Rightarrow> k8s_object \<Rightarrow> bool" where
  "placed S L b V obj \<longleftrightarrow>
     (\<exists>filled st. V (object_id obj) = Some st \<and> S filled st \<and> object_id filled = object_id obj \<and>
        Update L b filled = (Ok (), filled) \<and>
        (\<forall>t. b = StatefulSetBuilder t \<longrightarrow> \<not> secondaries_of t \<subseteq>\<^sub>f om_Labels (object_meta st)))"

text \<open>No object the clean-up of the builder would list has a name the resource does not ask for.\<close>

definition no_leftovers :: "ResourceBuilder \<Rightarrow> objects \<Rightarrow> bool" where
  "no_leftovers b V \<longleftrightarrow>
     (case obsolete_query b of
        None \<Rightarrow> True
      | Some (k, ns, labels) \<Rightarrow>
          \<forall>n st. V (k, n) = Some st \<and> nn_Namespace n = ns \<and> labels \<subseteq>\<^sub>f om_Labels (object_meta st) \<longrightarrow>
            nn_Name n \<in> GetName ` set (built b))"

definition builder_done :: "stored_as \<Rightarrow> k8s_lib \<Rightarrow> ResourceBuilder \<Rightarrow> objects \<Rightarrow> bool" where
  "builder_done S L b V \<longleftrightarrow> (\<forall>obj \<in> set (built b). placed S L b V obj) \<and> no_leftovers b V"

definition desired_state :: "stored_as \<Rightarrow> k8s_lib \<Rightarrow> TeamCity \<Rightarrow> objects \<Rightarrow> bool" where
  "desired_state S L t V \<longleftrightarrow> (\<forall>b \<in> set (ResourceBuilders t). builder_done S L b V)"

text \<open>
  No StatefulSet is recreated, and no main StatefulSet is applied that still carries the labels of a
  secondary node.
\<close>

definition ordinary :: "TeamCity \<Rightarrow> api_call \<Rightarrow> bool" where
  "ordinary t c =
     (case c of
        DeleteObject k n policy r \<Rightarrow> policy = None
      | CreateOrUpdateObject obj (Ok u) obj' \<Rightarrow>
          obj \<in> set (built (StatefulSetBuilder t)) \<longrightarrow> \<not> secondaries_of t \<subseteq>\<^sub>f om_Labels (object_meta obj')
      | _ \<Rightarrow> True)"

lemma ordinary_simps [simp]:
  "ordinary t (GetTeamCity n r1)" "ordinary t (UpdateTeamCityStatus t' r3)" "ordinary t (GetStatefulSet n r4)"
  "ordinary t (GetConfigMap n r5)" "ordinary t (ListObjects k ns l r8)"
  "ordinary t (CreateOrUpdateObject obj (Ok u) obj') \<longleftrightarrow>
     (obj \<in> set (built (StatefulSetBuilder t)) \<longrightarrow> \<not> secondaries_of t \<subseteq>\<^sub>f om_Labels (object_meta obj'))"
  by (simp_all add: ordinary_def)

definition distinct_objects :: "TeamCity \<Rightarrow> bool" where
  "distinct_objects t \<longleftrightarrow> distinct (map object_id (concat (map built (ResourceBuilders t))))"

subsection \<open>Facts about the builders\<close>

fun builder_kind :: "ResourceBuilder \<Rightarrow> kind" where
  "builder_kind (PersistentVolumeClaimBuilder t) = KindPersistentVolumeClaim"
| "builder_kind (ServiceAccountBuilder t) = KindServiceAccount"
| "builder_kind (ServiceBuilder t) = KindService"
| "builder_kind (IngressBuilder t) = KindIngress"
| "builder_kind (StatefulSetBuilder t) = KindStatefulSet"
| "builder_kind (SecondaryStatefulSetBuilder t) = KindStatefulSet"

lemma built_kind: "obj \<in> set (built b) \<Longrightarrow> object_kind obj = builder_kind b"
  by (cases b) (simp_all add: built_def pvc_builder.build_kind account_builder.build_kind
      service_builder.build_kind ingress_builder.build_kind main_builder.build_kind secondary_builder.build_kind)

lemma query_kind: "obsolete_query b = Some (k, ns, labels) \<Longrightarrow> k = builder_kind b"
  by (cases b) simp_all

lemma StatefulSet_Update_labels:
  "controller_reference_only L \<Longrightarrow>
     om_Labels (object_meta (snd (StatefulSet_Update L t (StatefulSetObject st)))) = om_Labels (sts_meta st)"
  by (simp add: StatefulSet_Update_def Let_def updateNodeStatefulSet_eq owner_facts)

text \<open>Only the two builders of StatefulSets share a kind.\<close>

lemma earlier_builder:
  assumes "ResourceBuilders t = done @ b # rest" and "b' \<in> set done" and "builder_kind b' = builder_kind b"
  shows "b' = StatefulSetBuilder t \<and> b = SecondaryStatefulSetBuilder t"
  using assms by (auto simp: ResourceBuilders_def Cons_eq_append_conv)

subsection \<open>Cleaning up\<close>

abbreviation deletion :: "k8s_object \<Rightarrow> api_call" where
  "deletion obj \<equiv> DeleteObject (object_kind obj) (object_key obj) None (Inr ())"

lemma deleteObjects_all:
  "runs (deleteObjects R objects) (\<lambda>out cs. (\<exists>r. out = Ok r) \<longrightarrow> cs = map deletion objects)"
proof (induction objects)
  case Nil
  show ?case by (simp add: runs_return)
next
  case (Cons obj objects)
  show ?case
    unfolding deleteObjects.simps
    by (rule runs_calls, rule runs_cases) (auto intro: runs_return runs_mono [OF Cons.IH])
qed

lemma reconcileDelete_calls:
  "runs (reconcileDelete R b) (\<lambda>out cs. (\<exists>r. out = Ok r) \<longrightarrow>
     (case obsolete_query b of
        None \<Rightarrow> cs = []
      | Some (k, ns, labels) \<Rightarrow> \<exists>items. cs = ListObjects k ns labels (Inr items) #
          map deletion (filter (\<lambda>obj. GetName obj \<notin> GetName ` set (built b)) items)))"
proof (cases "obsolete_query b")
  case None
  then show ?thesis by (simp add: reconcileDelete_def GetObsoleteObjects_none runs_return)
next
  case (Some q)
  obtain k ns labels where q: "q = (k, ns, labels)" by (cases q)
  let ?unwanted = "filter (\<lambda>obj. GetName obj \<notin> GetName ` set (built b))"
  have obsolete: "GetObsoleteObjects C b = client_List C k ns labels \<bind> (\<lambda>r. case r of
      Inl e \<Rightarrow> result (Inl e) | Inr items \<Rightarrow> result (Inr (?unwanted items)))" for C :: "'a client"
    using Some unfolding q by (rule GetObsoleteObjects_list)
  show ?thesis
    unfolding reconcileDelete_def obsolete Some q
    by (simp, rule runs_calls, rule runs_cases)
      (auto intro: runs_return runs_mono [OF deleteObjects_all])
qed

lemma replay_deletions:
  "replay_objects V (map deletion objects) = (\<lambda>i. if i \<in> object_id ` set objects then None else V i)"
  by (induction objects arbitrary: V) (auto simp: object_id_def)

text \<open>The clean-up of a builder leaves no leftovers of its own and what earlier builders did.\<close>

lemma cleaned_up:
  assumes "list_agrees V (ListObjects k ns labels (Inr items))" and "obsolete_query b = Some (k, ns, labels)"
    and "V' = (\<lambda>i. if i \<in> object_id ` set (filter (\<lambda>obj. GetName obj \<notin> GetName ` set (built b)) items)
               then None else V i)"
  shows "no_leftovers b V'"
proof -
  have "nn_Name n \<in> GetName ` set (built b)"
    if "V' (k, n) = Some st" "nn_Namespace n = ns" "labels \<subseteq>\<^sub>f om_Labels (object_meta st)" for n st
  proof -
    from that(1) assms(3) have kept: "V (k, n) = Some st"
      "(k, n) \<notin> object_id ` set (filter (\<lambda>obj. GetName obj \<notin> GetName ` set (built b)) items)"
      by (simp_all del: set_filter split: if_splits)
    from kept(1) that(2,3) assms(1) obtain item where item: "item \<in> set items" "n = object_key item"
      unfolding list_agrees.simps by blast
    with assms(1) have "object_id item = (k, n)" by (simp add: object_id_def)
    with item(1) kept(2) have "GetName item \<in> GetName ` set (built b)" by force
    with item(2) show ?thesis by (simp add: object_key_def meta_key_def)
  qed
  then show ?thesis unfolding no_leftovers_def assms(2) option.case prod.case by blast
qed

lemma no_leftovers_fewer:
  "no_leftovers b V \<Longrightarrow> (\<And>i st. V' i = Some st \<Longrightarrow> V i = Some st) \<Longrightarrow> no_leftovers b V'"
  unfolding no_leftovers_def by (auto split: option.splits)

lemma cleaning_keeps:
  assumes order: "ResourceBuilders t = done @ b # rest" "b' \<in> set done"
    and lists: "list_agrees V (ListObjects k ns labels (Inr items))" "obsolete_query b = Some (k, ns, labels)"
    and V': "V' = (\<lambda>i. if i \<in> object_id ` set (filter (\<lambda>obj. GetName obj \<notin> GetName ` set (built b)) items)
               then None else V i)"
    and "builder_done S L b' V"
  shows "builder_done S L b' V'"
  unfolding builder_done_def
proof (intro conjI ballI)
  from assms(6) show "no_leftovers b' V'"
    unfolding builder_done_def by (auto simp: V' split: if_splits elim!: no_leftovers_fewer)
  fix obj
  assume obj: "obj \<in> set (built b')"
  with assms(6) have placed: "placed S L b' V obj" by (simp add: builder_done_def)
  have "object_id obj \<notin> object_id ` set items"
  proof
    assume "object_id obj \<in> object_id ` set items"
    then obtain item where item: "item \<in> set items" "object_id item = object_id obj" by force
    with lists(1) have match: "object_kind item = k" "labels \<subseteq>\<^sub>f om_Labels (object_meta item)"
      "V (object_id obj) \<in> {None, Some item}" by auto
    with item have "builder_kind b' = builder_kind b"
      using built_kind [OF obj] query_kind [OF lists(2)] by (simp add: object_id_def)
    with earlier_builder [OF order] have "b' = StatefulSetBuilder t" "b = SecondaryStatefulSetBuilder t" by simp_all
    with lists(2) match placed show False by (auto simp: placed_def secondaries_of_def)
  qed
  with placed show "placed S L b' V' obj" by (auto simp: placed_def V')
qed

lemma leads_reconcileDelete:
  assumes "ResourceBuilders t = done @ b # rest"
  shows "leads I (\<lambda>V. \<forall>b' \<in> set done. builder_done S L b' V) (reconcileDelete R b)
    (\<lambda>out V. (\<exists>r. out = Ok r) \<longrightarrow> (\<forall>b' \<in> set done. builder_done S L b' V) \<and> no_leftovers b V)"
  unfolding leads_def
proof (rule runs_mono [OF reconcileDelete_calls], intro allI impI)
  fix out :: "Result res" and cs V
  assume out: "\<exists>r. out = Ok r"
    and calls: "(\<exists>r. out = Ok r) \<longrightarrow> (case obsolete_query b of
        None \<Rightarrow> cs = []
      | Some (k, ns, labels) \<Rightarrow> \<exists>items. cs = ListObjects k ns labels (Inr items) #
          map deletion (filter (\<lambda>obj. GetName obj \<notin> GetName ` set (built b)) items))"
    and V: "objects_consistent V cs \<and> list_all I cs \<and> (\<forall>b' \<in> set done. builder_done S L b' V)"
  show "(\<forall>b' \<in> set done. builder_done S L b' (replay_objects V cs)) \<and> no_leftovers b (replay_objects V cs)"
  proof (cases "obsolete_query b")
    case None
    with out calls V show ?thesis by (simp add: no_leftovers_def)
  next
    case (Some q)
    obtain k ns labels where q: "q = (k, ns, labels)" by (cases q)
    from out calls Some q obtain items where cs: "cs = ListObjects k ns labels (Inr items) #
        map deletion (filter (\<lambda>obj. GetName obj \<notin> GetName ` set (built b)) items)" by auto
    with V have lists: "list_agrees V (ListObjects k ns labels (Inr items))" by (simp del: list_agrees.simps)
    have V': "replay_objects V cs =
        (\<lambda>i. if i \<in> object_id ` set (filter (\<lambda>obj. GetName obj \<notin> GetName ` set (built b)) items) then None else V i)"
      unfolding cs by (simp add: replay_deletions del: set_filter)
    from V cleaning_keeps [OF assms _ lists Some [unfolded q] V'] cleaned_up [OF lists Some [unfolded q] V']
    show ?thesis by blast
  qed
qed

subsection \<open>Applying\<close>

lemma run_apply_entry:
  "run_state (applyWithRetry C obj f) s = (a, s') \<Longrightarrow>
     history s' = history s @ [CreateOrUpdateObject obj (fst a) (snd a)]"
  by (auto simp: applyWithRetry_def run_api split: prod.splits)

lemma documented_application:
  assumes "documented_apply S C"
  shows "runs (applyWithRetry C obj f) (\<lambda>a cs. cs = [CreateOrUpdateObject obj (fst a) (snd a)] \<and>
    (fst a = Ok () \<longrightarrow> (\<exists>base filled. object_id base = object_id obj \<and> f base = (Ok (), filled) \<and> S filled (snd a))))"
  unfolding runs_def
proof
  fix s
  obtain err obj' s' where run: "run_state (applyWithRetry C obj f) s = ((err, obj'), s')"
    by (metis surj_pair)
  with assms have "err = Ok () \<longrightarrow>
      (\<exists>base filled. object_id base = object_id obj \<and> f base = (Ok (), filled) \<and> S filled obj')"
    unfolding documented_apply_def by blast
  with run_apply_entry [OF run]
  show "\<exists>cs. history (snd (run_state (applyWithRetry C obj f) s)) = history s @ cs \<and>
      cs = [CreateOrUpdateObject obj (fst (fst (run_state (applyWithRetry C obj f) s)))
              (snd (fst (run_state (applyWithRetry C obj f) s)))] \<and>
      (fst (fst (run_state (applyWithRetry C obj f) s)) = Ok () \<longrightarrow>
        (\<exists>base filled. object_id base = object_id obj \<and> f base = (Ok (), filled) \<and>
           S filled (snd (fst (run_state (applyWithRetry C obj f) s)))))"
    by (simp add: run)
qed

text \<open>A successful application places its object and keeps the others placed.\<close>

lemma application_places:
  assumes L: "controller_reference_only L" "controller_reference_stable L"
    and "object_id base = object_id obj" and "Update L b base = (Ok (), filled)" and "S filled obj'"
    and "obj \<in> set (built b)" and "b \<in> set (ResourceBuilders t)"
    and "ordinary t (CreateOrUpdateObject obj (Ok ()) obj')"
  shows "placed S L b (V(object_id obj := Some obj')) obj"
proof -
  from Update_again [OF L assms(4)] have "Update L b filled = (Ok (), filled)" .
  moreover have "object_id filled = object_id obj" using Update_id [OF L(1), of b base] assms(3,4) by simp
  moreover have "\<not> secondaries_of t' \<subseteq>\<^sub>f om_Labels (object_meta obj')" if "b = StatefulSetBuilder t'" for t'
    using that assms(6-8) by (auto simp: ResourceBuilders_def ordinary_def)
  ultimately show "placed S L b (V(object_id obj := Some obj')) obj" using assms(5) by (auto simp: placed_def)
qed

lemma application_keeps_placed:
  "placed S L b V x \<Longrightarrow> object_id x \<noteq> i \<Longrightarrow> placed S L b (V(i := v)) x"
  by (simp add: placed_def)

lemma application_keeps_clean:
  assumes "no_leftovers b' V" and "obj \<in> set (built b)"
    and "b' = b \<or> ResourceBuilders t = done @ b # rest \<and> b' \<in> set done"
  shows "no_leftovers b' (V(object_id obj := Some obj'))"
proof (cases "obsolete_query b'")
  case (Some q)
  obtain k ns labels where q: "q = (k, ns, labels)" by (cases q)
  have "b' = b" if "k = object_kind obj"
    using that assms(2,3) built_kind [of obj b] query_kind [OF Some [unfolded q]] earlier_builder [of t "done" b rest b'] Some
    by auto
  with assms(1,2) Some show ?thesis
    unfolding no_leftovers_def q by (auto simp: object_id_def object_key_def meta_key_def)
qed (simp add: no_leftovers_def)

lemma before_ordinary:
  "runs (reconcileStatefulSetBeforeCreateOrUpdate R t b obj) (\<lambda>out cs. list_all (ordinary t) cs \<longrightarrow>
     list_all keeps_objects cs \<and> (\<forall>r. out = Ok r \<longrightarrow> r = zero_Result))"
proof -
  have recreate: "runs (reportRecreateInProgress R t name changes \<bind> (\<lambda>_.
       client_Delete (r_Client R) k n (Some policy) \<bind> f)) (\<lambda>out cs. list_all (ordinary t) (c # cs) \<longrightarrow> S out cs)"
    if "\<And>d. emits (\<lambda>c. True) (f d)" for name changes k n policy c S and f :: "go_error + unit \<Rightarrow> ('a, Result res) act"
    by (rule runs_bind [OF runs_trivial], intro emits_rules TrueI, rule runs_calls,
        rule runs_mono [OF runs_trivial [OF that]]) (simp add: ordinary_def)
  show ?thesis
    unfolding reconcileStatefulSetBeforeCreateOrUpdate_def Let_def
    by (intro runs_rules recreate emits_rules) simp_all
qed

lemma leads_before:
  "leads (ordinary t) P (reconcileStatefulSetBeforeCreateOrUpdate R t b obj)
     (\<lambda>out V. (\<forall>r. out = Ok r \<longrightarrow> r = zero_Result) \<and> P V)"
  unfolding leads_def by (rule runs_mono [OF before_ordinary]) (auto simp: replay_keeps)

text \<open>What holds of the objects once the builders before \<open>b\<close> and the objects \<open>pre\<close> of \<open>b\<close> are done.\<close>

definition so_far :: "stored_as \<Rightarrow> k8s_lib \<Rightarrow> ResourceBuilder list \<Rightarrow> ResourceBuilder \<Rightarrow> k8s_object list \<Rightarrow> objects \<Rightarrow> bool" where
  "so_far S L bs b pre V \<longleftrightarrow>
     (\<forall>b' \<in> set bs. builder_done S L b' V) \<and> no_leftovers b V \<and> (\<forall>x \<in> set pre. placed S L b V x)"

lemma application_progress:
  assumes L: "controller_reference_only L" "controller_reference_stable L"
    and order: "ResourceBuilders t = done @ b # rest" and "built b = pre @ obj # post" and "distinct_objects t"
    and "object_id base = object_id obj" "Update L b base = (Ok (), filled)" "S filled obj'"
    and promoted: "ordinary t (CreateOrUpdateObject obj (Ok ()) obj')"
    and "so_far S L done b pre V"
  shows "so_far S L done b (pre @ [obj]) (V(object_id obj := Some obj'))"
proof -
  from order assms(4) have obj: "obj \<in> set (built b)" "b \<in> set (ResourceBuilders t)" by auto
  note new = application_places [where S = S, OF L assms(6-8) obj promoted]
  have others: "object_id x \<noteq> object_id obj" if "x \<in> set pre \<or> (\<exists>b' \<in> set done. x \<in> set (built b'))" for x
  proof -
    from assms(5) have "object_id obj \<notin> object_id ` set pre" "object_id obj \<notin> object_id ` (\<Union>b' \<in> set done. set (built b'))"
      unfolding distinct_objects_def order by (simp_all add: assms(4) distinct_map)
    with that show ?thesis by (metis UN_I image_eqI)
  qed
  have "builder_done S L b' (V(object_id obj := Some obj'))" if "b' \<in> set done" for b'
    using that assms(10) others application_keeps_placed application_keeps_clean [OF _ obj(1), of b' V t "done" rest] order
    unfolding builder_done_def so_far_def by blast
  with assms(10) others new application_keeps_clean [OF _ obj(1), of b V] show ?thesis
    unfolding so_far_def by (auto simp: application_keeps_placed)
qed

lemma leads_createOrUpdateObjects:
  assumes L: "controller_reference_only (r_Lib R)" "controller_reference_stable (r_Lib R)"
    and C: "documented_apply S (r_Client R)" and "distinct_objects t"
    and order: "ResourceBuilders t = done @ b # rest" and "built b = pre @ objects"
  shows "leads (ordinary t) (so_far S (r_Lib R) done b pre) (createOrUpdateObjects R b t objects)
    (\<lambda>out V. (\<exists>r. out = Ok r) \<longrightarrow> so_far S (r_Lib R) done b (built b) V)"
  using assms(6)
proof (induction objects arbitrary: pre)
  case Nil
  then show ?case by (simp add: leads_return)
next
  case (Cons obj objects)
  let ?Q = "\<lambda>out V. (\<exists>r. out = Ok r) \<longrightarrow> so_far S (r_Lib R) done b (built b) V"
  from Cons have IH: "leads (ordinary t) (so_far S (r_Lib R) done b (pre @ [obj]))
      (createOrUpdateObjects R b t objects) ?Q" by simp
  have apply_it: "leads (ordinary t) (so_far S (r_Lib R) done b pre)
      (applyWithRetry (r_Client R) obj (Update (r_Lib R) b))
      (\<lambda>a V. fst a = Ok () \<longrightarrow> so_far S (r_Lib R) done b (pre @ [obj]) V)"
    unfolding leads_def
  proof (rule runs_mono [OF documented_application [OF C]], intro allI impI)
    fix a cs V
    assume "cs = [CreateOrUpdateObject obj (fst a) (snd a)] \<and>
        (fst a = Ok () \<longrightarrow> (\<exists>base filled. object_id base = object_id obj \<and>
           Update (r_Lib R) b base = (Ok (), filled) \<and> S filled (snd a)))"
      and V: "objects_consistent V cs \<and> list_all (ordinary t) cs \<and> so_far S (r_Lib R) done b pre V"
      and "fst a = Ok ()"
    then obtain base filled where cs: "cs = [CreateOrUpdateObject obj (Ok ()) (snd a)]"
      and "object_id base = object_id obj" "Update (r_Lib R) b base = (Ok (), filled)" "S filled (snd a)" by auto
    with application_progress [where S = S, OF L order Cons.prems assms(4) this(2-4), of V] V
    show "so_far S (r_Lib R) done b (pre @ [obj]) (replay_objects V cs)" by simp
  qed
  have failed: "leads (ordinary t) P (statefulSetRecreateBlockedFromAPIError R t b obj' e \<bind> (\<lambda>blocked.
      case blocked of Some b \<Rightarrow> result (Err (RecreateBlocked b)) | None \<Rightarrow> result (Err e))) ?Q" for P obj' e
    by (rule leads_bind [OF leads_any]) (auto intro!: emits_rules leads_rules)
  have rest: "leads (ordinary t) (so_far S (r_Lib R) done b pre)
      (applyWithRetry (r_Client R) obj (Update (r_Lib R) b) \<bind> (\<lambda>(err, object').
        case err of Panic p \<Rightarrow> result (Panic p)
        | Err e \<Rightarrow> statefulSetRecreateBlockedFromAPIError R t b object' e \<bind> (\<lambda>blocked.
            case blocked of Some b \<Rightarrow> result (Err (RecreateBlocked b)) | None \<Rightarrow> result (Err e))
        | Ok u \<Rightarrow> createOrUpdateObjects R b t objects)) ?Q"
    by (rule leads_bind [OF apply_it]) (auto intro!: leads_rules failed leads_pre [OF IH])
  show ?case
    unfolding createOrUpdateObjects.simps
    apply (rule leads_bind [OF leads_before])
    apply (intro leads_rules leads_pre [OF rest])
    apply auto
    done
qed

subsection \<open>A whole reconciliation\<close>

lemma quiet_steps:
  "emits keeps_objects (validatePreconditions R b t)" "emits keeps_objects (reportRecreateBlocked R t blocked)"
  "emits keeps_objects (updateTeamCityObjectStatusE R n st msg)" "emits keeps_objects (ongoingZeroDowntimeUpgrade R t)"
  by (intro emits_rules; simp)+

lemma builders_done:
  assumes L: "controller_reference_only (r_Lib R)" "controller_reference_stable (r_Lib R)"
    and C: "documented_apply S (r_Client R)" and distinct: "distinct_objects t"
    and "ResourceBuilders t = done @ bs"
  shows "leads (ordinary t) (\<lambda>V. \<forall>b \<in> set done. builder_done S (r_Lib R) b V) (reconcileBuilders R t req bs)
    (\<lambda>out V. out = None \<longrightarrow> desired_state S (r_Lib R) t V)"
  using assms(5)
proof (induction bs arbitrary: "done")
  case Nil
  then show ?case by (simp add: leads_return desired_state_def)
next
  case (Cons b bs)
  let ?Q = "\<lambda>out V. out = None \<longrightarrow> desired_state S (r_Lib R) t V"
  from Cons have later: "leads (ordinary t) (\<lambda>V. \<forall>b' \<in> set (done @ [b]). builder_done S (r_Lib R) b' V)
      (reconcileBuilders R t req bs) ?Q" by simp
  have apply_all: "leads (ordinary t) (so_far S (r_Lib R) done b []) (reconcileCreateOrUpdate R b t req)
      (\<lambda>out V. (\<exists>r. out = Ok r) \<longrightarrow> (\<forall>b' \<in> set (done @ [b]). builder_done S (r_Lib R) b' V))"
    unfolding reconcileCreateOrUpdate_def BuildObjectList_built sum.case
    by (rule leads_mono [OF leads_createOrUpdateObjects [OF L C distinct Cons.prems]])
      (auto simp: so_far_def builder_done_def)
  have blocked: "leads (ordinary t) P (reportRecreateBlocked R t blocked \<bind> (\<lambda>u. result (Some (Ok zero_Result)))) ?Q"
    for P blocked
    by (rule leads_bind [OF leads_any]) (auto intro!: emits_rules leads_return)
  show ?case
    unfolding reconcileBuilders.simps
    apply (rule leads_bind [OF leads_reconcileDelete [OF Cons.prems, where S = S and L = "r_Lib R"]])
    apply (rule leads_rules)
    apply (rule leads_quiet_bind [OF quiet_steps(1)])
    apply (intro leads_rules)
    apply simp
    apply (rule leads_bind [OF leads_pre [OF apply_all]])
    apply (auto intro!: leads_rules blocked leads_pre [OF later] simp: so_far_def)
    done
qed

text \<open>
  A run that reports nothing left to do has told the user to act with its last call, or it went
  through all the builders and leaves the desired state.
\<close>

definition blocked_at_end :: "TeamCity \<Rightarrow> api_call list \<Rightarrow> bool" where
  "blocked_at_end t cs \<longleftrightarrow> cs \<noteq> [] \<and> reports_blocked t (last cs)"

definition content_run :: "stored_as \<Rightarrow> k8s_lib \<Rightarrow> TeamCity \<Rightarrow> Result res \<Rightarrow> api_call list \<Rightarrow> bool" where
  "content_run S L t out cs \<longleftrightarrow> (out = Ok zero_Result \<longrightarrow> blocked_at_end t cs \<or>
     (\<forall>V. objects_consistent V cs \<and> list_all (ordinary t) cs \<longrightarrow> desired_state S L t (replay_objects V cs)))"

lemma content_run_later: "content_run S L t out ds \<Longrightarrow> content_run S L t out (cs @ ds)"
  unfolding content_run_def blocked_at_end_def by auto

lemma content_run_other: "out \<noteq> Ok zero_Result \<Longrightarrow> content_run S L t out cs"
  by (simp add: content_run_def)

lemma content_any_bind:
  "emits (\<lambda>c. True) m \<Longrightarrow> (\<And>a. runs (f a) (content_run S L t)) \<Longrightarrow> runs (m \<bind> f) (content_run S L t)"
  by (rule runs_bind [OF runs_trivial], assumption, rule runs_mono, assumption, rule content_run_later)

lemma resources_content:
  assumes "controller_reference_only (r_Lib R)" "controller_reference_stable (r_Lib R)"
    and "documented_apply S (r_Client R)" and "distinct_objects t"
  shows "runs (reconcileResources R t req) (content_run S (r_Lib R) t)"
proof -
  let ?ended = "\<lambda>out cs. (\<forall>V. objects_consistent V cs \<and> list_all (ordinary t) cs \<longrightarrow>
      out = None \<longrightarrow> desired_state S (r_Lib R) t (replay_objects V cs)) \<and>
    (out = Some (Ok zero_Result) \<longrightarrow> (\<exists>pre c. cs = pre @ [c] \<and> reports_blocked t c))"
  have builders: "runs (reconcileBuilders R t req (ResourceBuilders t)) ?ended"
    using builders_done [OF assms, of "[]" "ResourceBuilders t" req] unfolding leads_def
    by (intro runs_conj builders_reported) simp
  have tail: "emits keeps_objects (updateTeamCityObjectStatusE R req st msg \<bind> (\<lambda>ignored.
      ongoingZeroDowntimeUpgrade R t \<bind>
        (\<lambda>ongoing. if ongoing then result (Ok requeue_Result) else result (Ok zero_Result))))" for st msg
    by (intro emits_rules quiet_steps)
  show ?thesis
    unfolding reconcileResources_def
  proof (rule runs_bind [OF builders])
    fix out cs
    assume ended: "?ended out cs"
    show "runs (case out of None \<Rightarrow>
          updateTeamCityObjectStatusE R req TEAMCITY_CRD_OBJECT_SUCCESS_STATE ''Successfully reconciled TeamCity'' \<bind>
          (\<lambda>ignored. ongoingZeroDowntimeUpgrade R t \<bind>
            (\<lambda>ongoing. if ongoing then result (Ok requeue_Result) else result (Ok zero_Result)))
        | Some outcome \<Rightarrow> result outcome) (\<lambda>out ds. content_run S (r_Lib R) t out (cs @ ds))"
    proof (cases out)
      case None
      with ended show ?thesis
        by (simp, intro runs_mono [OF tail [unfolded emits_def]]) (simp add: content_run_def replay_keeps)
    next
      case (Some outcome)
      with ended show ?thesis by (auto simp: content_run_def blocked_at_end_def intro!: runs_return)
    qed
  qed
qed

lemma reconcileRead_content:
  assumes "controller_reference_only (r_Lib R)" "controller_reference_stable (r_Lib R)"
    and "documented_apply S (r_Client R)" and "distinct_objects t" and "om_DeletionTimestamp (tc_meta t) = None"
  shows "runs (reconcileRead R req t) (content_run S (r_Lib R) t)"
  using assms(5) unfolding reconcileRead_def
  by (simp, intro content_any_bind runs_cases emits_rules TrueI resources_content [OF assms(1-4)] runs_return)
    (simp_all add: content_run_other)

text \<open>
  (C2) A reconciliation of a resource that is not marked for deletion, and that reports nothing left
  to do, has either told the user with its last call that recreating a StatefulSet waits for the
  approval, or it leaves the desired state behind, whatever the cluster held before. Every object the
  resource asks for is stored, as the API server makes it of an object the builder filled in
  completely (filling in again changes nothing); and no object the clean-up steps look at has a name
  the resource does not ask for. The conditions: no two objects of the resource share a kind and a
  name; the API server lists what it stores and nobody else writes in the meantime; an application
  that succeeds has sent what the builder made of the stored or the given object; in this run no
  StatefulSet is deleted to be recreated (the run would go on as if nothing had happened); and no main
  StatefulSet is left with the labels of a secondary node (the run would delete it, C20). What the
  server stores of an object it is sent is not constrained.
\<close>

theorem Reconcile_reaches_desired_state:
  assumes "controller_reference_only (r_Lib R)" and "controller_reference_stable (r_Lib R)"
    and "documented_apply S (r_Client R)" and "distinct_objects t" and "om_DeletionTimestamp (tc_meta t) = None"
    and "run_state (Reconcile R req) s = (Ok zero_Result, s')"
    and "history s' = history s @ GetTeamCity req (Inr t) # cs"
    and "list_all (ordinary t) cs" and "objects_consistent V cs"
  shows "cs \<noteq> [] \<and> reports_blocked t (last cs) \<or> desired_state S (r_Lib R) t (replay_objects V cs)"
proof -
  have "runs (Reconcile R req) (\<lambda>out cs. \<forall>t rest. cs = GetTeamCity req (Inr t) # rest \<longrightarrow>
      distinct_objects t \<and> om_DeletionTimestamp (tc_meta t) = None \<longrightarrow> content_run S (r_Lib R) t out rest)"
    by (rule Reconcile_after_read) (use reconcileRead_content [OF assms(1-3)] in blast)
  from runs_history [OF this assms(6,7)] assms(4,5,8,9) show ?thesis
    by (auto simp: content_run_def blocked_at_end_def)
qed

subsection \<open>An instance\<close>

text \<open>The first reconciliation of a resource with two nodes on an empty cluster.\<close>

lemma sample_labels: "om_Labels (sts_meta sample_StatefulSet) = GetStatefulSetLabels ''tc'' ''main'' ''main'' fmempty"
  by (simp add: sample_StatefulSet_def CreateEmptyStatefulSet_def)

lemma main_not_secondary:
  "\<not> GetStatefulSetCommonLabels n ''secondary'' il \<subseteq>\<^sub>f GetStatefulSetLabels n' node ''main'' il'"
  using selector_role by blast

lemma secondary_not_main: "CreateEmptyStatefulSet ''b'' ns labels \<noteq> sample_StatefulSet"
  using CreateEmptyStatefulSet_name [of "''b''" ns labels] by auto

lemma sample_documented_apply: "documented_apply (=) (sample_client t sts listed)"
  unfolding documented_apply_def by (auto simp: split_beta)

lemma run_two_nodes:
  "\<exists>s' cs. run_state (Reconcile sample_multi sample_request) (sample_sys None) = (Ok zero_Result, s') \<and>
     history s' = GetTeamCity sample_request (Inr sample_two_nodes) # cs \<and> \<not> blocked_at_end sample_two_nodes cs \<and>
     list_all (ordinary sample_two_nodes) cs \<and> objects_consistent (\<lambda>_. None) cs"
  by (simp add: sample_multi_def sample_two_nodes_def sample_secondary_def builder_run_defs
      sample_recreate_annotations sample_sys_def sample_status TEAMCITY_CRD_OBJECT_SUCCESS_STATE_def
      zero_NodeSpec_def zero_StatefulSetStatus_def IsMultiNode_iff CreateEmptyStatefulSet_name)
    (simp add: blocked_at_end_def reports_blocked_def built_def sample_built StatefulSet_Update_labels sample_lib_documented
      secondaries_of_def sample_labels main_not_secondary secondary_not_main object_id_def)

lemma distinct_two_nodes: "distinct_objects sample_two_nodes"
  by (simp add: distinct_objects_def ResourceBuilders_def built_def sample_two_nodes_def sample_built object_id_def
      object_key_def CreateEmptyStatefulSet_def sample_StatefulSet_def meta_key_def)

theorem Reconcile_reaches_desired_state_witness:
  "\<exists>s' cs. run_state (Reconcile sample_multi sample_request) (sample_sys None) = (Ok zero_Result, s') \<and>
     history s' = GetTeamCity sample_request (Inr sample_two_nodes) # cs \<and>
     desired_state (=) sample_lib sample_two_nodes (replay_objects (\<lambda>_. None) cs)"
proof -
  from run_two_nodes obtain s' cs where
    run: "run_state (Reconcile sample_multi sample_request) (sample_sys None) = (Ok zero_Result, s')"
    and history: "history s' = history (sample_sys None) @ GetTeamCity sample_request (Inr sample_two_nodes) # cs"
    and cs: "\<not> blocked_at_end sample_two_nodes cs" "list_all (ordinary sample_two_nodes) cs" "objects_consistent (\<lambda>_. None) cs"
    by (auto simp: sample_sys_def)
  have R: "r_Lib sample_multi = sample_lib" "documented_apply (=) (r_Client sample_multi)"
    by (simp_all add: sample_multi_def sample_documented_apply)
  have "om_DeletionTimestamp (tc_meta sample_two_nodes) = None" by (simp add: sample_two_nodes_def)
  from Reconcile_reaches_desired_state [OF _ _ R(2) distinct_two_nodes this run history cs(2,3)]
    R(1) sample_lib_documented(2,3) cs(1)
  have "desired_state (=) sample_lib sample_two_nodes (replay_objects (\<lambda>_. None) cs)"
    by (auto simp: blocked_at_end_def)
  with run history show ?thesis by (auto simp: sample_sys_def)
qed

subsection \<open>A promoted secondary node\<close>

text \<open>
  (C20) What the condition on the main StatefulSet excludes. Filling in never changes the labels of a
  stored StatefulSet, so when a secondary node becomes the main one, its StatefulSet still carries
  the role of a secondary after it was applied for the main node; the clean-up of the secondary
  nodes, if it succeeds and the API server lists it, then deletes it.
\<close>

theorem promoted_secondary_deleted:
  assumes "controller_reference_only (r_Lib R)" and "secondaries_of t \<subseteq>\<^sub>f om_Labels (sts_meta st)"
    and "om_Name (sts_meta st) = node_Name (tc_MainNode t)"
    and "node_Name (tc_MainNode t) \<notin> node_Name ` set (tc_SecondaryNodes t)"
    and "snd (Update (r_Lib R) (StatefulSetBuilder t) (StatefulSetObject st)) = obj'"
  shows "secondaries_of t \<subseteq>\<^sub>f om_Labels (object_meta obj') \<and>
    runs (reconcileDelete R (SecondaryStatefulSetBuilder t)) (\<lambda>out cs. \<forall>items.
      ListObjects KindStatefulSet (tc_Namespace t) (secondaries_of t) (Inr items) \<in> set cs \<longrightarrow> obj' \<in> set items \<longrightarrow>
      (\<exists>r. out = Ok r) \<longrightarrow> deletion obj' \<in> set cs)"
proof
  from assms(1,2,5) show "secondaries_of t \<subseteq>\<^sub>f om_Labels (object_meta obj')"
    by (auto simp: StatefulSet_Update_labels)
  have key: "object_key obj' = meta_key (sts_meta st)"
    using main_builder.update_key [OF assms(1), of t "StatefulSetObject st"] assms(5) by (simp add: object_key_def)
  then have "GetName obj' = node_Name (tc_MainNode t)"
    using assms(3) by (simp add: object_key_def meta_key_def)
  moreover have "GetName ` set (built (SecondaryStatefulSetBuilder t)) = node_Name ` set (tc_SecondaryNodes t)"
    using secondary_builder.build_names [of t] by (simp add: built_def) (metis list.set_map)
  ultimately have unwanted: "GetName obj' \<notin> GetName ` set (built (SecondaryStatefulSetBuilder t))"
    using assms(4) by simp
  show "runs (reconcileDelete R (SecondaryStatefulSetBuilder t)) (\<lambda>out cs. \<forall>items.
      ListObjects KindStatefulSet (tc_Namespace t) (secondaries_of t) (Inr items) \<in> set cs \<longrightarrow> obj' \<in> set items \<longrightarrow>
      (\<exists>r. out = Ok r) \<longrightarrow> deletion obj' \<in> set cs)"
    by (rule runs_mono [OF reconcileDelete_calls]) (use unwanted in \<open>auto simp: secondaries_of_def\<close>)
qed

definition sample_promoted :: k8s_object where
  "sample_promoted = snd (Update sample_lib (StatefulSetBuilder sample_two_nodes)
     (StatefulSetObject (CreateEmptyStatefulSet ''main'' ''ns'' (GetStatefulSetLabels ''tc'' ''main'' ''secondary'' fmempty))))"

theorem promoted_secondary_deleted_witness:
  "deletion sample_promoted \<in> set (history (snd (run_state
     (reconcileDelete (sample_reconciler sample_two_nodes (\<lambda>n. Inl sample_not_found) (Inr [sample_promoted]))
        (SecondaryStatefulSetBuilder sample_two_nodes)) (sample_sys None))))"
proof -
  let ?R = "sample_reconciler sample_two_nodes (\<lambda>n. Inl sample_not_found) (Inr [sample_promoted])"
  let ?st = "CreateEmptyStatefulSet ''main'' ''ns'' (GetStatefulSetLabels ''tc'' ''main'' ''secondary'' fmempty)"
  let ?m = "reconcileDelete ?R (SecondaryStatefulSetBuilder sample_two_nodes)"
  have meta: "om_Labels (sts_meta ?st) = GetStatefulSetLabels ''tc'' ''main'' ''secondary'' fmempty"
    "om_Name (sts_meta ?st) = ''main''"
    by (simp_all add: CreateEmptyStatefulSet_def)
  have "secondaries_of sample_two_nodes \<subseteq>\<^sub>f om_Labels (sts_meta ?st)"
    unfolding meta secondaries_of_def sample_two_nodes_def sample_tc_simps by (rule role_selector.selects) simp
  from promoted_secondary_deleted [of ?R, OF _ this, of sample_promoted] sample_lib_documented(2) meta(2)
  have deletes: "runs ?m (\<lambda>out cs. \<forall>items.
      ListObjects KindStatefulSet ''ns'' (secondaries_of sample_two_nodes) (Inr items) \<in> set cs \<longrightarrow>
      sample_promoted \<in> set items \<longrightarrow> (\<exists>r. out = Ok r) \<longrightarrow> deletion sample_promoted \<in> set cs)"
    by (simp add: sample_promoted_def sample_two_nodes_def)
  have "\<exists>s' rest. run_state ?m (sample_sys None) = (Ok zero_Result, s') \<and>
      history s' = ListObjects KindStatefulSet ''ns'' (secondaries_of sample_two_nodes) (Inr [sample_promoted]) # rest"
    by (simp add: reconcileDelete_def obsolete_defs Let_def secondaries_of_def sample_two_nodes_def sample_sys_def)
  then obtain s' rest where "run_state ?m (sample_sys None) = (Ok zero_Result, s')"
    "history s' = history (sample_sys None) @
       ListObjects KindStatefulSet ''ns'' (secondaries_of sample_two_nodes) (Inr [sample_promoted]) # rest"
    by (auto simp: sample_sys_def)
  with runs_history [OF deletes this] show ?thesis by simp
qed

end
