(* ===== verification/Permissions.thy ===== *)
theory Permissions
  imports Applications Samples
begin

section \<open>The permissions a reconciliation needs\<close>

text \<open>
  The operator may do in the cluster what its ClusterRole grants. The role is generated from the RBAC
  markers above \<open>Reconcile\<close> (\<open>internal/controller/teamcity_controller.go\<close>); the Helm chart carries a copy of
  its own (\<open>manager-rbac.yaml\<close>). Which permissions the calls need follows from the Kubernetes API: a read
  through the manager's cache lists and watches the kind; \<open>CreateOrUpdate\<close> gets the object and then
  creates or updates it, and as it sets an owner reference that blocks the owner's deletion, it needs
  the permission to update the finalizers of the owner; the event recorder creates and patches events.
\<close>

subsection \<open>Rules\<close>

record policy_rule =
  rule_Group :: string
  rule_Resource :: string
  rule_Verbs :: "string list"

type_synonym permission = "string \<times> string \<times> string" \<comment> \<open>group, resource, verb\<close>

text \<open>The generator writes the group \<open>core\<close> as the empty one.\<close>

definition api_group :: "string \<Rightarrow> string" where
  "api_group g = (if g = ''core'' then '''' else g)"

definition rule_permits :: "permission \<Rightarrow> policy_rule \<Rightarrow> bool" where
  "rule_permits p r =
     (case p of (grp, resource, verb) \<Rightarrow>
        api_group (rule_Group r) = grp \<and> rule_Resource r = resource \<and> verb \<in> set (rule_Verbs r))"

definition permits :: "policy_rule list \<Rightarrow> permission \<Rightarrow> bool" where
  "permits rules p = list_ex (rule_permits p) rules"

definition all_verbs :: "string list" where
  "all_verbs = [''get'', ''list'', ''watch'', ''create'', ''update'', ''patch'', ''delete'']"

definition rbac_markers :: "policy_rule list" where
  "rbac_markers =
     [\<lparr>rule_Group = ''jetbrains.com'', rule_Resource = ''teamcities'', rule_Verbs = all_verbs\<rparr>,
      \<lparr>rule_Group = ''jetbrains.com'', rule_Resource = ''teamcities/status'', rule_Verbs = [''get'', ''update'', ''patch'']\<rparr>,
      \<lparr>rule_Group = ''jetbrains.com'', rule_Resource = ''teamcities/finalizers'', rule_Verbs = [''update'']\<rparr>,
      \<lparr>rule_Group = ''apps'', rule_Resource = ''statefulsets'', rule_Verbs = all_verbs\<rparr>,
      \<lparr>rule_Group = ''core'', rule_Resource = ''services'', rule_Verbs = all_verbs\<rparr>,
      \<lparr>rule_Group = ''core'', rule_Resource = ''persistentvolumeclaims'', rule_Verbs = all_verbs\<rparr>,
      \<lparr>rule_Group = ''networking.k8s.io'', rule_Resource = ''ingresses'', rule_Verbs = all_verbs\<rparr>,
      \<lparr>rule_Group = ''core'', rule_Resource = ''serviceaccounts'', rule_Verbs = all_verbs\<rparr>,
      \<lparr>rule_Group = ''core'', rule_Resource = ''configmaps'', rule_Verbs = all_verbs\<rparr>,
      \<lparr>rule_Group = ''core'', rule_Resource = ''events'', rule_Verbs = [''create'', ''patch'']\<rparr>]"

text \<open>The rules of the chart's ClusterRole, each with its verbs in its own order.\<close>

definition chart_verbs :: "string list" where
  "chart_verbs = [''create'', ''delete'', ''get'', ''list'', ''patch'', ''update'', ''watch'']"

definition chart_rules :: "policy_rule list" where
  "chart_rules =
     [\<lparr>rule_Group = ''apps'', rule_Resource = ''statefulsets'', rule_Verbs = chart_verbs\<rparr>,
      \<lparr>rule_Group = '''', rule_Resource = ''configmaps'', rule_Verbs = chart_verbs\<rparr>,
      \<lparr>rule_Group = '''', rule_Resource = ''persistentvolumeclaims'', rule_Verbs = chart_verbs\<rparr>,
      \<lparr>rule_Group = '''', rule_Resource = ''serviceaccounts'', rule_Verbs = chart_verbs\<rparr>,
      \<lparr>rule_Group = '''', rule_Resource = ''services'', rule_Verbs = chart_verbs\<rparr>,
      \<lparr>rule_Group = ''jetbrains.com'', rule_Resource = ''teamcities'', rule_Verbs = chart_verbs\<rparr>,
      \<lparr>rule_Group = ''jetbrains.com'', rule_Resource = ''teamcities/finalizers'', rule_Verbs = [''update'']\<rparr>,
      \<lparr>rule_Group = ''jetbrains.com'', rule_Resource = ''teamcities/status'', rule_Verbs = [''get'', ''patch'', ''update'']\<rparr>,
      \<lparr>rule_Group = ''networking.k8s.io'', rule_Resource = ''ingresses'', rule_Verbs = chart_verbs\<rparr>]"

text \<open>
  What suffices: nothing is patched but events, resources of kind TeamCity are neither created nor
  deleted, and of their status only the update is used.
\<close>

definition owned_verbs :: "string list" where
  "owned_verbs = [''get'', ''list'', ''watch'', ''create'', ''update'', ''delete'']"

definition used_rules :: "policy_rule list" where
  "used_rules =
     [\<lparr>rule_Group = ''jetbrains.com'', rule_Resource = ''teamcities'', rule_Verbs = [''get'', ''list'', ''watch'', ''update'']\<rparr>,
      \<lparr>rule_Group = ''jetbrains.com'', rule_Resource = ''teamcities/status'', rule_Verbs = [''update'']\<rparr>,
      \<lparr>rule_Group = ''jetbrains.com'', rule_Resource = ''teamcities/finalizers'', rule_Verbs = [''update'']\<rparr>,
      \<lparr>rule_Group = ''apps'', rule_Resource = ''statefulsets'', rule_Verbs = owned_verbs\<rparr>,
      \<lparr>rule_Group = '''', rule_Resource = ''services'', rule_Verbs = owned_verbs\<rparr>,
      \<lparr>rule_Group = '''', rule_Resource = ''persistentvolumeclaims'', rule_Verbs = owned_verbs\<rparr>,
      \<lparr>rule_Group = ''networking.k8s.io'', rule_Resource = ''ingresses'', rule_Verbs = owned_verbs\<rparr>,
      \<lparr>rule_Group = '''', rule_Resource = ''serviceaccounts'', rule_Verbs = owned_verbs\<rparr>,
      \<lparr>rule_Group = '''', rule_Resource = ''configmaps'', rule_Verbs = owned_verbs\<rparr>,
      \<lparr>rule_Group = '''', rule_Resource = ''events'', rule_Verbs = [''create'', ''patch'']\<rparr>]"

subsection \<open>What a call needs\<close>

primrec kind_resource :: "kind \<Rightarrow> string \<times> string" where
  "kind_resource KindTeamCity = (''jetbrains.com'', ''teamcities'')"
| "kind_resource KindStatefulSet = (''apps'', ''statefulsets'')"
| "kind_resource KindConfigMap = ('''', ''configmaps'')"
| "kind_resource KindPersistentVolumeClaim = ('''', ''persistentvolumeclaims'')"
| "kind_resource KindServiceAccount = ('''', ''serviceaccounts'')"
| "kind_resource KindService = ('''', ''services'')"
| "kind_resource KindIngress = (''networking.k8s.io'', ''ingresses'')"

definition verbs_on :: "kind \<Rightarrow> string list \<Rightarrow> permission list" where
  "verbs_on k verbs = map (\<lambda>v. (fst (kind_resource k), snd (kind_resource k), v)) verbs"

primrec needs :: "api_call \<Rightarrow> permission list" where
  "needs (GetTeamCity n r1) = verbs_on KindTeamCity [''get'', ''list'', ''watch'']"
| "needs (UpdateTeamCity t r2) = verbs_on KindTeamCity [''update'']"
| "needs (UpdateTeamCityStatus t r3) = [(''jetbrains.com'', ''teamcities/status'', ''update'')]"
| "needs (GetStatefulSet n r4) = verbs_on KindStatefulSet [''get'', ''list'', ''watch'']"
| "needs (GetConfigMap n r5) = verbs_on KindConfigMap [''get'', ''list'', ''watch'']"
| "needs (CreateConfigMap m r6) = verbs_on KindConfigMap [''create'']"
| "needs (UpdateConfigMap m r7) = verbs_on KindConfigMap [''update'']"
| "needs (ListObjects k ns labels r8) = verbs_on k [''list'', ''watch'']"
| "needs (DeleteObject k n policy r9) = verbs_on k [''delete'']"
| "needs (CreateOrUpdateObject obj err obj') =
     verbs_on (object_kind obj) [''get'', ''list'', ''watch'', ''create'', ''update''] @
     [(''jetbrains.com'', ''teamcities/finalizers'', ''update'')]"
| "needs (RecordEvent t e reason msg) = [('''', ''events'', ''create''), ('''', ''events'', ''patch'')]"

text \<open>Each rule of the first list is part of one of the second.\<close>

definition rules_within :: "policy_rule list \<Rightarrow> policy_rule list \<Rightarrow> bool" where
  "rules_within rules rules' =
     list_all (\<lambda>r. list_ex (\<lambda>r'. api_group (rule_Group r) = api_group (rule_Group r') \<and>
         rule_Resource r = rule_Resource r' \<and> list_all (\<lambda>v. v \<in> set (rule_Verbs r')) (rule_Verbs r)) rules') rules"

lemma rules_within_permits: "rules_within rules rules' \<Longrightarrow> permits rules p \<Longrightarrow> permits rules' p"
  by (cases p) (fastforce simp: rules_within_def permits_def rule_permits_def list_ex_iff list_all_iff)

lemma used_within_markers: "permits used_rules p \<Longrightarrow> permits rbac_markers p"
  by (erule rules_within_permits [rotated])
    (simp add: rules_within_def used_rules_def rbac_markers_def api_group_def owned_verbs_def all_verbs_def)

lemma used_within_chart: "permits used_rules (g, res, v) \<Longrightarrow> res \<noteq> ''events'' \<Longrightarrow> permits chart_rules (g, res, v)"
proof -
  assume used: "permits used_rules (g, res, v)" and "res \<noteq> ''events''"
  then have "permits (filter (\<lambda>r. rule_Resource r \<noteq> ''events'') used_rules) (g, res, v)"
    by (auto simp: permits_def rule_permits_def list_ex_iff)
  moreover have "rules_within (filter (\<lambda>r. rule_Resource r \<noteq> ''events'') used_rules) chart_rules"
    by (simp add: rules_within_def used_rules_def chart_rules_def api_group_def owned_verbs_def chart_verbs_def)
  ultimately show ?thesis by (rule rules_within_permits [rotated])
qed

lemma chart_lacks_events: "\<not> permits chart_rules (g, ''events'', v)"
  by (simp add: permits_def rule_permits_def chart_rules_def)

lemma kind_not_events [simp]: "snd (kind_resource k) \<noteq> ''events''" "''events'' \<noteq> snd (kind_resource k)"
  by (cases k; simp)+

lemma no_event_needed:
  "(g, ''events'', v) \<in> set (needs c) \<Longrightarrow> \<exists>t e reason msg. c = RecordEvent t e reason msg"
  by (cases c) (auto simp: verbs_on_def)

subsection \<open>The calls of a reconciliation\<close>

text \<open>A list read into a typed list holds objects of its kind only.\<close>

definition typed_lists :: "'w client \<Rightarrow> bool" where
  "typed_lists C \<longleftrightarrow>
     (\<forall>k ns labels w. case fst (cl_List C k ns labels w) of
        Inl e \<Rightarrow> True | Inr items \<Rightarrow> list_all (\<lambda>obj. object_kind obj = k) items)"

definition collected_kinds :: "kind list" where
  "collected_kinds =
     [KindPersistentVolumeClaim, KindServiceAccount, KindService, KindIngress, KindStatefulSet]"

lemma runs_typed_List:
  "typed_lists C \<Longrightarrow> runs (client_List C k ns labels) (\<lambda>a cs. cs = [ListObjects k ns labels a] \<and>
     (\<forall>items. a = Inr items \<longrightarrow> (\<forall>obj \<in> set items. object_kind obj = k)))"
  unfolding typed_lists_def client_List_def api_def runs_def
  by (auto split: prod.splits sum.splits simp: list_all_iff) (metis fst_conv)

lemma GetObsoleteObjects_kinds:
  assumes "typed_lists C" and "\<And>k ns labels r. k \<in> set collected_kinds \<Longrightarrow> I (ListObjects k ns labels r)"
  shows "runs (GetObsoleteObjects C b) (\<lambda>r cs. list_all I cs \<and>
    (\<forall>objects. r = Inr objects \<longrightarrow> (\<forall>obj \<in> set objects. object_kind obj \<in> set collected_kinds)))"
  using assms(2)
  by (cases b)
    (auto simp: obsolete_defs Let_def collected_kinds_def
      intro!: runs_bind [OF runs_typed_List [OF assms(1)]] runs_cases runs_return)

lemma emits_reconcileDelete_typed:
  assumes "typed_lists (r_Client R)" and "\<And>k ns labels r. k \<in> set collected_kinds \<Longrightarrow> I (ListObjects k ns labels r)"
    and "\<And>k n r. k \<in> set collected_kinds \<Longrightarrow> I (DeleteObject k n None r)"
  shows "emits I (reconcileDelete R b)"
proof -
  have delete: "runs (deleteObjects R objects) (\<lambda>a ds. list_all I ds)"
    if "\<forall>obj \<in> set objects. object_kind obj \<in> set collected_kinds" for objects
    using emits_deleteObjects [of objects I R] that assms(3) unfolding emits_def by blast
  show ?thesis
    unfolding emits_def reconcileDelete_def
    by (rule runs_bind [OF GetObsoleteObjects_kinds [where I = I, OF assms(1)]], erule assms(2))
      (auto intro!: runs_cases runs_return runs_mono [OF delete])
qed


text \<open>What suffices for one call.\<close>

definition least_permitted :: "api_call \<Rightarrow> bool" where
  "least_permitted c = list_all (permits used_rules) (needs c)"

lemmas used_rules_defs =
  permits_def rule_permits_def used_rules_def api_group_def verbs_on_def owned_verbs_def

lemma kind_permitted:
  "list_all (permits used_rules) (verbs_on k [''get'', ''list'', ''watch''])"
  "list_all (permits used_rules) (verbs_on k [''list'', ''watch''])"
  "list_all (permits used_rules) (verbs_on k [''update''])"
  "list_all (permits used_rules) (verbs_on k [''create'']) \<longleftrightarrow> k \<noteq> KindTeamCity"
  "list_all (permits used_rules) (verbs_on k [''delete'']) \<longleftrightarrow> k \<noteq> KindTeamCity"
  "list_all (permits used_rules) (verbs_on k [''get'', ''list'', ''watch'', ''create'', ''update'']) \<longleftrightarrow> k \<noteq> KindTeamCity"
  by (cases k; simp add: used_rules_defs)+

lemma other_permitted:
  "permits used_rules (''jetbrains.com'', ''teamcities/status'', ''update'')"
  "permits used_rules (''jetbrains.com'', ''teamcities/finalizers'', ''update'')"
  "permits used_rules ('''', ''events'', ''create'')" "permits used_rules ('''', ''events'', ''patch'')"
  by (simp_all add: used_rules_defs)

lemma least_permitted_simps [simp]:
  "least_permitted (GetTeamCity n r1)" "least_permitted (UpdateTeamCity t r2)"
  "least_permitted (UpdateTeamCityStatus t r3)" "least_permitted (GetStatefulSet n r4)"
  "least_permitted (GetConfigMap n r5)" "least_permitted (CreateConfigMap m r6)"
  "least_permitted (UpdateConfigMap m r7)" "least_permitted (ListObjects k ns labels r8)"
  "least_permitted (RecordEvent t e reason msg)"
  "least_permitted (DeleteObject k n policy r9) \<longleftrightarrow> k \<noteq> KindTeamCity"
  "least_permitted (CreateOrUpdateObject obj err obj') \<longleftrightarrow> object_kind obj \<noteq> KindTeamCity"
  by (simp_all add: least_permitted_def kind_permitted other_permitted)

lemma built_not_TeamCity:
  "b \<in> set (ResourceBuilders t) \<Longrightarrow> BuildObjectList b = Inr objects \<Longrightarrow> obj \<in> set objects \<Longrightarrow>
     object_kind obj \<noteq> KindTeamCity"
  by (auto simp: ResourceBuilders_def PersistentVolumeClaim_BuildObjectList_def ServiceAccount_BuildObjectList_def
      getEmptyServiceAccount_def Service_BuildObjectList_def Ingress_BuildObjectList_def
      StatefulSet_BuildObjectList_def SecondaryStatefulSet_BuildObjectList_def Let_def split: if_splits)

lemma Reconcile_least_permitted:
  assumes "typed_lists (r_Client R)"
  shows "emits least_permitted (Reconcile R req)"
proof -
  have delete: "emits least_permitted (reconcileDelete R b)" for b
    by (rule emits_reconcileDelete_typed [OF assms]) (auto simp: collected_kinds_def)
  have resources: "emits least_permitted (reconcileResources R t req)" for t
    by (intro emits_reconcileResources delete) (auto dest: built_not_TeamCity)
  have "emits least_permitted (reconcileRead R req t)" for t
    unfolding reconcileRead_def by (intro resources emits_rules; simp)
  then show ?thesis unfolding Reconcile_read by (intro emits_rules; simp)
qed

text \<open>
  (C15) Every call of a reconciliation needs only permissions the RBAC markers grant; resources of kind
  TeamCity are not created or deleted, and nothing is patched but events. The ClusterRole of the Helm
  chart grants what every call needs but the recording of an event.
\<close>

theorem Reconcile_permitted:
  assumes "typed_lists (r_Client R)"
  shows "runs (Reconcile R req) (\<lambda>out cs. \<forall>c \<in> set cs.
    list_all (permits rbac_markers) (needs c) \<and> list_all (permits used_rules) (needs c) \<and>
    (list_all (permits chart_rules) (needs c) \<longleftrightarrow> (\<forall>t e reason msg. c \<noteq> RecordEvent t e reason msg)))"
proof -
  have each: "list_all (permits rbac_markers) (needs c) \<and> list_all (permits used_rules) (needs c) \<and>
      (list_all (permits chart_rules) (needs c) \<longleftrightarrow> (\<forall>t e reason msg. c \<noteq> RecordEvent t e reason msg))"
    if c: "least_permitted c" for c
  proof -
    have "permits chart_rules p" if "p \<in> set (needs c)" "\<And>t e reason msg. c \<noteq> RecordEvent t e reason msg" for p
    proof -
      obtain g res v where p: "p = (g, res, v)" by (cases p)
      with that no_event_needed [of g v c] have "res \<noteq> ''events''" by auto
      with c that(1) p show ?thesis
        by (auto simp: least_permitted_def list_all_iff intro: used_within_chart)
    qed
    with c show ?thesis
      by (auto simp: least_permitted_def list_all_iff chart_lacks_events used_within_markers)
  qed
  show ?thesis
    by (rule runs_mono [OF Reconcile_least_permitted [OF assms, unfolded emits_def]])
      (use each in \<open>simp add: list_all_iff [of least_permitted]\<close>)
qed

theorem Reconcile_permitted_witness:
  "runs (Reconcile (sample_reconciler (sample_tc fmempty False []) (\<lambda>n. Inl sample_not_found) (Inr []))
     \<lparr>nn_Namespace = ''ns'', nn_Name = ''tc''\<rparr>) (\<lambda>out cs. \<forall>c \<in> set cs.
       list_all (permits rbac_markers) (needs c) \<and> list_all (permits used_rules) (needs c) \<and>
       (list_all (permits chart_rules) (needs c) \<longleftrightarrow> (\<forall>t e reason msg. c \<noteq> RecordEvent t e reason msg)))"
  by (rule Reconcile_permitted) (simp add: typed_lists_def sample_client_def)

end
