(* ===== verification/Program_Entry.thy ===== *)
theory Program_Entry
  imports Watches
begin

section \<open>Starting the operator (cmd/main.go)\<close>

text \<open>
  What the process does before the manager of controller-runtime takes over: it registers the types,
  makes the manager from the command line and the environment, registers the controller, the admission
  webhook and the probes, and starts the manager. Each step is one call that answers with an error or
  nil; the first error ends the process. The model lists the steps the process takes, in order.
\<close>

subsection \<open>The API group (groupversion_info.go, teamcity_types.go)\<close>

record schema_GroupVersion =
  gv_Group :: string
  gv_Version :: string

definition GroupVersion :: schema_GroupVersion where
  "GroupVersion = \<lparr>gv_Group = ''jetbrains.com'', gv_Version = ''v1beta1''\<rparr>"

text \<open>The types \<open>SchemeBuilder.Register\<close> is given; \<open>AddToScheme\<close> adds them under the group.\<close>

definition registered_types :: "string list" where
  "registered_types = [''TeamCity'', ''TeamCityList'']"

datatype scheme_addition = ClientGoTypes | GroupTypes schema_GroupVersion "string list"

subsection \<open>The process\<close>

text \<open>
  The environment, and the flags as given on the command line: an absent flag has its default. What
  the logger's flags set is left out.
\<close>

record process =
  proc_Env :: "string \<Rightarrow> string option"
  flag_metrics_bind_address :: "string option"
  flag_health_probe_bind_address :: "string option"
  flag_leader_elect :: "bool option"

definition os_Getenv :: "process \<Rightarrow> string \<Rightarrow> string" where
  "os_Getenv P key = (case proc_Env P key of None \<Rightarrow> '''' | Some v \<Rightarrow> v)"

text \<open>The options the manager is made with; \<open>CertDir\<close> is the one field of the webhook server's options set.\<close>

record manager_Options =
  mo_MetricsBindAddress :: string
  mo_HealthProbeBindAddress :: string
  mo_LeaderElection :: bool
  mo_LeaderElectionID :: string
  mo_WebhookCertDir :: string

datatype startup_step =
    AddToScheme scheme_addition
  | GetConfigOrDie
  | NewManager manager_Options
  | SetupController controller_setup
  | SetupWebhook
  | AddHealthzCheck string
  | AddReadyzCheck string
  | Start
  | LogError string go_error
  | Exit nat
  | PanicError go_error

text \<open>How the library answers each step: an error, or nil.\<close>

type_synonym startup_answers = "startup_step \<Rightarrow> go_error option"

text \<open>\<open>if err := step; err != nil { setupLog.Error(err, message); os.Exit(1) }\<close> and what follows it.\<close>

definition step_or_exit ::
  "startup_answers \<Rightarrow> startup_step \<Rightarrow> string \<Rightarrow> startup_step list \<Rightarrow> startup_step list" where
  "step_or_exit A step message rest =
     step # (case A step of None \<Rightarrow> rest | Some err \<Rightarrow> [LogError message err, Exit 1])"

text \<open>\<open>utilruntime.Must(step)\<close> panics on an error.\<close>

definition step_or_panic :: "startup_answers \<Rightarrow> startup_step \<Rightarrow> startup_step list \<Rightarrow> startup_step list" where
  "step_or_panic A step rest = step # (case A step of None \<Rightarrow> rest | Some err \<Rightarrow> [PanicError err])"

text \<open>\<open>ctrl.GetConfigOrDie()\<close> ends the process itself when there is no configuration.\<close>

definition step_or_die :: "startup_answers \<Rightarrow> startup_step \<Rightarrow> startup_step list \<Rightarrow> startup_step list" where
  "step_or_die A step rest = step # (case A step of None \<Rightarrow> rest | Some err \<Rightarrow> [Exit 1])"

definition webhookCertDir :: "process \<Rightarrow> string" where
  "webhookCertDir P =
     (if os_Getenv P ''ENABLE_WEBHOOKS'' \<noteq> ''false''
      then (case proc_Env P ''CERT_DIR_PATH'' of
              Some certDirPath \<Rightarrow> if certDirPath \<noteq> '''' then certDirPath else ''''
            | None \<Rightarrow> '''')
      else '''')"

definition managerOptions :: "process \<Rightarrow> manager_Options" where
  "managerOptions P =
     \<lparr>mo_MetricsBindAddress = (case flag_metrics_bind_address P of None \<Rightarrow> '':8080'' | Some a \<Rightarrow> a),
      mo_HealthProbeBindAddress = (case flag_health_probe_bind_address P of None \<Rightarrow> '':8081'' | Some a \<Rightarrow> a),
      mo_LeaderElection = (case flag_leader_elect P of None \<Rightarrow> False | Some b \<Rightarrow> b),
      mo_LeaderElectionID = ''1d18db30.jetbrains.com'',
      mo_WebhookCertDir = webhookCertDir P\<rparr>"

text \<open>The init function of the package, then \<open>main\<close>; \<open>rest\<close> follows.\<close>

definition scheme_init :: "startup_answers \<Rightarrow> startup_step list \<Rightarrow> startup_step list" where
  "scheme_init A rest =
     step_or_panic A (AddToScheme ClientGoTypes)
       (step_or_panic A (AddToScheme (GroupTypes GroupVersion registered_types)) rest)"

text \<open>\<open>SetupWebhookWithManager\<close> builds the webhook for \<open>TeamCity\<close> and completes it: one step here.\<close>

definition SetupWebhookWithManager ::
  "startup_answers \<Rightarrow> string \<Rightarrow> startup_step list \<Rightarrow> startup_step list" where
  "SetupWebhookWithManager A message rest = step_or_exit A SetupWebhook message rest"

definition main :: "k8s_lib \<Rightarrow> process \<Rightarrow> startup_answers \<Rightarrow> startup_step list" where
  "main L P A =
     step_or_die A GetConfigOrDie
    (step_or_exit A (NewManager (managerOptions P)) ''unable to start manager''
    (step_or_exit A (SetupController (SetupWithManager L)) ''unable to create controller''
      (let rest =
         step_or_exit A (AddHealthzCheck ''healthz'') ''unable to set up health check''
        (step_or_exit A (AddReadyzCheck ''readyz'') ''unable to set up ready check''
        (step_or_exit A Start ''problem running manager'' []))
       in if os_Getenv P ''ENABLE_WEBHOOKS'' \<noteq> ''false''
          then SetupWebhookWithManager A ''unable to create webhook'' rest
          else rest)))"

definition operator_process :: "k8s_lib \<Rightarrow> process \<Rightarrow> startup_answers \<Rightarrow> startup_step list" where
  "operator_process L P A = scheme_init A (main L P A)"

subsection \<open>The order of the steps\<close>

text \<open>The steps of a start at which nothing fails.\<close>

definition startup_steps :: "k8s_lib \<Rightarrow> process \<Rightarrow> startup_step list" where
  "startup_steps L P =
     [AddToScheme ClientGoTypes, AddToScheme (GroupTypes GroupVersion registered_types), GetConfigOrDie,
      NewManager (managerOptions P), SetupController (SetupWithManager L)] @
     (if os_Getenv P ''ENABLE_WEBHOOKS'' \<noteq> ''false'' then [SetupWebhook] else []) @
     [AddHealthzCheck ''healthz'', AddReadyzCheck ''readyz'', Start]"

text \<open>What ends the process after a failed step.\<close>

definition ends_process :: "go_error \<Rightarrow> startup_step list \<Rightarrow> bool" where
  "ends_process err final \<longleftrightarrow> final = [PanicError err] \<or> final = [Exit 1] \<or> (\<exists>message. final = [LogError message err, Exit 1])"

definition stops_at_first_failure :: "startup_answers \<Rightarrow> startup_step list \<Rightarrow> startup_step list \<Rightarrow> bool" where
  "stops_at_first_failure A steps run \<longleftrightarrow>
     (case List.extract (\<lambda>step. A step \<noteq> None) steps of
        None \<Rightarrow> run = steps
      | Some (before, step, after) \<Rightarrow> \<exists>final. run = before @ step # final \<and> ends_process (the (A step)) final)"

lemma stops_Nil: "stops_at_first_failure A [] []"
  by (simp add: stops_at_first_failure_def extract_Nil_code)

lemma stops_Cons:
  assumes "A step = None \<Longrightarrow> stops_at_first_failure A steps rest"
    and "\<And>err. A step = Some err \<Longrightarrow> ends_process err (final err)"
  shows "stops_at_first_failure A (step # steps) (step # (case A step of None \<Rightarrow> rest | Some err \<Rightarrow> final err))"
proof (cases "A step")
  case None
  with assms(1) show ?thesis
    by (auto simp: stops_at_first_failure_def extract_Cons_code split: option.splits)
next
  case (Some err)
  with assms(2) show ?thesis by (auto simp: stops_at_first_failure_def extract_Cons_code)
qed

lemma stops_steps:
  assumes "stops_at_first_failure A steps rest"
  shows "stops_at_first_failure A (step # steps) (step_or_exit A step message rest)"
    "stops_at_first_failure A (step # steps) (step_or_panic A step rest)"
    "stops_at_first_failure A (step # steps) (step_or_die A step rest)"
  unfolding step_or_exit_def step_or_panic_def step_or_die_def
  by (rule stops_Cons; simp add: assms ends_process_def)+

text \<open>
  (C39) Starting the operator takes the steps of \<open>startup_steps\<close> in order - the types, the manager, the
  controller, the webhook unless it is switched off, both probes, and last the start of the manager -
  and the first step that fails is the last one taken: the process then panics or exits with 1.
\<close>

theorem startup_stops_at_first_failure:
  "stops_at_first_failure A (startup_steps L P) (operator_process L P A)"
  unfolding startup_steps_def operator_process_def scheme_init_def main_def SetupWebhookWithManager_def Let_def
  by (cases "os_Getenv P ''ENABLE_WEBHOOKS'' \<noteq> ''false''") (auto intro!: stops_steps stops_Nil)

end
