(* ===== verification/Fixtures.thy ===== *)
theory Fixtures
  imports Builders
begin

section \<open>The fixtures of the unit tests (internal/resource/testutils.go)\<close>

text \<open>
  The resource the repository's unit tests of the builders start from, and what the tests add to it.
  A quantity is its manifest text, and so is a part the operator only copies: the specs of services
  and ingresses, an affinity, the rest of an init container, a key reference to a ConfigMap.
\<close>

subsection \<open>Names\<close>

definition TeamCityName :: string where "TeamCityName = ''test''"
definition TeamCityNamespace :: string where "TeamCityNamespace = ''default''"
definition TeamCityImage :: string where "TeamCityImage = ''jetbrains/teamcity-server:latest''"

definition StaleStatefulSetName :: string where "StaleStatefulSetName = ''StaleSTS''"
definition StaleServiceAccountName :: string where "StaleServiceAccountName = ''StaleServiceAccount''"
definition StaleIngressName :: string where "StaleIngressName = ''StaleIngress''"
definition StalePvcName :: string where "StalePvcName = ''StalePvc''"
definition StaleServiceName :: string where "StaleServiceName = ''StaleService''"

definition mainNodeName :: string where "mainNodeName = ''main-node''"
definition serviceNameMain :: string where "serviceNameMain = TeamCityName @ ''-service-main''"
definition serviceNameSecondary :: string where "serviceNameSecondary = TeamCityName @ ''-service-secondary''"
definition ingressNameFirst :: string where "ingressNameFirst = TeamCityName @ ''-ingress-first''"
definition ingressNameSecondary :: string where "ingressNameSecondary = TeamCityName @ ''-ingress-secondary''"

lemmas fixture_names =
  TeamCityName_def TeamCityNamespace_def TeamCityImage_def StaleStatefulSetName_def
  StaleServiceAccountName_def StaleIngressName_def StalePvcName_def StaleServiceName_def
  mainNodeName_def serviceNameMain_def serviceNameSecondary_def ingressNameFirst_def
  ingressNameSecondary_def

subsection \<open>The base resource\<close>

definition xmxPercentage :: int where "xmxPercentage = 95"

definition dataDirPVCSpec :: PersistentVolumeClaimSpec where
  "dataDirPVCSpec = zero_PersistentVolumeClaimSpec\<lparr>
     pc_AccessModes := [''ReadWriteMany''],
     pc_StorageClassName := Some ''standard'',
     pc_VolumeMode := Some ''Filesystem'',
     pc_Requests := fmap_of_list [(''storage'', ''1Gi'')]\<rparr>"

definition dataDirPVC :: CustomPersistentVolumeClaim where
  "dataDirPVC =
     \<lparr>cc_Name = ''data-dir'', cc_Annotations = fmempty,
      cc_VolumeMount = \<lparr>vm_Name = ''default-storage'', vm_MountPath = ''/storage'', vm_rest = ''''\<rparr>,
      cc_Spec = dataDirPVCSpec\<rparr>"

definition requests :: ResourceList where
  "requests = fmap_of_list [(''cpu'', ''900m''), (''memory'', ''1512Mi'')]"

definition zero_ServiceAccount :: ServiceAccount where
  "zero_ServiceAccount = \<lparr>account_Name = '''', account_Annotations = fmempty\<rparr>"

definition getBaseTcInstance :: TeamCity where
  "getBaseTcInstance =
     \<lparr>tc_meta = named_ObjectMeta TeamCityName TeamCityNamespace,
      tc_Spec =
        \<lparr>sp_Image = TeamCityImage,
         sp_MainNode =
           \<lparr>node_Name = mainNodeName, node_Annotations = fmempty,
            node_Spec = zero_NodeSpec\<lparr>ns_Requests := requests\<rparr>\<rparr>,
         sp_SecondaryNodes = [], sp_DataDirVolumeClaim = dataDirPVC, sp_PersistentVolumeClaims = [],
         sp_XmxPercentage = xmxPercentage, sp_TeamCityServerPort = '''', sp_ReadinessEndpoint = '''',
         sp_HealthEndpoint = '''', sp_DatabaseSecret = '''', sp_StartupPropertiesConfig = fmempty,
         sp_ServiceList = [], sp_IngressList = [], sp_ServiceAccount = zero_ServiceAccount\<rparr>,
      tc_Status = \<lparr>ts_State = '''', ts_Message = ''''\<rparr>\<rparr>"

text \<open>\<open>BeforeEachBuild\<close> leaves the modified instance and a builder of each kind for it.\<close>

definition BeforeEachBuild :: "(TeamCity \<Rightarrow> TeamCity) \<Rightarrow> TeamCity \<times> ResourceBuilder list" where
  "BeforeEachBuild modify =
     (let Instance = modify getBaseTcInstance in
      (Instance,
       [StatefulSetBuilder Instance, ServiceBuilder Instance, IngressBuilder Instance,
        PersistentVolumeClaimBuilder Instance, SecondaryStatefulSetBuilder Instance,
        ServiceAccountBuilder Instance]))"

text \<open>The modifications of the tests assign to fields of the spec.\<close>

abbreviation set_spec :: "(TeamCitySpec \<Rightarrow> TeamCitySpec) \<Rightarrow> TeamCity \<Rightarrow> TeamCity" where
  "set_spec f t \<equiv> t\<lparr>tc_Spec := f (tc_Spec t)\<rparr>"

subsection \<open>What the tests add\<close>

definition getStartupConfigurations :: smap where
  "getStartupConfigurations = fmap_of_list [(''foo'', ''bar''), (''hello'', ''world'')]"

definition getDatabaseSecret :: DatabaseSecret where
  "getDatabaseSecret = ''database-secret''"

definition getNodeSelector :: smap where
  "getNodeSelector = fmap_of_list [(''hello'', ''world''), (''foo'', ''bar'')]"

definition getAffinity :: opaque where
  "getAffinity =
     ''{nodeAffinity: {requiredDuringSchedulingIgnoredDuringExecution: {nodeSelectorTerms: '' @
     ''[{matchExpressions: [{key: some-key, operator: In, values: [some-value]}]}]}, '' @
     ''preferredDuringSchedulingIgnoredDuringExecution: [{weight: 5, preference: '' @
     ''{matchExpressions: [{key: some-key, operator: In, values: [some-value]}]}}]}}''"

definition getInitContainers :: "Container list" where
  "getInitContainers =
     [zero_Container\<lparr>
        ct_Name := ''volume-permissions'',
        ct_Image := ''busybox'',
        ct_VolumeMounts := [\<lparr>vm_Name = ''teamcity-node-volume1'', vm_MountPath = ''/storage'', vm_rest = ''''\<rparr>],
        ct_rest := ''{command: [sh, -c, chown -R 1000:1000 /storage], '' @
          ''securityContext: {runAsNonRoot: false, runAsUser: 0}}''\<rparr>]"

definition getAdditionalPVC :: CustomPersistentVolumeClaim where
  "getAdditionalPVC =
     \<lparr>cc_Name = ''some-additional-data'', cc_Annotations = fmempty,
      cc_VolumeMount = \<lparr>vm_Name = ''plugin-data'', vm_MountPath = ''/storage/plugins'', vm_rest = ''''\<rparr>,
      cc_Spec = zero_PersistentVolumeClaimSpec\<lparr>
        pc_AccessModes := [''ReadWriteMany''],
        pc_StorageClassName := Some ''standard'',
        pc_VolumeMode := Some ''Filesystem''\<rparr>\<rparr>"

definition getServiceList :: "Service list" where
  "getServiceList =
     (let spec = ''{ports: [{port: 8111, targetPort: 8111}], selector: {app.kubernetes.io/name: test}}'' in
     [\<lparr>service_Name = serviceNameMain, service_Annotations = fmap_of_list [(''role'', ''tc-main'')],
       service_ServiceSpec = spec\<rparr>,
      \<lparr>service_Name = serviceNameSecondary, service_Annotations = fmap_of_list [(''role'', ''tc-secondary'')],
       service_ServiceSpec = spec\<rparr>])"

definition getLabels :: smap where
  "getLabels = fmap_of_list
     [(''foo'', ''bar''), (''teamcity'', ''the best''), (''app.kubernetes.io/name'', ''label-override-test'')]"

definition getIngressList :: "Ingress list" where
  "getIngressList =
     (let ingressSpec = (\<lambda>host. ''{ingressClassName: nginx, rules: [{host: '' @ host @
            '', http: {paths: [{backend: {service: {name: '' @ serviceNameMain @ '', port: {number: 8111}}}}]}}]}'')
      in
     [\<lparr>ingress_Name = ingressNameFirst, ingress_Annotations = fmap_of_list [(''role'', ''tc-main'')],
       ingress_IngressSpec = ingressSpec (TeamCityName @ ''.myteamcity.com'')\<rparr>,
      \<lparr>ingress_Name = ingressNameSecondary, ingress_Annotations = fmap_of_list [(''role'', ''tc-secondary'')],
       ingress_IngressSpec = ingressSpec (TeamCityName @ ''-secondary.myteamcity.com'')\<rparr>])"

definition getNode :: "string \<Rightarrow> smap \<Rightarrow> ResourceList \<Rightarrow> string list \<Rightarrow> Node" where
  "getNode nodeName annotations reqs responsibilities =
     \<lparr>node_Name = nodeName, node_Annotations = annotations,
      node_Spec = zero_NodeSpec\<lparr>ns_Requests := reqs, ns_Responsibilities := responsibilities\<rparr>\<rparr>"

definition getSecondaryNodes :: "Node list" where
  "getSecondaryNodes =
     [getNode ''secondary-0'' fmempty requests [''foo''], getNode ''secondary-1'' fmempty requests [''bar'']]"

definition getServiceAccount :: ServiceAccount where
  "getServiceAccount =
     \<lparr>account_Name = ''test-service-account'',
      account_Annotations = fmap_of_list [(''eks.amazonaws.com/role-arn'', ''some-role'')]\<rparr>"

definition getExtraNodeEnvVars :: "EnvVar list" where
  "getExtraNodeEnvVars =
     [\<lparr>ev_Name = ''AWS_DEFAULT_REGION'', ev_Value = ''eu-west-1'', ev_ValueFrom = None\<rparr>,
      \<lparr>ev_Name = ''HELLO'', ev_Value = ''WORLD'', ev_ValueFrom = None\<rparr>,
      \<lparr>ev_Name = ''AWS_ACCESS_KEY_ID'', ev_Value = '''',
       ev_ValueFrom = Some (SecretKeyRef ''aws-creds'' ''access-key-id'')\<rparr>,
      \<lparr>ev_Name = ''FEATURE_FLAGS'', ev_Value = '''',
       ev_ValueFrom = Some (OtherSource ''{configMapKeyRef: {name: tc-config, key: feature-flags}}'')\<rparr>]"

end
