(* ===== verification/Unit_Tests.thy ===== *)
theory Unit_Tests
  imports Fixtures Sample_Runs Webhook Predicates
begin

section \<open>The unit tests of the repository, on the model\<close>

text \<open>
  What the unit tests of the repository expect of the code, proved of the model on the inputs of the
  tests: evidence that the definitions say what the code does. A subsection names the test file it
  follows; a lemma has the name of the test, or of its description.
\<close>

subsection \<open>The stages of an upgrade (\<open>checkpoint\<close>)\<close>

lemma test_NewStage:
  "NewStage StageReplicaReady = ReplicaReady" "NewStage StageMainReady = MainReady"
  "NewStage StageMainShuttingDown = MainShuttingDown" "NewStage StageUpdateFinished = UpdateFinished"
  "NewStage ''unknown'' = UpdateInitiated" "NewStage '''' = UpdateInitiated"
  by (simp_all add: NewStage_def stage_string_defs)

lemma test_Stage_String: "Stage_String 999 = StageUpdateInitiated" "Stage_String MainReady = StageMainReady"
  by (simp_all add: Stage_String_def stage_defs)

lemma test_BuildCheckpointConfigMap:
  "om_Name (cm_meta (BuildCheckpointConfigMap ReplicaReady ''my-teamcity'' ''default'')) = ''update-checkpoint-my-teamcity''"
  "om_Namespace (cm_meta (BuildCheckpointConfigMap ReplicaReady ''my-teamcity'' ''default'')) = ''default''"
  "map_get (cm_Data (BuildCheckpointConfigMap ReplicaReady ''my-teamcity'' ''default'')) StageConfigMapKey = StageReplicaReady"
  by (simp_all add: BuildCheckpointConfigMap_def ConstructCheckpointName_def StageConfigMapNamePrefix_def
      Stage_String_def stage_defs)

lemma test_canChangeStageValue:
  "canChangeStageValue ReplicaCreated ReplicaCreated = Inr True" "canChangeStageValue ReplicaCreated ReplicaStarting = Inr True"
  "\<exists>e. canChangeStageValue ReplicaCreated ReplicaReady = Inl e" "\<exists>e. canChangeStageValue ReplicaReady ReplicaCreated = Inl e"
  "canChangeStageValue UpdateInitiated ReplicaCreated = Inr True" "canChangeStageValue MainReady UpdateFinished = Inr True"
  by (simp_all add: canChangeStageValue_def stage_defs)

lemma test_GetStageStringValueFromConfigMap:
  "GetStageStringValueFromConfigMap \<lparr>cm_meta = m, cm_Data = fmupd StageConfigMapKey StageReplicaReady fmempty\<rparr> = (ReplicaReady, None)"
  "\<exists>e. snd (GetStageStringValueFromConfigMap \<lparr>cm_meta = m, cm_Data = fmempty\<rparr>) = Some e \<and> strings_Contains (error_Error e) ''missing''"
  by (simp_all add: GetStageStringValueFromConfigMap_def test_NewStage)

lemma test_getInitialStageFromInstance:
  "getInitialStageFromInstance (sample_tc a d [sample_node ''secondary-1'']) = ReplicaReady"
  "getInitialStageFromInstance (sample_tc a d []) = UpdateInitiated"
  by (simp_all add: getInitialStageFromInstance_def IsMultiNode_def)

subsection \<open>The resource types (\<open>teamcity_types_test.go\<close>, \<open>teamcity_recreate_test.go\<close>)\<close>

lemma test_GetAllNodes:
  "map node_Name (GetAllNodes (sample_tc a d [sample_node ''secondary-1'', sample_node ''secondary-2''])) =
     [''secondary-1'', ''secondary-2'', ''main'']"
  "map node_Name (GetAllNodes (sample_tc a d [])) = [''main'']"
  by (simp_all add: GetAllNodes_def)

lemma test_Provided:
  "\<not> StartUpPropertiesConfigProvided getBaseTcInstance" "\<not> DatabaseSecretProvided getBaseTcInstance"
  "\<not> ServiceAccountProvided getBaseTcInstance" "DataDirPath getBaseTcInstance = ''/storage''"
  "StartUpPropertiesConfigProvided (set_spec (\<lambda>s. s\<lparr>sp_StartupPropertiesConfig := fmupd ''key'' ''value'' fmempty\<rparr>) getBaseTcInstance)"
  "DatabaseSecretProvided (set_spec (\<lambda>s. s\<lparr>sp_DatabaseSecret := ''my-secret''\<rparr>) getBaseTcInstance)"
  by (simp_all add: StartUpPropertiesConfigProvided_def DatabaseSecretProvided_def ServiceAccountProvided_def
      DataDirPath_def getBaseTcInstance_def zero_ServiceAccount_def dataDirPVC_def)

lemma test_GetAllCustomPersistentVolumeClaim:
  "map cc_Name (GetAllCustomPersistentVolumeClaim
     (set_spec (\<lambda>s. s\<lparr>sp_PersistentVolumeClaims := [getAdditionalPVC]\<rparr>) getBaseTcInstance)) =
     [''some-additional-data'', ''data-dir'']"
  by (simp add: GetAllCustomPersistentVolumeClaim_def getBaseTcInstance_def getAdditionalPVC_def dataDirPVC_def)

lemma test_annotations:
  "UsesZeroDownTimeUpgradePolicy (sample_tc (fmupd UpdatePolicyAnnotationKey ZeroDownTimeAnnotation fmempty) d s)"
  "\<not> UsesZeroDownTimeUpgradePolicy (sample_tc (fmupd UpdatePolicyAnnotationKey ''rolling'' fmempty) d s)"
  "\<not> UsesZeroDownTimeUpgradePolicy (sample_tc fmempty d s)"
  "AllowsStatefulSetRecreate (sample_tc (fmupd AllowStsRecreateAnnotationKey AllowStsRecreateAnnotationValue fmempty) d s)"
  "\<not> AllowsStatefulSetRecreate (sample_tc (fmupd AllowStsRecreateAnnotationKey ''false'' fmempty) d s)"
  "\<not> AllowsStatefulSetRecreate (sample_tc fmempty d s)"
  by (simp_all add: UsesZeroDownTimeUpgradePolicy_def AllowsStatefulSetRecreate_def ZeroDownTimeAnnotation_def
      AllowStsRecreateAnnotationValue_def)

definition served :: "string \<Rightarrow> string \<Rightarrow> Node" where
  "served name service = (sample_node name)\<lparr>node_Spec := zero_NodeSpec\<lparr>ns_ServiceName := service\<rparr>\<rparr>"

definition served_tc :: "string \<Rightarrow> Node list \<Rightarrow> TeamCity" where
  "served_tc service secondaries =
     set_spec (\<lambda>s. s\<lparr>sp_MainNode := served ''main'' service\<rparr>) (sample_tc fmempty False secondaries)"

lemma test_ServiceNameChangedInSpec:
  "\<not> ServiceNameChangedInSpec (served_tc ''svc-a'' [served ''secondary'' ''svc-secondary''])
      (served_tc ''svc-a'' [served ''secondary'' ''svc-secondary''])"
  "ServiceNameChangedInSpec (served_tc ''svc-a'' [served ''secondary'' ''svc-secondary''])
      (served_tc ''svc-b'' [served ''secondary'' ''svc-secondary''])"
  "ServiceNameChangedInSpec (served_tc ''svc-a'' [served ''secondary'' ''svc-secondary''])
      (served_tc ''svc-a'' [served ''secondary'' ''svc-new''])"
  "\<not> ServiceNameChangedInSpec (served_tc ''svc-a'' [served ''secondary'' ''svc-secondary''])
      (served_tc ''svc-a'' [served ''secondary'' ''svc-secondary'', served ''secondary-2'' ''svc-new''])"
  by (simp_all add: ServiceNameChangedInSpec_def oldSecondaryServiceNames_def served_tc_def served_def
      sample_tc_def sample_spec_def sample_node_def)

subsection \<open>Recreating a StatefulSet (\<open>statefulset_recreate_test.go\<close>, \<open>teamcity_feedback_test.go\<close>)\<close>

lemma test_ImmutableStatefulSetSpecChanged:
  "ImmutableStatefulSetSpecChanged a b \<longleftrightarrow> ss_ServiceName (sts_Spec a) \<noteq> ss_ServiceName (sts_Spec b)"
  by (simp add: ImmutableStatefulSetSpecChanged_def no_field_changes)

lemma test_FormatImmutableStatefulSetFieldChanges:
  "FormatImmutableStatefulSetFieldChanges
     [\<lparr>fc_Field = ''spec.serviceName'', fc_Current = ''(not set)'', fc_Desired = ''headless-svc''\<rparr>] =
     ''spec.serviceName: current=(not set), desired=headless-svc''"
  by (simp add: FormatImmutableStatefulSetFieldChanges_def)

lemma test_UserMessage:
  assumes "message = UserMessage (newStatefulSetRecreateBlockedError ''node'' ''node''
     [\<lparr>fc_Field = ''spec.serviceName'', fc_Current = ''(not set)'', fc_Desired = ''tc-sample-one-svc''\<rparr>])"
  shows "strings_Contains message (''StatefulSet '' @ strconv_Quote ''node'')"
    "strings_Contains message (''node '' @ strconv_Quote ''node'')"
    "strings_Contains message ''spec.serviceName: current=(not set), desired=tc-sample-one-svc''"
    "strings_Contains message (''teamcity.jetbrains.com/allow-sts-recreate='' @ strconv_Quote ''true'')"
    "strings_Contains message ''delete and recreate''"
  by (simp_all add: assms UserMessage_def newStatefulSetRecreateBlockedError_def Let_def
      FormatImmutableStatefulSetFieldChanges_def AllowStsRecreateAnnotationKey_def
      AllowStsRecreateAnnotationValue_def strconv_Quote_def quote_char_def)

lemma test_isStatefulSetBuilder:
  "isStatefulSetBuilder (StatefulSetBuilder t)" "isStatefulSetBuilder (SecondaryStatefulSetBuilder t)"
  "\<not> isStatefulSetBuilder (ServiceBuilder t)" "\<not> isStatefulSetBuilder (IngressBuilder t)"
  by simp_all

lemma test_isStatefulSetImmutableFieldUpdateError:
  "\<not> isStatefulSetImmutableFieldUpdateError
      (RecreateBlocked \<lparr>rb_StatefulSetName = '''', rb_NodeName = '''', rb_Changes = []\<rparr>)"
  "isStatefulSetImmutableFieldUpdateError (FmtError
     (''StatefulSet.apps '' @ strconv_Quote ''node'' @ '' is invalid: spec: Forbidden: updates to statefulset spec '' @
      ''for fields other than replicas, ordinals, template are forbidden''))"
  by (simp_all add: isStatefulSetImmutableFieldUpdateError_def strconv_Quote_def quote_char_def Let_def
      UserMessage_def FormatImmutableStatefulSetFieldChanges_def AllowStsRecreateAnnotationKey_def
      AllowStsRecreateAnnotationValue_def)

subsection \<open>The predicates (\<open>predicate_test.go\<close>)\<close>

definition claim_of_class :: "string \<Rightarrow> k8s_object" where
  "claim_of_class class = PersistentVolumeClaimObject
     \<lparr>pvc_meta = zero_ObjectMeta, pvc_Spec = zero_PersistentVolumeClaimSpec\<lparr>pc_StorageClassName := Some class\<rparr>\<rparr>"

definition StatefulSet_of_image :: "string \<Rightarrow> k8s_object" where
  "StatefulSet_of_image img =
     StatefulSetObject (set_Containers [zero_Container\<lparr>ct_Image := img\<rparr>] zero_StatefulSet)"

lemmas predicate_test_defs =
  PersistentVolumeClaimEventPredicates_def StatefulSetEventPredicates_def TeamcityEventPredicates_def
  shouldFilterOutUpdateEventForPersistentVolumeClaim_def shouldFilterOutUpdateEventForStatefulSet_def
  as_PersistentVolumeClaim_def as_StatefulSet_def claim_of_class_def StatefulSet_of_image_def
  set_Containers_def Let_def sample_lib_def Predicates.equal_def zero_StatefulSet_def
  zero_StatefulSetSpec_def zero_PodSpec_def zero_Container_def zero_PersistentVolumeClaimSpec_def

lemma test_claim_predicate:
  fixes p defines "p \<equiv> PersistentVolumeClaimEventPredicates sample_lib"
  shows "UpdateFunc p \<lparr>ue_ObjectOld = Some (claim_of_class ''standard''), ue_ObjectNew = Some (claim_of_class ''premium'')\<rparr>"
    "\<not> UpdateFunc p \<lparr>ue_ObjectOld = Some (claim_of_class c), ue_ObjectNew = Some (claim_of_class c)\<rparr>"
    "\<not> UpdateFunc p \<lparr>ue_ObjectOld = Some (StatefulSet_of_image ''''), ue_ObjectNew = Some (claim_of_class c)\<rparr>"
    "\<not> UpdateFunc p \<lparr>ue_ObjectOld = Some (claim_of_class c), ue_ObjectNew = Some (StatefulSet_of_image '''')\<rparr>"
    "CreateFunc p \<lparr>ce_Object = Some (claim_of_class c)\<rparr>"
    "\<not> DeleteFunc p \<lparr>de_Object = None, de_DeleteStateUnknown = True\<rparr>"
    "DeleteFunc p \<lparr>de_Object = None, de_DeleteStateUnknown = False\<rparr>"
    "GenericFunc p \<lparr>ge_Object = Some (claim_of_class c)\<rparr>"
  by (simp_all add: p_def predicate_test_defs)

lemma test_StatefulSet_predicate:
  fixes p defines "p \<equiv> StatefulSetEventPredicates sample_lib"
  shows "UpdateFunc p \<lparr>ue_ObjectOld = Some (StatefulSet_of_image ''nginx''), ue_ObjectNew = Some (StatefulSet_of_image ''ngins'')\<rparr>"
    "\<not> UpdateFunc p \<lparr>ue_ObjectOld = Some (StatefulSet_of_image i), ue_ObjectNew = Some (StatefulSet_of_image i)\<rparr>"
    "\<not> UpdateFunc p \<lparr>ue_ObjectOld = Some (StatefulSet_of_image i), ue_ObjectNew = Some (claim_of_class c)\<rparr>"
    "CreateFunc p \<lparr>ce_Object = Some (StatefulSet_of_image i)\<rparr>"
    "\<not> DeleteFunc p \<lparr>de_Object = None, de_DeleteStateUnknown = True\<rparr>"
    "DeleteFunc p \<lparr>de_Object = None, de_DeleteStateUnknown = False\<rparr>"
    "GenericFunc p \<lparr>ge_Object = Some (StatefulSet_of_image i)\<rparr>"
  by (simp_all add: p_def predicate_test_defs)

lemma test_TeamCity_predicate:
  "CreateFunc TeamcityEventPredicates \<lparr>ce_Object = Some (TeamCityObject t)\<rparr>"
  "\<not> DeleteFunc TeamcityEventPredicates \<lparr>de_Object = None, de_DeleteStateUnknown = True\<rparr>"
  "DeleteFunc TeamcityEventPredicates \<lparr>de_Object = None, de_DeleteStateUnknown = False\<rparr>"
  "UpdateFunc TeamcityEventPredicates \<lparr>ue_ObjectOld = Some (TeamCityObject t), ue_ObjectNew = Some (TeamCityObject t)\<rparr>"
  "GenericFunc TeamcityEventPredicates \<lparr>ge_Object = Some (TeamCityObject t)\<rparr>"
  by (simp_all add: predicate_test_defs)

subsection \<open>The webhook (\<open>teamcity_webhook_recreate_test.go\<close>)\<close>

text \<open>The test's resource, with the data directory claim of the fixtures.\<close>

definition validTeamCityForWebhookTest :: "string \<Rightarrow> smap \<Rightarrow> TeamCity" where
  "validTeamCityForWebhookTest service annotations =
     getBaseTcInstance\<lparr>tc_meta := (named_ObjectMeta ''teamcity'' '''')\<lparr>om_Annotations := annotations\<rparr>,
       tc_Spec := (tc_Spec getBaseTcInstance)
         \<lparr>sp_MainNode := (getNode ''main'' fmempty (fmap_of_list [(''cpu'', ''500m''), (''memory'', ''1Gi'')]) [])
            \<lparr>node_Spec := zero_NodeSpec\<lparr>ns_Requests := fmap_of_list [(''cpu'', ''500m''), (''memory'', ''1Gi'')],
              ns_ServiceName := service\<rparr>\<rparr>\<rparr>\<rparr>"

lemma test_ValidateUpdate_service_name:
  fixes old refused accepted
  defines "old \<equiv> TeamCityObject (validTeamCityForWebhookTest '''' fmempty)"
    and "refused \<equiv> ValidateUpdate sample_lib (validTeamCityForWebhookTest ''headless-svc'' fmempty) old"
    and "accepted \<equiv> ValidateUpdate sample_lib (validTeamCityForWebhookTest ''headless-svc''
      (fmupd AllowStsRecreateAnnotationKey AllowStsRecreateAnnotationValue fmempty)) old"
  shows "refused = ([], Some (AdmissionError serviceNameChangeRefused))"
    "strings_Contains serviceNameChangeRefused AllowStsRecreateAnnotationKey"
    "accepted = ([serviceNameChangeWarning], None)"
    "strings_Contains serviceNameChangeWarning ''will be recreated''"
proof -
  have fields: "validateCommonFields sample_lib (validTeamCityForWebhookTest service annotations) = ([], None)"
    for service annotations
    by (simp add: validateCommonFields_def validateRequestsOfAllNodes_def validateRequestsInNode_def
        validateXmxPercentage_def validateAllCustomPersistentVolumeClaimsInObject_def
        validateCustomPersistentVolumeClaim_def validateResponsibilitiesOfAllNodes_def
        allNodesHaveEmptyResponsibility_def validTeamCityForWebhookTest_def getBaseTcInstance_def
        dataDirPVC_def dataDirPVCSpec_def xmxPercentage_def map_get_def fmlookup_of_list zero_NodeSpec_def Let_def
        getAllResponsibilitiesFromAllNodes_def)
  show "refused = ([], Some (AdmissionError serviceNameChangeRefused))"
    "accepted = ([serviceNameChangeWarning], None)"
    by (simp_all add: refused_def accepted_def old_def ValidateUpdate_def fields)
      (simp_all add: ServiceNameChangedInSpec_def AllowsStatefulSetRecreate_def validTeamCityForWebhookTest_def
        AllowStsRecreateAnnotationValue_def zero_NodeSpec_def named_ObjectMeta_def zero_ObjectMeta_def)
  show "strings_Contains serviceNameChangeRefused AllowStsRecreateAnnotationKey"
    "strings_Contains serviceNameChangeWarning ''will be recreated''"
    by (simp_all add: serviceNameChangeRefused_def serviceNameChangeWarning_def AllowStsRecreateAnnotationKey_def
        AllowStsRecreateAnnotationValue_def strconv_Quote_def quote_char_def)
qed

end
