(* ===== verification/Builder_Tests.thy ===== *)
theory Builder_Tests
  imports Unit_Tests Builder_Contracts
begin

section \<open>The unit tests of the builders, on the model\<close>

text \<open>
  What the tests of \<open>internal/resource\<close> expect of the builders, proved of the model for the
  resources \<open>Fixtures\<close> describes. Both StatefulSet builders leave the same object for a node, so a
  test that \<open>statefulset_test.go\<close> and \<open>secondarystatefulset_test.go\<close> share is one lemma.
\<close>

subsection \<open>The StatefulSet a builder leaves\<close>

definition filled :: "TeamCity \<Rightarrow> Node \<Rightarrow> string \<Rightarrow> StatefulSet" where
  "filled t node role =
     (let s = BuildDesiredStatefulSet sample_lib t node
            (GetStatefulSetLabels (tc_Name t) (node_Name node) role (tc_Labels t))
      in s\<lparr>sts_meta := (sts_meta s)\<lparr>om_OwnerReferences := [tc_Name t]\<rparr>\<rparr>)"

definition filled_container :: "TeamCity \<Rightarrow> Node \<Rightarrow> Container" where
  "filled_container t node = ConfigureContainer sample_lib t node zero_Container"

lemma filled_main:
  "map (StatefulSet_Update sample_lib t) (StatefulSet_BuildObjectList t) =
     [(Ok (), StatefulSetObject (filled t (tc_MainNode t) ''main''))]"
  by (simp add: StatefulSet_Update_def StatefulSet_BuildObjectList_def updateNodeStatefulSet_def filled_def
      BuildDesiredStatefulSet_def setOwner_def sample_owner_def Let_def ConfigureStatefulSet_def set_Containers_def)

lemma filled_secondaries:
  assumes "distinct (map node_Name (tc_SecondaryNodes t))"
  shows "map (SecondaryStatefulSet_Update sample_lib t) (SecondaryStatefulSet_BuildObjectList t) =
    map (\<lambda>node. (Ok (), StatefulSetObject (filled t node ''secondary''))) (tc_SecondaryNodes t)"
proof -
  have "SecondaryStatefulSet_Update sample_lib t (StatefulSetObject
      (CreateEmptyStatefulSet (node_Name node) (tc_Namespace t)
        (GetStatefulSetLabels (tc_Name t) (node_Name node) ''secondary'' (tc_Labels t)))) =
      (Ok (), StatefulSetObject (filled t node ''secondary''))"
    if node: "node \<in> set (tc_SecondaryNodes t)" for node
  proof -
    let ?obj = "StatefulSetObject (CreateEmptyStatefulSet (node_Name node) (tc_Namespace t)
      (GetStatefulSetLabels (tc_Name t) (node_Name node) ''secondary'' (tc_Labels t)))"
    have name: "node_Name node = GetName ?obj" by (simp add: CreateEmptyStatefulSet_def named_ObjectMeta_def)
    from node name have "getNodeIndex ?obj (tc_SecondaryNodes t) \<noteq> -1"
      by (metis node_lookup.absent_iff imageI)
    moreover have "tc_SecondaryNodes t ! nat (getNodeIndex ?obj (tc_SecondaryNodes t)) = node"
      by (rule node_lookup.found_unique [OF assms node name])
    ultimately show ?thesis
      by (simp add: SecondaryStatefulSet_Update_def updateNodeStatefulSet_def filled_def
          BuildDesiredStatefulSet_def setOwner_def sample_owner_def Let_def ConfigureStatefulSet_def
          set_Containers_def)
  qed
  then show ?thesis by (simp add: SecondaryStatefulSet_BuildObjectList_def Let_def)
qed

lemma filled_simps [simp]:
  "om_Name (sts_meta (filled t node role)) = node_Name node"
  "om_Namespace (sts_meta (filled t node role)) = tc_Namespace t"
  "om_OwnerReferences (sts_meta (filled t node role)) = [tc_Name t]"
  "om_Labels (sts_meta (filled t node role)) = GetStatefulSetLabels (tc_Name t) (node_Name node) role (tc_Labels t)"
  "ss_Selector (sts_Spec (filled t node role)) =
     Some (GetStatefulSetLabels (tc_Name t) (node_Name node) role (tc_Labels t))"
  "ss_ServiceName (sts_Spec (filled t node role)) = ns_ServiceName (node_Spec node)"
  "ps_Containers (pt_Spec (ss_Template (sts_Spec (filled t node role)))) = [filled_container t node]"
  "ps_InitContainers (pt_Spec (ss_Template (sts_Spec (filled t node role)))) = ns_InitContainers (node_Spec node)"
  "ps_NodeSelector (pt_Spec (ss_Template (sts_Spec (filled t node role)))) = ns_NodeSelector (node_Spec node)"
  "ps_Affinity (pt_Spec (ss_Template (sts_Spec (filled t node role)))) = Some (ns_Affinity (node_Spec node))"
  "ps_ServiceAccountName (pt_Spec (ss_Template (sts_Spec (filled t node role)))) =
     account_Name (sp_ServiceAccount (tc_Spec t))"
  "ps_Volumes (pt_Spec (ss_Template (sts_Spec (filled t node role)))) =
     BuildVolumesFromPersistentVolumeClaims (GetAllCustomPersistentVolumeClaim t)"
  by (simp_all add: filled_def filled_container_def BuildDesiredStatefulSet_def CreateEmptyStatefulSet_def
      ConfigureStatefulSet_def set_Containers_def named_ObjectMeta_def zero_ObjectMeta_def
      zero_StatefulSetSpec_def Let_def)

lemma filled_container_simps [simp]:
  "ct_Image (filled_container t node) = sp_Image (tc_Spec t)"
  "ct_Requests (filled_container t node) = ns_Requests (node_Spec node)"
  "ct_Limits (filled_container t node) = ns_Limits (node_Spec node)"
  "ct_VolumeMounts (filled_container t node) =
     BuildVolumeMountsFromPersistentVolumeClaims (GetAllCustomPersistentVolumeClaim t)"
  "ct_Env (filled_container t node) = BuildEnvVariablesFromGlobalAndNodeSpecificSettings sample_lib t node"
  by (simp_all add: filled_container_def ConfigureContainer_def)

lemma base_instance [simp]:
  "tc_Name getBaseTcInstance = ''test''" "tc_Namespace getBaseTcInstance = ''default''"
  "tc_Labels getBaseTcInstance = fmempty" "DataDirPath getBaseTcInstance = ''/storage''"
  "GetAllCustomPersistentVolumeClaim getBaseTcInstance = [dataDirPVC]"
  "node_Name (tc_MainNode getBaseTcInstance) = ''main-node''"
  "node_Spec (tc_MainNode getBaseTcInstance) = zero_NodeSpec\<lparr>ns_Requests := requests\<rparr>"
  by (simp_all add: getBaseTcInstance_def named_ObjectMeta_def zero_ObjectMeta_def fixture_names
      DataDirPath_def dataDirPVC_def GetAllCustomPersistentVolumeClaim_def)

subsection \<open>Names, labels and the container (\<open>statefulset_test.go\<close>, \<open>secondarystatefulset_test.go\<close>)\<close>

lemma test_sets_a_name_and_namespace:
  "StatefulSet_BuildObjectList getBaseTcInstance =
     [StatefulSetObject (CreateEmptyStatefulSet mainNodeName TeamCityNamespace
        (GetStatefulSetLabels TeamCityName mainNodeName ''main'' fmempty))]"
  "map GetName (SecondaryStatefulSet_BuildObjectList
     (set_spec (\<lambda>s. s\<lparr>sp_SecondaryNodes := getSecondaryNodes\<rparr>) getBaseTcInstance)) = map node_Name getSecondaryNodes"
  by (simp_all add: StatefulSet_BuildObjectList_def SecondaryStatefulSet_BuildObjectList_def Let_def
      fixture_names getSecondaryNodes_def getNode_def CreateEmptyStatefulSet_def named_ObjectMeta_def)

lemma test_adds_default_labels:
  assumes "labels = om_Labels (sts_meta (filled t node role)) \<or> Some labels = ss_Selector (sts_Spec (filled t node role))"
  shows "map_get labels ''app.kubernetes.io/name'' = tc_Name t"
    "map_get labels ''app.kubernetes.io/component'' = ''teamcity-server''"
    "map_get labels ''app.kubernetes.io/part-of'' = ''teamcity''"
    "map_get labels ''teamcity.jetbrains.com/role'' = role"
    "map_get labels ''teamcity.jetbrains.com/node-name'' = node_Name node"
  using assms by (auto intro!: map_get_Some simp: label_eqs label_keys)

lemma test_sets_labels_correctly:
  "map_get (om_Labels (sts_meta (filled (t\<lparr>tc_meta := (tc_meta t)\<lparr>om_Labels := getLabels\<rparr>\<rparr>) node role))) ''foo'' = ''bar''"
  "map_get (om_Labels (sts_meta (filled (t\<lparr>tc_meta := (tc_meta t)\<lparr>om_Labels := getLabels\<rparr>\<rparr>) node role))) ''teamcity'' = ''the best''"
  "map_get (om_Labels (sts_meta (filled (t\<lparr>tc_meta := (tc_meta t)\<lparr>om_Labels := getLabels\<rparr>\<rparr>) node role)))
     ''app.kubernetes.io/name'' = tc_Name t"
  by (auto intro!: map_get_Some simp: label_eqs label_keys getLabels_def fmlookup_of_list)

lemma test_sets_prestop_command:
  "map_option lc_PreStop_Exec_Command (ct_Lifecycle (filled_container t node)) =
     Some (Some [''/bin/sh'', ''-c'', ''/opt/teamcity/bin/shutdown.sh''])"
  by (simp add: filled_container_def ConfigureContainer_def LifecycleOptionsBuilder_def)

lemma test_sets_probes:
  "Option.bind (ct_LivenessProbe (filled_container t node)) pr_HTTPGet = Some (sp_ReadinessEndpoint (tc_Spec t))"
  "Option.bind (ct_ReadinessProbe (filled_container t node)) pr_HTTPGet = Some (sp_ReadinessEndpoint (tc_Spec t))"
  "Option.bind (ct_StartupProbe (filled_container t node)) pr_HTTPGet = Some (sp_HealthEndpoint (tc_Spec t))"
  by (simp_all add: filled_container_def ConfigureContainer_def)

lemma test_creates_data_dir_volume:
  "map vol_Name (ps_Volumes (pt_Spec (ss_Template (sts_Spec (filled getBaseTcInstance node role))))) = [cc_Name dataDirPVC]"
  "map vm_Name (ct_VolumeMounts (filled_container getBaseTcInstance node)) = [vm_Name (cc_VolumeMount dataDirPVC)]"
  "map vm_MountPath (ct_VolumeMounts (filled_container getBaseTcInstance node)) = [vm_MountPath (cc_VolumeMount dataDirPVC)]"
  "length (ps_Volumes (pt_Spec (ss_Template (sts_Spec (filled
     (set_spec (\<lambda>s. s\<lparr>sp_PersistentVolumeClaims := [getAdditionalPVC]\<rparr>) getBaseTcInstance) node role))))) = 2"
  by (simp_all add: createVolumeFromCustomPersistentVolumeClaim_def createVolumeMountFromCustomPersistentVolumeClaim_def)
    (simp add: GetAllCustomPersistentVolumeClaim_def)

lemma test_sets_scheduling:
  "ps_NodeSelector (pt_Spec (ss_Template (sts_Spec (filled t
     (node\<lparr>node_Spec := (node_Spec node)\<lparr>ns_NodeSelector := getNodeSelector\<rparr>\<rparr>) role)))) = getNodeSelector"
  "ps_Affinity (pt_Spec (ss_Template (sts_Spec (filled t
     (node\<lparr>node_Spec := (node_Spec node)\<lparr>ns_Affinity := getAffinity\<rparr>\<rparr>) role)))) = Some getAffinity"
  "ps_InitContainers (pt_Spec (ss_Template (sts_Spec (filled t
     (node\<lparr>node_Spec := (node_Spec node)\<lparr>ns_InitContainers := getInitContainers\<rparr>\<rparr>) role)))) = getInitContainers"
  "ps_ServiceAccountName (pt_Spec (ss_Template (sts_Spec (filled
     (set_spec (\<lambda>s. s\<lparr>sp_ServiceAccount := getServiceAccount\<rparr>) t) node role)))) = ''test-service-account''"
  by (simp_all add: getServiceAccount_def)

subsection \<open>The environment of the container\<close>

lemma test_calculates_env_vars:
  "ct_Env (filled_container getBaseTcInstance (tc_MainNode getBaseTcInstance)) =
     [\<lparr>ev_Name = ''POD_NAME'', ev_Value = '''', ev_ValueFrom = Some (FieldRef ''metadata.name'')\<rparr>,
      \<lparr>ev_Name = ''POD_NAMESPACE'', ev_Value = '''', ev_ValueFrom = Some (FieldRef ''metadata.namespace'')\<rparr>,
      \<lparr>ev_Name = ''TEAMCITY_DATA_PATH'', ev_Value = ''/storage'', ev_ValueFrom = None\<rparr>,
      \<lparr>ev_Name = ''TEAMCITY_LOGS_PATH'', ev_Value = ''/storage/logs'', ev_ValueFrom = None\<rparr>,
      \<lparr>ev_Name = ''TEAMCITY_SERVER_MEM_OPTS'',
       ev_Value = ''-Xmx'' @ XmxValueCalculator sample_lib xmxPercentage
         (Quantity_Value sample_lib (ResourceList_Memory sample_lib requests)), ev_ValueFrom = None\<rparr>,
      \<lparr>ev_Name = ''TEAMCITY_SERVER_OPTS'',
       ev_Value = ''-XX:+HeapDumpOnOutOfMemoryError -XX:+DisableExplicitGC -XX:HeapDumpPath=/storage/memoryDumps/main-node'' @
         '' -Dteamcity.server.nodeId=main-node -Dteamcity.server.rootURL=http://$(POD_NAME).$(POD_NAMESPACE)'',
       ev_ValueFrom = None\<rparr>]"
proof -
  have "ns_Responsibilities zero_NodeSpec = []" "ns_Env zero_NodeSpec = []" by (simp_all add: zero_NodeSpec_def)
  moreover have "sp_StartupPropertiesConfig (tc_Spec getBaseTcInstance) = fmempty"
    "sp_DatabaseSecret (tc_Spec getBaseTcInstance) = ''''" "sp_XmxPercentage (tc_Spec getBaseTcInstance) = xmxPercentage"
    by (simp_all add: getBaseTcInstance_def)
  ultimately show ?thesis
    by (simp add: BuildEnvVariablesFromGlobalAndNodeSpecificSettings_def DatabaseSecretProvided_def
        DefaultEnvironmentVariableBuilder_def PodNameEnvVariableBuilder_def PodNamespaceEnvVariableBuilder_def
        DataDirPathEnvVar_def LogDirPathEnvVar_def ServerMemOptsEnvVar_def ServerOptsEnvVar_def
        server_options [OF sample_lib_documented(4)] sorted_list_of_fset.rep_eq)
qed

text \<open>The other lookups of a variable go by its name, like \<open>slices.IndexFunc\<close> in the tests.\<close>

definition env_lookup :: "string \<Rightarrow> EnvVar list \<Rightarrow> EnvVar option" where
  "env_lookup name env = find (\<lambda>v. ev_Name v = name) env"

lemmas env_defs =
  BuildEnvVariablesFromGlobalAndNodeSpecificSettings_def DatabaseSecretProvided_def Let_def
  DefaultEnvironmentVariableBuilder_def DatabaseEnvVarBuilder_def PodNameEnvVariableBuilder_def
  PodNamespaceEnvVariableBuilder_def DataDirPathEnvVar_def LogDirPathEnvVar_def ServerMemOptsEnvVar_def
  ServerOptsEnvVar_def TEAMCITY_DB_USER_SECRET_KEY_def TEAMCITY_DB_PASSWORD_SECRET_KEY_def
  TEAMCITY_DB_URL_SECRET_KEY_def env_lookup_def

lemma test_mounts_database_secret:
  assumes "sp_DatabaseSecret (tc_Spec t) = getDatabaseSecret" and "ns_Env (node_Spec node) = []"
  shows "Option.bind (env_lookup ''TEAMCITY_DB_USER'' (ct_Env (filled_container t node))) ev_ValueFrom =
      Some (SecretKeyRef ''database-secret'' ''connectionProperties.user'')"
    "Option.bind (env_lookup ''TEAMCITY_DB_PASSWORD'' (ct_Env (filled_container t node))) ev_ValueFrom =
      Some (SecretKeyRef ''database-secret'' ''connectionProperties.password'')"
    "Option.bind (env_lookup ''TEAMCITY_DB_URL'' (ct_Env (filled_container t node))) ev_ValueFrom =
      Some (SecretKeyRef ''database-secret'' ''connectionUrl'')"
  by (simp_all add: assms env_defs getDatabaseSecret_def)

lemma test_SortKeysAlphabeticallyInMap:
  assumes "visits_all_keys L"
  shows "SortKeysAlphabeticallyInMap L (fmap_of_list [(''a'', ''1''), (''c'', ''2''), (''b'', ''3'')]) = [''a'', ''b'', ''c'']"
  "SortKeysAlphabeticallyInMap L getStartupConfigurations = [''foo'', ''hello'']"
  unfolding sorted_keys [OF assms] getStartupConfigurations_def
  by (simp_all add: sorted_list_of_fset.rep_eq)

lemma test_sets_serveropts:
  assumes "sp_StartupPropertiesConfig (tc_Spec t) = getStartupConfigurations"
  shows "\<exists>options. map_option ev_Value (env_lookup ''TEAMCITY_SERVER_OPTS'' (ct_Env (filled_container t node))) =
    Some (options @ '' -Dfoo=bar -Dhello=world'')"
proof -
  have "ConvertStartUpPropertiesToServerOptions sample_lib getStartupConfigurations = '' -Dfoo=bar -Dhello=world''"
    by (simp add: ConvertStartUpPropertiesToServerOptions_def Let_def
        test_SortKeysAlphabeticallyInMap(2) [OF sample_lib_documented(4)])
      (simp add: getStartupConfigurations_def)
  with assms show ?thesis by (simp add: env_defs)
qed

lemma test_sets_node_env_variables:
  assumes "ns_Env (node_Spec node) = getExtraNodeEnvVars" and "var \<in> set getExtraNodeEnvVars"
  shows "env_lookup (ev_Name var) (ct_Env (filled_container t node)) = Some var"
  using assms(2) unfolding getExtraNodeEnvVars_def
  by (elim set_ConsD [elim_format] disjE) (simp_all add: assms(1) env_defs getExtraNodeEnvVars_def)

subsection \<open>Claims, services, ingresses and service accounts\<close>

lemma test_creates_claims_with_correct_settings:
  fixes t defines "t \<equiv> set_spec (\<lambda>s. s\<lparr>sp_PersistentVolumeClaims := [getAdditionalPVC]\<rparr>) getBaseTcInstance"
  shows "map (\<lambda>obj. case PersistentVolumeClaim_Update sample_lib t obj of
        (Ok _, PersistentVolumeClaimObject c) \<Rightarrow> Some (om_Annotations (pvc_meta c), pvc_Spec c) | _ \<Rightarrow> None)
      (PersistentVolumeClaim_BuildObjectList t) =
    [Some (fmempty, cc_Spec dataDirPVC), Some (fmempty, cc_Spec getAdditionalPVC)]"
  by (simp add: t_def PersistentVolumeClaim_Update_def PersistentVolumeClaim_BuildObjectList_def
      fillPersistentVolumeClaim_def pvcList_def getPVCIndex_def first_index_def setOwner_def sample_owner_def
      getBaseTcInstance_def dataDirPVC_def getAdditionalPVC_def dataDirPVCSpec_def Let_def
      named_ObjectMeta_def zero_ObjectMeta_def zero_PersistentVolumeClaimSpec_def)

lemma test_updates_services_properly:
  fixes t defines "t \<equiv> set_spec (\<lambda>s. s\<lparr>sp_ServiceList := getServiceList\<rparr>) getBaseTcInstance"
  shows "map (\<lambda>obj. case Service_Update sample_lib t obj of
        (Ok _, ServiceObj s) \<Rightarrow> Some (om_Name (svc_meta s), om_Annotations (svc_meta s), svc_Spec s) | _ \<Rightarrow> None)
      (Service_BuildObjectList t) =
    map (\<lambda>s. Some (service_Name s, service_Annotations s, service_ServiceSpec s)) getServiceList"
  by (simp add: t_def Service_Update_def Service_BuildObjectList_def getServiceIndex_def first_index_def
      setOwner_def sample_owner_def getServiceList_def Let_def named_ObjectMeta_def fixture_names)

lemma test_updates_ingresses_properly:
  fixes t defines "t \<equiv> set_spec (\<lambda>s. s\<lparr>sp_IngressList := getIngressList\<rparr>) getBaseTcInstance"
  shows "map (\<lambda>obj. case Ingress_Update sample_lib t obj of
        (Ok _, IngressObj i) \<Rightarrow> Some (om_Name (ing_meta i), om_Annotations (ing_meta i), ing_Spec i) | _ \<Rightarrow> None)
      (Ingress_BuildObjectList t) =
    map (\<lambda>i. Some (ingress_Name i, ingress_Annotations i, ingress_IngressSpec i)) getIngressList"
  by (simp add: t_def Ingress_Update_def Ingress_BuildObjectList_def getIngressIndex_def first_index_def
      setOwner_def sample_owner_def getIngressList_def Let_def named_ObjectMeta_def fixture_names)

lemma test_updates_service_account_properly:
  fixes t defines "t \<equiv> set_spec (\<lambda>s. s\<lparr>sp_ServiceAccount := getServiceAccount\<rparr>) getBaseTcInstance"
  shows "map (\<lambda>obj. case ServiceAccount_Update sample_lib t obj of
        (Ok _, ServiceAccountObj s) \<Rightarrow> Some (om_Name (sa_meta s), om_Annotations (sa_meta s)) | _ \<Rightarrow> None)
      (ServiceAccount_BuildObjectList t) =
    [Some (account_Name getServiceAccount, account_Annotations getServiceAccount)]"
  by (simp add: t_def ServiceAccount_Update_def ServiceAccount_BuildObjectList_def getEmptyServiceAccount_def
      ServiceAccountProvided_def setOwner_def sample_owner_def getServiceAccount_def Let_def named_ObjectMeta_def)

subsection \<open>Obsolete objects\<close>

text \<open>The mock clients of the tests answer a list with objects of given names.\<close>

definition listing :: "k8s_object list \<Rightarrow> ConfigMap option client" where
  "listing items = sample_client getBaseTcInstance (\<lambda>n. Inl sample_not_found) (Inr items)"

definition obsolete_names :: "k8s_object list \<Rightarrow> ResourceBuilder \<Rightarrow> (go_error + string list)" where
  "obsolete_names items b =
     map_sum id (map GetName) (fst (run_state (GetObsoleteObjects (listing items) b) \<lparr>world = None, history = []\<rparr>))"

lemmas obsolete_test_defs =
  obsolete_names_def listing_def getPVCIndex_def getServiceIndex_def getIngressIndex_def getNodeIndex_def
  PersistentVolumeClaim_GetObsoleteObjects_def Service_GetObsoleteObjects_def Ingress_GetObsoleteObjects_def
  ServiceAccount_GetObsoleteObjects_def SecondaryStatefulSet_GetObsoleteObjects_def Let_def
  named_ObjectMeta_def fixture_names run_state_bind

lemma test_returns_obsolete_claims:
  "obsolete_names
     [PersistentVolumeClaimObject \<lparr>pvc_meta = named_ObjectMeta (cc_Name getAdditionalPVC) ns, pvc_Spec = spec\<rparr>,
      PersistentVolumeClaimObject \<lparr>pvc_meta = named_ObjectMeta StalePvcName ns, pvc_Spec = spec\<rparr>]
     (PersistentVolumeClaimBuilder
       (set_spec (\<lambda>s. s\<lparr>sp_PersistentVolumeClaims := [getAdditionalPVC]\<rparr>) getBaseTcInstance)) = Inr [StalePvcName]"
  by (simp add: obsolete_test_defs pvcList_def getAdditionalPVC_def getBaseTcInstance_def dataDirPVC_def)

lemma test_returns_obsolete_services:
  "obsolete_names
     (map (\<lambda>n. ServiceObj \<lparr>svc_meta = named_ObjectMeta n ns, svc_Spec = s\<rparr>)
       [serviceNameMain, serviceNameSecondary, StaleServiceName])
     (ServiceBuilder (set_spec (\<lambda>s. s\<lparr>sp_ServiceList := getServiceList\<rparr>) getBaseTcInstance)) =
   Inr [StaleServiceName]"
  by (simp add: obsolete_test_defs getServiceList_def)

lemma test_returns_obsolete_ingresses:
  "obsolete_names
     (map (\<lambda>n. IngressObj \<lparr>ing_meta = named_ObjectMeta n ns, ing_Spec = s\<rparr>)
       [ingressNameFirst, ingressNameSecondary, StaleIngressName])
     (IngressBuilder (set_spec (\<lambda>s. s\<lparr>sp_IngressList := getIngressList\<rparr>) getBaseTcInstance)) =
   Inr [StaleIngressName]"
  by (simp add: obsolete_test_defs getIngressList_def)

lemma test_returns_obsolete_service_accounts:
  "obsolete_names
     (map (\<lambda>n. ServiceAccountObj \<lparr>sa_meta = named_ObjectMeta n ns\<rparr>) [account_Name getServiceAccount, StaleServiceAccountName])
     (ServiceAccountBuilder (set_spec (\<lambda>s. s\<lparr>sp_ServiceAccount := getServiceAccount\<rparr>) getBaseTcInstance)) =
   Inr [StaleServiceAccountName]"
  by (simp add: obsolete_test_defs getServiceAccount_def ServiceAccountProvided_def)

lemma test_returns_obsolete_secondaries:
  "obsolete_names
     (map (\<lambda>n. StatefulSetObject (CreateEmptyStatefulSet n ns ls)) [''secondary-0'', ''secondary-1'', StaleStatefulSetName])
     (SecondaryStatefulSetBuilder (set_spec (\<lambda>s. s\<lparr>sp_SecondaryNodes := getSecondaryNodes\<rparr>) getBaseTcInstance)) =
   Inr [StaleStatefulSetName]"
  by (simp add: obsolete_test_defs getSecondaryNodes_def getNode_def CreateEmptyStatefulSet_def)

lemma test_lists_of_another_kind_are_errors:
  "fst (run_state (GetObsoleteObjects (sample_client t sts (Inl e)) (ServiceBuilder t')) s) = Inl e"
  by (simp add: Service_GetObsoleteObjects_def run_state_bind)

subsection \<open>The update replica (\<open>update_with_ro_utils_test.go\<close>)\<close>

lemma test_BuildRoNode:
  "node_Name (BuildRoNode getBaseTcInstance ''main-node-update-replica'') = ''main-node-update-replica''"
  "ns_Requests (node_Spec (BuildRoNode getBaseTcInstance ''main-node-update-replica'')) = requests"
  by (simp_all add: BuildRoNode_def)

lemma test_GetROStatefulSetNamespacedName:
  "GetROStatefulSetNamespacedName getBaseTcInstance =
     \<lparr>nn_Namespace = ''default'', nn_Name = ''main-node-update-replica''\<rparr>"
  by (simp add: GetROStatefulSetNamespacedName_def RoNodePostfix_def)

lemma test_BuildROStatefulSet:
  "om_Name (sts_meta (BuildROStatefulSet getBaseTcInstance)) = ''main-node-update-replica''"
  "om_Namespace (sts_meta (BuildROStatefulSet getBaseTcInstance)) = ''default''"
  "map_get (om_Labels (sts_meta (BuildROStatefulSet getBaseTcInstance))) ''teamcity.jetbrains.com/role'' = RoNodeRole"
  by (auto intro!: map_get_Some simp: BuildROStatefulSet_def BuildRoNode_def test_GetROStatefulSetNamespacedName
      named_ObjectMeta_def label_eqs label_keys)

lemma test_ChangesRequireNodeStatefulSetRestart:
  assumes "ps_Containers (pt_Spec (ss_Template (sts_Spec existing))) = [c]"
    and "ct_Image c \<noteq> sp_Image (tc_Spec t) \<or> ct_Requests c \<noteq> ns_Requests (node_Spec node)"
  shows "ChangesRequireNodeStatefulSetRestart sample_lib t node existing"
proof -
  let ?desired = "set_Containers [filled_container t node] (ConfigureStatefulSet t node zero_StatefulSet)"
  have "ps_Containers (pt_Spec (ss_Template (sts_Spec ?desired))) = [filled_container t node]"
    by (simp add: set_Containers_def Let_def)
  with assms have "sts_Spec ?desired \<noteq> sts_Spec existing" by auto
  then show ?thesis by (simp add: ChangesRequireNodeStatefulSetRestart_def filled_container_def Let_def)
qed

end
