(* ===== verification/Deep_Copies.thy ===== *)
theory Deep_Copies
  imports Go_Prelude
begin

section \<open>Deep copies (api/v1beta1/zz_generated.deepcopy.go)\<close>

text \<open>
  The API server's cache hands out pointers into shared memory; the generated functions \<open>DeepCopyInto\<close>
  and \<open>DeepCopy\<close> make a copy the operator may change. Here, unlike in the other theories, memory is
  explicit: a slice, a map or a pointer is the address of a cell of a store, or nil. Each generated
  function copies the struct field by field and then replaces the fields it lists by copies of what
  they refer to. The copiers of library structs are a parameter.
\<close>

subsection \<open>Memory\<close>

datatype val =
    Scalar string
  | Record "string list" "val list" \<comment> \<open>field names, field values\<close>
  | NilRef
  | Ref nat

text \<open>A cell holds the entries of a map, with their keys, or the elements of a slice, without.\<close>

record store =
  next_addr :: nat
  cells :: "nat \<Rightarrow> (string list \<times> val list) option"

definition store_ok :: "store \<Rightarrow> bool" where
  "store_ok s \<longleftrightarrow> (\<forall>a. cells s a \<noteq> None \<longrightarrow> a < next_addr s)"

definition extends :: "store \<Rightarrow> store \<Rightarrow> bool" where
  "extends s s' \<longleftrightarrow> next_addr s \<le> next_addr s' \<and> (\<forall>a < next_addr s. cells s' a = cells s a)"

definition alloc :: "string list \<Rightarrow> val list \<Rightarrow> store \<Rightarrow> val \<times> store" where
  "alloc ks vs s =
     (Ref (next_addr s), \<lparr>next_addr = Suc (next_addr s), cells = (cells s)(next_addr s \<mapsto> (ks, vs))\<rparr>)"

definition overwrite :: "nat \<Rightarrow> string list \<times> val list \<Rightarrow> store \<Rightarrow> store" where
  "overwrite a c s = s\<lparr>cells := (cells s)(a \<mapsto> c)\<rparr>"

subsection \<open>The generated functions\<close>

type_synonym copier = "val \<Rightarrow> store \<Rightarrow> val \<times> store"

definition field :: "string \<Rightarrow> val \<Rightarrow> val" where
  "field f x = (case x of
     Record ks vs \<Rightarrow> (case map_of (zip ks vs) f of Some v \<Rightarrow> v | None \<Rightarrow> NilRef) | _ \<Rightarrow> NilRef)"

definition set_field :: "string \<Rightarrow> val \<Rightarrow> val \<Rightarrow> val" where
  "set_field f v x = (case x of
     Record ks vs \<Rightarrow> Record ks (map (\<lambda>(k, w). if k = f then v else w) (zip ks vs)) | _ \<Rightarrow> x)"

text \<open>\<open>out.F = in.F\<close>.\<close>

definition assign :: copier where
  "assign x s = (x, s)"

text \<open>
  \<open>if in.F != nil { *out = make(..., len( *in)); for key, val := range *in { ( *out)[key] = val } }\<close>, and the
  same with \<open>copy\<close> for a slice of strings.
\<close>

definition copy_flat :: copier where
  "copy_flat x s = (case x of
     Ref a \<Rightarrow> (case cells s a of Some (ks, vs) \<Rightarrow> alloc ks vs s | None \<Rightarrow> (x, s)) | _ \<Rightarrow> (x, s))"

text \<open>The same with a deep copy of each element. (Go allocates first; the address is arbitrary either way.)\<close>

fun copy_elements :: "copier \<Rightarrow> val list \<Rightarrow> store \<Rightarrow> val list \<times> store" where
  "copy_elements c [] s = ([], s)"
| "copy_elements c (x # xs) s =
     (case c x s of (y, s') \<Rightarrow> (case copy_elements c xs s' of (ys, s'') \<Rightarrow> (y # ys, s'')))"

definition copy_each :: "copier \<Rightarrow> copier" where
  "copy_each c x s = (case x of
     Ref a \<Rightarrow> (case cells s a of
       Some (ks, vs) \<Rightarrow> (case copy_elements c vs s of (ws, s') \<Rightarrow> alloc ks ws s')
     | None \<Rightarrow> (x, s))
   | _ \<Rightarrow> (x, s))"

text \<open>\<open>*out = *in\<close>, and then the listed fields, each from \<open>in\<close> into \<open>out\<close>.\<close>

fun copy_into :: "(string \<times> copier) list \<Rightarrow> val \<Rightarrow> val \<Rightarrow> store \<Rightarrow> val \<times> store" where
  "copy_into [] inp out s = (out, s)"
| "copy_into ((f, c) # cs) inp out s =
     (case c (field f inp) s of (v, s') \<Rightarrow> copy_into cs inp (set_field f v out) s')"

definition copy_fields :: "(string \<times> copier) list \<Rightarrow> copier" where
  "copy_fields cs inp s = copy_into cs inp inp s"

text \<open>\<open>L n\<close> is the \<open>DeepCopyInto\<close> of the library struct \<open>n\<close>.\<close>

definition DeepCopyInto_CustomPersistentVolumeClaim :: "(string \<Rightarrow> copier) \<Rightarrow> copier" where
  "DeepCopyInto_CustomPersistentVolumeClaim L = copy_fields
     [(''Annotations'', copy_flat), (''VolumeMount'', L ''VolumeMount''), (''Spec'', L ''PersistentVolumeClaimSpec'')]"

definition DeepCopyInto_DatabaseSecret :: copier where
  "DeepCopyInto_DatabaseSecret = copy_fields []"

definition DeepCopyInto_Ingress :: "(string \<Rightarrow> copier) \<Rightarrow> copier" where
  "DeepCopyInto_Ingress L = copy_fields [(''Annotations'', copy_flat), (''IngressSpec'', L ''IngressSpec'')]"

definition DeepCopyInto_NodeSpec :: "(string \<Rightarrow> copier) \<Rightarrow> copier" where
  "DeepCopyInto_NodeSpec L = copy_fields
     [(''InitContainers'', copy_each (L ''Container'')),
      (''Requests'', copy_each (L ''Quantity'')),
      (''Env'', copy_each (L ''EnvVar'')),
      (''Limits'', copy_each (L ''Quantity'')),
      (''PodSecurityContext'', L ''PodSecurityContext''),
      (''LivenessProbeSettings'', L ''Probe''),
      (''ReadinessProbeSettings'', L ''Probe''),
      (''StartupProbeSettings'', L ''Probe''),
      (''NodeSelector'', copy_flat),
      (''Affinity'', L ''Affinity''),
      (''Responsibilities'', copy_flat)]"

definition DeepCopyInto_Node :: "(string \<Rightarrow> copier) \<Rightarrow> copier" where
  "DeepCopyInto_Node L = copy_fields [(''Annotations'', copy_flat), (''Spec'', DeepCopyInto_NodeSpec L)]"

definition DeepCopyInto_Service :: "(string \<Rightarrow> copier) \<Rightarrow> copier" where
  "DeepCopyInto_Service L = copy_fields [(''Annotations'', copy_flat), (''ServiceSpec'', L ''ServiceSpec'')]"

definition DeepCopyInto_ServiceAccount :: copier where
  "DeepCopyInto_ServiceAccount = copy_fields [(''Annotations'', copy_flat)]"

definition DeepCopyInto_TeamCitySpec :: "(string \<Rightarrow> copier) \<Rightarrow> copier" where
  "DeepCopyInto_TeamCitySpec L = copy_fields
     [(''MainNode'', DeepCopyInto_Node L),
      (''SecondaryNodes'', copy_each (DeepCopyInto_Node L)),
      (''DataDirVolumeClaim'', DeepCopyInto_CustomPersistentVolumeClaim L),
      (''PersistentVolumeClaims'', copy_each (DeepCopyInto_CustomPersistentVolumeClaim L)),
      (''TeamCityServerPort'', assign),
      (''ReadinessEndpoint'', L ''HTTPGetAction''),
      (''HealthEndpoint'', L ''HTTPGetAction''),
      (''DatabaseSecret'', assign),
      (''StartupPropertiesConfig'', copy_flat),
      (''ServiceList'', copy_each (DeepCopyInto_Service L)),
      (''IngressList'', copy_each (DeepCopyInto_Ingress L)),
      (''ServiceAccount'', DeepCopyInto_ServiceAccount)]"

definition DeepCopyInto_TeamCityStatus :: copier where
  "DeepCopyInto_TeamCityStatus = copy_fields []"

definition DeepCopyInto_TeamCity :: "(string \<Rightarrow> copier) \<Rightarrow> copier" where
  "DeepCopyInto_TeamCity L = copy_fields
     [(''TypeMeta'', assign), (''ObjectMeta'', L ''ObjectMeta''), (''Spec'', DeepCopyInto_TeamCitySpec L),
      (''Status'', assign)]"

definition DeepCopyInto_TeamCityList :: "(string \<Rightarrow> copier) \<Rightarrow> copier" where
  "DeepCopyInto_TeamCityList L = copy_fields
     [(''TypeMeta'', assign), (''ListMeta'', L ''ListMeta''), (''Items'', copy_each (DeepCopyInto_TeamCity L))]"

text \<open>
  \<open>if in == nil { return nil }; out := new(T); in.DeepCopyInto(out); return out\<close>: a pointer is the address
  of a cell with one element.
\<close>

definition DeepCopy :: "copier \<Rightarrow> copier" where
  "DeepCopy into p s = (case p of
     Ref a \<Rightarrow> (case cells s a of
       Some (ks, [x]) \<Rightarrow> (case into x s of (y, s') \<Rightarrow> alloc ks [y] s')
     | _ \<Rightarrow> (p, s))
   | _ \<Rightarrow> (NilRef, s))"

text \<open>\<open>if c := in.DeepCopy(); c != nil { return c }; return nil\<close>.\<close>

definition DeepCopyObject :: "copier \<Rightarrow> copier" where
  "DeepCopyObject into p s =
     (case DeepCopy into p s of (c, s') \<Rightarrow> if c \<noteq> NilRef then (c, s') else (NilRef, s'))"

definition DeepCopy_CustomPersistentVolumeClaim :: "(string \<Rightarrow> copier) \<Rightarrow> copier" where
  "DeepCopy_CustomPersistentVolumeClaim L = DeepCopy (DeepCopyInto_CustomPersistentVolumeClaim L)"

definition DeepCopy_DatabaseSecret :: copier where
  "DeepCopy_DatabaseSecret = DeepCopy DeepCopyInto_DatabaseSecret"

definition DeepCopy_Ingress :: "(string \<Rightarrow> copier) \<Rightarrow> copier" where
  "DeepCopy_Ingress L = DeepCopy (DeepCopyInto_Ingress L)"

definition DeepCopy_Node :: "(string \<Rightarrow> copier) \<Rightarrow> copier" where
  "DeepCopy_Node L = DeepCopy (DeepCopyInto_Node L)"

definition DeepCopy_NodeSpec :: "(string \<Rightarrow> copier) \<Rightarrow> copier" where
  "DeepCopy_NodeSpec L = DeepCopy (DeepCopyInto_NodeSpec L)"

definition DeepCopy_Service :: "(string \<Rightarrow> copier) \<Rightarrow> copier" where
  "DeepCopy_Service L = DeepCopy (DeepCopyInto_Service L)"

definition DeepCopy_ServiceAccount :: copier where
  "DeepCopy_ServiceAccount = DeepCopy DeepCopyInto_ServiceAccount"

definition DeepCopy_TeamCity :: "(string \<Rightarrow> copier) \<Rightarrow> copier" where
  "DeepCopy_TeamCity L = DeepCopy (DeepCopyInto_TeamCity L)"

definition DeepCopy_TeamCityList :: "(string \<Rightarrow> copier) \<Rightarrow> copier" where
  "DeepCopy_TeamCityList L = DeepCopy (DeepCopyInto_TeamCityList L)"

definition DeepCopy_TeamCitySpec :: "(string \<Rightarrow> copier) \<Rightarrow> copier" where
  "DeepCopy_TeamCitySpec L = DeepCopy (DeepCopyInto_TeamCitySpec L)"

definition DeepCopy_TeamCityStatus :: copier where
  "DeepCopy_TeamCityStatus = DeepCopy DeepCopyInto_TeamCityStatus"

definition DeepCopyObject_TeamCity :: "(string \<Rightarrow> copier) \<Rightarrow> copier" where
  "DeepCopyObject_TeamCity L = DeepCopyObject (DeepCopyInto_TeamCity L)"

definition DeepCopyObject_TeamCityList :: "(string \<Rightarrow> copier) \<Rightarrow> copier" where
  "DeepCopyObject_TeamCityList L = DeepCopyObject (DeepCopyInto_TeamCityList L)"

subsection \<open>The types (teamcity_types.go)\<close>

text \<open>What the values of a type look like; a library struct is known by its name only.\<close>

datatype gotype =
    Flat \<comment> \<open>a string, a number, a boolean\<close>
  | MapOf gotype
  | SliceOf gotype
  | PointerTo gotype
  | StructOf "string list" "gotype list"
  | LibStruct string

definition struct :: "(string \<times> gotype) list \<Rightarrow> gotype" where
  "struct fs = StructOf (map fst fs) (map snd fs)"

definition type_CustomPersistentVolumeClaim :: gotype where
  "type_CustomPersistentVolumeClaim = struct
     [(''Name'', Flat), (''Annotations'', MapOf Flat), (''VolumeMount'', LibStruct ''VolumeMount''),
      (''Spec'', LibStruct ''PersistentVolumeClaimSpec'')]"

definition type_DatabaseSecret :: gotype where
  "type_DatabaseSecret = struct [(''Secret'', Flat)]"

definition type_Ingress :: gotype where
  "type_Ingress = struct [(''Name'', Flat), (''Annotations'', MapOf Flat), (''IngressSpec'', LibStruct ''IngressSpec'')]"

definition type_NodeSpec :: gotype where
  "type_NodeSpec = struct
     [(''InitContainers'', SliceOf (LibStruct ''Container'')),
      (''Requests'', MapOf (LibStruct ''Quantity'')),
      (''Env'', SliceOf (LibStruct ''EnvVar'')),
      (''Limits'', MapOf (LibStruct ''Quantity'')),
      (''PodSecurityContext'', LibStruct ''PodSecurityContext''),
      (''LivenessProbeSettings'', LibStruct ''Probe''),
      (''ReadinessProbeSettings'', LibStruct ''Probe''),
      (''StartupProbeSettings'', LibStruct ''Probe''),
      (''NodeSelector'', MapOf Flat),
      (''Affinity'', LibStruct ''Affinity''),
      (''ServiceName'', Flat),
      (''Responsibilities'', SliceOf Flat)]"

definition type_Node :: gotype where
  "type_Node = struct [(''Name'', Flat), (''Annotations'', MapOf Flat), (''Spec'', type_NodeSpec)]"

definition type_Service :: gotype where
  "type_Service = struct [(''Name'', Flat), (''Annotations'', MapOf Flat), (''ServiceSpec'', LibStruct ''ServiceSpec'')]"

definition type_ServiceAccount :: gotype where
  "type_ServiceAccount = struct [(''Name'', Flat), (''Annotations'', MapOf Flat)]"

text \<open>A \<open>v1.ContainerPort\<close> and the \<open>TypeMeta\<close> hold strings and numbers only.\<close>

definition type_ContainerPort :: gotype where
  "type_ContainerPort = struct
     [(''Name'', Flat), (''HostPort'', Flat), (''ContainerPort'', Flat), (''Protocol'', Flat), (''HostIP'', Flat)]"

definition type_TypeMeta :: gotype where
  "type_TypeMeta = struct [(''Kind'', Flat), (''APIVersion'', Flat)]"

definition type_TeamCitySpec :: gotype where
  "type_TeamCitySpec = struct
     [(''Image'', Flat),
      (''MainNode'', type_Node),
      (''SecondaryNodes'', SliceOf type_Node),
      (''DataDirVolumeClaim'', type_CustomPersistentVolumeClaim),
      (''PersistentVolumeClaims'', SliceOf type_CustomPersistentVolumeClaim),
      (''XmxPercentage'', Flat),
      (''TeamCityServerPort'', type_ContainerPort),
      (''ReadinessEndpoint'', LibStruct ''HTTPGetAction''),
      (''HealthEndpoint'', LibStruct ''HTTPGetAction''),
      (''DatabaseSecret'', type_DatabaseSecret),
      (''StartupPropertiesConfig'', MapOf Flat),
      (''ServiceList'', SliceOf type_Service),
      (''IngressList'', SliceOf type_Ingress),
      (''ServiceAccount'', type_ServiceAccount)]"

definition type_TeamCityStatus :: gotype where
  "type_TeamCityStatus = struct [(''State'', Flat), (''Message'', Flat)]"

definition type_TeamCity :: gotype where
  "type_TeamCity = struct
     [(''TypeMeta'', type_TypeMeta), (''ObjectMeta'', LibStruct ''ObjectMeta''), (''Spec'', type_TeamCitySpec),
      (''Status'', type_TeamCityStatus)]"

definition type_TeamCityList :: gotype where
  "type_TeamCityList = struct
     [(''TypeMeta'', type_TypeMeta), (''ListMeta'', LibStruct ''ListMeta''), (''Items'', SliceOf type_TeamCity)]"

subsection \<open>What a value stands for\<close>

text \<open>
  A value and all it refers to is a tree, whose nodes know their addresses. \<open>root\<close> is the value itself,
  \<open>in_store\<close> says that the store holds the tree, \<open>shape\<close> forgets the addresses.
\<close>

datatype tree =
    Leaf string
  | Fields "string list" "tree list"
  | NilTree
  | Cell nat "string list" "tree list"

fun root :: "tree \<Rightarrow> val" where
  "root (Leaf v) = Scalar v"
| "root (Fields ks ts) = Record ks (map root ts)"
| "root NilTree = NilRef"
| "root (Cell a ks ts) = Ref a"

fun in_store :: "store \<Rightarrow> tree \<Rightarrow> bool" where
  "in_store s (Leaf v) \<longleftrightarrow> True"
| "in_store s (Fields ks ts) \<longleftrightarrow> (\<forall>t \<in> set ts. in_store s t)"
| "in_store s NilTree \<longleftrightarrow> True"
| "in_store s (Cell a ks ts) \<longleftrightarrow> cells s a = Some (ks, map root ts) \<and> (\<forall>t \<in> set ts. in_store s t)"

fun addrs :: "tree \<Rightarrow> nat set" where
  "addrs (Leaf v) = {}"
| "addrs (Fields ks ts) = (\<Union>t \<in> set ts. addrs t)"
| "addrs NilTree = {}"
| "addrs (Cell a ks ts) = insert a (\<Union>t \<in> set ts. addrs t)"

fun shape :: "tree \<Rightarrow> tree" where
  "shape (Leaf v) = Leaf v"
| "shape (Fields ks ts) = Fields ks (map shape ts)"
| "shape NilTree = NilTree"
| "shape (Cell a ks ts) = Cell 0 ks (map shape ts)"

text \<open>\<open>P n t\<close>: the tree \<open>t\<close> is a value of the library struct \<open>n\<close>.\<close>

inductive typed :: "(string \<Rightarrow> tree \<Rightarrow> bool) \<Rightarrow> gotype \<Rightarrow> tree \<Rightarrow> bool" for P where
  typed_Flat: "typed P Flat (Leaf v)"
| typed_nil: "T \<in> {MapOf U, SliceOf U, PointerTo U} \<Longrightarrow> typed P T NilTree"
| typed_Map: "length ks = length ts \<Longrightarrow> \<forall>t \<in> set ts. typed P T t \<Longrightarrow> typed P (MapOf T) (Cell a ks ts)"
| typed_Slice: "\<forall>t \<in> set ts. typed P T t \<Longrightarrow> typed P (SliceOf T) (Cell a [] ts)"
| typed_Pointer: "typed P T t \<Longrightarrow> typed P (PointerTo T) (Cell a [] [t])"
| typed_Struct: "length ks = length Ts \<Longrightarrow> list_all2 (typed P) Ts ts \<Longrightarrow> typed P (StructOf ks Ts) (Fields ks ts)"
| typed_Lib: "P n t \<Longrightarrow> typed P (LibStruct n) t"

inductive_cases typed_FlatE: "typed P Flat t"
inductive_cases typed_MapE: "typed P (MapOf T) t"
inductive_cases typed_SliceE: "typed P (SliceOf T) t"
inductive_cases typed_PointerE: "typed P (PointerTo T) t"
inductive_cases typed_StructE: "typed P (StructOf ks Ts) t"

fun flat_type :: "gotype \<Rightarrow> bool" where
  "flat_type Flat \<longleftrightarrow> True"
| "flat_type (StructOf ks Ts) \<longleftrightarrow> (\<forall>T \<in> set Ts. flat_type T)"
| "flat_type _ \<longleftrightarrow> False"

subsection \<open>Stores\<close>

lemma extends_refl [simp]: "extends s s"
  by (simp add: extends_def)

lemma extends_trans: "extends s s' \<Longrightarrow> extends s' s'' \<Longrightarrow> extends s s''"
  unfolding extends_def by (metis le_trans less_le_trans)

lemma addrs_allocated: "store_ok s \<Longrightarrow> in_store s t \<Longrightarrow> addrs t \<subseteq> {..< next_addr s}"
  by (induction t) (auto simp: store_ok_def)

lemma in_store_extends:
  assumes "store_ok s" and "extends s s'"
  shows "in_store s t \<Longrightarrow> in_store s' t"
proof (induction t)
  case (Cell a ks ts)
  with assms show ?case by (auto simp: store_ok_def extends_def)
qed auto

lemma in_store_overwrite: "a \<notin> addrs t \<Longrightarrow> in_store (overwrite a c s) t \<longleftrightarrow> in_store s t"
  by (induction t) (auto simp: overwrite_def)

lemma alloc_extends:
  assumes "store_ok s"
  shows "extends s (snd (alloc ks vs s))" "store_ok (snd (alloc ks vs s))"
  using assms by (auto simp: alloc_def extends_def store_ok_def less_Suc_eq)

lemma flat_no_addrs: "typed P T t \<Longrightarrow> flat_type T \<Longrightarrow> addrs t = {}"
proof (induction rule: typed.induct)
  case (typed_Struct ks Ts ts)
  then show ?case by (fastforce simp: list_all2_conv_all_nth in_set_conv_nth)
qed auto

subsection \<open>Copying\<close>

text \<open>
  What a copy is: the value returned stands for a tree of the same shape in fresh memory, and the
  cells there were are unchanged.
\<close>

definition copied :: "store \<Rightarrow> tree \<Rightarrow> val \<times> store \<Rightarrow> bool" where
  "copied s t out \<longleftrightarrow>
     (\<exists>t'. fst out = root t' \<and> in_store (snd out) t' \<and> shape t' = shape t \<and> addrs t' \<subseteq> {next_addr s..} \<and>
        extends s (snd out) \<and> store_ok (snd out))"

definition copies :: "(string \<Rightarrow> tree \<Rightarrow> bool) \<Rightarrow> gotype \<Rightarrow> copier \<Rightarrow> bool" where
  "copies P T c \<longleftrightarrow> (\<forall>s t. store_ok s \<longrightarrow> in_store s t \<longrightarrow> typed P T t \<longrightarrow> copied s t (c (root t) s))"

lemma copiesE:
  assumes "copies P T c" "store_ok s" "in_store s t" "typed P T t"
  obtains t' s' where "c (root t) s = (root t', s')" "in_store s' t'" "shape t' = shape t"
    "addrs t' \<subseteq> {next_addr s..}" "extends s s'" "store_ok s'"
  using assms unfolding copies_def copied_def by (metis prod.collapse)

lemma copies_assign: "flat_type T \<Longrightarrow> copies P T assign"
  by (force simp: copies_def copied_def assign_def flat_no_addrs)

lemma copied_alloc:
  assumes "store_ok s'" "extends s s'" "\<forall>t \<in> set us. in_store s' t" "map shape us = map shape ts"
    "\<forall>t \<in> set us. addrs t \<subseteq> {next_addr s..}"
  shows "copied s (Cell a ks ts) (alloc ks (map root us) s')"
proof -
  let ?t = "Cell (next_addr s') ks us" and ?s = "snd (alloc ks (map root us) s')"
  have "in_store ?s t" if "t \<in> set us" for t
    using in_store_extends [OF assms(1) alloc_extends(1) [OF assms(1)]] that assms(3) by blast
  then have "in_store ?s ?t" by (simp add: alloc_def)
  moreover have "extends s ?s" by (rule extends_trans [OF assms(2) alloc_extends(1) [OF assms(1)]])
  ultimately show ?thesis
    using assms(2,4,5) alloc_extends(2) [OF assms(1)] unfolding copied_def
    by (intro exI [of _ ?t]) (auto simp: alloc_def extends_def)
qed

lemma copies_flat:
  "copies P (MapOf Flat) copy_flat" "copies P (SliceOf Flat) copy_flat"
proof -
  have cell: "copied s (Cell a ks ts) (copy_flat (Ref a) s)"
    if "store_ok s" "in_store s (Cell a ks ts)" "\<forall>t \<in> set ts. typed P Flat t" for s a ks ts
  proof -
    from that(3) have "\<forall>t \<in> set ts. addrs t = {}" by (auto elim!: typed_FlatE dest!: bspec)
    with that copied_alloc [of s s ts ts a ks] show ?thesis by (simp add: copy_flat_def)
  qed
  have "copied s NilTree (copy_flat NilRef s)" if "store_ok s" for s
    using that by (auto simp: copy_flat_def copied_def intro!: exI [of _ NilTree])
  with cell show "copies P (MapOf Flat) copy_flat" "copies P (SliceOf Flat) copy_flat"
    unfolding copies_def by (auto elim!: typed_MapE typed_SliceE simp del: in_store.simps)
qed

lemma copy_elements_copies:
  assumes "copies P T c"
  shows "store_ok s \<Longrightarrow> \<forall>t \<in> set ts. in_store s t \<and> typed P T t \<Longrightarrow>
    \<exists>us s'. copy_elements c (map root ts) s = (map root us, s') \<and> (\<forall>t \<in> set us. in_store s' t) \<and>
      map shape us = map shape ts \<and> (\<forall>t \<in> set us. addrs t \<subseteq> {next_addr s..}) \<and> extends s s' \<and> store_ok s'"
proof (induction ts arbitrary: s)
  case Nil
  then show ?case by (intro exI [of _ "[]"]) simp
next
  case (Cons t ts)
  obtain t' s1 where t': "c (root t) s = (root t', s1)" "in_store s1 t'" "shape t' = shape t"
    "addrs t' \<subseteq> {next_addr s..}" "extends s s1" "store_ok s1"
    by (rule copiesE [OF assms Cons.prems(1), of t]) (use Cons.prems(2) in auto)
  have "\<forall>t \<in> set ts. in_store s1 t \<and> typed P T t"
    using Cons.prems in_store_extends [OF Cons.prems(1) t'(5)] by auto
  from Cons.IH [OF t'(6) this] obtain us s2 where us: "copy_elements c (map root ts) s1 = (map root us, s2)"
    "\<forall>t \<in> set us. in_store s2 t" "map shape us = map shape ts" "\<forall>t \<in> set us. addrs t \<subseteq> {next_addr s1..}"
    "extends s1 s2" "store_ok s2"
    by blast
  have "in_store s2 t'" by (rule in_store_extends [OF t'(6) us(5) t'(2)])
  moreover have "next_addr s \<le> next_addr s1" using t'(5) by (simp add: extends_def)
  moreover have "extends s s2" by (rule extends_trans [OF t'(5) us(5)])
  ultimately show ?case
    using t' us by (intro exI [of _ "t' # us"] exI [of _ s2]) fastforce
qed

lemma copies_each:
  assumes "copies P T c"
  shows "copies P (MapOf T) (copy_each c)" "copies P (SliceOf T) (copy_each c)"
proof -
  have cell: "copied s (Cell a ks ts) (copy_each c (Ref a) s)"
    if "store_ok s" "in_store s (Cell a ks ts)" "\<forall>t \<in> set ts. typed P T t" for s a ks ts
  proof -
    from that have "\<forall>t \<in> set ts. in_store s t \<and> typed P T t" by simp
    from copy_elements_copies [OF assms that(1) this] obtain us s' where us:
      "copy_elements c (map root ts) s = (map root us, s')" "\<forall>t \<in> set us. in_store s' t"
      "map shape us = map shape ts" "\<forall>t \<in> set us. addrs t \<subseteq> {next_addr s..}" "extends s s'" "store_ok s'"
      by blast
    from copied_alloc [OF us(6,5,2,3,4)] that(2) us(1) show ?thesis by (simp add: copy_each_def)
  qed
  have "copied s NilTree (copy_each c NilRef s)" if "store_ok s" for s
    using that by (auto simp: copy_each_def copied_def intro!: exI [of _ NilTree])
  with cell show "copies P (MapOf T) (copy_each c)" "copies P (SliceOf T) (copy_each c)"
    unfolding copies_def by (auto elim!: typed_MapE typed_SliceE simp del: in_store.simps)
qed

lemma copies_DeepCopy:
  assumes "copies P T c"
  shows "copies P (PointerTo T) (DeepCopy c)" "copies P (PointerTo T) (DeepCopyObject c)"
proof -
  have cell: "copied s (Cell a [] [t]) (DeepCopy c (Ref a) s)"
    if "store_ok s" "in_store s (Cell a [] [t])" "typed P T t" for s a t
  proof -
    from that(2) have "in_store s t" by simp
    from copiesE [OF assms that(1) this that(3)] obtain t' s' where t': "c (root t) s = (root t', s')"
      "in_store s' t'" "shape t' = shape t" "addrs t' \<subseteq> {next_addr s..}" "extends s s'" "store_ok s'" .
    with copied_alloc [of s' s "[t']" "[t]" a "[]"] that(2) show ?thesis by (simp add: DeepCopy_def)
  qed
  have nil: "copied s NilTree (DeepCopy c NilRef s)" if "store_ok s" for s
    using that by (auto simp: DeepCopy_def copied_def intro!: exI [of _ NilTree])
  from cell nil show pointer: "copies P (PointerTo T) (DeepCopy c)"
    unfolding copies_def by (auto elim!: typed_PointerE simp del: in_store.simps)
  have "DeepCopyObject c p s = DeepCopy c p s" for p s
    by (simp add: DeepCopyObject_def split: prod.split)
  with pointer show "copies P (PointerTo T) (DeepCopyObject c)" by (simp add: copies_def)
qed

text \<open>Reading and writing a field of a struct.\<close>

lemma field_nth:
  "distinct ks \<Longrightarrow> length ts = length ks \<Longrightarrow> i < length ks \<Longrightarrow>
     field (ks ! i) (root (Fields ks ts)) = root (ts ! i)"
  by (simp add: field_def map_of_zip_nth)

lemma set_field_nth:
  assumes "distinct ks" "length us = length ks" "i < length ks"
  shows "set_field (ks ! i) (root u) (root (Fields ks us)) = root (Fields ks (us[i := u]))"
proof -
  have "map (\<lambda>(k, w). if k = ks ! i then root u else w) (zip ks (map root us)) = map root (us[i := u])"
    using assms by (intro nth_equalityI) (auto simp: nth_eq_iff_index_eq nth_list_update)
  then show ?thesis by (simp add: set_field_def)
qed

lemma copy_into_copies:
  fixes ks Ts ts and s0 :: store
  assumes type: "length ks = length Ts" "distinct ks" "list_all2 (typed P) Ts ts"
    and inp: "store_ok s0" "in_store s0 (Fields ks ts)"
  shows "\<forall>(f, c) \<in> set cs. \<exists>T. (f, T) \<in> set (zip ks Ts) \<and> copies P T c \<Longrightarrow>
    store_ok s \<Longrightarrow> extends s0 s \<Longrightarrow> in_store s (Fields ks us) \<Longrightarrow> map shape us = map shape ts \<Longrightarrow>
    \<forall>i < length ks. ks ! i \<notin> fst ` set cs \<longrightarrow> addrs (us ! i) \<subseteq> {next_addr s0..} \<Longrightarrow>
    copied s0 (Fields ks ts) (copy_into cs (root (Fields ks ts)) (root (Fields ks us)) s)"
proof (induction cs arbitrary: us s)
  case Nil
  have "length us = length ks" using Nil.prems(5) type by (metis list_all2_lengthD length_map)
  with Nil.prems show ?case
    unfolding copied_def by (intro exI [of _ "Fields ks us"]) (fastforce simp: in_set_conv_nth)
next
  case (Cons fc cs)
  obtain f c where fc: "fc = (f, c)" by (cases fc)
  from Cons.prems(1) fc obtain T where T: "(f, T) \<in> set (zip ks Ts)" "copies P T c" by auto
  then obtain i where i: "i < length ks" "ks ! i = f" "Ts ! i = T" by (auto simp: in_set_zip)
  have len: "length ts = length ks" "length us = length ks"
    using Cons.prems(5) type by (metis list_all2_lengthD length_map)+
  have ti: "typed P T (ts ! i)" using type(3) i type(1) by (auto simp: list_all2_conv_all_nth)
  have si: "in_store s (ts ! i)"
    using in_store_extends [OF inp(1) Cons.prems(3) inp(2)] i len by simp
  obtain t' s1 where t': "c (root (ts ! i)) s = (root t', s1)" "in_store s1 t'" "shape t' = shape (ts ! i)"
    "addrs t' \<subseteq> {next_addr s..}" "extends s s1" "store_ok s1"
    by (rule copiesE [OF T(2) Cons.prems(2) si ti])
  let ?us = "us[i := t']"
  have "copied s0 (Fields ks ts) (copy_into cs (root (Fields ks ts)) (root (Fields ks ?us)) s1)"
  proof (rule Cons.IH [OF _ t'(6)])
    show "\<forall>(f, c) \<in> set cs. \<exists>T. (f, T) \<in> set (zip ks Ts) \<and> copies P T c" using Cons.prems(1) by simp
    show "extends s0 s1" by (rule extends_trans [OF Cons.prems(3) t'(5)])
    have "in_store s1 u" if "u \<in> set ?us" for u
      using that set_update_subset_insert [of us i t'] t'(2)
        in_store_extends [OF Cons.prems(2) t'(5) Cons.prems(4)] by auto
    then show "in_store s1 (Fields ks ?us)" by simp
    show "map shape ?us = map shape ts"
      using Cons.prems(5) t'(3) i len by (metis list_update_id map_update nth_map)
    have "next_addr s0 \<le> next_addr s" using Cons.prems(3) by (simp add: extends_def)
    with t'(4) have "addrs t' \<subseteq> {next_addr s0..}" by auto
    with Cons.prems(6) fc i len type(2)
    show "\<forall>j < length ks. ks ! j \<notin> fst ` set cs \<longrightarrow> addrs (?us ! j) \<subseteq> {next_addr s0..}"
      by (metis fst_conv image_insert insertE list.simps(15) nth_eq_iff_index_eq nth_list_update)
  qed
  then show ?case
    using t'(1) i len type(2) by (simp add: fc field_nth [of ks ts i] set_field_nth [of ks us i] flip: i(2) root.simps)
qed

text \<open>
  A generated function is right when it lists every field that may refer to memory, with a copier for
  its type.
\<close>

definition lists_fields :: "(string \<Rightarrow> tree \<Rightarrow> bool) \<Rightarrow> (string \<times> gotype) list \<Rightarrow> (string \<times> copier) list \<Rightarrow> bool" where
  "lists_fields P fs cs \<longleftrightarrow> distinct (map fst fs) \<and>
     (\<forall>(f, c) \<in> set cs. \<exists>T. (f, T) \<in> set fs \<and> copies P T c) \<and>
     (\<forall>(f, T) \<in> set fs. f \<in> fst ` set cs \<or> flat_type T)"

lemma copies_fields:
  assumes "lists_fields P fs cs"
  shows "copies P (struct fs) (copy_fields cs)"
  unfolding copies_def
proof (intro allI impI)
  fix s t
  assume s: "store_ok s" "in_store s t" "typed P (struct fs) t"
  from s(3) obtain ts where t: "t = Fields (map fst fs) ts" "list_all2 (typed P) (map snd fs) ts"
    unfolding struct_def by (auto elim: typed_StructE)
  have "addrs (ts ! i) \<subseteq> {next_addr s..}" if "i < length fs" "fst (fs ! i) \<notin> fst ` set cs" for i
  proof -
    from that assms have "flat_type (snd (fs ! i))" by (fastforce simp: lists_fields_def dest: nth_mem)
    moreover from t(2) that have "typed P (snd (fs ! i)) (ts ! i)" by (simp add: list_all2_conv_all_nth)
    ultimately show ?thesis by (simp add: flat_no_addrs)
  qed
  then show "copied s t (copy_fields cs (root t) s)"
    unfolding copy_fields_def t(1)
    using assms s t by (intro copy_into_copies [where Ts = "map snd fs"])
      (auto simp: lists_fields_def zip_map_fst_snd)
qed

subsection \<open>The generated functions are right\<close>

text \<open>Documented behaviour of the \<open>DeepCopyInto\<close> functions of the library: they make deep copies too.\<close>

definition lib_copies :: "(string \<Rightarrow> tree \<Rightarrow> bool) \<Rightarrow> (string \<Rightarrow> copier) \<Rightarrow> bool" where
  "lib_copies P L \<longleftrightarrow> (\<forall>n. copies P (LibStruct n) (L n))"

named_theorems copies_rules "the copiers of the types"

lemma flat_structs [simp]:
  "flat_type type_DatabaseSecret" "flat_type type_ContainerPort" "flat_type type_TypeMeta" "flat_type type_TeamCityStatus"
  by (simp_all add: type_DatabaseSecret_def type_ContainerPort_def type_TypeMeta_def type_TeamCityStatus_def struct_def)

lemmas shallow_copies [copies_rules] = flat_structs [THEN copies_assign]

lemma copies_lib [copies_rules]: "lib_copies P L \<Longrightarrow> copies P (LibStruct n) (L n)"
  by (simp add: lib_copies_def)

lemmas container_copies [copies_rules] = copies_flat copies_each

lemma copies_CustomPersistentVolumeClaim [copies_rules]: "lib_copies P L \<Longrightarrow> copies P type_CustomPersistentVolumeClaim (DeepCopyInto_CustomPersistentVolumeClaim L)"
  unfolding type_CustomPersistentVolumeClaim_def DeepCopyInto_CustomPersistentVolumeClaim_def
  by (rule copies_fields) (simp add: lists_fields_def copies_rules)

lemma copies_DatabaseSecret [copies_rules]: "copies P type_DatabaseSecret DeepCopyInto_DatabaseSecret"
  unfolding type_DatabaseSecret_def DeepCopyInto_DatabaseSecret_def
  by (rule copies_fields) (simp add: lists_fields_def copies_rules)

lemma copies_Ingress [copies_rules]: "lib_copies P L \<Longrightarrow> copies P type_Ingress (DeepCopyInto_Ingress L)"
  unfolding type_Ingress_def DeepCopyInto_Ingress_def
  by (rule copies_fields) (simp add: lists_fields_def copies_rules)

lemma copies_NodeSpec [copies_rules]: "lib_copies P L \<Longrightarrow> copies P type_NodeSpec (DeepCopyInto_NodeSpec L)"
  unfolding type_NodeSpec_def DeepCopyInto_NodeSpec_def
  by (rule copies_fields) (simp add: lists_fields_def copies_rules)

lemma copies_Node [copies_rules]: "lib_copies P L \<Longrightarrow> copies P type_Node (DeepCopyInto_Node L)"
  unfolding type_Node_def DeepCopyInto_Node_def
  by (rule copies_fields) (simp add: lists_fields_def copies_rules)

lemma copies_Service [copies_rules]: "lib_copies P L \<Longrightarrow> copies P type_Service (DeepCopyInto_Service L)"
  unfolding type_Service_def DeepCopyInto_Service_def
  by (rule copies_fields) (simp add: lists_fields_def copies_rules)

lemma copies_ServiceAccount [copies_rules]: "copies P type_ServiceAccount DeepCopyInto_ServiceAccount"
  unfolding type_ServiceAccount_def DeepCopyInto_ServiceAccount_def
  by (rule copies_fields) (simp add: lists_fields_def copies_rules)

lemma copies_TeamCitySpec [copies_rules]: "lib_copies P L \<Longrightarrow> copies P type_TeamCitySpec (DeepCopyInto_TeamCitySpec L)"
  unfolding type_TeamCitySpec_def DeepCopyInto_TeamCitySpec_def
  by (rule copies_fields) (simp add: lists_fields_def copies_rules)

lemma copies_TeamCityStatus [copies_rules]: "copies P type_TeamCityStatus DeepCopyInto_TeamCityStatus"
  unfolding type_TeamCityStatus_def DeepCopyInto_TeamCityStatus_def
  by (rule copies_fields) (simp add: lists_fields_def copies_rules)

lemma copies_TeamCity [copies_rules]: "lib_copies P L \<Longrightarrow> copies P type_TeamCity (DeepCopyInto_TeamCity L)"
  unfolding type_TeamCity_def DeepCopyInto_TeamCity_def
  by (rule copies_fields) (simp add: lists_fields_def copies_rules)

lemma copies_TeamCityList [copies_rules]: "lib_copies P L \<Longrightarrow> copies P type_TeamCityList (DeepCopyInto_TeamCityList L)"
  unfolding type_TeamCityList_def DeepCopyInto_TeamCityList_def
  by (rule copies_fields) (simp add: lists_fields_def copies_rules)

text \<open>Each type with its two functions.\<close>

definition generated :: "(string \<Rightarrow> copier) \<Rightarrow> (gotype \<times> copier \<times> copier) list" where
  "generated L =
     [(type_CustomPersistentVolumeClaim, DeepCopyInto_CustomPersistentVolumeClaim L, DeepCopy_CustomPersistentVolumeClaim L),
      (type_DatabaseSecret, DeepCopyInto_DatabaseSecret, DeepCopy_DatabaseSecret),
      (type_Ingress, DeepCopyInto_Ingress L, DeepCopy_Ingress L),
      (type_NodeSpec, DeepCopyInto_NodeSpec L, DeepCopy_NodeSpec L),
      (type_Node, DeepCopyInto_Node L, DeepCopy_Node L),
      (type_Service, DeepCopyInto_Service L, DeepCopy_Service L),
      (type_ServiceAccount, DeepCopyInto_ServiceAccount, DeepCopy_ServiceAccount),
      (type_TeamCitySpec, DeepCopyInto_TeamCitySpec L, DeepCopy_TeamCitySpec L),
      (type_TeamCityStatus, DeepCopyInto_TeamCityStatus, DeepCopy_TeamCityStatus),
      (type_TeamCity, DeepCopyInto_TeamCity L, DeepCopy_TeamCity L),
      (type_TeamCityList, DeepCopyInto_TeamCityList L, DeepCopy_TeamCityList L)]"

lemma generated_copies:
  "lib_copies P L \<Longrightarrow> (T, into, copy) \<in> set (generated L) \<Longrightarrow> copies P T into \<and> copy = DeepCopy into"
  by (auto simp: generated_def copies_rules DeepCopy_CustomPersistentVolumeClaim_def DeepCopy_DatabaseSecret_def DeepCopy_Ingress_def DeepCopy_Node_def DeepCopy_NodeSpec_def DeepCopy_Service_def DeepCopy_ServiceAccount_def DeepCopy_TeamCity_def DeepCopy_TeamCityList_def DeepCopy_TeamCitySpec_def DeepCopy_TeamCityStatus_def)

text \<open>
  (C38) The pointer \<open>DeepCopy\<close> returns, of any type, stands for a value of the same shape as the one it
  was given, which the store still holds; and whatever is then written to memory the copy reaches does
  not change the original, nor the other way round. A nil pointer gives nil.
\<close>

theorem DeepCopy_isolates:
  assumes "lib_copies P L" and "(T, into, copy) \<in> set (generated L)"
    and "store_ok s" and "in_store s t" and "typed P (PointerTo T) t"
  shows "\<exists>t' s'. copy (root t) s = (root t', s') \<and> shape t' = shape t \<and> in_store s' t \<and> in_store s' t' \<and>
    (\<forall>a \<in> addrs t'. \<forall>c. in_store (overwrite a c s') t) \<and> (\<forall>a \<in> addrs t. \<forall>c. in_store (overwrite a c s') t')"
proof -
  from generated_copies [OF assms(1,2)] have "copies P (PointerTo T) copy" by (auto intro: copies_DeepCopy)
  from copiesE [OF this assms(3,4,5)] obtain t' s' where t': "copy (root t) s = (root t', s')" "in_store s' t'"
    "shape t' = shape t" "addrs t' \<subseteq> {next_addr s..}" "extends s s'" .
  have "in_store s' t" by (rule in_store_extends [OF assms(3) t'(5) assms(4)])
  moreover have "addrs t' \<inter> addrs t = {}" using t'(4) addrs_allocated [OF assms(3,4)] by fastforce
  ultimately show ?thesis using t' by (metis disjoint_iff in_store_overwrite)
qed

definition sample_annotations :: tree where
  "sample_annotations = Cell 0 [''role''] [Leaf ''server'']"

definition sample_account :: tree where
  "sample_account = Cell 1 [] [Fields [''Name'', ''Annotations''] [Leaf ''sa'', sample_annotations]]"

definition sample_memory :: store where
  "sample_memory = \<lparr>next_addr = 2, cells = [0 \<mapsto> ([''role''], [Scalar ''server'']),
     1 \<mapsto> ([], [Record [''Name'', ''Annotations''] [Scalar ''sa'', Ref 0]])]\<rparr>"

theorem DeepCopy_isolates_witness:
  "\<exists>t' s'. DeepCopy_ServiceAccount (Ref 1) sample_memory = (root t', s') \<and> shape t' = shape sample_account \<and>
     (\<forall>a \<in> addrs t'. \<forall>c. in_store (overwrite a c s') sample_account)"
proof -
  have "lib_copies (\<lambda>n t. \<exists>v. t = Leaf v) (\<lambda>n. assign)"
    by (force simp: lib_copies_def copies_def copied_def assign_def elim: typed.cases)
  moreover have "(type_ServiceAccount, DeepCopyInto_ServiceAccount, DeepCopy_ServiceAccount) \<in>
      set (generated (\<lambda>n. assign))" by (simp add: generated_def)
  moreover have "store_ok sample_memory" by (simp add: store_ok_def sample_memory_def)
  moreover have "in_store sample_memory sample_account"
    by (simp add: sample_memory_def sample_account_def sample_annotations_def)
  moreover have "typed (\<lambda>n t. \<exists>v. t = Leaf v) (PointerTo type_ServiceAccount) sample_account"
    by (auto simp: sample_account_def sample_annotations_def type_ServiceAccount_def struct_def intro!: typed.intros)
  ultimately show ?thesis
    using DeepCopy_isolates [of "\<lambda>n t. \<exists>v. t = Leaf v" "\<lambda>n. assign" type_ServiceAccount
        DeepCopyInto_ServiceAccount DeepCopy_ServiceAccount sample_memory sample_account]
    by (fastforce simp: sample_account_def)
qed

end
