(* ===== verification/Spec2Isabelle.thy ===== *)
theory Spec2Isabelle
  imports Admission_Properties Checkpoint_Properties Resource_Properties Upgrade_Progress Reconcile_Safety
    Call_Bounds Desired_State Permissions Program_Entry Builder_Tests Deep_Copies
begin

text \<open>
  A model of the TeamCity operator (Go, \<open>src/\<close>), a Kubernetes controller that keeps the objects of
  a TeamCity server in line with a custom resource of kind \<open>TeamCity\<close>, and proofs about it.

  \<^bold>\<open>The program.\<close> Creations and updates of a TeamCity resource pass an admission webhook
  (\<open>api/v1beta1\<close>). Event predicates (\<open>internal/predicate\<close>) decide which changes in the cluster wake the
  controller (\<open>internal/controller\<close>). Its function \<open>Reconcile\<close> reads the resource, finalizes one marked
  for deletion, or takes one step of a zero-downtime upgrade, kept as a checkpoint in a ConfigMap
  (\<open>internal/checkpoint\<close>), and then lets six builders (\<open>internal/resource\<close>) one after the other delete
  obsolete objects and create or update the wanted ones: volume claims, the service account,
  services, ingresses, the StatefulSet of the main node and those of the secondary nodes. A
  StatefulSet whose service name changes has to be deleted and created again, which an annotation
  must allow.

  \<^bold>\<open>How it is modelled.\<close> Go functions keep their names. A struct is a record, an interface value a
  datatype of the types that implement it, a nil-able pointer an option, a Go map a finite map with
  loops over its keys in some order (values are immutable; where the code shares memory, between the
  update replica and the main StatefulSet, the model returns both; \<open>Deep_Copies\<close> alone has an explicit store), an \<open>int64\<close> stage a 64-bit word, a \<open>float64\<close> a rational rounded to 53
  bits after each operation. An outcome is \<open>Ok\<close>, \<open>Err\<close> or \<open>Panic\<close>. What the operator calls in the cluster
  is a parameter: \<open>client\<close> (theory \<open>Cluster\<close>) holds one function per request that takes the state of the
  world, of any type, to an answer and a new state, so every theorem that does not restrict the
  client holds for every behaviour of the API server, interference by others included. Every call is
  recorded with its answer in the history of the run; a property of a run speaks about that history.
  The library functions the operator calls (\<open>k8s_lib\<close>, theory \<open>K8s_Library\<close>: quantities, controller
  references, semantic comparisons, and the order in which Go visits a map where the code sorts
  what it collects, ...) are parameters too, and the documented behaviour of those
  a theorem needs is a named hypothesis of it, all satisfied by \<open>sample_lib\<close>.

  \<^bold>\<open>The theories and the code.\<close>
  \<^item> \<open>Go_Prelude\<close>, \<open>Go_Float\<close>: Go's maps, strings, sorting, quoting, \<open>float64\<close>. \<open>K8s_Objects\<close>,
    \<open>K8s_Library\<close>: the Kubernetes types, as far as the operator reads or writes their fields; a group of
    fields it only copies is one opaque field.
  \<^item> \<open>Go_Errors\<close> (the error types of \<open>teamcity_feedback.go\<close>), \<open>TeamCity_Types\<close>
    (\<open>api/v1beta1/teamcity_types.go\<close>), \<open>Labels\<close> (\<open>metadata/label.go\<close>), \<open>Webhook\<close>
    (\<open>api/v1beta1/teamcity_webhook.go\<close>), \<open>Predicates\<close> (\<open>predicate/predicate.go\<close>), \<open>Watches\<close>
    (\<open>SetupWithManager\<close> in \<open>controller/teamcity_controller.go\<close>), \<open>Program_Entry\<close> (\<open>cmd/main.go\<close>,
    \<open>groupversion_info.go\<close>: the steps that start the operator).
  \<^item> \<open>Stages\<close> (\<open>checkpoint/stage.go\<close>), \<open>Checkpoints\<close> (\<open>checkpoint/checkpoint.go\<close>, \<open>util.go\<close>).
  \<^item> \<open>Node_Resources\<close> (\<open>resource/statefulset_utils.go\<close>, \<open>util.go\<close>, \<open>statefulset_recreate.go\<close>,
    \<open>update_with_ro_utils.go\<close>), \<open>Builders\<close> (the builders and \<open>teamcity_resource_builder.go\<close>),
    \<open>Builder_Contracts\<close> and \<open>Node_Facts\<close> (lemmas about them).
  \<^item> \<open>Cluster\<close> (the client and the histories), \<open>Recreate\<close> (\<open>controller/util.go\<close>,
    \<open>teamcity_feedback.go\<close>, \<open>statefulset_recreate.go\<close>), \<open>Upgrade_Stages\<close>
    (\<open>controller/checkpoint_stages.go\<close>), \<open>Controller\<close> (\<open>controller/teamcity_controller.go\<close>).
  \<^item> \<open>Footprint\<close>, \<open>Upgrade_Machine\<close>, \<open>Upgrade_Refinement\<close>, \<open>Upgrade_Progress\<close>, \<open>Reconcile_Safety\<close>,
    \<open>Update_Order\<close>, \<open>Deletions\<close>, \<open>Upgrade_Gate\<close>, \<open>Requeueing\<close>, \<open>Applications\<close>, \<open>Call_Bounds\<close>,
    \<open>Object_Store\<close>, \<open>Desired_State\<close>: lemmas about whole runs. \<open>Permissions\<close>: the RBAC markers of the controller, the ClusterRole of the
    Helm chart, and what each call needs of them.
  \<^item> \<open>Deep_Copies\<close> (\<open>api/v1beta1/zz_generated.deepcopy.go\<close>): the copies made of objects in the shared cache.
  \<^item> \<open>Fixtures\<close> (\<open>resource/testutils.go\<close>), \<open>Unit_Tests\<close>, \<open>Builder_Tests\<close>: what the unit tests of the
    repository expect of the code, proved of the model on their inputs (those that do not need a
    cluster).
  \<^item> \<open>Samples\<close>, \<open>Sample_Runs\<close>: concrete inputs and evaluated runs, on which every property with
    hypotheses is instantiated. \<open>Admission_Properties\<close>, \<open>Checkpoint_Properties\<close>,
    \<open>Resource_Properties\<close>, some of the theories about runs and this theory state the properties, C1 to C40.

  \<^bold>\<open>What the lemmas show.\<close> The purpose of the controller is \<open>desired_state\<close> (\<open>Desired_State\<close>): a
  reconciliation that reports nothing left to do, other than that the user has to act, leaves every
  object the resource asks for stored as the API server makes it of a completely filled in one, and no
  leftovers of its own (C2); the objects are followed through the calls
  of the run (\<open>Object_Store\<close>) under the hypotheses that lists
  agree with what is stored and that \<open>CreateOrUpdate\<close> sends what the closure makes of an object of that key
  (\<open>documented_apply\<close>, with any relation between what is sent and what the server stores of it), and for runs
  that do not recreate a StatefulSet or apply a promoted secondary node (\<open>ordinary\<close>). The abstract specification of an upgrade is \<open>upgrade_step\<close> on the states no
  upgrade, at a phase, and unreadable checkpoint (\<open>Upgrade_Machine\<close>); \<open>Reconcile\<close> refines it whenever
  the answers about ConfigMaps are \<open>consistent\<close> with some store that the calls of the run itself
  change and nobody else does (C1), so phases are neither skipped nor taken back (C9), and with a
  cluster that cooperates - reads succeed, awaited nodes come up, writes are accepted
  (\<open>cooperates\<close>) - every run takes one phase, so \<open>7 - phase_rank p\<close> runs end an upgrade in phase \<open>p\<close>
  (C4); a run whose reads succeed and that leaves an upgrade
  unfinished asks to be queued again (C11). Safety holds for every client: secondary nodes after the main one (C3), no recreate without the
  annotation (C5, C6), no deletion of anything wanted or not listed (C7), nothing applied that does
  not belong to the resource (C14), nothing called that the RBAC markers do not permit - while the
  Helm chart's role forbids recording events - (C15), panics only from the closures of \<open>CreateOrUpdate\<close> (C18). The copies made of
  cached objects share no memory with them (C38). The
  builders satisfy the contracts \<open>resource_builder\<close> and \<open>collecting_builder\<close> (\<open>Builder_Contracts\<close>): what they
  build, fill in and collect as obsolete agrees by name, and filling in converges (C16, C26, C27). The
  labels satisfy \<open>operator_labels\<close> and \<open>selector_labels\<close>, the stage texts \<open>stage_codec\<close>, the event filters
  \<open>update_filter\<close>, and conditions on the calls of a run that survive appending runs are \<open>call_order\<close>, each
  locale interpreted on the model's definitions. Several properties pin down behaviour that departs
  from the evident intention: a swallowed error (C21, C23), a deletion without a name (C25), checks that
  never refuse (\<open>request_checks_pass\<close>), the StatefulSet of a promoted secondary node deleted right after it was
  applied (C20), a requeue that is dropped (C19).

  \<^bold>\<open>Bounds and termination.\<close> No fuel is used: every loop of the operator runs over a list or a
  map, and the calls of a run are bounded by the resource and the listed objects (C12,
  theory \<open>Call_Bounds\<close>).
  \<open>RetryOnConflict\<close> and \<open>CreateOrUpdate\<close> are functions of the client, which call the closure on the
  object as often as they like. The heap size is proved for percentages up to 100 and
  memory requests up to 2 to the 53 bytes, where the conversion to \<open>float64\<close> is exact (C31).

  \<^bold>\<open>Not modelled.\<close> Logging and the parsing of flags; what controller-runtime does with the controller, the
  webhook and the scheme the program registers (the registrations are steps of \<open>Program_Entry\<close>, the
  watches are modelled); the tests that start an API server (\<open>controller/suite_test.go\<close>). A nil
  slice or map is the empty one, but in \<open>Deep_Copies\<close>: the code tells them apart in \<open>reflect.DeepEqual\<close> only (\<open>Predicates\<close>).
  Reconciliations of one resource
  do not overlap, as the controller runs one at a time.
\<close>

section \<open>Properties of a reconciliation\<close>

text \<open>
  What holds of every run of \<open>Reconcile\<close> (\<open>internal/controller/teamcity_controller.go\<close>), whatever the
  cluster answers: the history of a run is the read of the TeamCity resource and the calls \<open>rest\<close> that
  follow it.
\<close>

subsection \<open>The upgrade\<close>

text \<open>
  (C1) A reconciliation refines the upgrade state machine: if the API server answers consistently with
  some store of ConfigMaps that only the operator changes meanwhile, a run takes one step of the
  machine - begin, advance by one phase, finish, abandon when the resource is being deleted, or
  nothing - and leaves the ConfigMaps of all other names as they are.
\<close>

theorem Reconcile_refines_upgrade:
  assumes "run_state (Reconcile R req) s = (out, s')"
    and "history s' = history s @ GetTeamCity req (Inr t) # rest"
    and "consistent \<sigma> rest" and "keyed \<sigma>"
  shows "upgrade_step (IsMultiNode t) (om_DeletionTimestamp (tc_meta t) \<noteq> None)
      (upgrade_of \<sigma> t) (upgrade_of (replay \<sigma> rest) t) \<and>
    (\<forall>n. n = checkpoint_key t \<or> replay \<sigma> rest n = \<sigma> n)"
proof -
  from runs_history [OF Reconcile_refines assms(1,2)] assms(3,4)
  have "upgrades (om_DeletionTimestamp (tc_meta t) \<noteq> None) t \<sigma> (replay \<sigma> rest)" by auto
  then show ?thesis unfolding upgrades_def by blast
qed

theorem Reconcile_refines_upgrade_witness:
  "upgrade_step False False (At Initiated) (At Created)"
proof -
  have "run_state (Reconcile sample_initiated sample_request) (sample_sys (Some Initiated)) =
      (fst (run_state (Reconcile sample_initiated sample_request) (sample_sys (Some Initiated))),
       snd (run_state (Reconcile sample_initiated sample_request) (sample_sys (Some Initiated))))"
    by simp
  from Reconcile_refines_upgrade [OF this, where \<sigma> = "sample_store (Some Initiated)" and
      t = "sample_tc fmempty False []"] show ?thesis
    by (simp add: run_initiated IsMultiNode_iff)
qed

text \<open>
  (C9) From a cluster in which an upgrade is in a state the machine reaches from no upgrade, a
  reconciliation never leads to an unexpected one: the checkpoint always names a stage, never the
  initial one, and with secondary nodes never one of the stages that need the replica.
\<close>

theorem upgrade_stays_expected:
  assumes "run_state (Reconcile R req) s = (out, s')"
    and "history s' = history s @ GetTeamCity req (Inr t) # rest"
    and "consistent \<sigma> rest" and "keyed \<sigma>" and "reachable (IsMultiNode t) (upgrade_of \<sigma> t)"
  shows "reachable (IsMultiNode t) (upgrade_of (replay \<sigma> rest) t) \<and>
    (case upgrade_of (replay \<sigma> rest) t of
       NoUpgrade \<Rightarrow> True
     | At p \<Rightarrow> if IsMultiNode t then ShuttingDown \<le> p else Created \<le> p
     | Unreadable \<Rightarrow> False)"
proof -
  from runs_history [OF Reconcile_refines assms(1,2)] assms(3,4)
  have "upgrades (om_DeletionTimestamp (tc_meta t) \<noteq> None) t \<sigma> (replay \<sigma> rest)" by auto
  then have "reachable (IsMultiNode t) (upgrade_of (replay \<sigma> rest) t)"
    using assms(5) unfolding upgrades_def by (blast intro: reachable.step)
  then show ?thesis using reachable_expected unfolding expected_def by blast
qed

theorem upgrade_stays_expected_witness:
  "reachable False (At Created) \<and> Created \<le> Created"
proof -
  have "run_state (Reconcile sample_starting sample_request) (sample_sys None) =
      (fst (run_state (Reconcile sample_starting sample_request) (sample_sys None)),
       snd (run_state (Reconcile sample_starting sample_request) (sample_sys None)))"
    by simp
  from upgrade_stays_expected [OF this, where \<sigma> = "sample_store None" and
      t = "sample_tc zero_downtime False []"] show ?thesis
    by (simp add: run_starting IsMultiNode_iff reachable.initial sample_not_found_def)
qed

text \<open>
  (C4) An upgrade finishes: from any phase, as many reconciliations as there are phases left lead to no
  upgrade, when the resource is not being deleted and the cluster cooperates - reads succeed, the
  replica becomes available and the main node settles when they are waited for, and writes of the
  checkpoint succeed.
\<close>

theorem upgrade_finishes:
  assumes "om_DeletionTimestamp (tc_meta t) = None" and "keyed \<sigma>" and "upgrade_of \<sigma> t = At p"
    and "cooperative_runs R req t \<sigma> (7 - phase_rank p) \<sigma>'"
  shows "upgrade_of \<sigma>' t = NoUpgrade"
  using assms by (rule cooperative_runs_finish)

theorem upgrade_finishes_witness:
  "cooperative_runs sample_initiated sample_request (sample_tc fmempty False []) (sample_store (Some MainUp)) 2 (sample_store None) \<and>
   upgrade_of (sample_store None) (sample_tc fmempty False []) = NoUpgrade"
proof -
  let ?t = "sample_tc fmempty False []"
  have last: "cooperative_runs sample_initiated sample_request ?t (sample_store (Some Finished)) (Suc 0) (sample_store None)"
    by (rule cooperative_runs.more [OF run_finished], simp, rule refl)
      (simp_all add: sample_not_found_def cooperative_runs.none)
  have runs: "cooperative_runs sample_initiated sample_request ?t (sample_store (Some MainUp)) (Suc (Suc 0)) (sample_store None)"
    by (rule cooperative_runs.more [OF run_main_up], simp, rule refl)
      (simp_all add: sample_not_found_def last)
  moreover have "upgrade_of (sample_store None) ?t = NoUpgrade"
    by (rule upgrade_finishes [where p = MainUp and \<sigma> = "sample_store (Some MainUp)"])
      (use runs in \<open>simp_all add: numeral_2_eq_2\<close>)
  ultimately show ?thesis by (simp add: numeral_2_eq_2)
qed

text \<open>
  (C10) While an upgrade is in a phase in which nodes are still to be brought up - any but those where
  the main node may be restarted or everything is done - a reconciliation applies nothing but the
  update replica and looks for no obsolete objects, provided that the answers about ConfigMaps agree
  with a store that holds the upgrade in this phase and no read of a ConfigMap or StatefulSet fails
  but with NotFound. (After a read that fails otherwise the step is skipped and the builders run.)
\<close>

theorem upgrade_holds_back:
  assumes "run_state (Reconcile R req) s = (out, s')"
    and "history s' = history s @ GetTeamCity req (Inr t) # rest"
    and "consistent \<sigma> rest" and "list_all readable rest"
    and "upgrade_of \<sigma> t = At p" and "p \<noteq> Ready" and "p \<noteq> Finished"
  shows "ListObjects k namespace labels listed \<notin> set rest \<and>
    (CreateOrUpdateObject obj err obj' \<in> set rest \<longrightarrow> obj = StatefulSetObject (BuildROStatefulSet t))"
proof -
  have "holds_back p" using assms(6,7) by (simp add: holds_back_def)
  from runs_history [OF Reconcile_held_back [OF this] assms(1,2)] assms(3-5)
  have "list_all (held_back t) rest" by blast
  then show ?thesis by (auto simp: list_all_iff held_back_def)
qed

theorem upgrade_holds_back_witness:
  "\<forall>k namespace labels listed. ListObjects k namespace labels listed \<notin>
     set (tl (history (snd (run_state (Reconcile sample_initiated sample_request) (sample_sys (Some Initiated))))))"
proof (intro allI)
  fix k namespace labels listed
  have "run_state (Reconcile sample_initiated sample_request) (sample_sys (Some Initiated)) =
      (fst (run_state (Reconcile sample_initiated sample_request) (sample_sys (Some Initiated))),
       snd (run_state (Reconcile sample_initiated sample_request) (sample_sys (Some Initiated))))"
    by simp
  from upgrade_holds_back [OF this, where \<sigma> = "sample_store (Some Initiated)" and p = Initiated and
      t = "sample_tc fmempty False []"]
  show "ListObjects k namespace labels listed \<notin>
     set (tl (history (snd (run_state (Reconcile sample_initiated sample_request) (sample_sys (Some Initiated))))))"
    by (simp add: run_initiated sample_not_found_def)
qed

text \<open>
  (C11) An upgrade is not forgotten: ConfigMaps are not watched, but if the checkpoint names a phase after a
  reconciliation of a resource not marked for deletion, that reconciliation failed, and is retried, or
  asked to come back after three seconds, or its last call belongs to the report that the user has to
  allow recreating a StatefulSet - provided that the answers about ConfigMaps agree with a store and
  no read of a ConfigMap or StatefulSet fails but with NotFound. (A read that fails otherwise counts
  as no upgrade in the code, and the reconciliation may end with nothing left to do.)
\<close>

theorem upgrade_stays_queued:
  assumes "run_state (Reconcile R req) s = (out, s')"
    and "history s' = history s @ GetTeamCity req (Inr t) # rest"
    and "consistent \<sigma> rest" and "list_all readable rest"
    and "om_DeletionTimestamp (tc_meta t) = None" and "upgrade_of (replay \<sigma> rest) t = At p"
  shows "KindConfigMap \<notin> watch_Kind ` set (setup_Watches (SetupWithManager (r_Lib R))) \<and>
    (case out of
       Ok r \<Rightarrow> r = \<lparr>Requeue = True, RequeueAfter = 3 * 10 ^ 9\<rparr> \<or> rest \<noteq> [] \<and> reports_blocked t (last rest)
     | _ \<Rightarrow> True)"
proof -
  from runs_history [OF Reconcile_plain assms(1,2)] have plain: "plain_outcome out" .
  from runs_history [OF Reconcile_settled assms(1,2)] assms(5) have settled: "settled t out rest" by blast
  have "rest \<noteq> [] \<and> reports_blocked t (last rest)" if "out = Ok zero_Result"
  proof -
    from settled that obtain pre c where "rest = pre @ [c]" "no_upgrade_read t c \<or> reports_blocked t c"
      unfolding settled_def by blast
    with no_upgrade_read_none [of \<sigma> pre c t p] assms(3,4,6) show ?thesis by auto
  qed
  with plain show ?thesis
    by (auto simp: plain_outcome_def requeue_Result_def reconciliationRequeueInterval_def SetupWithManager_def
        split: res.splits)
qed

theorem upgrade_stays_queued_witness:
  "fst (run_state (Reconcile sample_initiated sample_request) (sample_sys (Some Initiated))) =
     Ok \<lparr>Requeue = True, RequeueAfter = 3000000000\<rparr>"
proof -
  have "run_state (Reconcile sample_initiated sample_request) (sample_sys (Some Initiated)) =
      (fst (run_state (Reconcile sample_initiated sample_request) (sample_sys (Some Initiated))),
       snd (run_state (Reconcile sample_initiated sample_request) (sample_sys (Some Initiated))))"
    by simp
  from upgrade_stays_queued [OF this, where \<sigma> = "sample_store (Some Initiated)" and p = Created and
      t = "sample_tc fmempty False []", THEN conjunct2]
  show ?thesis by (simp add: run_initiated reports_blocked_def sample_not_found_def)
qed

subsection \<open>Order and safety\<close>

text \<open>
  (C3) Secondary nodes wait for the main node: whenever a reconciliation applies the StatefulSet of a
  secondary node, it has, earlier in the same run, read the main StatefulSet in its newest
  generation, read it updated and ready, and read the checkpoint without finding a stage. If the
  answers about ConfigMaps up to that last read agree with a store and the read did not fail but with
  NotFound, then no upgrade was in any phase at that moment; a read that fails otherwise counts as no
  upgrade in the code.
\<close>

theorem secondaries_after_main:
  assumes "run_state (Reconcile R req) s = (out, s')"
    and "history s' = history s @ GetTeamCity req (Inr t) # pre @ CreateOrUpdateObject obj err obj' # post"
    and "obj \<in> set (SecondaryStatefulSet_BuildObjectList t)"
  shows "(\<exists>sts. GetStatefulSet (main_key t) (Inr sts) \<in> set pre \<and>
       om_Generation (sts_meta sts) = st_ObservedGeneration (sts_Status sts)) \<and>
    (\<exists>sts. GetStatefulSet (main_key t) (Inr sts) \<in> set pre \<and>
       st_CurrentRevision (sts_Status sts) = st_UpdateRevision (sts_Status sts) \<and> st_ReadyReplicas (sts_Status sts) = 1) \<and>
    (\<exists>before r after. pre = before @ GetConfigMap (checkpoint_key t) r # after \<and>
       (\<forall>cm. r = Inr cm \<longrightarrow> read_stage cm = None) \<and>
       (\<forall>\<sigma>. consistent \<sigma> (before @ [GetConfigMap (checkpoint_key t) r]) \<longrightarrow> (\<forall>e. r = Inl e \<longrightarrow> IsNotFound e) \<longrightarrow>
          (\<forall>p. upgrade_of (replay \<sigma> before) t \<noteq> At p)))"
proof -
  from runs_history [OF Reconcile_waits assms(1,2)] assms(3) have "main_is_up t pre"
    unfolding secondaries_wait_def by (auto simp: applies_secondary_def)
  then have newest: "list_ex (newest_read t) pre" and updated: "list_ex (updated_read t) pre"
    and quiet: "list_ex (no_upgrade_read t) pre"
    by (simp_all add: main_is_up_def)
  from newest have "\<exists>sts. GetStatefulSet (main_key t) (Inr sts) \<in> set pre \<and>
       om_Generation (sts_meta sts) = st_ObservedGeneration (sts_Status sts)"
    by (auto simp: list_ex_iff read_iffs)
  moreover from updated have "\<exists>sts. GetStatefulSet (main_key t) (Inr sts) \<in> set pre \<and>
       st_CurrentRevision (sts_Status sts) = st_UpdateRevision (sts_Status sts) \<and> st_ReadyReplicas (sts_Status sts) = 1"
    by (auto simp: list_ex_iff read_iffs)
  ultimately show ?thesis using no_upgrade_read_split [OF quiet] by blast
qed

theorem secondaries_after_main_witness:
  "\<exists>s' pre err obj' post sts. run_state (Reconcile sample_multi sample_request) (sample_sys None) = (Ok zero_Result, s') \<and>
     history s' = GetTeamCity sample_request (Inr sample_two_nodes) # pre @ CreateOrUpdateObject sample_secondary err obj' # post \<and>
     GetStatefulSet (main_key sample_two_nodes) (Inr sts) \<in> set pre"
proof -
  obtain s' pre err obj' post where run: "run_state (Reconcile sample_multi sample_request) (sample_sys None) = (Ok zero_Result, s')"
    "history s' = GetTeamCity sample_request (Inr sample_two_nodes) # pre @ CreateOrUpdateObject sample_secondary err obj' # post"
    using run_multi by blast
  have "sample_secondary \<in> set (SecondaryStatefulSet_BuildObjectList sample_two_nodes)"
    by (simp add: sample_two_nodes_def sample_secondary_def sample_built)
  with secondaries_after_main [OF run(1), where t = sample_two_nodes and pre = pre, THEN conjunct1] run
  show ?thesis by auto
qed

text \<open>
  (C18) A reconciliation panics only inside the function that fills in an object during a
  \<open>CreateOrUpdate\<close>: no dispatch, lookup or conversion of the reconciler itself does.
\<close>

theorem panic_only_in_mutate:
  assumes "run_state (Reconcile R req) s = (Panic p, s')" and "history s' = history s @ cs"
  shows "\<exists>obj p' obj'. CreateOrUpdateObject obj (Panic p') obj' \<in> set cs"
  using runs_history [OF Reconcile_panic assms]
  by (simp add: panic_explained_def list_ex_iff mutate_panicked_iff) blast

theorem panic_only_in_mutate_witness:
  "\<exists>obj p' obj'. CreateOrUpdateObject obj (Panic p') obj' \<in>
     set (history (snd (run_state (Reconcile sample_broken sample_request) (sample_sys (Some Created)))))"
proof -
  obtain w cs where "run_state (Reconcile sample_broken sample_request) (sample_sys (Some Created)) =
      (Panic ''index out of range [0] with length 0'', \<lparr>world = w, history = cs\<rparr>)"
    using run_broken by blast
  from panic_only_in_mutate [OF this, of cs] this show ?thesis by simp
qed

text \<open>
  (C19) A reconciliation that does not fail returns one of two results: nothing more to do, or requeue
  after three seconds. The shorter interval after a deletion for recreating is never returned.
\<close>

theorem Reconcile_results:
  "case fst (run_state (Reconcile R req) s) of
     Ok r \<Rightarrow> r \<in> {zero_Result, \<lparr>Requeue = True, RequeueAfter = 3 * 10 ^ 9\<rparr>}
   | _ \<Rightarrow> True"
proof -
  obtain out s' where run: "run_state (Reconcile R req) s = (out, s')" by (metis surj_pair)
  from runsD [OF Reconcile_plain run] have "plain_outcome out" by blast
  then show ?thesis
    by (simp add: run plain_outcome_def requeue_Result_def reconciliationRequeueInterval_def split: res.splits)
qed

text \<open>
  (C5) A reconciliation deletes an object with a propagation policy only to recreate a StatefulSet, in
  the foreground, and only if the resource carries the annotation that allows it.
\<close>

theorem recreate_needs_annotation:
  assumes "run_state (Reconcile R req) s = (out, s')"
    and "history s' = history s @ GetTeamCity req (Inr t) # rest"
    and "DeleteObject k n (Some policy) r \<in> set rest"
  shows "fmlookup (tc_Annotations t) ''teamcity.jetbrains.com/allow-sts-recreate'' = Some ''true'' \<and>
    k = KindStatefulSet \<and> policy = ''Foreground''"
proof -
  from runs_history [OF Reconcile_recreate_guard [of R req t] assms(1,2)]
  have "list_all (recreate_guard t) rest" by simp
  then have "recreate_guard t (DeleteObject k n (Some policy) r)" using assms(3) unfolding list_all_iff by blast
  then show ?thesis
    by (simp add: AllowsStatefulSetRecreate_iff AllowStsRecreateAnnotationKey_def DeletePropagationForeground_def)
qed

theorem recreate_needs_annotation_witness:
  "\<exists>rest. history (snd (run_state (Reconcile sample_recreating sample_request) (sample_sys None))) =
       GetTeamCity sample_request (Inr (sample_tc allow_recreate False [])) # rest \<and>
     DeleteObject KindStatefulSet sample_main_key (Some DeletePropagationForeground) (Inr ()) \<in> set rest \<and>
     fmlookup allow_recreate ''teamcity.jetbrains.com/allow-sts-recreate'' = Some ''true''"
proof -
  obtain out s' rest where run: "run_state (Reconcile sample_recreating sample_request) (sample_sys None) = (out, s')"
    "history s' = GetTeamCity sample_request (Inr (sample_tc allow_recreate False [])) # rest"
    "DeleteObject KindStatefulSet sample_main_key (Some DeletePropagationForeground) (Inr ()) \<in> set rest"
    using run_recreating by blast
  from recreate_needs_annotation [OF run(1) _ run(3)] run show ?thesis by simp
qed


text \<open>
  (C6) Before a StatefulSet of a node is applied it is read: a missing one is left to be created, any
  other failed read is the error. One with the node's service name is applied in place; with another
  service name, without the annotation nothing is deleted and the error lists the change, and with
  it the StatefulSet read is deleted in the foreground.
\<close>

theorem before_applying_StatefulSet:
  assumes "isStatefulSetBuilder b" and "nodeForStatefulSetObject t b obj = Ok (Some node)"
  shows "runs (reconcileStatefulSetBeforeCreateOrUpdate R t b obj) (\<lambda>out cs.
    \<exists>r rest. cs = GetStatefulSet \<lparr>nn_Namespace = tc_Namespace t, nn_Name = GetName obj\<rparr> r # rest \<and>
      (case r of
         Inl e \<Rightarrow> rest = [] \<and> out = (if IsNotFound e then Ok zero_Result else Err e)
       | Inr existing \<Rightarrow>
           if ss_ServiceName (sts_Spec existing) = ns_ServiceName (node_Spec node)
           then rest = [] \<and> out = Ok zero_Result
           else if \<not> AllowsStatefulSetRecreate t
           then rest = [] \<and> out = Err (RecreateBlocked (newStatefulSetRecreateBlockedError
                  (om_Name (sts_meta existing)) (node_Name node) (drift R t b node existing)))
           else \<exists>d. DeleteObject KindStatefulSet (meta_key (sts_meta existing)) (Some DeletePropagationForeground) d
                  \<in> set rest))"
  using assms by (rule before_StatefulSet)

definition sample_refusing :: "ConfigMap option TeamcityReconciler" where
  "sample_refusing = sample_reconciler (sample_tc fmempty False []) (\<lambda>n. Inr sample_drifted) (Inr [])"

theorem before_applying_StatefulSet_witness:
  "\<exists>blocked. fst (run_state (reconcileStatefulSetBeforeCreateOrUpdate sample_refusing (sample_tc fmempty False [])
       (StatefulSetBuilder (sample_tc fmempty False [])) (StatefulSetObject sample_StatefulSet)) (sample_sys None)) =
     Err (RecreateBlocked blocked) \<and> rb_StatefulSetName blocked = ''main''"
proof -
  let ?t = "sample_tc fmempty False []"
  let ?m = "reconcileStatefulSetBeforeCreateOrUpdate sample_refusing ?t (StatefulSetBuilder ?t) (StatefulSetObject sample_StatefulSet)"
  have refused: "\<not> AllowsStatefulSetRecreate ?t"
    by (simp add: AllowsStatefulSetRecreate_iff)
  have hist: "history (snd (run_state ?m (sample_sys None))) = [GetStatefulSet sample_main_key (Inr sample_drifted)]"
    using refused
    by (simp add: sample_refusing_def reconcileStatefulSetBeforeCreateOrUpdate_def Let_def no_field_changes
        desired_service_name zero_NodeSpec_def sample_main_key_def)
  obtain out s' where run: "run_state ?m (sample_sys None) = (out, s')" by (metis surj_pair)
  have "nodeForStatefulSetObject ?t (StatefulSetBuilder ?t) (StatefulSetObject sample_StatefulSet) = Ok (Some (sample_node ''main''))"
    by simp
  from runs_history [OF before_applying_StatefulSet [OF _ this, of sample_refusing] run, of "[GetStatefulSet sample_main_key (Inr sample_drifted)]"]
  show ?thesis
    using hist refused
    by (simp add: run zero_NodeSpec_def newStatefulSetRecreateBlockedError_def)
qed

text \<open>
  (C7) The clean-up step of a builder deletes without a propagation policy, and only objects that the
  API server just listed for it and whose name the resource does not ask for.
\<close>

theorem cleanup_deletes_unwanted:
  assumes "run_state (reconcileDelete R b) s = (out, s')" and "history s' = history s @ cs"
    and "DeleteObject k n policy r \<in> set cs"
  shows "policy = None \<and> nn_Name n \<notin> GetName ` set (built b) \<and>
    (\<exists>lk ns labels items obj. ListObjects lk ns labels (Inr items) \<in> set cs \<and> obj \<in> set items \<and>
       object_kind obj = k \<and> object_key obj = n)"
  using runs_history [OF reconcileDelete_listed assms(1,2)] assms(3) unfolding deletes_listed_def by blast

definition sample_leftover :: k8s_object where
  "sample_leftover = ServiceObj \<lparr>svc_meta = named_ObjectMeta ''old-service'' ''ns'', svc_Spec = ''''\<rparr>"

theorem cleanup_deletes_unwanted_witness:
  "DeleteObject KindService \<lparr>nn_Namespace = ''ns'', nn_Name = ''old-service''\<rparr> None (Inr ()) \<in>
     set (history (snd (run_state (reconcileDelete
       (sample_reconciler (sample_tc fmempty False []) (\<lambda>n. Inl sample_not_found) (Inr [sample_leftover]))
       (ServiceBuilder (sample_tc fmempty False []))) (sample_sys None)))) \<and>
   ''old-service'' \<notin> GetName ` set (built (ServiceBuilder (sample_tc fmempty False [])))"
proof -
  let ?m = "reconcileDelete (sample_reconciler (sample_tc fmempty False []) (\<lambda>n. Inl sample_not_found) (Inr [sample_leftover]))
       (ServiceBuilder (sample_tc fmempty False []))"
  obtain out s' where run: "run_state ?m (sample_sys None) = (out, s')" by (metis surj_pair)
  have "getServiceIndex sample_leftover (sp_ServiceList (tc_Spec (sample_tc fmempty False []))) = -1"
    by (simp add: service_lookup.absent_iff sample_tc_def sample_spec_def)
  then have del: "DeleteObject KindService \<lparr>nn_Namespace = ''ns'', nn_Name = ''old-service''\<rparr> None (Inr ()) \<in>
      set (history (snd (run_state ?m (sample_sys None))))"
    by (simp add: reconcileDelete_def Service_GetObsoleteObjects_def sample_leftover_def object_key_def)
  then have "DeleteObject KindService \<lparr>nn_Namespace = ''ns'', nn_Name = ''old-service''\<rparr> None (Inr ()) \<in> set (history s')"
    by (simp add: run)
  from cleanup_deletes_unwanted [OF run _ this] have
    "nn_Name \<lparr>nn_Namespace = ''ns'', nn_Name = ''old-service''\<rparr> \<notin>
      GetName ` set (built (ServiceBuilder (sample_tc fmempty False [])))"
    by simp
  then show ?thesis using del by simp
qed

text \<open>
  (C17) What a reconciliation of a resource marked for deletion may call: a read of the checkpoint; the
  deletion, without a propagation policy, of the very ConfigMap such a read has answered, or - when
  the read answered NotFound - of a ConfigMap with an empty name and namespace, as the code then
  goes on to delete the zero value; and the update that removes the operator's finalizer and changes
  nothing else. When it succeeds, that update was its last call, and nothing is left to do.
\<close>

theorem deletion_only_finalizes:
  assumes "run_state (Reconcile R req) s = (out, s')"
    and "history s' = history s @ GetTeamCity req (Inr t) # rest"
    and "om_DeletionTimestamp (tc_meta t) \<noteq> None"
  shows "(\<forall>c \<in> set rest. case c of
        GetConfigMap n r \<Rightarrow> n = checkpoint_key t
      | DeleteObject k n policy r \<Rightarrow> k = KindConfigMap \<and> policy = None \<and>
          (\<exists>a. GetConfigMap (checkpoint_key t) a \<in> set rest \<and>
             (case a of
                Inr cm \<Rightarrow> n = meta_key (cm_meta cm)
              | Inl e \<Rightarrow> IsNotFound e \<and> n = \<lparr>nn_Namespace = '''', nn_Name = ''''\<rparr>))
      | UpdateTeamCity t' r \<Rightarrow> t' = t\<lparr>tc_meta := (tc_meta t)\<lparr>om_Finalizers :=
          RemoveFinalizer (r_Lib R) (om_Finalizers (tc_meta t)) teamcityFinalizer\<rparr>\<rparr>
      | _ \<Rightarrow> False) \<and>
    (case out of
       Ok r \<Rightarrow> r = zero_Result \<and> (\<exists>pre. rest = pre @ [UpdateTeamCity
         (t\<lparr>tc_meta := (tc_meta t)\<lparr>om_Finalizers :=
            RemoveFinalizer (r_Lib R) (om_Finalizers (tc_meta t)) teamcityFinalizer\<rparr>\<rparr>) (Inr ())])
     | _ \<Rightarrow> True)"
  using runs_history [OF Reconcile_finalizing assms(1,2)] assms(3)
  unfolding finalizing_run_def finalizing_def without_finalizer_def empty_key_def
  by (simp split: res.split)

theorem deletion_only_finalizes_witness:
  "\<exists>rest r. history (snd (run_state (Reconcile sample_deleted sample_request) (sample_sys (Some Starting)))) =
       GetTeamCity sample_request (Inr (sample_tc fmempty True [])) # rest \<and>
     DeleteObject KindConfigMap sample_key None r \<in> set rest \<and>
     (\<exists>cm. GetConfigMap (checkpoint_key (sample_tc fmempty True [])) (Inr cm) \<in> set rest \<and> sample_key = meta_key (cm_meta cm))"
proof -
  let ?rest = "[GetConfigMap sample_key (Inr (sample_map Starting)), GetConfigMap sample_key (Inr (sample_map Starting)),
    DeleteObject KindConfigMap sample_key None (Inr ()),
    UpdateTeamCity (without_finalizer sample_lib (sample_tc fmempty True [])) (Inr ())]"
  have "\<forall>c \<in> set ?rest. case c of DeleteObject k n policy r \<Rightarrow>
      (\<exists>cm. GetConfigMap (checkpoint_key (sample_tc fmempty True [])) (Inr cm) \<in> set ?rest \<and> n = meta_key (cm_meta cm)) | _ \<Rightarrow> True"
    using deletion_only_finalizes [OF run_deleted, where t = "sample_tc fmempty True []" and rest = ?rest, THEN conjunct1]
    by (simp add: sample_not_found_def) 
  then show ?thesis by (auto simp: run_deleted)
qed

text \<open>
  (C13) A builder applies the objects it builds in their order and stops at the first that fails; it
  reports success exactly when all were applied without an error, or else asks to come back because
  a StatefulSet is being deleted.
\<close>

theorem objects_applied_in_order:
  "runs (reconcileCreateOrUpdate R b t req) (\<lambda>out cs.
     if out = Ok zero_Result then applications cs = applied_ok (built b)
     else \<exists>pre obj post. built b = pre @ obj # post \<and>
       (case out of
          Ok r \<Rightarrow> r = recreate_Result \<and> applications cs = applied_ok pre
        | _ \<Rightarrow> applications cs = applied_ok pre \<or>
               (\<exists>err. err \<noteq> Ok () \<and> applications cs = applied_ok pre @ [(obj, err)])))"
proof -
  have "reconcileCreateOrUpdate R b t req = createOrUpdateObjects R b t (built b)"
    by (simp add: reconcileCreateOrUpdate_def BuildObjectList_built)
  then show ?thesis using createOrUpdate_in_order [of R b t "built b"] unfolding applies_in_order_def by metis
qed

text \<open>
  (C14) Every object a reconciliation applies is in the namespace of the TeamCity resource and is one
  that a builder builds for it, or the update replica.
\<close>

theorem applies_own_objects:
  assumes "run_state (Reconcile R req) s = (out, s')"
    and "history s' = history s @ GetTeamCity req (Inr t) # rest"
    and "CreateOrUpdateObject obj err obj' \<in> set rest"
  shows "om_Namespace (object_meta obj) = tc_Namespace t \<and>
    ((\<exists>b \<in> set (ResourceBuilders t). obj \<in> set (built b)) \<or> obj = StatefulSetObject (BuildROStatefulSet t))"
proof -
  from runs_history [OF Reconcile_own_applications [of R req t] assms(1,2)]
  have "list_all (own_application t) rest" by simp
  then have "own_application t (CreateOrUpdateObject obj err obj')" using assms(3) unfolding list_all_iff by blast
  then show ?thesis unfolding own_application_def by simp
qed

theorem applies_own_objects_witness:
  "\<exists>rest err obj'. history (snd (run_state (Reconcile sample_multi sample_request) (sample_sys None))) =
       GetTeamCity sample_request (Inr sample_two_nodes) # rest \<and>
     CreateOrUpdateObject sample_secondary err obj' \<in> set rest \<and>
     om_Namespace (object_meta sample_secondary) = ''ns''"
proof -
  obtain s' pre err obj' post where run: "run_state (Reconcile sample_multi sample_request) (sample_sys None) = (Ok zero_Result, s')"
    "history s' = GetTeamCity sample_request (Inr sample_two_nodes) # pre @ CreateOrUpdateObject sample_secondary err obj' # post"
    using run_multi by blast
  have "om_Namespace (object_meta sample_secondary) = tc_Namespace sample_two_nodes"
    by (rule applies_own_objects [OF run(1),
          where rest = "pre @ CreateOrUpdateObject sample_secondary err obj' # post" and err = err and obj' = obj',
          THEN conjunct1])
      (simp_all add: run(2))
  then have "om_Namespace (object_meta sample_secondary) = ''ns''" by (simp add: sample_two_nodes_def)
  with run show ?thesis by auto
qed

text \<open>
  (C12) A reconciliation does a bounded amount of work: after the read of the resource it makes at most
  as many calls as the nodes, claims, services and ingresses of the resource and the objects the
  API server listed for the clean-up allow; when the resource cannot be read, that read is all.
\<close>

theorem Reconcile_bounded:
  "runs (Reconcile R req) (\<lambda>out cs.
     case cs of
       GetTeamCity n (Inr t) # rest \<Rightarrow>
         length rest \<le> 76 + 8 * length (sp_PersistentVolumeClaims (tc_Spec t)) +
           8 * length (sp_ServiceList (tc_Spec t)) + 8 * length (sp_IngressList (tc_Spec t)) +
           9 * length (sp_SecondaryNodes (tc_Spec t)) + listed_count rest
     | _ \<Rightarrow> length cs = 1)"
  unfolding Reconcile_read
proof (rule runs_calls)
  fix a
  show "runs (case a of Inl err \<Rightarrow> if IsNotFound err then result (Ok zero_Result) else result (Err err)
      | Inr teamcity \<Rightarrow> reconcileRead R req teamcity)
    (\<lambda>out ds. case GetTeamCity req a # ds of
       GetTeamCity n (Inr t) # rest \<Rightarrow>
         length rest \<le> 76 + 8 * length (sp_PersistentVolumeClaims (tc_Spec t)) +
           8 * length (sp_ServiceList (tc_Spec t)) + 8 * length (sp_IngressList (tc_Spec t)) +
           9 * length (sp_SecondaryNodes (tc_Spec t)) + listed_count rest
     | _ \<Rightarrow> length (GetTeamCity req a # ds) = 1)"
    by (cases a)
      (auto simp: wanted_ResourceBuilders split: if_split_asm intro!: runs_return
        runs_mono [OF bounded_reconcileRead [unfolded bounded_def]])
qed

subsection \<open>Errors and feedback\<close>

text \<open>
  (C21) When the StatefulSet of the first node cannot be read, for another reason than that it does not
  exist, the zero-downtime step swallows the error: it does nothing more and tells the reconciler to
  go on, even during an upgrade, whose protection is lost for this reconciliation.
\<close>

theorem unreadable_skips_upgrade:
  assumes "run_state (performZeroDowntimeUpgradeOrRequeue R t ongoing) s = (out, s')"
    and "history s' = history s @ GetStatefulSet n (Inl e) # rest" and "\<not> IsNotFound e"
  shows "out = Ok False \<and> rest = []"
proof -
  obtain node nodes where nodes: "GetAllNodes t = node # nodes"
    by (cases "GetAllNodes t") (simp_all add: GetAllNodes_def)
  have "runs (performZeroDowntimeUpgradeOrRequeue R t ongoing) (\<lambda>out cs. \<exists>r more.
      cs = GetStatefulSet (GetNamespacedNameFromNamespace node (tc_Namespace t)) r # more \<and>
      (case r of Inl e \<Rightarrow> if IsNotFound e then True else out = Ok False \<and> more = [] | Inr x \<Rightarrow> True))"
    unfolding performZeroDowntimeUpgradeOrRequeue_def doesNodesUpdateChangeStatefulSetSpec_def nodes
      nodesUpdateChangeStatefulSetSpec.simps
    apply (simp add: Let_def)
    apply (rule runs_calls)
    subgoal for a
      apply (cases "\<exists>e. a = Inl e \<and> \<not> IsNotFound e")
      subgoal by (auto intro: runs_return)
      subgoal by (rule runs_mono [OF runs_trivial], intro emits_rules TrueI) (auto split: sum.split intro!: emits_rules)
      done
    done
  from runs_history [OF this assms(1,2)] assms(3) show ?thesis by auto
qed

definition sample_unreadable :: "ConfigMap option TeamcityReconciler" where
  "sample_unreadable = sample_reconciler (sample_tc fmempty False []) (\<lambda>n. Inl sample_error) (Inr [])"

theorem unreadable_skips_upgrade_witness:
  "fst (run_state (performZeroDowntimeUpgradeOrRequeue sample_unreadable (sample_tc fmempty False []) True)
     (sample_sys (Some ShuttingDown))) = Ok False"
proof -
  let ?m = "performZeroDowntimeUpgradeOrRequeue sample_unreadable (sample_tc fmempty False []) True"
  have hist: "history (snd (run_state ?m (sample_sys (Some ShuttingDown)))) = [GetStatefulSet sample_main_key (Inl sample_error)]"
    by (simp add: sample_unreadable_def reconcile_run_defs sample_error_def)
  obtain out s' where run: "run_state ?m (sample_sys (Some ShuttingDown)) = (out, s')" by (metis surj_pair)
  from unreadable_skips_upgrade [OF run, of sample_main_key sample_error "[]"] hist show ?thesis
    by (simp add: run sample_error_def)
qed

text \<open>
  Writing the status reads the resource first and writes only when the state or the message differs,
  and then changes nothing but the status of what was read; so reconciling a resource whose status
  is up to date does not touch it.
\<close>

lemma status_update_calls:
  "runs (updateTeamCityObjectStatusE R key state message) (\<lambda>out cs. \<exists>r. hd cs = GetTeamCity key r \<and>
     (case r of
        Inl e \<Rightarrow> tl cs = [] \<and> out = Some e
      | Inr t \<Rightarrow>
          if tc_Status t = \<lparr>ts_State = state, ts_Message = message\<rparr> then tl cs = [] \<and> out = None
          else \<exists>w. tl cs = [UpdateTeamCityStatus (t\<lparr>tc_Status := \<lparr>ts_State = state, ts_Message = message\<rparr>\<rparr>) w] \<and>
                 out = (case w of Inl e \<Rightarrow> Some e | Inr u \<Rightarrow> None)))"
  unfolding updateTeamCityObjectStatusE_def getTeamCityObjectE_def Let_def
  by (rule runs_rules) (auto split: sum.split intro!: runs_rules)

end
